(* ===== verification/Go_Prelude.thy ===== *)
theory Go_Prelude
  imports Main "HOL-Library.State_Monad" "HOL-Library.AList" "HOL-Library.Char_ord" "HOL-Library.List_Lexorder"
begin

text \<open>
  What every component of the provider shares: Go errors with their wrap chains, Go maps, the
  string operations the code uses, and programs that talk to the outside world.

  A program is a state-monad value over a world of any type and a trace of the events (calls and
  their answers) it has caused. The predicate \<open>wp\<close> says that, whatever the world answers, a
  program extends the trace by a list of events that stands in a given relation to its result.
  Component proofs apply the rules collected in \<open>wp_intros\<close>.
\<close>

named_theorems wp_intros \<open>rules that reduce a wp goal along the structure of a program\<close>

section \<open>Errors\<close>

text \<open>
  A Go error is its message and the sentinel errors in its wrap chain, which is what
  \<^verbatim>\<open>errors.Is\<close> and the \<^verbatim>\<open>apierrors.IsXxx\<close> predicates look at. A panic (a write to
  a nil map, a nil dereference) is the error of the sentinel \<open>GoPanic\<close>: it unwinds like an error that
  no caller inspects, deferred functions included, and is never produced by anything else.
\<close>

datatype sentinel =
    StatusNotFound | StatusAlreadyExists | StatusConflict
  | ErrUnauthorized | ErrForbidden | ErrMissingRegistrationSecret | ErrNoSigningKey
  | ErrUnparsableSigningKey | ErrNotEdPrivateKey | ErrBootstrapSecretNoConfig
  | ErrMissingHostReference | ErrRemoteNodeNotFound | ErrNoCluster
  | ErrMissingControlPlaneEndpoint | ErrMissingCAPIClusterOwner
  | ErrAPIEndpointNil | ErrNoPrivateKey
  | ErrTokenMalformed | ErrTokenUnverifiable | ErrTokenSignatureInvalid | ErrTokenInvalidClaims
  | ErrTokenExpired | ErrTokenNotValidYet
  | ErrElementalAPIEndpointNotSet | ErrElementalAPIProtocolNotSet
  | ErrElementalAPIProtocolUnsupported
  | ErrUnexpectedCode | ErrInvalidScheme | ErrUnparsableCert | ErrNotADirectory | FsNotExist
  | ErrUnsupportedBootstrapFormat | ErrBootstrapAlreadyApplied | ErrUnsupportedCloudInitSchema
  | ErrUnmanagedOSNotReset | ErrServerClosed | GoPanic

record goerr =
  err_msg :: string
  err_chain :: "sentinel list"

definition new_err :: "sentinel \<Rightarrow> string \<Rightarrow> goerr" where
  "new_err s m = \<lparr>err_msg = m, err_chain = [s]\<rparr>"

definition plain_err :: "string \<Rightarrow> goerr" where
  "plain_err m = \<lparr>err_msg = m, err_chain = []\<rparr>"

text \<open>\<^verbatim>\<open>fmt.Errorf("p: %w", err)\<close> and \<^verbatim>\<open>fmt.Errorf("p: %w: %w", e1, e2)\<close>.\<close>

definition wrapf :: "string \<Rightarrow> goerr \<Rightarrow> goerr" where
  "wrapf p e = \<lparr>err_msg = p @ '': '' @ err_msg e, err_chain = err_chain e\<rparr>"

definition wrapf2 :: "string \<Rightarrow> goerr \<Rightarrow> goerr \<Rightarrow> goerr" where
  "wrapf2 p e1 e2 = \<lparr>err_msg = p @ '': '' @ err_msg e1 @ '': '' @ err_msg e2,
     err_chain = err_chain e1 @ err_chain e2\<rparr>"

definition err_is :: "goerr \<Rightarrow> sentinel \<Rightarrow> bool" where
  "err_is e s \<longleftrightarrow> s \<in> set (err_chain e)"

text \<open>\<^verbatim>\<open>errors.Join(rerr, e)\<close>, where \<^verbatim>\<open>rerr\<close> may be nil.\<close>

definition errors_join :: "goerr option \<Rightarrow> goerr \<Rightarrow> goerr" where
  "errors_join r e = (case r of None \<Rightarrow> e
     | Some e0 \<Rightarrow> \<lparr>err_msg = err_msg e0 @ [CHR 0x0A] @ err_msg e, err_chain = err_chain e0 @ err_chain e\<rparr>)"

lemma err_is_new [simp]: "err_is (new_err s m) s' \<longleftrightarrow> s' = s"
  by (simp add: err_is_def new_err_def)

lemma err_is_plain [simp]: "\<not> err_is (plain_err m) s"
  by (simp add: err_is_def plain_err_def)

lemma err_is_wrapf [simp]: "err_is (wrapf p e) s \<longleftrightarrow> err_is e s"
  by (simp add: err_is_def wrapf_def)

lemma err_is_wrapf2 [simp]: "err_is (wrapf2 p e1 e2) s \<longleftrightarrow> err_is e1 s \<or> err_is e2 s"
  by (auto simp: err_is_def wrapf2_def)

lemma err_is_join [simp]:
  "err_is (errors_join r e) s \<longleftrightarrow> err_is e s \<or> (\<exists>e0. r = Some e0 \<and> err_is e0 s)"
  by (auto simp: err_is_def errors_join_def split: option.splits)

text \<open>A chain of fallible steps succeeds when every step does.\<close>

lemma case_sum_Inr_iff:
  "(case x of Inl e \<Rightarrow> Inl (f e) | Inr y \<Rightarrow> g y) = Inr z \<longleftrightarrow> (\<exists>y. x = Inr y \<and> g y = Inr z)"
  by (cases x) simp_all

lemma case_option_Inr_iff:
  "(case x of None \<Rightarrow> Inl e | Some y \<Rightarrow> g y) = Inr z \<longleftrightarrow> (\<exists>y. x = Some y \<and> g y = Inr z)"
  "(case x of Some e' \<Rightarrow> Inl (h e') | None \<Rightarrow> k) = Inr z \<longleftrightarrow> x = None \<and> k = Inr z"
  by (cases x; simp)+

section \<open>Maps\<close>

text \<open>
  A Go map is nil or a list of entries. Reading a nil map finds nothing; writing to one panics,
  which is why \<open>gset\<close> has no result there.
\<close>

type_synonym 'v gomap = "(string \<times> 'v) list option"

definition gget :: "'v gomap \<Rightarrow> string \<Rightarrow> 'v option" where
  "gget m k = (case m of None \<Rightarrow> None | Some al \<Rightarrow> map_of al k)"

definition gset :: "string \<Rightarrow> 'v \<Rightarrow> 'v gomap \<Rightarrow> 'v gomap option" where
  "gset k v m = (case m of None \<Rightarrow> None | Some al \<Rightarrow> Some (Some (AList.update k v al)))"

text \<open>A write where the map has just been initialised (\<^verbatim>\<open>if m == nil { m = map[..]..{} }\<close>).\<close>

definition ginit :: "'v gomap \<Rightarrow> 'v gomap" where
  "ginit m = (case m of None \<Rightarrow> Some [] | Some al \<Rightarrow> Some al)"

definition gput :: "string \<Rightarrow> 'v \<Rightarrow> 'v gomap \<Rightarrow> 'v gomap" where
  "gput k v m = (case m of None \<Rightarrow> None | Some al \<Rightarrow> Some (AList.update k v al))"

text \<open>\<^verbatim>\<open>maps.Copy(dst, src)\<close> on a non-nil destination.\<close>

fun gputs :: "(string \<times> 'v) list \<Rightarrow> 'v gomap \<Rightarrow> 'v gomap" where
  "gputs [] m = m"
| "gputs ((k, v) # al) m = gputs al (gput k v m)"

definition gcopy :: "'v gomap \<Rightarrow> 'v gomap \<Rightarrow> 'v gomap" where
  "gcopy dst src = (case src of None \<Rightarrow> dst | Some al \<Rightarrow> gputs al dst)"

text \<open>\<^verbatim>\<open>reflect.DeepEqual\<close> on maps: both nil, or both non-nil with the same entries.\<close>

definition gequal :: "'v gomap \<Rightarrow> 'v gomap \<Rightarrow> bool" where
  "gequal m1 m2 = (case (m1, m2) of
     (None, None) \<Rightarrow> True
   | (Some a, Some b) \<Rightarrow> list_all (\<lambda>k. map_of a k = map_of b k) (map fst a @ map fst b)
   | _ \<Rightarrow> False)"

lemma gget_None [simp]: "gget None k = None"
  by (simp add: gget_def)

lemma ginit_not_None [simp]: "ginit m \<noteq> None"
  by (simp add: ginit_def split: option.splits)

lemma gget_ginit [simp]: "gget (ginit m) k = gget m k"
  by (simp add: gget_def ginit_def split: option.splits)

lemma gput_None_iff [simp]: "gput k v m = None \<longleftrightarrow> m = None"
  by (simp add: gput_def split: option.splits)

lemma gget_gput [simp]:
  "gget (gput k v m) k' = (if m = None then None else if k = k' then Some v else gget m k')"
  by (auto simp: gget_def gput_def update_conv' split: option.splits)

lemma gset_gput: "gset k v m = (if m = None then None else Some (gput k v m))"
  by (auto simp: gset_def gput_def split: option.splits)

lemma gequal_refl [simp]: "gequal m m"
  by (simp add: gequal_def list_all_iff split: option.splits)

lemma map_of_eq_on_keys:
  "(\<forall>k \<in> set (map fst a @ map fst b). map_of a k = map_of b k) \<longleftrightarrow> map_of a = map_of b"
proof
  assume keys: "\<forall>k \<in> set (map fst a @ map fst b). map_of a k = map_of b k"
  show "map_of a = map_of b"
  proof
    fix k show "map_of a k = map_of b k"
    proof (cases "k \<in> fst ` set a \<or> k \<in> fst ` set b")
      case True
      with keys show ?thesis by auto
    next
      case False
      then have "map_of a k = None" "map_of b k = None"
        by (simp_all add: map_of_eq_None_iff)
      then show ?thesis by simp
    qed
  qed
qed simp

lemma gequal_iff:
  "gequal m1 m2 \<longleftrightarrow> (m1 = None \<longleftrightarrow> m2 = None) \<and> (\<forall>k. gget m1 k = gget m2 k)"
proof (cases m1)
  case None
  then show ?thesis by (cases m2) (simp_all add: gequal_def)
next
  case (Some a)
  then show ?thesis
  proof (cases m2)
    case (Some b)
    with \<open>m1 = Some a\<close> show ?thesis
      by (simp only: gequal_def gget_def prod.case option.case list_all_iff map_of_eq_on_keys
          fun_eq_iff) simp
  qed (simp add: gequal_def)
qed

lemma gputs_None_iff [simp]: "gputs al m = None \<longleftrightarrow> m = None"
  by (induction al m rule: gputs.induct) simp_all

lemma gcopy_None_iff [simp]: "gcopy dst src = None \<longleftrightarrow> dst = None"
  by (simp add: gcopy_def split: option.splits)

lemma gget_gputs:
  "m \<noteq> None \<Longrightarrow> gget (gputs al m) k =
     (case map_of (rev al) k of None \<Rightarrow> gget m k | Some v \<Rightarrow> Some v)"
  by (induction al m rule: gputs.induct) (simp_all add: map_add_def split: option.splits)

lemma gget_gcopy:
  "dst \<noteq> None \<Longrightarrow> gget (gcopy dst src) k =
     (case map_of (rev (case src of None \<Rightarrow> [] | Some al \<Rightarrow> al)) k of
        None \<Rightarrow> gget dst k | Some v \<Rightarrow> Some v)"
  by (simp add: gcopy_def gget_gputs split: option.splits)

lemma gget_gcopy_other: "dst \<noteq> None \<Longrightarrow> gget src k = None \<Longrightarrow> gget (gcopy dst src) k = gget dst k"
proof (cases src)
  case (Some al)
  assume "dst \<noteq> None" "gget src k = None"
  with Some have "map_of (rev al) k = None"
    by (simp add: gget_def map_of_eq_None_iff)
  with Some \<open>dst \<noteq> None\<close> show ?thesis by (simp add: gget_gcopy)
qed (simp add: gcopy_def)

section \<open>Strings\<close>

text \<open>\<^verbatim>\<open>strings.CutPrefix\<close>: the rest after the prefix, if it is one.\<close>

fun cut_prefix :: "string \<Rightarrow> string \<Rightarrow> string option" where
  "cut_prefix s [] = Some s"
| "cut_prefix [] (p # ps) = None"
| "cut_prefix (c # s) (p # ps) = (if c = p then cut_prefix s ps else None)"

lemma cut_prefix_append [simp]: "cut_prefix (p @ s) p = Some s"
  by (induction p) auto

lemma cut_prefix_Some_iff: "cut_prefix s p = Some r \<longleftrightarrow> s = p @ r"
  by (induction s p rule: cut_prefix.induct) auto

text \<open>\<^verbatim>\<open>strings.Split(s, sep)\<close> for a one-character separator: always at least one part.\<close>

fun split_on :: "char \<Rightarrow> string \<Rightarrow> string list" where
  "split_on c [] = [[]]"
| "split_on c (x # xs) =
     (if x = c then [] # split_on c xs
      else (case split_on c xs of [] \<Rightarrow> [[x]] | w # ws \<Rightarrow> (x # w) # ws))"

fun join_with :: "string \<Rightarrow> string list \<Rightarrow> string" where
  "join_with sep [] = []"
| "join_with sep [x] = x"
| "join_with sep (x # y # ys) = x @ sep @ join_with sep (y # ys)"

lemma split_on_not_Nil [simp]: "split_on c s \<noteq> []"
  by (induction s) (auto split: list.splits)

lemma join_split_on [simp]: "join_with [c] (split_on c s) = s"
proof (induction s)
  case (Cons x xs)
  obtain w ws where w: "split_on c xs = w # ws"
    by (cases "split_on c xs") auto
  with Cons show ?case by (cases ws) auto
qed simp

lemma split_on_no_sep: "w \<in> set (split_on c s) \<Longrightarrow> c \<notin> set w"
proof (induction s arbitrary: w)
  case (Cons x xs)
  then show ?case
    by (cases "split_on c xs") (auto split: if_splits)
qed simp

lemma split_on_append: "c \<notin> set a \<Longrightarrow> split_on c (a @ c # s) = a # split_on c s"
  by (induction a) auto

lemma split_on_plain: "c \<notin> set a \<Longrightarrow> split_on c a = [a]"
  by (induction a) auto

text \<open>\<^verbatim>\<open>fmt.Sprintf("'%s'", s)\<close>.\<close>

definition sq :: "string \<Rightarrow> string" where
  "sq s = [CHR 0x27] @ s @ [CHR 0x27]"

section \<open>Programs\<close>

type_synonym ('w, 'e, 'a) prog = "('w \<times> 'e list, 'a) state"

text \<open>Ask the world: apply \<open>g\<close> to it and record the answer as an event.\<close>

definition ask :: "('w \<Rightarrow> 'a \<times> 'w) \<Rightarrow> ('a \<Rightarrow> 'e) \<Rightarrow> ('w, 'e, 'a) prog" where
  "ask g ev = State (\<lambda>(w, l). let (r, w') = g w in (r, (w', l @ [ev r])))"

abbreviation ret :: "'a \<Rightarrow> ('w, 'e, 'a) prog" where
  "ret \<equiv> State_Monad.return"

definition wp :: "('w, 'e, 'a) prog \<Rightarrow> ('a \<Rightarrow> 'e list \<Rightarrow> bool) \<Rightarrow> bool" where
  "wp m Q \<longleftrightarrow> (\<forall>w l. \<exists>a w' l'. run_state m (w, l) = (a, (w', l @ l')) \<and> Q a l')"

lemma run_state_ask [simp]:
  "run_state (ask g ev) (w, l) = (fst (g w), (snd (g w), l @ [ev (fst (g w))]))"
  by (simp add: ask_def Let_def split: prod.splits)

lemma wp_ret [wp_intros]: "Q a [] \<Longrightarrow> wp (ret a) Q"
  by (simp add: wp_def)

lemma wp_bind [wp_intros]:
  assumes "wp m (\<lambda>a l1. wp (f a) (\<lambda>b l2. Q b (l1 @ l2)))"
  shows "wp (State_Monad.bind m f) Q"
  unfolding wp_def
proof (intro allI)
  fix w l
  from assms obtain a w1 l1 where m: "run_state m (w, l) = (a, (w1, l @ l1))"
    and f: "wp (f a) (\<lambda>b l2. Q b (l1 @ l2))"
    unfolding wp_def by blast
  from f obtain b w2 l2 where "run_state (f a) (w1, l @ l1) = (b, (w2, (l @ l1) @ l2))"
    and "Q b (l1 @ l2)"
    unfolding wp_def by blast
  with m show "\<exists>b w' l'. run_state (State_Monad.bind m f) (w, l) = (b, w', l @ l') \<and> Q b l'"
    by auto
qed

lemma wp_ask: "(\<And>w. Q (fst (g w)) [ev (fst (g w))]) \<Longrightarrow> wp (ask g ev) Q"
  by (simp add: wp_def)

lemma wp_ask_any [wp_intros]: "(\<And>r. Q r [ev r]) \<Longrightarrow> wp (ask g ev) Q"
  by (rule wp_ask)

lemma wp_mono: "wp m Q \<Longrightarrow> (\<And>a l. Q a l \<Longrightarrow> R a l) \<Longrightarrow> wp m R"
  unfolding wp_def by blast

lemma wp_conj: "wp m Q \<Longrightarrow> wp m R \<Longrightarrow> wp m (\<lambda>a l. Q a l \<and> R a l)"
  unfolding wp_def by (metis (no_types, lifting) Pair_inject same_append_eq)

lemma wp_runD:
  assumes "wp m Q" and "run_state m (w, l) = (a, (w', l'))"
  shows "\<exists>t. l' = l @ t \<and> Q a t"
  using assms unfolding wp_def by (metis (no_types, lifting) Pair_inject)

text \<open>The events of a run that starts with an empty trace.\<close>

definition events_of :: "('w, 'e, 'a) prog \<Rightarrow> 'w \<Rightarrow> 'e list" where
  "events_of m w = snd (snd (run_state m (w, [])))"

definition result_of :: "('w, 'e, 'a) prog \<Rightarrow> 'w \<Rightarrow> 'a" where
  "result_of m w = fst (run_state m (w, []))"

lemma wp_eventsD: "wp m Q \<Longrightarrow> Q (result_of m w) (events_of m w)"
proof -
  assume "wp m Q"
  then obtain a w' l' where "run_state m (w, []) = (a, (w', l'))" and "Q a l'"
    unfolding wp_def by (metis append_Nil)
  then show ?thesis by (simp add: result_of_def events_of_def)
qed

text \<open>The results and traces of the runs of a program.\<close>

definition runs_as :: "('w, 'e, 'a) prog \<Rightarrow> 'a \<Rightarrow> 'e list \<Rightarrow> bool" where
  "runs_as p r l \<longleftrightarrow> (\<exists>w w'. run_state p (w, []) = (r, (w', l)))"

lemma runs_as_wp: "runs_as p r l \<Longrightarrow> wp p Q \<Longrightarrow> Q r l"
  unfolding runs_as_def using wp_runD by fastforce

lemma runs_as_events: "runs_as p (result_of p w) (events_of p w)"
  unfolding runs_as_def events_of_def result_of_def by (metis prod.collapse)

lemma wp_if [wp_intros]: "(b \<Longrightarrow> wp m Q) \<Longrightarrow> (\<not> b \<Longrightarrow> wp n Q) \<Longrightarrow> wp (if b then m else n) Q"
  by simp

lemma wp_case_option [wp_intros]:
  "(x = None \<Longrightarrow> wp m Q) \<Longrightarrow> (\<And>y. x = Some y \<Longrightarrow> wp (f y) Q) \<Longrightarrow>
    wp (case x of None \<Rightarrow> m | Some y \<Rightarrow> f y) Q"
  by (cases x) auto

lemma wp_case_sum [wp_intros]:
  "(\<And>y. x = Inl y \<Longrightarrow> wp (f y) Q) \<Longrightarrow> (\<And>z. x = Inr z \<Longrightarrow> wp (g z) Q) \<Longrightarrow>
    wp (case x of Inl y \<Rightarrow> f y | Inr z \<Rightarrow> g z) Q"
  by (cases x) auto

lemma wp_case_prod [wp_intros]:
  "(\<And>a b. x = (a, b) \<Longrightarrow> wp (f a b) Q) \<Longrightarrow> wp (case x of (a, b) \<Rightarrow> f a b) Q"
  by (cases x) auto

lemma wp_let [wp_intros]: "(\<And>y. y = x \<Longrightarrow> wp (f y) Q) \<Longrightarrow> wp (let y = x in f y) Q"
  by simp

end
