(* ===== verification/Conditions.thy ===== *)
theory Conditions
  imports Go_Prelude
begin

text \<open>
  Cluster API conditions as the vendored package \<^verbatim>\<open>sigs.k8s.io/cluster-api/util/conditions\<close>
  handles them: \<open>Set\<close>, \<open>Get\<close>, \<open>IsTrue\<close> and the \<open>Ready\<close> summary that every
  reconciler of this provider writes on exit. The Go interface \<open>conditions.Setter\<close> is the
  locale \<open>setter\<close>; the API types interpret it in \<open>Api_Types\<close>.

  Only the default merge options are modelled (the provider passes none), so polarity is always
  positive and no step counter is added. Go's \<^verbatim>\<open>sort.Sort\<close> is not stable beyond twelve
  elements; the model sorts stably, which matters only for groups of equal priority.
\<close>

datatype conditionStatus = ConditionTrue | ConditionFalse | ConditionUnknown | OtherStatus string

datatype conditionSeverity =
  SeverityError | SeverityWarning | SeverityInfo | SeverityNone | OtherSeverity string

record condition =
  cType :: string
  cStatus :: conditionStatus
  cSeverity :: conditionSeverity
  cLastTransitionTime :: int \<comment> \<open>seconds; 0 is the zero time\<close>
  cReason :: string
  cMessage :: string

definition ReadyCondition :: string where
  "ReadyCondition = ''Ready''"

section \<open>Stable insertion sort\<close>

fun insert_by :: "('a \<Rightarrow> 'a \<Rightarrow> bool) \<Rightarrow> 'a \<Rightarrow> 'a list \<Rightarrow> 'a list" where
  "insert_by lt x [] = [x]"
| "insert_by lt x (y # ys) = (if lt x y then x # y # ys else y # insert_by lt x ys)"

definition sort_by :: "('a \<Rightarrow> 'a \<Rightarrow> bool) \<Rightarrow> 'a list \<Rightarrow> 'a list" where
  "sort_by lt xs = fold (insert_by lt) xs []"

lemma set_insert_by [simp]: "set (insert_by lt x ys) = insert x (set ys)"
  by (induction ys) auto

lemma distinct_map_insert_by:
  "distinct (map f (insert_by lt x ys)) \<longleftrightarrow> f x \<notin> f ` set ys \<and> distinct (map f ys)"
  by (induction ys) auto

lemma set_fold_insert_by: "set (fold (insert_by lt) xs acc) = set xs \<union> set acc"
  by (induction xs arbitrary: acc) auto

lemma set_sort_by [simp]: "set (sort_by lt xs) = set xs"
  by (simp add: sort_by_def set_fold_insert_by)

lemma sort_by_Nil_iff [simp]: "sort_by lt xs = [] \<longleftrightarrow> xs = []"
  by (metis set_empty set_sort_by)

lemma distinct_map_fold_insert_by:
  "distinct (map f (fold (insert_by lt) xs acc)) \<longleftrightarrow>
     distinct (map f xs) \<and> distinct (map f acc) \<and> f ` set xs \<inter> f ` set acc = {}"
  by (induction xs arbitrary: acc) (auto simp: distinct_map_insert_by)

lemma distinct_map_sort_by [simp]: "distinct (map f (sort_by lt xs)) \<longleftrightarrow> distinct (map f xs)"
  by (simp add: sort_by_def distinct_map_fold_insert_by)

lemma sorted_insert_by:
  assumes "transp lt" and "asymp lt" and "sorted_wrt (\<lambda>a b. \<not> lt b a) ys"
  shows "sorted_wrt (\<lambda>a b. \<not> lt b a) (insert_by lt x ys)"
  using assms(3)
proof (induction ys)
  case (Cons y ys)
  show ?case
  proof (cases "lt x y")
    case True
    then have "\<not> lt y x" using assms(2) by (auto dest: asympD)
    moreover have "\<not> lt z x" if "z \<in> set ys" for z
    proof
      assume "lt z x"
      with True assms(1) have "lt z y" by (auto dest: transpD)
      with Cons.prems that show False by auto
    qed
    ultimately show ?thesis using True Cons.prems by auto
  next
    case False
    with Cons show ?thesis by auto
  qed
qed simp

lemma sorted_sort_by:
  assumes "transp lt" and "asymp lt"
  shows "sorted_wrt (\<lambda>a b. \<not> lt b a) (sort_by lt xs)"
proof -
  have "sorted_wrt (\<lambda>a b. \<not> lt b a) (fold (insert_by lt) xs acc)"
    if "sorted_wrt (\<lambda>a b. \<not> lt b a) acc" for acc
    using that by (induction xs arbitrary: acc) (auto intro: sorted_insert_by assms)
  then show ?thesis by (simp add: sort_by_def)
qed

lemma hd_sort_by_least:
  fixes p :: "'a \<Rightarrow> nat"
  assumes "xs \<noteq> []" and "x \<in> set xs"
  shows "p (hd (sort_by (\<lambda>a b. p a < p b) xs)) \<le> p x"
proof -
  let ?s = "sort_by (\<lambda>a b. p a < p b) xs"
  have "sorted_wrt (\<lambda>a b. \<not> p b < p a) ?s"
    by (rule sorted_sort_by) (auto intro: transpI asympI)
  moreover have "x \<in> set ?s" using assms(2) by simp
  ultimately show ?thesis by (cases ?s) auto
qed

section \<open>Setting and reading conditions\<close>

definition lexicographicLess :: "condition \<Rightarrow> condition \<Rightarrow> bool" where
  "lexicographicLess i j \<longleftrightarrow>
     (cType i = ReadyCondition \<or> cType i < cType j) \<and> cType j \<noteq> ReadyCondition"

definition hasSameState :: "condition \<Rightarrow> condition \<Rightarrow> bool" where
  "hasSameState i j \<longleftrightarrow> cType i = cType j \<and> cStatus i = cStatus j \<and> cReason i = cReason j \<and>
     cSeverity i = cSeverity j \<and> cMessage i = cMessage j"

text \<open>The loop of \<open>Set\<close>: replace the first condition of the same type if its state differs.\<close>

fun set_existing :: "int \<Rightarrow> condition \<Rightarrow> condition list \<Rightarrow> condition list option" where
  "set_existing now c [] = None"
| "set_existing now c (e # es) =
     (if cType e = cType c
      then Some ((if hasSameState e c then e else c\<lparr>cLastTransitionTime := now\<rparr>) # es)
      else map_option ((#) e) (set_existing now c es))"

definition set_condition :: "int \<Rightarrow> condition \<Rightarrow> condition list \<Rightarrow> condition list" where
  "set_condition now c cs = sort_by lexicographicLess
     (case set_existing now c cs of
        Some cs' \<Rightarrow> cs'
      | None \<Rightarrow> cs @ [if cLastTransitionTime c = 0 then c\<lparr>cLastTransitionTime := now\<rparr> else c])"

definition get_condition :: "condition list \<Rightarrow> string \<Rightarrow> condition option" where
  "get_condition cs t = find (\<lambda>c. cType c = t) cs"

definition isTrue_condition :: "condition list \<Rightarrow> string \<Rightarrow> bool" where
  "isTrue_condition cs t = (case get_condition cs t of
     Some c \<Rightarrow> cStatus c = ConditionTrue | None \<Rightarrow> False)"

definition wf_conditions :: "condition list \<Rightarrow> bool" where
  "wf_conditions cs \<longleftrightarrow> distinct (map cType cs) \<and>
     sorted_wrt (\<lambda>a b. \<not> lexicographicLess b a) cs"

lemma transp_lexicographicLess: "transp lexicographicLess"
  by (auto simp: lexicographicLess_def intro!: transpI)

lemma asymp_lexicographicLess: "asymp lexicographicLess"
  by (auto simp: lexicographicLess_def intro!: asympI)

lemma set_existing_None_iff:
  "set_existing now c cs = None \<longleftrightarrow> cType c \<notin> cType ` set cs"
  by (induction cs) auto

lemma set_existing_types:
  "set_existing now c cs = Some cs' \<Longrightarrow> map cType cs' = map cType cs"
  by (induction cs arbitrary: cs') (auto simp: hasSameState_def split: if_splits)

lemma set_existing_set:
  assumes "set_existing now c cs = Some cs'" and "distinct (map cType cs)"
    and "get_condition cs (cType c) = Some e"
  shows "set cs' = insert (if hasSameState e c then e else c\<lparr>cLastTransitionTime := now\<rparr>)
    {x \<in> set cs. cType x \<noteq> cType c}"
  using assms
proof (induction cs arbitrary: cs')
  case (Cons x xs)
  show ?case
  proof (cases "cType x = cType c")
    case True
    with Cons.prems(2) have "\<forall>y \<in> set xs. cType y \<noteq> cType c"
      by (metis distinct.simps(2) imageI list.set_map list.simps(9))
    then have rest: "{y \<in> set (x # xs). cType y \<noteq> cType c} = set xs" using True by auto
    have "x = e" using True Cons.prems(3) by (simp add: get_condition_def)
    with True Cons.prems(1)
    have "cs' = (if hasSameState e c then e else c\<lparr>cLastTransitionTime := now\<rparr>) # xs"
      by simp
    then show ?thesis unfolding rest by (simp only: list.set)
  next
    case False
    with Cons.prems obtain xs' where xs': "set_existing now c xs = Some xs'" "cs' = x # xs'"
      by auto
    from False Cons.prems(3) have "get_condition xs (cType c) = Some e"
      by (simp add: get_condition_def)
    with Cons.IH [OF xs'(1)] Cons.prems(2) have
      "set xs' = insert (if hasSameState e c then e else c\<lparr>cLastTransitionTime := now\<rparr>)
         {y \<in> set xs. cType y \<noteq> cType c}" by simp
    with False xs'(2) show ?thesis by auto
  qed
qed simp

lemma find_unique:
  "distinct (map f xs) \<Longrightarrow> find (\<lambda>x. f x = t) xs = Some x \<longleftrightarrow> x \<in> set xs \<and> f x = t"
  by (induction xs) auto

lemma get_condition_Some_iff:
  "distinct (map cType cs) \<Longrightarrow> get_condition cs t = Some c \<longleftrightarrow> c \<in> set cs \<and> cType c = t"
  by (simp add: get_condition_def find_unique)

lemma get_condition_None_iff: "get_condition cs t = None \<longleftrightarrow> t \<notin> cType ` set cs"
  by (auto simp: get_condition_def find_None_iff)

lemma set_condition_wf: "distinct (map cType cs) \<Longrightarrow> wf_conditions (set_condition now c cs)"
  unfolding wf_conditions_def set_condition_def
proof (intro conjI)
  assume d: "distinct (map cType cs)"
  show "distinct (map cType (sort_by lexicographicLess
     (case set_existing now c cs of Some cs' \<Rightarrow> cs'
      | None \<Rightarrow> cs @ [if cLastTransitionTime c = 0 then c\<lparr>cLastTransitionTime := now\<rparr> else c])))"
  proof (cases "set_existing now c cs")
    case None
    then have "cType c \<notin> cType ` set cs" by (simp add: set_existing_None_iff)
    with None d show ?thesis by auto
  next
    case (Some cs')
    with d set_existing_types [OF Some] show ?thesis by simp
  qed
qed (rule sorted_sort_by [OF transp_lexicographicLess asymp_lexicographicLess])

lemma set_condition_nonempty [simp]: "set_condition now c cs \<noteq> []"
proof (cases "set_existing now c cs")
  case (Some cs')
  then have "cs' \<noteq> []" by (cases cs) (auto split: if_splits)
  with Some show ?thesis by (simp add: set_condition_def)
qed (simp add: set_condition_def)

lemma set_condition_distinct:
  "distinct (map cType cs) \<Longrightarrow> distinct (map cType (set_condition now c cs))"
  using set_condition_wf [of cs now c] by (simp add: wf_conditions_def)

text \<open>What \<open>Set\<close> stores: the old entry when its state is the same, else the new one stamped.\<close>

definition stored_condition :: "int \<Rightarrow> condition \<Rightarrow> condition list \<Rightarrow> condition" where
  "stored_condition now c cs = (case get_condition cs (cType c) of
     Some e \<Rightarrow> (if hasSameState e c then e else c\<lparr>cLastTransitionTime := now\<rparr>)
   | None \<Rightarrow> (if cLastTransitionTime c = 0 then c\<lparr>cLastTransitionTime := now\<rparr> else c))"

lemma set_condition_set:
  assumes "distinct (map cType cs)"
  shows "set (set_condition now c cs) =
    insert (stored_condition now c cs) {e \<in> set cs. cType e \<noteq> cType c}"
proof (cases "set_existing now c cs")
  case None
  then have n: "cType c \<notin> cType ` set cs" by (simp add: set_existing_None_iff)
  then have g: "get_condition cs (cType c) = None" by (simp add: get_condition_None_iff)
  from n have "\<forall>e \<in> set cs. cType e \<noteq> cType c" by (metis imageI)
  then have "{e \<in> set cs. cType e \<noteq> cType c} = set cs" by auto
  with None g show ?thesis by (simp add: set_condition_def stored_condition_def)
next
  case (Some cs')
  then have "cType c \<in> cType ` set cs"
    by (metis option.distinct(1) set_existing_None_iff)
  then obtain e where g: "get_condition cs (cType c) = Some e"
    by (metis get_condition_None_iff option.exhaust)
  with assms have e: "e \<in> set cs" "cType e = cType c"
    by (simp_all add: get_condition_Some_iff)
  with Some g set_existing_set [OF Some assms g] show ?thesis
    by (simp add: set_condition_def stored_condition_def)
qed

lemma cType_stored [simp]: "cType (stored_condition now c cs) = cType c"
proof (cases "get_condition cs (cType c)")
  case (Some e)
  then have "cType e = cType c"
    by (auto simp: get_condition_def find_Some_iff)
  with Some show ?thesis by (simp add: stored_condition_def)
qed (simp add: stored_condition_def)

lemma stored_state:
  "cStatus (stored_condition now c cs) = cStatus c"
  "cSeverity (stored_condition now c cs) = cSeverity c"
  "cReason (stored_condition now c cs) = cReason c"
  "cMessage (stored_condition now c cs) = cMessage c"
  by (auto simp: stored_condition_def hasSameState_def split: option.splits)

lemma get_set_condition:
  assumes "distinct (map cType cs)"
  shows "get_condition (set_condition now c cs) t =
    (if t = cType c then Some (stored_condition now c cs) else get_condition cs t)"
proof (cases "t = cType c")
  case True
  then show ?thesis
    by (simp add: get_condition_Some_iff set_condition_distinct assms set_condition_set)
next
  case False
  show ?thesis
  proof (cases "get_condition cs t")
    case None
    then have "t \<notin> cType ` set cs" by (simp add: get_condition_None_iff)
    with False have "t \<notin> cType ` set (set_condition now c cs)"
      by (auto simp: set_condition_set assms)
    then have "get_condition (set_condition now c cs) t = None"
      by (simp only: get_condition_None_iff not_False_eq_True)
    with None False show ?thesis by simp
  next
    case (Some e)
    with assms False have "get_condition (set_condition now c cs) t = Some e"
      by (simp add: get_condition_Some_iff set_condition_distinct set_condition_set)
    with Some False show ?thesis by simp
  qed
qed

section \<open>The Ready summary\<close>

record conditionGroup =
  gStatus :: conditionStatus
  gSeverity :: conditionSeverity
  gConditions :: "condition list"

fun mergePriority_of :: "conditionStatus \<Rightarrow> conditionSeverity \<Rightarrow> nat" where
  "mergePriority_of ConditionFalse SeverityError = 0"
| "mergePriority_of ConditionFalse SeverityWarning = 1"
| "mergePriority_of ConditionFalse SeverityInfo = 2"
| "mergePriority_of ConditionTrue _ = 3"
| "mergePriority_of ConditionUnknown _ = 4"
| "mergePriority_of _ _ = 99"

definition mergePriority :: "conditionGroup \<Rightarrow> nat" where
  "mergePriority g = mergePriority_of (gStatus g) (gSeverity g)"

text \<open>The loop of \<open>getConditionGroups\<close>: append to the first group of equal status and severity.\<close>

fun add_to_groups :: "condition \<Rightarrow> conditionGroup list \<Rightarrow> conditionGroup list" where
  "add_to_groups c [] = [\<lparr>gStatus = cStatus c, gSeverity = cSeverity c, gConditions = [c]\<rparr>]"
| "add_to_groups c (g # gs) =
     (if gStatus g = cStatus c \<and> gSeverity g = cSeverity c
      then g\<lparr>gConditions := gConditions g @ [c]\<rparr> # gs
      else g # add_to_groups c gs)"

definition getConditionGroups :: "condition list \<Rightarrow> conditionGroup list" where
  "getConditionGroups cs =
     (case sort_by (\<lambda>a b. mergePriority a < mergePriority b) (fold add_to_groups cs []) of
        [] \<Rightarrow> []
      | g # gs \<Rightarrow> g\<lparr>gConditions := sort_by lexicographicLess (gConditions g)\<rparr> # gs)"

text \<open>The condition whose reason and message the summary takes: the first of the top group.\<close>

definition getFirstCondition :: "conditionGroup \<Rightarrow> condition option" where
  "getFirstCondition g = (case gConditions g of [] \<Rightarrow> None | c # _ \<Rightarrow> Some c)"

definition merge_conditions :: "condition list \<Rightarrow> string \<Rightarrow> condition option" where
  "merge_conditions cs target = (case getConditionGroups cs of
     [] \<Rightarrow> None
   | g # _ \<Rightarrow>
       (let reason = (case getFirstCondition g of Some c \<Rightarrow> cReason c | None \<Rightarrow> []);
            message = (case getFirstCondition g of Some c \<Rightarrow> cMessage c | None \<Rightarrow> [])
        in Some (if gStatus g = ConditionTrue
           then \<lparr>cType = target, cStatus = ConditionTrue, cSeverity = SeverityNone,
                 cLastTransitionTime = 0, cReason = [], cMessage = []\<rparr>
           else if gStatus g = ConditionFalse
           then \<lparr>cType = target, cStatus = ConditionFalse, cSeverity = gSeverity g,
                 cLastTransitionTime = 0, cReason = reason, cMessage = message\<rparr>
           else \<lparr>cType = target, cStatus = ConditionUnknown, cSeverity = SeverityNone,
                 cLastTransitionTime = 0, cReason = reason, cMessage = message\<rparr>)))"

definition summary :: "condition list \<Rightarrow> condition option" where
  "summary cs = merge_conditions (filter (\<lambda>c. cType c \<noteq> ReadyCondition) cs) ReadyCondition"

definition set_summary :: "int \<Rightarrow> condition list \<Rightarrow> condition list" where
  "set_summary now cs = (case summary cs of None \<Rightarrow> cs | Some c \<Rightarrow> set_condition now c cs)"

subsection \<open>What the summary says\<close>

definition prio :: "condition \<Rightarrow> nat" where
  "prio c = mergePriority_of (cStatus c) (cSeverity c)"

text \<open>Every group is non-empty and holds conditions of its own status and severity only.\<close>

definition wf_groups :: "conditionGroup list \<Rightarrow> condition set \<Rightarrow> bool" where
  "wf_groups gs C \<longleftrightarrow>
     (\<forall>g \<in> set gs. gConditions g \<noteq> [] \<and>
        (\<forall>c \<in> set (gConditions g). cStatus c = gStatus g \<and> cSeverity c = gSeverity g)) \<and>
     (\<Union>g \<in> set gs. set (gConditions g)) = C"

lemma wf_add_to_groups: "wf_groups gs C \<Longrightarrow> wf_groups (add_to_groups c gs) (insert c C)"
proof (induction gs arbitrary: C)
  case (Cons g gs)
  let ?C' = "\<Union>g \<in> set gs. set (gConditions g)"
  from Cons.prems have C: "C = set (gConditions g) \<union> ?C'" and g: "wf_groups [g] (set (gConditions g))"
    and gs: "wf_groups gs ?C'"
    by (auto simp: wf_groups_def)
  show ?case
  proof (cases "gStatus g = cStatus c \<and> gSeverity g = cSeverity c")
    case True
    with C g gs show ?thesis by (auto simp: wf_groups_def)
  next
    case False
    with C g Cons.IH [OF gs] show ?thesis by (auto simp: wf_groups_def)
  qed
qed (simp add: wf_groups_def)

lemma wf_fold_groups: "wf_groups gs C \<Longrightarrow> wf_groups (fold add_to_groups cs gs) (C \<union> set cs)"
proof (induction cs arbitrary: gs C)
  case (Cons c cs)
  from Cons.IH [OF wf_add_to_groups [OF Cons.prems, of c]] show ?case by simp
qed simp

lemma wf_all_groups: "wf_groups (fold add_to_groups cs []) (set cs)"
  using wf_fold_groups [of "[]" "{}" cs] by (simp add: wf_groups_def)

lemma fold_groups_Nil_iff: "fold add_to_groups cs [] = [] \<longleftrightarrow> cs = []"
proof
  assume n: "fold add_to_groups cs [] = []"
  have "wf_groups [] (set cs)" using wf_all_groups [of cs] by (simp only: n)
  then show "cs = []" by (simp add: wf_groups_def)
qed simp

text \<open>The top group: its first condition has the least priority value of all conditions.\<close>

lemma getConditionGroups_top:
  assumes "cs \<noteq> []"
  obtains g gs c where "getConditionGroups cs = g # gs" and "getFirstCondition g = Some c"
    and "c \<in> set cs" and "cStatus c = gStatus g" and "cSeverity c = gSeverity g"
    and "\<And>c'. c' \<in> set cs \<Longrightarrow> prio c \<le> prio c'"
proof -
  let ?gs = "fold add_to_groups cs []"
  let ?s = "sort_by (\<lambda>a b. mergePriority a < mergePriority b) ?gs"
  have ne: "?gs \<noteq> []" using assms by (simp add: fold_groups_Nil_iff)
  then obtain g gs where s: "?s = g # gs" by (cases ?s) auto
  have wf: "wf_groups ?gs (set cs)" by (rule wf_all_groups)
  have g: "g \<in> set ?gs" by (metis list.set_intros(1) s set_sort_by)
  let ?g = "g\<lparr>gConditions := sort_by lexicographicLess (gConditions g)\<rparr>"
  from wf g have "gConditions g \<noteq> []" by (auto simp: wf_groups_def)
  then obtain c rest where c: "sort_by lexicographicLess (gConditions g) = c # rest"
    by (metis list.exhaust sort_by_Nil_iff)
  then have cg: "c \<in> set (gConditions g)" by (metis list.set_intros(1) set_sort_by)
  with wf g have st: "cStatus c = gStatus g" "cSeverity c = gSeverity g" and cs: "c \<in> set cs"
    by (auto simp: wf_groups_def)
  have least: "prio c \<le> prio c'" if "c' \<in> set cs" for c'
  proof -
    from wf that have "c' \<in> (\<Union>g \<in> set ?gs. set (gConditions g))"
      by (simp add: wf_groups_def)
    then obtain g' where g': "g' \<in> set ?gs" "c' \<in> set (gConditions g')" by blast
    with wf have "prio c' = mergePriority g'"
      by (auto simp: wf_groups_def prio_def mergePriority_def)
    moreover have "mergePriority g \<le> mergePriority g'"
      using hd_sort_by_least [OF ne g'(1), of mergePriority] by (simp add: s)
    ultimately show ?thesis using st by (simp add: prio_def mergePriority_def)
  qed
  show ?thesis
    by (rule that [of ?g gs c])
      (use s c cs st least in \<open>simp_all add: getConditionGroups_def getFirstCondition_def\<close>)
qed

lemma merge_conditions_Nil [simp]: "merge_conditions [] t = None"
  by (simp add: merge_conditions_def getConditionGroups_def sort_by_def)

lemma merge_conditions_top:
  assumes "cs \<noteq> []"
  obtains c r where "merge_conditions cs t = Some r" and "c \<in> set cs"
    and "\<And>c'. c' \<in> set cs \<Longrightarrow> prio c \<le> prio c'"
    and "cType r = t" and "cLastTransitionTime r = 0"
    and "cStatus r = (if cStatus c = ConditionTrue then ConditionTrue
           else if cStatus c = ConditionFalse then ConditionFalse else ConditionUnknown)"
    and "cStatus c = ConditionFalse \<Longrightarrow>
           cSeverity r = cSeverity c \<and> cReason r = cReason c \<and> cMessage r = cMessage c"
proof -
  from getConditionGroups_top [OF assms] obtain g gs c where
    *: "getConditionGroups cs = g # gs" "getFirstCondition g = Some c" "c \<in> set cs"
      "cStatus c = gStatus g" "cSeverity c = gSeverity g"
      "\<And>c'. c' \<in> set cs \<Longrightarrow> prio c \<le> prio c'"
    by metis
  let ?r = "the (merge_conditions cs t)"
  show ?thesis
    by (rule that [of ?r c]) (use * in \<open>auto simp: merge_conditions_def Let_def\<close>)
qed

lemma prio_le_3_iff:
  "prio c < 3 \<longleftrightarrow> cStatus c = ConditionFalse \<and>
     cSeverity c \<in> {SeverityError, SeverityWarning, SeverityInfo}"
  by (cases "cStatus c"; cases "cSeverity c") (auto simp: prio_def)

lemma prio_eq_3_iff: "prio c = 3 \<longleftrightarrow> cStatus c = ConditionTrue"
  by (cases "cStatus c"; cases "cSeverity c") (auto simp: prio_def)

lemma prio_eq_0_iff: "prio c = 0 \<longleftrightarrow> cStatus c = ConditionFalse \<and> cSeverity c = SeverityError"
  by (cases "cStatus c"; cases "cSeverity c") (auto simp: prio_def)

text \<open>A condition that makes an object not ready.\<close>

definition blocking :: "condition \<Rightarrow> bool" where
  "blocking c \<longleftrightarrow> cType c \<noteq> ReadyCondition \<and> cStatus c = ConditionFalse \<and>
     cSeverity c \<in> {SeverityError, SeverityWarning, SeverityInfo}"

text \<open>Ready agrees with the other conditions: true exactly when one is true and none blocks.\<close>

definition ready_consistent :: "condition list \<Rightarrow> bool" where
  "ready_consistent cs \<longleftrightarrow> ((\<exists>c \<in> set cs. cType c \<noteq> ReadyCondition) \<longrightarrow>
     (isTrue_condition cs ReadyCondition \<longleftrightarrow>
       (\<exists>c \<in> set cs. cType c \<noteq> ReadyCondition \<and> cStatus c = ConditionTrue) \<and>
       (\<forall>c \<in> set cs. \<not> blocking c)))"

lemma summary_None_iff: "summary cs = None \<longleftrightarrow> (\<forall>c \<in> set cs. cType c = ReadyCondition)"
proof (cases "filter (\<lambda>c. cType c \<noteq> ReadyCondition) cs = []")
  case True
  then show ?thesis by (simp add: summary_def filter_empty_conv)
next
  case False
  then obtain r where "merge_conditions (filter (\<lambda>c. cType c \<noteq> ReadyCondition) cs) ReadyCondition = Some r"
    by (rule merge_conditions_top)
  with False show ?thesis by (auto simp: summary_def filter_empty_conv)
qed

lemma summary_type: "summary cs = Some r \<Longrightarrow> cType r = ReadyCondition \<and> cLastTransitionTime r = 0"
proof -
  assume r: "summary cs = Some r"
  let ?f = "filter (\<lambda>c. cType c \<noteq> ReadyCondition) cs"
  have "?f \<noteq> []" using r by (metis merge_conditions_Nil option.distinct(1) summary_def)
  then obtain r' where "merge_conditions ?f ReadyCondition = Some r'"
    "cType r' = ReadyCondition" "cLastTransitionTime r' = 0"
    by (rule merge_conditions_top)
  with r show ?thesis by (simp add: summary_def)
qed

lemma summary_True_iff:
  assumes "summary cs = Some r"
  shows "cStatus r = ConditionTrue \<longleftrightarrow>
    (\<exists>c \<in> set cs. cType c \<noteq> ReadyCondition \<and> cStatus c = ConditionTrue) \<and> (\<forall>c \<in> set cs. \<not> blocking c)"
proof -
  let ?f = "filter (\<lambda>c. cType c \<noteq> ReadyCondition) cs"
  have ne: "?f \<noteq> []" using assms by (metis merge_conditions_Nil option.distinct(1) summary_def)
  from merge_conditions_top [OF ne, of ReadyCondition] obtain c r' where r': "merge_conditions ?f ReadyCondition = Some r'" and c: "c \<in> set ?f"
    and least: "\<And>c'. c' \<in> set ?f \<Longrightarrow> prio c \<le> prio c'"
    and st: "cStatus r' = (if cStatus c = ConditionTrue then ConditionTrue
           else if cStatus c = ConditionFalse then ConditionFalse else ConditionUnknown)"
    by blast
  have r: "r' = r" using assms r' by (simp add: summary_def)
  have bl: "blocking d \<longleftrightarrow> d \<in> set ?f \<and> prio d < 3" if "d \<in> set cs" for d
    using that by (auto simp: blocking_def prio_le_3_iff)
  have "cStatus r = ConditionTrue \<longleftrightarrow> prio c = 3"
    using st r by (auto simp: prio_eq_3_iff)
  also have "\<dots> \<longleftrightarrow> (\<exists>d \<in> set ?f. prio d = 3) \<and> (\<forall>d \<in> set ?f. \<not> prio d < 3)"
    using c least by (metis leD le_antisym linorder_le_less_linear)
  also have "\<dots> \<longleftrightarrow> (\<exists>c \<in> set cs. cType c \<noteq> ReadyCondition \<and> cStatus c = ConditionTrue) \<and>
      (\<forall>c \<in> set cs. \<not> blocking c)"
    using bl by (auto simp: prio_eq_3_iff)
  finally show ?thesis .
qed

lemma summary_error_first:
  assumes "summary cs = Some r"
  shows "cStatus r = ConditionFalse \<and> cSeverity r = SeverityError \<longleftrightarrow>
    (\<exists>c \<in> set cs. cType c \<noteq> ReadyCondition \<and> cStatus c = ConditionFalse \<and> cSeverity c = SeverityError)"
proof -
  let ?f = "filter (\<lambda>c. cType c \<noteq> ReadyCondition) cs"
  have ne: "?f \<noteq> []" using assms by (metis merge_conditions_Nil option.distinct(1) summary_def)
  from merge_conditions_top [OF ne, of ReadyCondition] obtain c r' where r': "merge_conditions ?f ReadyCondition = Some r'" and c: "c \<in> set ?f"
    and least: "\<And>c'. c' \<in> set ?f \<Longrightarrow> prio c \<le> prio c'"
    and st: "cStatus r' = (if cStatus c = ConditionTrue then ConditionTrue
           else if cStatus c = ConditionFalse then ConditionFalse else ConditionUnknown)"
    and sev: "cStatus c = ConditionFalse \<Longrightarrow>
           cSeverity r' = cSeverity c \<and> cReason r' = cReason c \<and> cMessage r' = cMessage c"
    by blast
  have r: "r' = r" using assms r' by (simp add: summary_def)
  have "cStatus r = ConditionFalse \<and> cSeverity r = SeverityError \<longleftrightarrow> prio c = 0"
    using st sev r by (auto simp: prio_eq_0_iff)
  also have "\<dots> \<longleftrightarrow> (\<exists>d \<in> set ?f. prio d = 0)"
    using c least by force
  also have "\<dots> \<longleftrightarrow> (\<exists>c \<in> set cs. cType c \<noteq> ReadyCondition \<and> cStatus c = ConditionFalse \<and>
      cSeverity c = SeverityError)"
    by (auto simp: prio_eq_0_iff)
  finally show ?thesis .
qed

section \<open>The interface conditions.Setter\<close>

text \<open>
  \<^verbatim>\<open>conditions.Set(to, condition)\<close> and \<^verbatim>\<open>conditions.SetSummary(to)\<close> see an
  object through its \<open>GetConditions\<close> and \<open>SetConditions\<close> methods, the first two arguments here.
  A nil condition changes nothing.
\<close>

definition conditions_Set ::
  "('o \<Rightarrow> condition list) \<Rightarrow> ('o \<Rightarrow> condition list \<Rightarrow> 'o) \<Rightarrow> int \<Rightarrow> condition option \<Rightarrow> 'o \<Rightarrow> 'o"
where
  "conditions_Set getC setC now c to = (case c of
     None \<Rightarrow> to | Some c' \<Rightarrow> setC to (set_condition now c' (getC to)))"

definition conditions_SetSummary ::
  "('o \<Rightarrow> condition list) \<Rightarrow> ('o \<Rightarrow> condition list \<Rightarrow> 'o) \<Rightarrow> int \<Rightarrow> 'o \<Rightarrow> 'o"
where
  "conditions_SetSummary getC setC now to = conditions_Set getC setC now (summary (getC to)) to"

definition conditions_Get :: "('o \<Rightarrow> condition list) \<Rightarrow> 'o \<Rightarrow> string \<Rightarrow> condition option" where
  "conditions_Get getC from t = get_condition (getC from) t"

definition conditions_IsTrue :: "('o \<Rightarrow> condition list) \<Rightarrow> 'o \<Rightarrow> string \<Rightarrow> bool" where
  "conditions_IsTrue getC from t = isTrue_condition (getC from) t"

locale setter =
  fixes getC :: "'o \<Rightarrow> condition list"
    and setC :: "'o \<Rightarrow> condition list \<Rightarrow> 'o"
  assumes get_setC: "getC (setC obj cs) = cs"
    and setC_getC: "setC obj (getC obj) = obj"
    and setC_setC: "setC (setC obj cs) cs' = setC obj cs'"
begin

lemma getC_Set:
  "getC (conditions_Set getC setC now (Some c) obj) = set_condition now c (getC obj)"
  by (simp add: conditions_Set_def get_setC)

lemma getC_Set_None: "conditions_Set getC setC now None obj = obj"
  by (simp add: conditions_Set_def)

lemma getC_SetSummary:
  "getC (conditions_SetSummary getC setC now obj) = set_summary now (getC obj)"
  by (simp add: conditions_SetSummary_def conditions_Set_def set_summary_def get_setC
      split: option.splits)

lemma setC_only:
  "conditions_Set getC setC now c obj = setC obj (getC (conditions_Set getC setC now c obj))"
  by (simp add: conditions_Set_def get_setC setC_getC split: option.splits)

lemma distinct_Set:
  "distinct (map cType (getC obj)) \<Longrightarrow>
   distinct (map cType (getC (conditions_Set getC setC now c obj)))"
  by (cases c) (simp_all add: getC_Set getC_Set_None set_condition_distinct)

lemma wf_Set:
  "distinct (map cType (getC obj)) \<Longrightarrow> wf_conditions (getC (conditions_Set getC setC now (Some c) obj))"
  by (simp add: getC_Set set_condition_wf)

lemma Get_Set:
  assumes "distinct (map cType (getC obj))"
  shows "conditions_Get getC (conditions_Set getC setC now (Some c) obj) t =
    (if t = cType c then Some (stored_condition now c (getC obj)) else conditions_Get getC obj t)"
  using assms by (simp add: conditions_Get_def getC_Set get_set_condition)

lemma IsTrue_Set:
  assumes "distinct (map cType (getC obj))"
  shows "conditions_IsTrue getC (conditions_Set getC setC now (Some c) obj) t =
    (if t = cType c then cStatus c = ConditionTrue else conditions_IsTrue getC obj t)"
  using assms
  by (simp add: conditions_IsTrue_def isTrue_condition_def getC_Set get_set_condition stored_state)

lemma distinct_SetSummary:
  "distinct (map cType (getC obj)) \<Longrightarrow>
   distinct (map cType (getC (conditions_SetSummary getC setC now obj)))"
  by (simp add: conditions_SetSummary_def distinct_Set)

lemma Get_SetSummary_other:
  assumes "distinct (map cType (getC obj))" and "t \<noteq> ReadyCondition"
  shows "conditions_Get getC (conditions_SetSummary getC setC now obj) t = conditions_Get getC obj t"
proof (cases "summary (getC obj)")
  case None
  then show ?thesis by (simp add: conditions_SetSummary_def getC_Set_None)
next
  case (Some r)
  with summary_type [OF Some] assms show ?thesis
    by (simp add: conditions_SetSummary_def Get_Set)
qed

text \<open>After the summary, Ready is true exactly when something is true and nothing blocks.\<close>

lemma Ready_SetSummary:
  assumes "distinct (map cType (getC obj))" and "\<exists>c \<in> set (getC obj). cType c \<noteq> ReadyCondition"
  shows "conditions_IsTrue getC (conditions_SetSummary getC setC now obj) ReadyCondition \<longleftrightarrow>
    (\<exists>c \<in> set (getC obj). cType c \<noteq> ReadyCondition \<and> cStatus c = ConditionTrue) \<and>
    (\<forall>c \<in> set (getC obj). \<not> blocking c)"
proof -
  from assms(2) obtain r where r: "summary (getC obj) = Some r"
    by (metis option.exhaust summary_None_iff)
  have "conditions_IsTrue getC (conditions_SetSummary getC setC now obj) ReadyCondition \<longleftrightarrow>
      cStatus r = ConditionTrue"
    using assms(1) r summary_type [OF r] by (simp add: conditions_SetSummary_def IsTrue_Set)
  also note summary_True_iff [OF r]
  finally show ?thesis .
qed

lemma SetSummary_others:
  assumes "distinct (map cType (getC obj))"
  shows "{c \<in> set (getC (conditions_SetSummary getC setC now obj)). cType c \<noteq> ReadyCondition} =
    {c \<in> set (getC obj). cType c \<noteq> ReadyCondition}"
proof (cases "summary (getC obj)")
  case (Some r)
  with summary_type [OF Some] assms show ?thesis
    by (auto simp: getC_SetSummary set_summary_def set_condition_set)
qed (simp add: getC_SetSummary set_summary_def)

text \<open>The same, over the conditions the object has afterwards.\<close>

lemma Ready_iff_SetSummary:
  fixes now obj
  defines "obj' \<equiv> conditions_SetSummary getC setC now obj"
  assumes "distinct (map cType (getC obj))" and "\<exists>c \<in> set (getC obj'). cType c \<noteq> ReadyCondition"
  shows "conditions_IsTrue getC obj' ReadyCondition \<longleftrightarrow>
    (\<exists>c \<in> set (getC obj'). cType c \<noteq> ReadyCondition \<and> cStatus c = ConditionTrue) \<and>
    (\<forall>c \<in> set (getC obj'). \<not> blocking c)"
proof -
  have others: "(c \<in> set (getC obj') \<and> cType c \<noteq> ReadyCondition) =
      (c \<in> set (getC obj) \<and> cType c \<noteq> ReadyCondition)" for c
    using SetSummary_others [OF assms(2), of now, folded obj'_def] by blast
  have ex: "(\<exists>c \<in> set (getC obj'). cType c \<noteq> ReadyCondition \<and> P c) \<longleftrightarrow>
      (\<exists>c \<in> set (getC obj). cType c \<noteq> ReadyCondition \<and> P c)" for P
    by (simp only: Bex_def conj_assoc [symmetric] others)
  have all: "(\<forall>c \<in> set (getC obj'). \<not> blocking c) \<longleftrightarrow> (\<forall>c \<in> set (getC obj). \<not> blocking c)"
    using others unfolding blocking_def by blast
  from assms(3) ex [of "\<lambda>_. True"] have "\<exists>c \<in> set (getC obj). cType c \<noteq> ReadyCondition" by simp
  from Ready_SetSummary [OF assms(2) this, of now, folded obj'_def] ex [of "\<lambda>c. cStatus c = ConditionTrue"] all
  show ?thesis by simp
qed

lemma ready_consistent_SetSummary:
  "distinct (map cType (getC obj)) \<Longrightarrow> ready_consistent (getC (conditions_SetSummary getC setC now obj))"
  unfolding ready_consistent_def
  by (intro impI Ready_iff_SetSummary [unfolded conditions_IsTrue_def])

end

end
