(* ===== verification/Constants.thy ===== *)
theory Constants
  imports Conditions
begin

text \<open>
  The constants of \<^verbatim>\<open>api/v1beta1/constants.go\<close>: labels, finalizer, host phases, condition types,
  reasons and severities, under their Go names, with the facts that the labels, the
  condition types and the phases are pairwise different.
\<close>

definition InfraGroup :: "string" where
  "InfraGroup = ''infrastructure.cluster.x-k8s.io''"

definition InfraVersion :: "string" where
  "InfraVersion = ''v1beta1''"

definition FinalizerElementalMachine :: "string" where
  "FinalizerElementalMachine = ''elementalmachine.infrastructure.cluster.x-k8s.io''"

definition AnnotationElementalRegistrationName :: "string" where
  "AnnotationElementalRegistrationName = ''elementalregistration.infrastructure.cluster.x-k8s.io/name''"

definition AnnotationElementalRegistrationNamespace :: "string" where
  "AnnotationElementalRegistrationNamespace = ''elementalregistration.infrastructure.cluster.x-k8s.io/namespace''"

definition AnnotationElementalHostPublicKey :: "string" where
  "AnnotationElementalHostPublicKey = ''elementalhost.infrastructure.cluster.x-k8s.io/pub-key''"

definition LabelElementalHostMachineName :: "string" where
  "LabelElementalHostMachineName = ''elementalhost.infrastructure.cluster.x-k8s.io/machine-name''"

definition LabelElementalHostElementalMachineName :: "string" where
  "LabelElementalHostElementalMachineName = ''elementalhost.infrastructure.cluster.x-k8s.io/elemental-machine-name''"

definition LabelElementalHostInstalled :: "string" where
  "LabelElementalHostInstalled = ''elementalhost.infrastructure.cluster.x-k8s.io/installed''"

definition LabelElementalHostBootstrapped :: "string" where
  "LabelElementalHostBootstrapped = ''elementalhost.infrastructure.cluster.x-k8s.io/bootstrapped''"

definition LabelElementalHostNeedsReset :: "string" where
  "LabelElementalHostNeedsReset = ''elementalhost.infrastructure.cluster.x-k8s.io/needs-reset''"

definition LabelElementalHostReset :: "string" where
  "LabelElementalHostReset = ''elementalhost.infrastructure.cluster.x-k8s.io/reset''"

definition LabelElementalHostInPlaceUpdate :: "string" where
  "LabelElementalHostInPlaceUpdate = ''elementalhost.infrastructure.cluster.x-k8s.io/in-place-update''"

definition InPlaceUpdatePending :: "string" where
  "InPlaceUpdatePending = ''pending''"

definition InPlaceUpdateDone :: "string" where
  "InPlaceUpdateDone = ''done''"

definition PhaseRegistering :: "string" where
  "PhaseRegistering = ''Registering''"

definition PhaseFinalizingRegistration :: "string" where
  "PhaseFinalizingRegistration = ''Finalizing Registration''"

definition PhaseInstalling :: "string" where
  "PhaseInstalling = ''Installing''"

definition PhaseBootstrapping :: "string" where
  "PhaseBootstrapping = ''Bootstrapping''"

definition PhaseRunning :: "string" where
  "PhaseRunning = ''Running''"

definition PhaseTriggeringReset :: "string" where
  "PhaseTriggeringReset = ''Triggering Reset''"

definition PhaseResetting :: "string" where
  "PhaseResetting = ''Resetting''"

definition PhaseOSVersionReconcile :: "string" where
  "PhaseOSVersionReconcile = ''Reconciling OS Version''"

definition RegistrationReady :: "string" where
  "RegistrationReady = ''RegistrationReady''"

definition RegistrationFailedReason :: "string" where
  "RegistrationFailedReason = ''RegistrationFailed''"

definition InstallationReady :: "string" where
  "InstallationReady = ''InstallationReady''"

definition WaitingForInstallationReason :: "string" where
  "WaitingForInstallationReason = ''WaitingForInstallation''"

definition WaitingForInstallationReasonSeverity :: conditionSeverity where
  "WaitingForInstallationReasonSeverity = SeverityInfo"

definition CloudConfigInstallationFailedReason :: "string" where
  "CloudConfigInstallationFailedReason = ''CloudConfigInstallationFailed''"

definition InstallationFailedReason :: "string" where
  "InstallationFailedReason = ''InstallationFailed''"

definition BootstrapReady :: "string" where
  "BootstrapReady = ''BootstrapReady''"

definition WaitingForBootstrapReason :: "string" where
  "WaitingForBootstrapReason = ''WaitingForBootstrap''"

definition WaitingForBootstrapReasonSeverity :: conditionSeverity where
  "WaitingForBootstrapReasonSeverity = SeverityInfo"

definition BootstrapFailedReason :: "string" where
  "BootstrapFailedReason = ''BootstrapFailed''"

definition ResetReady :: "string" where
  "ResetReady = ''ResetReady''"

definition WaitingForResetReason :: "string" where
  "WaitingForResetReason = ''WaitingForReset''"

definition WaitingForResetReasonSeverity :: conditionSeverity where
  "WaitingForResetReasonSeverity = SeverityInfo"

definition ResetFailedReason :: "string" where
  "ResetFailedReason = ''ResetFailed''"

definition OSVersionReady :: "string" where
  "OSVersionReady = ''OSVersionReady''"

definition WaitingOSReconcileReason :: "string" where
  "WaitingOSReconcileReason = ''WaitingForOSReconcile''"

definition WaitingOSReconcileReasonSeverity :: conditionSeverity where
  "WaitingOSReconcileReasonSeverity = SeverityInfo"

definition InPlaceUpdateNotPendingReason :: "string" where
  "InPlaceUpdateNotPendingReason = ''InPlaceUpdateNotPending''"

definition InPlaceUpdateNotPendingReasonSeverity :: conditionSeverity where
  "InPlaceUpdateNotPendingReasonSeverity = SeverityWarning"

definition OSVersionReconciliationFailedReason :: "string" where
  "OSVersionReconciliationFailedReason = ''OSVersionReconciliationFailed''"

definition WaitingForPostReconcileRebootReason :: "string" where
  "WaitingForPostReconcileRebootReason = ''WaitingForPostReconcileReboot''"

definition WaitingForPostReconcileRebootReasonSeverity :: conditionSeverity where
  "WaitingForPostReconcileRebootReasonSeverity = SeverityInfo"

definition AssociationReady :: "string" where
  "AssociationReady = ''AssociationReady''"

definition MissingMachineOwnerReason :: "string" where
  "MissingMachineOwnerReason = ''MissingMachineOwner''"

definition MissingAssociatedClusterReason :: "string" where
  "MissingAssociatedClusterReason = ''MissingAssociatedCluster''"

definition MissingClusterInfrastructureReadyReason :: "string" where
  "MissingClusterInfrastructureReadyReason = ''MissingClusterInfrastructureReady''"

definition MissingBootstrapSecretReason :: "string" where
  "MissingBootstrapSecretReason = ''MissingBootstrapSecret''"

definition MissingAvailableHostsReason :: "string" where
  "MissingAvailableHostsReason = ''MissingAvailableHosts''"

definition MissingAvailableHostsReasonSeverity :: conditionSeverity where
  "MissingAvailableHostsReasonSeverity = SeverityWarning"

definition AssociatedHostNotFoundReason :: "string" where
  "AssociatedHostNotFoundReason = ''AssociatedHostNotFound''"

definition AssociatedHostNotFoundReasonSeverity :: conditionSeverity where
  "AssociatedHostNotFoundReasonSeverity = SeverityWarning"

definition HostReady :: "string" where
  "HostReady = ''HostReady''"

definition HostWaitingForInstallReason :: "string" where
  "HostWaitingForInstallReason = ''HostWaitingForInstall''"

definition HostWaitingForBootstrapReason :: "string" where
  "HostWaitingForBootstrapReason = ''HostWaitingForBootstrap''"

definition HostWaitingForBootstrapReasonSeverity :: conditionSeverity where
  "HostWaitingForBootstrapReasonSeverity = SeverityInfo"

definition ProviderIDReady :: "string" where
  "ProviderIDReady = ''ProviderIDReady''"

definition NodeNotFoundReason :: "string" where
  "NodeNotFoundReason = ''NodeNotFound''"

definition WaitingForControlPlaneReason :: "string" where
  "WaitingForControlPlaneReason = ''WaitingForControlPlaneInitialized''"

definition WaitingForControlPlaneReasonSeverity :: conditionSeverity where
  "WaitingForControlPlaneReasonSeverity = SeverityInfo"

definition CAPIClusterReady :: "string" where
  "CAPIClusterReady = ''CAPIClusterReady''"

definition MissingClusterOwnerReason :: "string" where
  "MissingClusterOwnerReason = ''MissingClusterOwner''"

definition ControlPlaneEndpointReady :: "string" where
  "ControlPlaneEndpointReady = ''ControlPlaneEndpointReady''"

definition MissingControlPlaneEndpointReason :: "string" where
  "MissingControlPlaneEndpointReason = ''MissingControlPlaneEndpoint''"

text \<open>Constants of the Kubernetes and Cluster API packages that the code refers to.\<close>

definition ClusterNameLabel :: string where
  "ClusterNameLabel = ''cluster.x-k8s.io/cluster-name''"

definition ControlPlaneInitializedCondition :: string where
  "ControlPlaneInitializedCondition = ''ControlPlaneInitialized''"

definition capiGroup :: string where
  "capiGroup = ''cluster.x-k8s.io''"

lemma label_distinct: "distinct [LabelElementalHostMachineName, LabelElementalHostElementalMachineName, LabelElementalHostInstalled, LabelElementalHostBootstrapped, LabelElementalHostNeedsReset, LabelElementalHostReset, LabelElementalHostInPlaceUpdate, ClusterNameLabel]"
  by (simp add: LabelElementalHostMachineName_def LabelElementalHostElementalMachineName_def LabelElementalHostInstalled_def LabelElementalHostBootstrapped_def LabelElementalHostNeedsReset_def LabelElementalHostReset_def LabelElementalHostInPlaceUpdate_def ClusterNameLabel_def)

lemma label_distinct_rev: "distinct [ClusterNameLabel, LabelElementalHostInPlaceUpdate, LabelElementalHostReset, LabelElementalHostNeedsReset, LabelElementalHostBootstrapped, LabelElementalHostInstalled, LabelElementalHostElementalMachineName, LabelElementalHostMachineName]"
  by (simp add: LabelElementalHostMachineName_def LabelElementalHostElementalMachineName_def LabelElementalHostInstalled_def LabelElementalHostBootstrapped_def LabelElementalHostNeedsReset_def LabelElementalHostReset_def LabelElementalHostInPlaceUpdate_def ClusterNameLabel_def)

lemmas label_neq [simp] = label_distinct [simplified] label_distinct_rev [simplified]

lemma condition_type_distinct: "distinct [RegistrationReady, InstallationReady, BootstrapReady, ResetReady, OSVersionReady, AssociationReady, HostReady, ProviderIDReady, CAPIClusterReady, ControlPlaneEndpointReady, ReadyCondition]"
  by (simp add: RegistrationReady_def InstallationReady_def BootstrapReady_def ResetReady_def OSVersionReady_def AssociationReady_def HostReady_def ProviderIDReady_def CAPIClusterReady_def ControlPlaneEndpointReady_def ReadyCondition_def)

lemma condition_type_distinct_rev: "distinct [ReadyCondition, ControlPlaneEndpointReady, CAPIClusterReady, ProviderIDReady, HostReady, AssociationReady, OSVersionReady, ResetReady, BootstrapReady, InstallationReady, RegistrationReady]"
  by (simp add: RegistrationReady_def InstallationReady_def BootstrapReady_def ResetReady_def OSVersionReady_def AssociationReady_def HostReady_def ProviderIDReady_def CAPIClusterReady_def ControlPlaneEndpointReady_def ReadyCondition_def)

lemmas condition_type_neq [simp] = condition_type_distinct [simplified] condition_type_distinct_rev [simplified]

lemma phase_distinct: "distinct [PhaseRegistering, PhaseFinalizingRegistration, PhaseInstalling, PhaseBootstrapping, PhaseRunning, PhaseTriggeringReset, PhaseResetting, PhaseOSVersionReconcile]"
  by (simp add: PhaseRegistering_def PhaseFinalizingRegistration_def PhaseInstalling_def PhaseBootstrapping_def PhaseRunning_def PhaseTriggeringReset_def PhaseResetting_def PhaseOSVersionReconcile_def)

lemma phase_distinct_rev: "distinct [PhaseOSVersionReconcile, PhaseResetting, PhaseTriggeringReset, PhaseRunning, PhaseBootstrapping, PhaseInstalling, PhaseFinalizingRegistration, PhaseRegistering]"
  by (simp add: PhaseRegistering_def PhaseFinalizingRegistration_def PhaseInstalling_def PhaseBootstrapping_def PhaseRunning_def PhaseTriggeringReset_def PhaseResetting_def PhaseOSVersionReconcile_def)

lemmas phase_neq [simp] = phase_distinct [simplified] phase_distinct_rev [simplified]

lemma InPlaceUpdate_neq [simp]: "InPlaceUpdatePending \<noteq> InPlaceUpdateDone" "InPlaceUpdateDone \<noteq> InPlaceUpdatePending"
  by (simp_all add: InPlaceUpdatePending_def InPlaceUpdateDone_def)

end
