(* ===== verification/Api_Types.thy ===== *)
theory Api_Types
  imports Constants
begin

text \<open>
  The Kubernetes objects the provider works on, as records: the object metadata that all of them
  share, the four custom resources of \<^verbatim>\<open>api/v1beta1\<close> (spec and status fields side by side),
  and the parts of the Cluster API and core objects the code reads. The four resources
  interpret the locale \<open>setter\<close> with their \<open>GetConditions\<close> and \<open>SetConditions\<close> methods.

  A pointer is an option, a Go map a \<open>gomap\<close>, a raw JSON extension its bytes, a
  \<^verbatim>\<open>time.Duration\<close> an integer number of nanoseconds.
\<close>

section \<open>Metadata\<close>

record objectReference =
  refAPIVersion :: string
  refKind :: string
  refNamespace :: string
  refName :: string
  refUID :: string

record ownerReference =
  owAPIVersion :: string
  owKind :: string
  owName :: string
  owUID :: string
  owController :: "bool option"

record objectKey =
  keyNamespace :: string
  keyName :: string

record objectMeta =
  oAPIVersion :: string
  oKind :: string
  oName :: string
  oNamespace :: string
  oUID :: string
  oLabels :: "string gomap"
  oAnnotations :: "string gomap"
  oOwnerReferences :: "ownerReference list"
  oFinalizers :: "string list"
  oDeletionTimestamp :: "int option"

text \<open>\<^verbatim>\<open>GetDeletionTimestamp().IsZero()\<close>, which is true of a nil timestamp too.\<close>

definition notDeleted :: "'a objectMeta_scheme \<Rightarrow> bool" where
  "notDeleted obj \<longleftrightarrow> (case oDeletionTimestamp obj of None \<Rightarrow> True | Some t \<Rightarrow> t = 0)"

definition ContainsFinalizer :: "'a objectMeta_scheme \<Rightarrow> string \<Rightarrow> bool" where
  "ContainsFinalizer obj f \<longleftrightarrow> f \<in> set (oFinalizers obj)"

definition AddFinalizer :: "string \<Rightarrow> 'a objectMeta_scheme \<Rightarrow> 'a objectMeta_scheme" where
  "AddFinalizer f obj = (if f \<in> set (oFinalizers obj) then obj
     else obj\<lparr>oFinalizers := oFinalizers obj @ [f]\<rparr>)"

definition RemoveFinalizer :: "string \<Rightarrow> 'a objectMeta_scheme \<Rightarrow> 'a objectMeta_scheme" where
  "RemoveFinalizer f obj = obj\<lparr>oFinalizers := filter (\<lambda>e. e \<noteq> f) (oFinalizers obj)\<rparr>"

text \<open>A write to the labels; on a nil map it would panic, so callers that may have one ask \<open>oLabels\<close>.\<close>

definition put_label :: "string \<Rightarrow> string \<Rightarrow> 'a objectMeta_scheme \<Rightarrow> 'a objectMeta_scheme" where
  "put_label k v obj = obj\<lparr>oLabels := gput k v (oLabels obj)\<rparr>"

definition init_labels :: "'a objectMeta_scheme \<Rightarrow> 'a objectMeta_scheme" where
  "init_labels obj = obj\<lparr>oLabels := ginit (oLabels obj)\<rparr>"

definition label_is_true :: "'a objectMeta_scheme \<Rightarrow> string \<Rightarrow> bool" where
  "label_is_true obj k \<longleftrightarrow> gget (oLabels obj) k = Some ''true''"

definition ObjectKeyFromObject :: "'a objectMeta_scheme \<Rightarrow> objectKey" where
  "ObjectKeyFromObject obj = \<lparr>keyNamespace = oNamespace obj, keyName = oName obj\<rparr>"

definition refKey :: "objectReference \<Rightarrow> objectKey" where
  "refKey r = \<lparr>keyNamespace = refNamespace r, keyName = refName r\<rparr>"

lemma ContainsFinalizer_Add [simp]:
  "ContainsFinalizer (AddFinalizer f obj) f' \<longleftrightarrow> f' = f \<or> ContainsFinalizer obj f'"
  by (auto simp: ContainsFinalizer_def AddFinalizer_def)

lemma ContainsFinalizer_Remove [simp]:
  "ContainsFinalizer (RemoveFinalizer f obj) f' \<longleftrightarrow> f' \<noteq> f \<and> ContainsFinalizer obj f'"
  by (auto simp: ContainsFinalizer_def RemoveFinalizer_def)

section \<open>Registrations\<close>

type_synonym rawMap = "string gomap" \<comment> \<open>\<^verbatim>\<open>map[string]runtime.RawExtension\<close>\<close>

record hostnameConfig =
  hnUseExisting :: bool
  hnPrefix :: string

record postAction =
  postPowerOff :: bool
  postReboot :: bool

record agentConfig =
  agWorkDir :: string
  agHostname :: hostnameConfig
  agNoSMBIOS :: bool
  agDebug :: bool
  agOSPlugin :: string
  agReconciliation :: int
  agInsecureAllowHTTP :: bool
  agInsecureSkipTLSVerify :: bool
  agUseSystemCertPool :: bool
  agPostInstall :: postAction
  agPostReset :: postAction

record registrationConfig =
  rgURI :: string
  rgCACert :: string
  rgTokenDuration :: int
  rgToken :: string

record elementalConfig =
  elInstall :: rawMap
  elReset :: rawMap
  elRegistration :: registrationConfig
  elAgent :: agentConfig

record config =
  cfElemental :: elementalConfig
  cfCloudConfig :: rawMap

record elementalRegistration = objectMeta +
  rHostLabels :: "string gomap"
  rHostAnnotations :: "string gomap"
  rConfig :: config
  rPrivateKeyRef :: "objectReference option"
  rConditions :: "condition list"

definition registration_of :: "elementalRegistration \<Rightarrow> registrationConfig" where
  "registration_of r = elRegistration (cfElemental (rConfig r))"

definition set_registration_of ::
  "registrationConfig \<Rightarrow> elementalRegistration \<Rightarrow> elementalRegistration" where
  "set_registration_of g r =
     r\<lparr>rConfig := (rConfig r)\<lparr>cfElemental := (cfElemental (rConfig r))\<lparr>elRegistration := g\<rparr>\<rparr>\<rparr>"

lemma registration_of_set [simp]: "registration_of (set_registration_of g r) = g"
  by (simp add: registration_of_def set_registration_of_def)

section \<open>Hosts, machines, clusters\<close>

record elementalHost = objectMeta +
  hBootstrapSecret :: "objectReference option"
  hMachineRef :: "objectReference option"
  hPubKey :: string
  hOSVersionManagement :: rawMap
  hPhase :: string
  hConditions :: "condition list"

record labelSelectorRequirement =
  lsrKey :: string
  lsrOperator :: string
  lsrValues :: "string list"

record labelSelector =
  lsMatchLabels :: "(string \<times> string) list"
  lsMatchExpressions :: "labelSelectorRequirement list"

record elementalMachine = objectMeta +
  mProviderID :: "string option"
  mSelector :: "labelSelector option"
  mHostRef :: "objectReference option"
  mOSVersionManagement :: rawMap
  mReady :: bool
  mConditions :: "condition list"

record elementalCluster = objectMeta +
  ecHost :: string \<comment> \<open>\<^verbatim>\<open>spec.controlPlaneEndpoint\<close>\<close>
  ecPort :: int
  ecReady :: bool
  ecConditions :: "condition list"

text \<open>Cluster API and core objects: the fields the provider reads or writes.\<close>

record capiMachine = objectMeta +
  cmDataSecretName :: "string option"
  cmInfrastructureRef :: objectReference

record capiCluster = objectMeta +
  ccPaused :: bool
  ccInfrastructureRef :: "objectReference option"
  ccInfrastructureReady :: bool
  ccControlPlaneRef :: "objectReference option"
  ccConditions :: "condition list"

record secret = objectMeta +
  secData :: "string gomap"
  secStringData :: "string gomap"

record taint =
  taKey :: string
  taValue :: string
  taEffect :: string

record node = objectMeta +
  nProviderID :: string
  nTaints :: "taint list"

section \<open>The condition methods\<close>

definition host_SetConditions :: "elementalHost \<Rightarrow> condition list \<Rightarrow> elementalHost" where
  "host_SetConditions h cs = h\<lparr>hConditions := cs\<rparr>"

definition machine_SetConditions :: "elementalMachine \<Rightarrow> condition list \<Rightarrow> elementalMachine" where
  "machine_SetConditions m cs = m\<lparr>mConditions := cs\<rparr>"

definition registration_SetConditions ::
  "elementalRegistration \<Rightarrow> condition list \<Rightarrow> elementalRegistration" where
  "registration_SetConditions r cs = r\<lparr>rConditions := cs\<rparr>"

definition cluster_SetConditions :: "elementalCluster \<Rightarrow> condition list \<Rightarrow> elementalCluster" where
  "cluster_SetConditions c cs = c\<lparr>ecConditions := cs\<rparr>"

interpretation hostC: setter hConditions host_SetConditions
  by unfold_locales (simp_all add: host_SetConditions_def)

interpretation machineC: setter mConditions machine_SetConditions
  by unfold_locales (simp_all add: machine_SetConditions_def)

interpretation registrationC: setter rConditions registration_SetConditions
  by unfold_locales (simp_all add: registration_SetConditions_def)

interpretation clusterC: setter ecConditions cluster_SetConditions
  by unfold_locales (simp_all add: cluster_SetConditions_def)

abbreviation host_Set :: "int \<Rightarrow> condition \<Rightarrow> elementalHost \<Rightarrow> elementalHost" where
  "host_Set now c \<equiv> conditions_Set hConditions host_SetConditions now (Some c)"

abbreviation host_SetSummary :: "int \<Rightarrow> elementalHost \<Rightarrow> elementalHost" where
  "host_SetSummary \<equiv> conditions_SetSummary hConditions host_SetConditions"

abbreviation machine_Set :: "int \<Rightarrow> condition \<Rightarrow> elementalMachine \<Rightarrow> elementalMachine" where
  "machine_Set now c \<equiv> conditions_Set mConditions machine_SetConditions now (Some c)"

abbreviation machine_SetSummary :: "int \<Rightarrow> elementalMachine \<Rightarrow> elementalMachine" where
  "machine_SetSummary \<equiv> conditions_SetSummary mConditions machine_SetConditions"

abbreviation cluster_Set :: "int \<Rightarrow> condition \<Rightarrow> elementalCluster \<Rightarrow> elementalCluster" where
  "cluster_Set now c \<equiv> conditions_Set ecConditions cluster_SetConditions now (Some c)"

abbreviation cluster_SetSummary :: "int \<Rightarrow> elementalCluster \<Rightarrow> elementalCluster" where
  "cluster_SetSummary \<equiv> conditions_SetSummary ecConditions cluster_SetConditions"

text \<open>A condition as the code builds it, with no transition time yet.\<close>

definition mk_condition ::
  "string \<Rightarrow> conditionStatus \<Rightarrow> conditionSeverity \<Rightarrow> string \<Rightarrow> string \<Rightarrow> condition" where
  "mk_condition t st sev reason msg = \<lparr>cType = t, cStatus = st, cSeverity = sev,
     cLastTransitionTime = 0, cReason = reason, cMessage = msg\<rparr>"

lemma mk_condition_sel [simp]:
  "cType (mk_condition t st sev r msg) = t" "cStatus (mk_condition t st sev r msg) = st"
  "cSeverity (mk_condition t st sev r msg) = sev" "cReason (mk_condition t st sev r msg) = r"
  "cMessage (mk_condition t st sev r msg) = msg"
  "cLastTransitionTime (mk_condition t st sev r msg) = 0"
  by (simp_all add: mk_condition_def)

text \<open>Setting conditions leaves every other field of an object as it was.\<close>

lemma host_Set_frame [simp]:
  "oLabels (conditions_Set hConditions host_SetConditions now c h) = oLabels h"
  "oName (conditions_Set hConditions host_SetConditions now c h) = oName h"
  "oNamespace (conditions_Set hConditions host_SetConditions now c h) = oNamespace h"
  "oUID (conditions_Set hConditions host_SetConditions now c h) = oUID h"
  "oFinalizers (conditions_Set hConditions host_SetConditions now c h) = oFinalizers h"
  "oDeletionTimestamp (conditions_Set hConditions host_SetConditions now c h) = oDeletionTimestamp h"
  "oAnnotations (conditions_Set hConditions host_SetConditions now c h) = oAnnotations h"
  "oOwnerReferences (conditions_Set hConditions host_SetConditions now c h) = oOwnerReferences h"
  "hBootstrapSecret (conditions_Set hConditions host_SetConditions now c h) = hBootstrapSecret h"
  "hMachineRef (conditions_Set hConditions host_SetConditions now c h) = hMachineRef h"
  "hPubKey (conditions_Set hConditions host_SetConditions now c h) = hPubKey h"
  "hOSVersionManagement (conditions_Set hConditions host_SetConditions now c h) = hOSVersionManagement h"
  "hPhase (conditions_Set hConditions host_SetConditions now c h) = hPhase h"
  by (simp_all add: conditions_Set_def host_SetConditions_def split: option.splits)

lemma machine_Set_frame [simp]:
  "oLabels (conditions_Set mConditions machine_SetConditions now c m) = oLabels m"
  "oName (conditions_Set mConditions machine_SetConditions now c m) = oName m"
  "oNamespace (conditions_Set mConditions machine_SetConditions now c m) = oNamespace m"
  "oUID (conditions_Set mConditions machine_SetConditions now c m) = oUID m"
  "oFinalizers (conditions_Set mConditions machine_SetConditions now c m) = oFinalizers m"
  "oDeletionTimestamp (conditions_Set mConditions machine_SetConditions now c m) = oDeletionTimestamp m"
  "oAnnotations (conditions_Set mConditions machine_SetConditions now c m) = oAnnotations m"
  "oOwnerReferences (conditions_Set mConditions machine_SetConditions now c m) = oOwnerReferences m"
  "oAPIVersion (conditions_Set mConditions machine_SetConditions now c m) = oAPIVersion m"
  "oKind (conditions_Set mConditions machine_SetConditions now c m) = oKind m"
  "mProviderID (conditions_Set mConditions machine_SetConditions now c m) = mProviderID m"
  "mSelector (conditions_Set mConditions machine_SetConditions now c m) = mSelector m"
  "mHostRef (conditions_Set mConditions machine_SetConditions now c m) = mHostRef m"
  "mOSVersionManagement (conditions_Set mConditions machine_SetConditions now c m) = mOSVersionManagement m"
  "mReady (conditions_Set mConditions machine_SetConditions now c m) = mReady m"
  by (simp_all add: conditions_Set_def machine_SetConditions_def split: option.splits)

lemma cluster_Set_frame [simp]:
  "oName (conditions_Set ecConditions cluster_SetConditions now c m) = oName m"
  "oFinalizers (conditions_Set ecConditions cluster_SetConditions now c m) = oFinalizers m"
  "oDeletionTimestamp (conditions_Set ecConditions cluster_SetConditions now c m) = oDeletionTimestamp m"
  "ecHost (conditions_Set ecConditions cluster_SetConditions now c m) = ecHost m"
  "ecPort (conditions_Set ecConditions cluster_SetConditions now c m) = ecPort m"
  "ecReady (conditions_Set ecConditions cluster_SetConditions now c m) = ecReady m"
  by (simp_all add: conditions_Set_def cluster_SetConditions_def split: option.splits)

lemma SetSummary_frame [simp]:
  "oLabels (host_SetSummary now h) = oLabels h"
  "oFinalizers (host_SetSummary now h) = oFinalizers h"
  "oDeletionTimestamp (host_SetSummary now h) = oDeletionTimestamp h"
  "oName (host_SetSummary now h) = oName h"
  "oNamespace (host_SetSummary now h) = oNamespace h"
  "hBootstrapSecret (host_SetSummary now h) = hBootstrapSecret h"
  "hMachineRef (host_SetSummary now h) = hMachineRef h"
  "hPubKey (host_SetSummary now h) = hPubKey h"
  "hOSVersionManagement (host_SetSummary now h) = hOSVersionManagement h"
  "oFinalizers (machine_SetSummary now m) = oFinalizers m"
  "oName (machine_SetSummary now m) = oName m"
  "oNamespace (machine_SetSummary now m) = oNamespace m"
  "mHostRef (machine_SetSummary now m) = mHostRef m"
  "mProviderID (machine_SetSummary now m) = mProviderID m"
  "mReady (machine_SetSummary now m) = mReady m"
  "ecReady (cluster_SetSummary now ec) = ecReady ec"
  "ecHost (cluster_SetSummary now ec) = ecHost ec"
  by (simp_all add: conditions_SetSummary_def)

section \<open>Label selectors\<close>

text \<open>
  \<^verbatim>\<open>k8s.io/apimachinery/pkg/labels\<close>: requirements with the operators the code can build, their
  validation and what they match. The text of a validation error is not modelled.
\<close>

datatype selectionOperator = OpIn | OpNotIn | OpEquals | OpExists | OpDoesNotExist

record requirement =
  reqKey :: string
  reqOperator :: selectionOperator
  reqValues :: "string list"

definition is_alnum :: "char \<Rightarrow> bool" where
  "is_alnum c \<longleftrightarrow> (CHR ''a'' \<le> c \<and> c \<le> CHR ''z'') \<or> (CHR ''A'' \<le> c \<and> c \<le> CHR ''Z'') \<or>
     (CHR ''0'' \<le> c \<and> c \<le> CHR ''9'')"

text \<open>The regular expression \<^verbatim>\<open>([A-Za-z0-9][-A-Za-z0-9_.]*)?[A-Za-z0-9]\<close>, and its length limit.\<close>

definition is_name_part :: "string \<Rightarrow> bool" where
  "is_name_part s \<longleftrightarrow> s \<noteq> [] \<and> length s \<le> 63 \<and> is_alnum (hd s) \<and> is_alnum (last s) \<and>
     list_all (\<lambda>c. is_alnum c \<or> c \<in> {CHR ''-'', CHR ''_'', CHR ''.''}) s"

definition IsValidLabelValue :: "string \<Rightarrow> bool" where
  "IsValidLabelValue s \<longleftrightarrow> s = [] \<or> is_name_part s"

definition is_dns1123_label :: "string \<Rightarrow> bool" where
  "is_dns1123_label s \<longleftrightarrow> s \<noteq> [] \<and>
     (\<forall>c \<in> {hd s, last s}. is_alnum c \<and> \<not> (CHR ''A'' \<le> c \<and> c \<le> CHR ''Z'')) \<and>
     list_all (\<lambda>c. (is_alnum c \<and> \<not> (CHR ''A'' \<le> c \<and> c \<le> CHR ''Z'')) \<or> c = CHR ''-'') s"

definition IsQualifiedName :: "string \<Rightarrow> bool" where
  "IsQualifiedName s = (case split_on (CHR ''/'') s of
     [n] \<Rightarrow> is_name_part n
   | [p, n] \<Rightarrow> p \<noteq> [] \<and> length p \<le> 253 \<and> list_all is_dns1123_label (split_on (CHR ''.'') p) \<and>
       is_name_part n
   | _ \<Rightarrow> False)"

definition values_ok :: "selectionOperator \<Rightarrow> string list \<Rightarrow> bool" where
  "values_ok op vals = (case op of
     OpIn \<Rightarrow> vals \<noteq> [] | OpNotIn \<Rightarrow> vals \<noteq> []
   | OpEquals \<Rightarrow> length vals = 1
   | OpExists \<Rightarrow> vals = [] | OpDoesNotExist \<Rightarrow> vals = [])"

definition NewRequirement ::
  "string \<Rightarrow> selectionOperator \<Rightarrow> string list \<Rightarrow> goerr + requirement" where
  "NewRequirement k op vals =
     (if IsQualifiedName k \<and> values_ok op vals \<and> list_all IsValidLabelValue vals
      then Inr \<lparr>reqKey = k, reqOperator = op, reqValues = vals\<rparr>
      else Inl (plain_err ''invalid label requirement''))"

fun req_matches :: "requirement \<Rightarrow> string gomap \<Rightarrow> bool" where
  "req_matches r ls = (case reqOperator r of
     OpIn \<Rightarrow> (case gget ls (reqKey r) of None \<Rightarrow> False | Some v \<Rightarrow> v \<in> set (reqValues r))
   | OpEquals \<Rightarrow> (case gget ls (reqKey r) of None \<Rightarrow> False | Some v \<Rightarrow> v \<in> set (reqValues r))
   | OpNotIn \<Rightarrow> (case gget ls (reqKey r) of None \<Rightarrow> True | Some v \<Rightarrow> v \<notin> set (reqValues r))
   | OpExists \<Rightarrow> gget ls (reqKey r) \<noteq> None
   | OpDoesNotExist \<Rightarrow> gget ls (reqKey r) = None)"

type_synonym selector = "requirement list"

definition selector_add :: "requirement list \<Rightarrow> selector \<Rightarrow> selector" where
  "selector_add rs s = sort_by (\<lambda>a b. reqKey a < reqKey b) (s @ rs)"

definition selector_matches :: "selector \<Rightarrow> string gomap \<Rightarrow> bool" where
  "selector_matches s ls \<longleftrightarrow> list_all (\<lambda>r. req_matches r ls) s"

definition selector_operator :: "string \<Rightarrow> goerr + selectionOperator" where
  "selector_operator s =
     (if s = ''In'' then Inr OpIn else if s = ''NotIn'' then Inr OpNotIn
      else if s = ''Exists'' then Inr OpExists else if s = ''DoesNotExist'' then Inr OpDoesNotExist
      else Inl (plain_err ([CHR 0x22] @ s @ [CHR 0x22] @ '' is not a valid label selector operator'')))"

fun label_requirements :: "(string \<times> string) list \<Rightarrow> goerr + requirement list" where
  "label_requirements [] = Inr []"
| "label_requirements ((k, v) # kvs) = (case NewRequirement k OpEquals [v] of
     Inl e \<Rightarrow> Inl e
   | Inr r \<Rightarrow> (case label_requirements kvs of Inl e \<Rightarrow> Inl e | Inr rs \<Rightarrow> Inr (r # rs)))"

fun expression_requirements :: "labelSelectorRequirement list \<Rightarrow> goerr + requirement list" where
  "expression_requirements [] = Inr []"
| "expression_requirements (x # xs) = (case selector_operator (lsrOperator x) of
     Inl e \<Rightarrow> Inl e
   | Inr op \<Rightarrow> (case NewRequirement (lsrKey x) op (lsrValues x) of
       Inl e \<Rightarrow> Inl e
     | Inr r \<Rightarrow> (case expression_requirements xs of Inl e \<Rightarrow> Inl e | Inr rs \<Rightarrow> Inr (r # rs))))"

text \<open>\<^verbatim>\<open>metav1.LabelSelectorAsSelector\<close> of a selector that is not nil.\<close>

definition LabelSelectorAsSelector :: "labelSelector \<Rightarrow> goerr + selector" where
  "LabelSelectorAsSelector ps =
     (if lsMatchLabels ps = [] \<and> lsMatchExpressions ps = [] then Inr []
      else (case label_requirements (lsMatchLabels ps) of
        Inl e \<Rightarrow> Inl e
      | Inr rs \<Rightarrow> (case expression_requirements (lsMatchExpressions ps) of
          Inl e \<Rightarrow> Inl e | Inr rs' \<Rightarrow> Inr (selector_add (rs @ rs') []))))"

lemma selector_matches_add [simp]:
  "selector_matches (selector_add rs s) ls \<longleftrightarrow>
     (\<forall>r \<in> set rs. req_matches r ls) \<and> selector_matches s ls"
  by (auto simp: selector_matches_def selector_add_def list_all_iff)

lemma NewRequirement_Inr:
  "NewRequirement k op vals = Inr r \<Longrightarrow> r = \<lparr>reqKey = k, reqOperator = op, reqValues = vals\<rparr>"
  by (simp add: NewRequirement_def split: if_splits)

lemma qualified_labels [simp]:
  "IsQualifiedName LabelElementalHostInstalled" "IsQualifiedName LabelElementalHostNeedsReset"
  "IsQualifiedName LabelElementalHostMachineName"
  "IsQualifiedName LabelElementalHostElementalMachineName"
  by code_simp+

end
