(* ===== verification/Kube.thy ===== *)
theory Kube
  imports Api_Types
begin

text \<open>
  The environment of the controllers and of the API server: the Kubernetes API (through the
  client and the Cluster API patch helper), the clients of downstream clusters and the source of
  fresh keys. None of it is code of this repository, so it is a parameter: a record of functions
  on a world of any type, each of which may give any answer and change the world in any way
  (other actors included). Every call is an event of the trace, with its arguments and answer.

  A patch is recorded as the pair of the object the helper was made from and the object handed to
  \<^verbatim>\<open>Patch\<close>; the helper sends the difference.
\<close>

record 'w env =
  env_GetElementalHost :: "objectKey \<Rightarrow> 'w \<Rightarrow> (goerr + elementalHost) \<times> 'w"
  env_GetElementalMachine :: "objectKey \<Rightarrow> 'w \<Rightarrow> (goerr + elementalMachine) \<times> 'w"
  env_GetElementalRegistration :: "objectKey \<Rightarrow> 'w \<Rightarrow> (goerr + elementalRegistration) \<times> 'w"
  env_GetElementalCluster :: "objectKey \<Rightarrow> 'w \<Rightarrow> (goerr + elementalCluster) \<times> 'w"
  env_GetCapiMachine :: "objectKey \<Rightarrow> 'w \<Rightarrow> (goerr + capiMachine) \<times> 'w"
  env_GetCapiCluster :: "objectKey \<Rightarrow> 'w \<Rightarrow> (goerr + capiCluster) \<times> 'w"
  env_GetSecret :: "objectKey \<Rightarrow> 'w \<Rightarrow> (goerr + secret) \<times> 'w"
  env_ListElementalHosts :: "string \<Rightarrow> selector \<Rightarrow> 'w \<Rightarrow> (goerr + elementalHost list) \<times> 'w"
  env_ListCapiMachines :: "string \<Rightarrow> ((string \<times> string) list) \<Rightarrow> 'w \<Rightarrow> (goerr + capiMachine list) \<times> 'w"
  env_NewPatchHelper :: "string \<Rightarrow> objectKey \<Rightarrow> 'w \<Rightarrow> (goerr option) \<times> 'w"
  env_PatchElementalHost :: "elementalHost \<Rightarrow> elementalHost \<Rightarrow> 'w \<Rightarrow> (goerr option) \<times> 'w"
  env_PatchElementalMachine :: "elementalMachine \<Rightarrow> elementalMachine \<Rightarrow> 'w \<Rightarrow> (goerr option) \<times> 'w"
  env_PatchElementalRegistration :: "elementalRegistration \<Rightarrow> elementalRegistration \<Rightarrow> 'w \<Rightarrow> (goerr option) \<times> 'w"
  env_PatchElementalCluster :: "elementalCluster \<Rightarrow> elementalCluster \<Rightarrow> 'w \<Rightarrow> (goerr option) \<times> 'w"
  env_CreateElementalHost :: "elementalHost \<Rightarrow> 'w \<Rightarrow> (goerr option) \<times> 'w"
  env_CreateSecret :: "secret \<Rightarrow> 'w \<Rightarrow> (goerr + secret) \<times> 'w"
  env_DeleteElementalHost :: "objectKey \<Rightarrow> 'w \<Rightarrow> (goerr option) \<times> 'w"
  env_RemoteGetClient :: "objectKey \<Rightarrow> 'w \<Rightarrow> (goerr option) \<times> 'w"
  env_RemoteGetNode :: "objectKey \<Rightarrow> string \<Rightarrow> 'w \<Rightarrow> (goerr + node) \<times> 'w"
  env_RemotePatchNode :: "objectKey \<Rightarrow> node \<Rightarrow> node \<Rightarrow> 'w \<Rightarrow> (goerr option) \<times> 'w"
  env_GenerateKey :: "'w \<Rightarrow> (goerr + string) \<times> 'w"

datatype event =
    EvGetElementalHost "objectKey" "goerr + elementalHost"
  | EvGetElementalMachine "objectKey" "goerr + elementalMachine"
  | EvGetElementalRegistration "objectKey" "goerr + elementalRegistration"
  | EvGetElementalCluster "objectKey" "goerr + elementalCluster"
  | EvGetCapiMachine "objectKey" "goerr + capiMachine"
  | EvGetCapiCluster "objectKey" "goerr + capiCluster"
  | EvGetSecret "objectKey" "goerr + secret"
  | EvListElementalHosts "string" "selector" "goerr + elementalHost list"
  | EvListCapiMachines "string" "(string \<times> string) list" "goerr + capiMachine list"
  | EvNewPatchHelper "string" "objectKey" "goerr option"
  | EvPatchElementalHost "elementalHost" "elementalHost" "goerr option"
  | EvPatchElementalMachine "elementalMachine" "elementalMachine" "goerr option"
  | EvPatchElementalRegistration "elementalRegistration" "elementalRegistration" "goerr option"
  | EvPatchElementalCluster "elementalCluster" "elementalCluster" "goerr option"
  | EvCreateElementalHost "elementalHost" "goerr option"
  | EvCreateSecret "secret" "goerr + secret"
  | EvDeleteElementalHost "objectKey" "goerr option"
  | EvRemoteGetClient "objectKey" "goerr option"
  | EvRemoteGetNode "objectKey" "string" "goerr + node"
  | EvRemotePatchNode "objectKey" "node" "node" "goerr option"
  | EvGenerateKey "goerr + string"

text \<open>The events that change the state of a cluster.\<close>

fun is_write :: "event \<Rightarrow> bool" where
  "is_write (EvPatchElementalHost _ _ _) = True"
| "is_write (EvPatchElementalMachine _ _ _) = True"
| "is_write (EvPatchElementalRegistration _ _ _) = True"
| "is_write (EvPatchElementalCluster _ _ _) = True"
| "is_write (EvCreateElementalHost _ _) = True"
| "is_write (EvCreateSecret _ _) = True"
| "is_write (EvDeleteElementalHost _ _) = True"
| "is_write (EvRemotePatchNode _ _ _ _) = True"
| "is_write _ = False"

abbreviation writes :: "event list \<Rightarrow> event list" where
  "writes \<equiv> filter is_write"

text \<open>The error a call answered, if any.\<close>

primrec ev_error :: "event \<Rightarrow> goerr option" where
  "ev_error (EvGetElementalHost x0 r) = (case r of Inl e \<Rightarrow> Some e | Inr _ \<Rightarrow> None)"
| "ev_error (EvGetElementalMachine x0 r) = (case r of Inl e \<Rightarrow> Some e | Inr _ \<Rightarrow> None)"
| "ev_error (EvGetElementalRegistration x0 r) = (case r of Inl e \<Rightarrow> Some e | Inr _ \<Rightarrow> None)"
| "ev_error (EvGetElementalCluster x0 r) = (case r of Inl e \<Rightarrow> Some e | Inr _ \<Rightarrow> None)"
| "ev_error (EvGetCapiMachine x0 r) = (case r of Inl e \<Rightarrow> Some e | Inr _ \<Rightarrow> None)"
| "ev_error (EvGetCapiCluster x0 r) = (case r of Inl e \<Rightarrow> Some e | Inr _ \<Rightarrow> None)"
| "ev_error (EvGetSecret x0 r) = (case r of Inl e \<Rightarrow> Some e | Inr _ \<Rightarrow> None)"
| "ev_error (EvListElementalHosts x0 x1 r) = (case r of Inl e \<Rightarrow> Some e | Inr _ \<Rightarrow> None)"
| "ev_error (EvListCapiMachines x0 x1 r) = (case r of Inl e \<Rightarrow> Some e | Inr _ \<Rightarrow> None)"
| "ev_error (EvNewPatchHelper x0 x1 r) = r"
| "ev_error (EvPatchElementalHost x0 x1 r) = r"
| "ev_error (EvPatchElementalMachine x0 x1 r) = r"
| "ev_error (EvPatchElementalRegistration x0 x1 r) = r"
| "ev_error (EvPatchElementalCluster x0 x1 r) = r"
| "ev_error (EvCreateElementalHost x0 r) = r"
| "ev_error (EvCreateSecret x0 r) = (case r of Inl e \<Rightarrow> Some e | Inr _ \<Rightarrow> None)"
| "ev_error (EvDeleteElementalHost x0 r) = r"
| "ev_error (EvRemoteGetClient x0 r) = r"
| "ev_error (EvRemoteGetNode x0 x1 r) = (case r of Inl e \<Rightarrow> Some e | Inr _ \<Rightarrow> None)"
| "ev_error (EvRemotePatchNode x0 x1 x2 r) = r"
| "ev_error (EvGenerateKey r) = (case r of Inl e \<Rightarrow> Some e | Inr _ \<Rightarrow> None)"

section \<open>The calls\<close>

definition kGetElementalHost :: "'w env \<Rightarrow> objectKey \<Rightarrow> ('w, event, goerr + elementalHost) prog" where
  "kGetElementalHost E x0 = ask (env_GetElementalHost E x0) (EvGetElementalHost x0)"

definition kGetElementalMachine :: "'w env \<Rightarrow> objectKey \<Rightarrow> ('w, event, goerr + elementalMachine) prog" where
  "kGetElementalMachine E x0 = ask (env_GetElementalMachine E x0) (EvGetElementalMachine x0)"

definition kGetElementalRegistration :: "'w env \<Rightarrow> objectKey \<Rightarrow> ('w, event, goerr + elementalRegistration) prog" where
  "kGetElementalRegistration E x0 = ask (env_GetElementalRegistration E x0) (EvGetElementalRegistration x0)"

definition kGetElementalCluster :: "'w env \<Rightarrow> objectKey \<Rightarrow> ('w, event, goerr + elementalCluster) prog" where
  "kGetElementalCluster E x0 = ask (env_GetElementalCluster E x0) (EvGetElementalCluster x0)"

definition kGetCapiMachine :: "'w env \<Rightarrow> objectKey \<Rightarrow> ('w, event, goerr + capiMachine) prog" where
  "kGetCapiMachine E x0 = ask (env_GetCapiMachine E x0) (EvGetCapiMachine x0)"

definition kGetCapiCluster :: "'w env \<Rightarrow> objectKey \<Rightarrow> ('w, event, goerr + capiCluster) prog" where
  "kGetCapiCluster E x0 = ask (env_GetCapiCluster E x0) (EvGetCapiCluster x0)"

definition kGetSecret :: "'w env \<Rightarrow> objectKey \<Rightarrow> ('w, event, goerr + secret) prog" where
  "kGetSecret E x0 = ask (env_GetSecret E x0) (EvGetSecret x0)"

definition kListElementalHosts :: "'w env \<Rightarrow> string \<Rightarrow> selector \<Rightarrow> ('w, event, goerr + elementalHost list) prog" where
  "kListElementalHosts E x0 x1 = ask (env_ListElementalHosts E x0 x1) (EvListElementalHosts x0 x1)"

definition kListCapiMachines :: "'w env \<Rightarrow> string \<Rightarrow> ((string \<times> string) list) \<Rightarrow> ('w, event, goerr + capiMachine list) prog" where
  "kListCapiMachines E x0 x1 = ask (env_ListCapiMachines E x0 x1) (EvListCapiMachines x0 x1)"

definition kNewPatchHelper :: "'w env \<Rightarrow> string \<Rightarrow> objectKey \<Rightarrow> ('w, event, goerr option) prog" where
  "kNewPatchHelper E x0 x1 = ask (env_NewPatchHelper E x0 x1) (EvNewPatchHelper x0 x1)"

definition kPatchElementalHost :: "'w env \<Rightarrow> elementalHost \<Rightarrow> elementalHost \<Rightarrow> ('w, event, goerr option) prog" where
  "kPatchElementalHost E x0 x1 = ask (env_PatchElementalHost E x0 x1) (EvPatchElementalHost x0 x1)"

definition kPatchElementalMachine :: "'w env \<Rightarrow> elementalMachine \<Rightarrow> elementalMachine \<Rightarrow> ('w, event, goerr option) prog" where
  "kPatchElementalMachine E x0 x1 = ask (env_PatchElementalMachine E x0 x1) (EvPatchElementalMachine x0 x1)"

definition kPatchElementalRegistration :: "'w env \<Rightarrow> elementalRegistration \<Rightarrow> elementalRegistration \<Rightarrow> ('w, event, goerr option) prog" where
  "kPatchElementalRegistration E x0 x1 = ask (env_PatchElementalRegistration E x0 x1) (EvPatchElementalRegistration x0 x1)"

definition kPatchElementalCluster :: "'w env \<Rightarrow> elementalCluster \<Rightarrow> elementalCluster \<Rightarrow> ('w, event, goerr option) prog" where
  "kPatchElementalCluster E x0 x1 = ask (env_PatchElementalCluster E x0 x1) (EvPatchElementalCluster x0 x1)"

definition kCreateElementalHost :: "'w env \<Rightarrow> elementalHost \<Rightarrow> ('w, event, goerr option) prog" where
  "kCreateElementalHost E x0 = ask (env_CreateElementalHost E x0) (EvCreateElementalHost x0)"

definition kCreateSecret :: "'w env \<Rightarrow> secret \<Rightarrow> ('w, event, goerr + secret) prog" where
  "kCreateSecret E x0 = ask (env_CreateSecret E x0) (EvCreateSecret x0)"

definition kDeleteElementalHost :: "'w env \<Rightarrow> objectKey \<Rightarrow> ('w, event, goerr option) prog" where
  "kDeleteElementalHost E x0 = ask (env_DeleteElementalHost E x0) (EvDeleteElementalHost x0)"

definition kRemoteGetClient :: "'w env \<Rightarrow> objectKey \<Rightarrow> ('w, event, goerr option) prog" where
  "kRemoteGetClient E x0 = ask (env_RemoteGetClient E x0) (EvRemoteGetClient x0)"

definition kRemoteGetNode :: "'w env \<Rightarrow> objectKey \<Rightarrow> string \<Rightarrow> ('w, event, goerr + node) prog" where
  "kRemoteGetNode E x0 x1 = ask (env_RemoteGetNode E x0 x1) (EvRemoteGetNode x0 x1)"

definition kRemotePatchNode :: "'w env \<Rightarrow> objectKey \<Rightarrow> node \<Rightarrow> node \<Rightarrow> ('w, event, goerr option) prog" where
  "kRemotePatchNode E x0 x1 x2 = ask (env_RemotePatchNode E x0 x1 x2) (EvRemotePatchNode x0 x1 x2)"

definition kGenerateKey :: "'w env \<Rightarrow> ('w, event, goerr + string) prog" where
  "kGenerateKey E = ask (env_GenerateKey E) (EvGenerateKey)"

section \<open>Their rules\<close>

lemma wp_kGetElementalHost [wp_intros]: "(\<And>r. Q r [EvGetElementalHost x0 r]) \<Longrightarrow> wp (kGetElementalHost E x0) Q"
  by (simp add: kGetElementalHost_def wp_ask_any)

lemma run_kGetElementalHost [simp]: "run_state (kGetElementalHost E x0) (w, l) =
    (fst (env_GetElementalHost E x0 w), (snd (env_GetElementalHost E x0 w), l @ [EvGetElementalHost x0 (fst (env_GetElementalHost E x0 w))]))"
  by (simp add: kGetElementalHost_def)

lemma wp_kGetElementalMachine [wp_intros]: "(\<And>r. Q r [EvGetElementalMachine x0 r]) \<Longrightarrow> wp (kGetElementalMachine E x0) Q"
  by (simp add: kGetElementalMachine_def wp_ask_any)

lemma run_kGetElementalMachine [simp]: "run_state (kGetElementalMachine E x0) (w, l) =
    (fst (env_GetElementalMachine E x0 w), (snd (env_GetElementalMachine E x0 w), l @ [EvGetElementalMachine x0 (fst (env_GetElementalMachine E x0 w))]))"
  by (simp add: kGetElementalMachine_def)

lemma wp_kGetElementalRegistration [wp_intros]: "(\<And>r. Q r [EvGetElementalRegistration x0 r]) \<Longrightarrow> wp (kGetElementalRegistration E x0) Q"
  by (simp add: kGetElementalRegistration_def wp_ask_any)

lemma run_kGetElementalRegistration [simp]: "run_state (kGetElementalRegistration E x0) (w, l) =
    (fst (env_GetElementalRegistration E x0 w), (snd (env_GetElementalRegistration E x0 w), l @ [EvGetElementalRegistration x0 (fst (env_GetElementalRegistration E x0 w))]))"
  by (simp add: kGetElementalRegistration_def)

lemma wp_kGetElementalCluster [wp_intros]: "(\<And>r. Q r [EvGetElementalCluster x0 r]) \<Longrightarrow> wp (kGetElementalCluster E x0) Q"
  by (simp add: kGetElementalCluster_def wp_ask_any)

lemma run_kGetElementalCluster [simp]: "run_state (kGetElementalCluster E x0) (w, l) =
    (fst (env_GetElementalCluster E x0 w), (snd (env_GetElementalCluster E x0 w), l @ [EvGetElementalCluster x0 (fst (env_GetElementalCluster E x0 w))]))"
  by (simp add: kGetElementalCluster_def)

lemma wp_kGetCapiMachine [wp_intros]: "(\<And>r. Q r [EvGetCapiMachine x0 r]) \<Longrightarrow> wp (kGetCapiMachine E x0) Q"
  by (simp add: kGetCapiMachine_def wp_ask_any)

lemma run_kGetCapiMachine [simp]: "run_state (kGetCapiMachine E x0) (w, l) =
    (fst (env_GetCapiMachine E x0 w), (snd (env_GetCapiMachine E x0 w), l @ [EvGetCapiMachine x0 (fst (env_GetCapiMachine E x0 w))]))"
  by (simp add: kGetCapiMachine_def)

lemma wp_kGetCapiCluster [wp_intros]: "(\<And>r. Q r [EvGetCapiCluster x0 r]) \<Longrightarrow> wp (kGetCapiCluster E x0) Q"
  by (simp add: kGetCapiCluster_def wp_ask_any)

lemma run_kGetCapiCluster [simp]: "run_state (kGetCapiCluster E x0) (w, l) =
    (fst (env_GetCapiCluster E x0 w), (snd (env_GetCapiCluster E x0 w), l @ [EvGetCapiCluster x0 (fst (env_GetCapiCluster E x0 w))]))"
  by (simp add: kGetCapiCluster_def)

lemma wp_kGetSecret [wp_intros]: "(\<And>r. Q r [EvGetSecret x0 r]) \<Longrightarrow> wp (kGetSecret E x0) Q"
  by (simp add: kGetSecret_def wp_ask_any)

lemma run_kGetSecret [simp]: "run_state (kGetSecret E x0) (w, l) =
    (fst (env_GetSecret E x0 w), (snd (env_GetSecret E x0 w), l @ [EvGetSecret x0 (fst (env_GetSecret E x0 w))]))"
  by (simp add: kGetSecret_def)

lemma wp_kListElementalHosts: "(\<And>r. Q r [EvListElementalHosts x0 x1 r]) \<Longrightarrow> wp (kListElementalHosts E x0 x1) Q"
  by (simp add: kListElementalHosts_def wp_ask_any)

lemma run_kListElementalHosts [simp]: "run_state (kListElementalHosts E x0 x1) (w, l) =
    (fst (env_ListElementalHosts E x0 x1 w), (snd (env_ListElementalHosts E x0 x1 w), l @ [EvListElementalHosts x0 x1 (fst (env_ListElementalHosts E x0 x1 w))]))"
  by (simp add: kListElementalHosts_def)

lemma wp_kListCapiMachines [wp_intros]: "(\<And>r. Q r [EvListCapiMachines x0 x1 r]) \<Longrightarrow> wp (kListCapiMachines E x0 x1) Q"
  by (simp add: kListCapiMachines_def wp_ask_any)

lemma run_kListCapiMachines [simp]: "run_state (kListCapiMachines E x0 x1) (w, l) =
    (fst (env_ListCapiMachines E x0 x1 w), (snd (env_ListCapiMachines E x0 x1 w), l @ [EvListCapiMachines x0 x1 (fst (env_ListCapiMachines E x0 x1 w))]))"
  by (simp add: kListCapiMachines_def)

lemma wp_kNewPatchHelper [wp_intros]: "(\<And>r. Q r [EvNewPatchHelper x0 x1 r]) \<Longrightarrow> wp (kNewPatchHelper E x0 x1) Q"
  by (simp add: kNewPatchHelper_def wp_ask_any)

lemma run_kNewPatchHelper [simp]: "run_state (kNewPatchHelper E x0 x1) (w, l) =
    (fst (env_NewPatchHelper E x0 x1 w), (snd (env_NewPatchHelper E x0 x1 w), l @ [EvNewPatchHelper x0 x1 (fst (env_NewPatchHelper E x0 x1 w))]))"
  by (simp add: kNewPatchHelper_def)

lemma wp_kPatchElementalHost [wp_intros]: "(\<And>r. Q r [EvPatchElementalHost x0 x1 r]) \<Longrightarrow> wp (kPatchElementalHost E x0 x1) Q"
  by (simp add: kPatchElementalHost_def wp_ask_any)

lemma run_kPatchElementalHost [simp]: "run_state (kPatchElementalHost E x0 x1) (w, l) =
    (fst (env_PatchElementalHost E x0 x1 w), (snd (env_PatchElementalHost E x0 x1 w), l @ [EvPatchElementalHost x0 x1 (fst (env_PatchElementalHost E x0 x1 w))]))"
  by (simp add: kPatchElementalHost_def)

lemma wp_kPatchElementalMachine [wp_intros]: "(\<And>r. Q r [EvPatchElementalMachine x0 x1 r]) \<Longrightarrow> wp (kPatchElementalMachine E x0 x1) Q"
  by (simp add: kPatchElementalMachine_def wp_ask_any)

lemma run_kPatchElementalMachine [simp]: "run_state (kPatchElementalMachine E x0 x1) (w, l) =
    (fst (env_PatchElementalMachine E x0 x1 w), (snd (env_PatchElementalMachine E x0 x1 w), l @ [EvPatchElementalMachine x0 x1 (fst (env_PatchElementalMachine E x0 x1 w))]))"
  by (simp add: kPatchElementalMachine_def)

lemma wp_kPatchElementalRegistration [wp_intros]: "(\<And>r. Q r [EvPatchElementalRegistration x0 x1 r]) \<Longrightarrow> wp (kPatchElementalRegistration E x0 x1) Q"
  by (simp add: kPatchElementalRegistration_def wp_ask_any)

lemma run_kPatchElementalRegistration [simp]: "run_state (kPatchElementalRegistration E x0 x1) (w, l) =
    (fst (env_PatchElementalRegistration E x0 x1 w), (snd (env_PatchElementalRegistration E x0 x1 w), l @ [EvPatchElementalRegistration x0 x1 (fst (env_PatchElementalRegistration E x0 x1 w))]))"
  by (simp add: kPatchElementalRegistration_def)

lemma wp_kPatchElementalCluster [wp_intros]: "(\<And>r. Q r [EvPatchElementalCluster x0 x1 r]) \<Longrightarrow> wp (kPatchElementalCluster E x0 x1) Q"
  by (simp add: kPatchElementalCluster_def wp_ask_any)

lemma run_kPatchElementalCluster [simp]: "run_state (kPatchElementalCluster E x0 x1) (w, l) =
    (fst (env_PatchElementalCluster E x0 x1 w), (snd (env_PatchElementalCluster E x0 x1 w), l @ [EvPatchElementalCluster x0 x1 (fst (env_PatchElementalCluster E x0 x1 w))]))"
  by (simp add: kPatchElementalCluster_def)

lemma wp_kCreateElementalHost [wp_intros]: "(\<And>r. Q r [EvCreateElementalHost x0 r]) \<Longrightarrow> wp (kCreateElementalHost E x0) Q"
  by (simp add: kCreateElementalHost_def wp_ask_any)

lemma run_kCreateElementalHost [simp]: "run_state (kCreateElementalHost E x0) (w, l) =
    (fst (env_CreateElementalHost E x0 w), (snd (env_CreateElementalHost E x0 w), l @ [EvCreateElementalHost x0 (fst (env_CreateElementalHost E x0 w))]))"
  by (simp add: kCreateElementalHost_def)

lemma wp_kCreateSecret [wp_intros]: "(\<And>r. Q r [EvCreateSecret x0 r]) \<Longrightarrow> wp (kCreateSecret E x0) Q"
  by (simp add: kCreateSecret_def wp_ask_any)

lemma run_kCreateSecret [simp]: "run_state (kCreateSecret E x0) (w, l) =
    (fst (env_CreateSecret E x0 w), (snd (env_CreateSecret E x0 w), l @ [EvCreateSecret x0 (fst (env_CreateSecret E x0 w))]))"
  by (simp add: kCreateSecret_def)

lemma wp_kDeleteElementalHost [wp_intros]: "(\<And>r. Q r [EvDeleteElementalHost x0 r]) \<Longrightarrow> wp (kDeleteElementalHost E x0) Q"
  by (simp add: kDeleteElementalHost_def wp_ask_any)

lemma run_kDeleteElementalHost [simp]: "run_state (kDeleteElementalHost E x0) (w, l) =
    (fst (env_DeleteElementalHost E x0 w), (snd (env_DeleteElementalHost E x0 w), l @ [EvDeleteElementalHost x0 (fst (env_DeleteElementalHost E x0 w))]))"
  by (simp add: kDeleteElementalHost_def)

lemma wp_kRemoteGetClient [wp_intros]: "(\<And>r. Q r [EvRemoteGetClient x0 r]) \<Longrightarrow> wp (kRemoteGetClient E x0) Q"
  by (simp add: kRemoteGetClient_def wp_ask_any)

lemma run_kRemoteGetClient [simp]: "run_state (kRemoteGetClient E x0) (w, l) =
    (fst (env_RemoteGetClient E x0 w), (snd (env_RemoteGetClient E x0 w), l @ [EvRemoteGetClient x0 (fst (env_RemoteGetClient E x0 w))]))"
  by (simp add: kRemoteGetClient_def)

lemma wp_kRemoteGetNode [wp_intros]: "(\<And>r. Q r [EvRemoteGetNode x0 x1 r]) \<Longrightarrow> wp (kRemoteGetNode E x0 x1) Q"
  by (simp add: kRemoteGetNode_def wp_ask_any)

lemma run_kRemoteGetNode [simp]: "run_state (kRemoteGetNode E x0 x1) (w, l) =
    (fst (env_RemoteGetNode E x0 x1 w), (snd (env_RemoteGetNode E x0 x1 w), l @ [EvRemoteGetNode x0 x1 (fst (env_RemoteGetNode E x0 x1 w))]))"
  by (simp add: kRemoteGetNode_def)

lemma wp_kRemotePatchNode [wp_intros]: "(\<And>r. Q r [EvRemotePatchNode x0 x1 x2 r]) \<Longrightarrow> wp (kRemotePatchNode E x0 x1 x2) Q"
  by (simp add: kRemotePatchNode_def wp_ask_any)

lemma run_kRemotePatchNode [simp]: "run_state (kRemotePatchNode E x0 x1 x2) (w, l) =
    (fst (env_RemotePatchNode E x0 x1 x2 w), (snd (env_RemotePatchNode E x0 x1 x2 w), l @ [EvRemotePatchNode x0 x1 x2 (fst (env_RemotePatchNode E x0 x1 x2 w))]))"
  by (simp add: kRemotePatchNode_def)

lemma wp_kGenerateKey [wp_intros]: "(\<And>r. Q r [EvGenerateKey r]) \<Longrightarrow> wp (kGenerateKey E) Q"
  by (simp add: kGenerateKey_def wp_ask_any)

lemma run_kGenerateKey [simp]: "run_state (kGenerateKey E) (w, l) =
    (fst (env_GenerateKey E w), (snd (env_GenerateKey E w), l @ [EvGenerateKey (fst (env_GenerateKey E w))]))"
  by (simp add: kGenerateKey_def)

section \<open>What the API documents\<close>

text \<open>
  Listing with a selector returns objects of the asked namespace whose labels match. Only the
  statements that need it assume this of the environment.
\<close>

definition lists_honour_selectors :: "'w env \<Rightarrow> bool" where
  "lists_honour_selectors E \<longleftrightarrow> (\<forall>ns sel w hs. fst (env_ListElementalHosts E ns sel w) = Inr hs \<longrightarrow>
     (\<forall>h \<in> set hs. oNamespace h = ns \<and> selector_matches sel (oLabels h)))"

lemma wp_kListElementalHosts_ok:
  assumes "lists_honour_selectors E"
    and "\<And>r. (\<forall>hs. r = Inr hs \<longrightarrow> (\<forall>h \<in> set hs.
            oNamespace h = ns \<and> selector_matches sel (oLabels h))) \<Longrightarrow> Q r [EvListElementalHosts ns sel r]"
  shows "wp (kListElementalHosts E ns sel) Q"
  unfolding kListElementalHosts_def
proof (rule wp_ask, rule assms(2))
  fix w
  from assms(1) show "\<forall>hs. fst (env_ListElementalHosts E ns sel w) = Inr hs \<longrightarrow>
      (\<forall>h \<in> set hs. oNamespace h = ns \<and> selector_matches sel (oLabels h))"
    unfolding lists_honour_selectors_def by blast
qed

end
