(* ===== verification/Controller_Common.thy ===== *)
theory Controller_Common
  imports Kube
begin

text \<open>
  What the reconcilers share (\<^verbatim>\<open>internal/controller/common.go\<close> and controller-runtime): results,
  the objects a watch hands to an enqueue function, the owner lookups of
  \<^verbatim>\<open>sigs.k8s.io/cluster-api/util\<close>.
\<close>

text \<open>\<^verbatim>\<open>(ctrl.Result, error)\<close>: the requeue delay in nanoseconds and the error, if any.\<close>

type_synonym reconcileResult = "int \<times> goerr option"

definition DefaultRequeuePeriod :: int where
  "DefaultRequeuePeriod = 10 * 1000000000"

text \<open>An object of a watch; \<open>ObjOther\<close> is any type the enqueue functions do not handle.\<close>

datatype clientObject =
    ObjElementalHost elementalHost
  | ObjElementalMachine elementalMachine
  | ObjElementalCluster elementalCluster
  | ObjElementalRegistration elementalRegistration
  | ObjElementalClusterTemplate objectMeta
  | ObjElementalMachineTemplate objectMeta
  | ObjCapiMachine capiMachine
  | ObjCapiCluster capiCluster
  | ObjOther objectMeta

text \<open>
  \<^verbatim>\<open>schema.ParseGroupVersion\<close>: the group of an API version, an error for more than one slash.
\<close>

definition ParseGroup :: "string \<Rightarrow> goerr + string" where
  "ParseGroup s = (if s = [] \<or> s = ''/'' then Inr []
     else (case split_on (CHR ''/'') s of
       [v] \<Rightarrow> Inr []
     | [g, v] \<Rightarrow> Inr g
     | _ \<Rightarrow> Inl (plain_err (''unexpected GroupVersion string: '' @ s))))"

text \<open>\<^verbatim>\<open>GetOwnerMachine\<close> and \<^verbatim>\<open>GetOwnerCluster\<close>: the first owner of the right kind and group.\<close>

fun find_owner_machine :: "ownerReference list \<Rightarrow> goerr + string option" where
  "find_owner_machine [] = Inr None"
| "find_owner_machine (r # rs) = (case ParseGroup (owAPIVersion r) of
     Inl e \<Rightarrow> Inl e
   | Inr g \<Rightarrow> (if owKind r = ''Machine'' \<and> g = capiGroup then Inr (Some (owName r))
               else find_owner_machine rs))"

fun find_owner_cluster :: "ownerReference list \<Rightarrow> goerr + string option" where
  "find_owner_cluster [] = Inr None"
| "find_owner_cluster (r # rs) =
     (if owKind r \<noteq> ''Cluster'' then find_owner_cluster rs
      else (case ParseGroup (owAPIVersion r) of
        Inl e \<Rightarrow> Inl e
      | Inr g \<Rightarrow> (if g = capiGroup then Inr (Some (owName r)) else find_owner_cluster rs)))"

definition GetOwnerMachine ::
  "'w env \<Rightarrow> 'a objectMeta_scheme \<Rightarrow> ('w, event, goerr + capiMachine option) prog" where
  "GetOwnerMachine E obj = (case find_owner_machine (oOwnerReferences obj) of
     Inl e \<Rightarrow> ret (Inl e)
   | Inr None \<Rightarrow> ret (Inr None)
   | Inr (Some n) \<Rightarrow> do {
       r \<leftarrow> kGetCapiMachine E \<lparr>keyNamespace = oNamespace obj, keyName = n\<rparr>;
       (case r of Inl e \<Rightarrow> ret (Inl e) | Inr m \<Rightarrow> ret (Inr (Some m)))
     })"

definition GetClusterByName ::
  "'w env \<Rightarrow> string \<Rightarrow> string \<Rightarrow> ('w, event, goerr + capiCluster option) prog" where
  "GetClusterByName E ns n = do {
     r \<leftarrow> kGetCapiCluster E \<lparr>keyNamespace = ns, keyName = n\<rparr>;
     (case r of Inl e \<Rightarrow> ret (Inl (wrapf (''failed to get Cluster/'' @ n) e))
      | Inr c \<Rightarrow> ret (Inr (Some c)))
   }"

definition GetOwnerCluster ::
  "'w env \<Rightarrow> 'a objectMeta_scheme \<Rightarrow> ('w, event, goerr + capiCluster option) prog" where
  "GetOwnerCluster E obj = (case find_owner_cluster (oOwnerReferences obj) of
     Inl e \<Rightarrow> ret (Inl e)
   | Inr None \<Rightarrow> ret (Inr None)
   | Inr (Some n) \<Rightarrow> GetClusterByName E (oNamespace obj) n)"

definition GetClusterFromMetadata ::
  "'w env \<Rightarrow> 'a objectMeta_scheme \<Rightarrow> ('w, event, goerr + capiCluster option) prog" where
  "GetClusterFromMetadata E obj =
     (let n = (case gget (oLabels obj) ClusterNameLabel of None \<Rightarrow> [] | Some v \<Rightarrow> v)
      in if n = []
         then ret (Inl (new_err ErrNoCluster
           (''no '' @ [CHR 0x22] @ ClusterNameLabel @ [CHR 0x22] @ '' label present'')))
         else GetClusterByName E (oNamespace obj) n)"

lemma wp_case_inr_option [wp_intros]:
  "(\<And>e. x = Inl e \<Longrightarrow> wp (f e) Q) \<Longrightarrow> (x = Inr None \<Longrightarrow> wp m Q) \<Longrightarrow>
   (\<And>y. x = Inr (Some y) \<Longrightarrow> wp (g y) Q) \<Longrightarrow>
   wp (case x of Inl e \<Rightarrow> f e | Inr None \<Rightarrow> m | Inr (Some y) \<Rightarrow> g y) Q"
  by (auto split: sum.splits option.splits)

text \<open>
  The lookups only read owners and clusters; what they return was read, and an error they met is
  their result.
\<close>

fun lookup_event :: "event \<Rightarrow> bool" where
  "lookup_event (EvGetCapiMachine _ _) = True"
| "lookup_event (EvGetCapiCluster _ _) = True"
| "lookup_event _ = False"

definition looked_up :: "('o \<Rightarrow> event) \<Rightarrow> goerr + 'o option \<Rightarrow> event list \<Rightarrow> bool" where
  "looked_up ev r l \<longleftrightarrow> list_all lookup_event l \<and>
     ((\<exists>ev \<in> set l. ev_error ev \<noteq> None) \<longrightarrow> (\<exists>e. r = Inl e)) \<and>
     (\<forall>x. r = Inr (Some x) \<longrightarrow> ev x \<in> set l)"

lemma lookup_no_write: "lookup_event ev \<Longrightarrow> \<not> is_write ev"
  by (cases ev) simp_all

lemma wp_GetOwnerMachine:
  "wp (GetOwnerMachine E obj) (\<lambda>r l. \<exists>k. looked_up (\<lambda>m. EvGetCapiMachine k (Inr m)) r l)"
  unfolding GetOwnerMachine_def looked_up_def by (intro wp_intros) auto

lemma wp_GetClusterByName:
  "wp (GetClusterByName E ns n) (\<lambda>r l. \<exists>k. looked_up (\<lambda>m. EvGetCapiCluster k (Inr m)) r l)"
  unfolding GetClusterByName_def looked_up_def by (intro wp_intros) auto

lemma wp_GetOwnerCluster:
  "wp (GetOwnerCluster E obj) (\<lambda>r l. \<exists>k. looked_up (\<lambda>m. EvGetCapiCluster k (Inr m)) r l)"
  unfolding GetOwnerCluster_def
  by (intro wp_intros wp_GetClusterByName) (auto simp: looked_up_def)

lemma wp_GetClusterFromMetadata:
  "wp (GetClusterFromMetadata E obj) (\<lambda>r l. \<exists>k. looked_up (\<lambda>m. EvGetCapiCluster k (Inr m)) r l)"
  unfolding GetClusterFromMetadata_def
  by (intro wp_intros wp_GetClusterByName) (auto simp: looked_up_def)

lemma writes_lookups [simp]: "list_all lookup_event l \<Longrightarrow> writes l = []"
  by (auto simp: list_all_iff lookup_no_write)

lemma writes_none [simp]: "\<forall>ev \<in> set l. \<not> is_write ev \<Longrightarrow> writes l = []"
  by simp

section \<open>The shape of a reconciliation\<close>

text \<open>
  The four reconcilers have one shape: read the object, make a patch helper of it, run a body,
  patch in a deferred function, whatever the body returned. So a run stops at the read, at the
  helper, or ends with the patch. \<open>R\<close> relates the result of the body, the object read,
  the events of the body and the object patched. A missing object is no error; every other failure
  of the read, the helper, the body or the patch is the run's error.
\<close>

definition reconciles_once ::
  "(goerr + 'o \<Rightarrow> event) \<Rightarrow> ('o \<Rightarrow> goerr option \<Rightarrow> event) \<Rightarrow> ('o \<Rightarrow> 'o \<Rightarrow> goerr option \<Rightarrow> event) \<Rightarrow>
    (reconcileResult \<Rightarrow> 'o \<Rightarrow> event list \<Rightarrow> 'o \<Rightarrow> bool) \<Rightarrow> reconcileResult \<Rightarrow> event list \<Rightarrow> bool"
where
  "reconciles_once got helper patched R res l \<longleftrightarrow>
     (\<exists>e. l = [got (Inl e)] \<and> fst res = 0 \<and> (snd res = None \<longleftrightarrow> err_is e StatusNotFound)) \<or>
     (\<exists>obj e. l = [got (Inr obj), helper obj (Some e)] \<and> fst res = 0 \<and> snd res \<noteq> None) \<or>
     (\<exists>res0 before body after r. l = got (Inr before) # helper before None # body @ [patched before after r] \<and>
        R res0 before body after \<and> fst res = fst res0 \<and> (snd res = None \<longleftrightarrow> snd res0 = None \<and> r = None))"

lemma reconciles_once_get:
  "(snd res = None \<longleftrightarrow> err_is e StatusNotFound) \<Longrightarrow> fst res = 0 \<Longrightarrow>
   reconciles_once got helper patched R res [got (Inl e)]"
  unfolding reconciles_once_def by (rule disjI1, rule exI [of _ e]) simp

lemma reconciles_once_helper:
  "snd res \<noteq> None \<Longrightarrow> fst res = 0 \<Longrightarrow>
   reconciles_once got helper patched R res [got (Inr obj), helper obj (Some e)]"
  unfolding reconciles_once_def by (rule disjI2, rule disjI1, rule exI [of _ obj], rule exI [of _ e]) simp

lemma reconciles_once_patch:
  "R res0 before body after \<Longrightarrow> fst res = fst res0 \<Longrightarrow>
   (snd res = None \<longleftrightarrow> snd res0 = None \<and> r = None) \<Longrightarrow>
   reconciles_once got helper patched R res (got (Inr before) # helper before None # body @ [patched before after r])"
  unfolding reconciles_once_def
  by (rule disjI2, rule disjI2, rule exI [of _ res0], rule exI [of _ before], rule exI [of _ body],
      rule exI [of _ after], rule exI [of _ r]) simp

text \<open>The shape as an interface: a reconciler is its body and the calls around it.\<close>

locale patching_reconciler =
  fixes reconcile :: "objectKey \<Rightarrow> ('w, event, reconcileResult) prog"
    and got :: "objectKey \<Rightarrow> goerr + 'o \<Rightarrow> event"
    and kget :: "objectKey \<Rightarrow> 'w \<Rightarrow> (goerr + 'o) \<times> 'w"
    and helper :: "'o \<Rightarrow> goerr option \<Rightarrow> event"
    and khelper :: "'o \<Rightarrow> 'w \<Rightarrow> goerr option \<times> 'w"
    and patched :: "'o \<Rightarrow> 'o \<Rightarrow> goerr option \<Rightarrow> event"
    and kpatch :: "'o \<Rightarrow> 'o \<Rightarrow> 'w \<Rightarrow> goerr option \<times> 'w"
    and body :: "'o \<Rightarrow> ('w, event, reconcileResult \<times> 'o) prog"
    and summarise :: "'o \<Rightarrow> 'o"
    and kind :: string
  assumes reconcile_eq: "reconcile req = do {
       r \<leftarrow> ask (kget req) (got req);
       (case r of
          Inl e \<Rightarrow> (if err_is e StatusNotFound then ret (0, None)
                    else ret (0, Some (wrapf (''fetching '' @ kind) e)))
        | Inr obj \<Rightarrow> do {
            h \<leftarrow> ask (khelper obj) (helper obj);
            (case h of
               Some e \<Rightarrow> ret (0, Some (wrapf ''initializing patch helper'' e))
             | None \<Rightarrow> do {
                 (result, obj') \<leftarrow> body obj;
                 p \<leftarrow> ask (kpatch obj (summarise obj')) (patched obj (summarise obj'));
                 (case p of
                    None \<Rightarrow> ret result
                  | Some e \<Rightarrow> ret (fst result, Some (errors_join (snd result) (wrapf (''patching '' @ kind) e))))
               })
          })
     }"
begin

lemma wp_reconcile:
  assumes "\<And>obj. wp (body obj) (\<lambda>out l. R (fst out) obj l (summarise (snd out)))"
  shows "wp (reconcile req) (reconciles_once (got req) helper patched R)"
  unfolding reconcile_eq
  by (intro wp_intros wp_mono [OF assms])
    (simp_all add: reconciles_once_get reconciles_once_helper reconciles_once_patch)

end

text \<open>An error a call answered that the caller may not swallow: a missing object is not one.\<close>

definition reportable :: "event \<Rightarrow> bool" where
  "reportable ev \<longleftrightarrow> (case ev_error ev of None \<Rightarrow> False | Some e \<Rightarrow> is_write ev \<or> \<not> err_is e StatusNotFound)"

end
