(* ===== verification/Remote_Tracker.thy ===== *)
theory Remote_Tracker
  imports Controller_Common
begin

text \<open>
  \<^verbatim>\<open>internal/controller/utils/remote_tracker.go\<close>: setting the provider id on the node of a
  downstream cluster, and the part of \<^verbatim>\<open>k8s.io/kubernetes/pkg/util/taints\<close> it calls. The
  cluster cache tracker and the remote client are calls of the environment.
\<close>

definition MatchTaint :: "taint \<Rightarrow> taint \<Rightarrow> bool" where
  "MatchTaint t u \<longleftrightarrow> taKey t = taKey u \<and> taEffect t = taEffect u"

definition TaintExists :: "taint list \<Rightarrow> taint \<Rightarrow> bool" where
  "TaintExists ts t \<longleftrightarrow> list_ex (\<lambda>u. MatchTaint u t) ts"

fun DeleteTaint :: "taint list \<Rightarrow> taint \<Rightarrow> taint list \<times> bool" where
  "DeleteTaint [] t = ([], False)"
| "DeleteTaint (u # us) t = (case DeleteTaint us t of (vs, deleted) \<Rightarrow>
     (if MatchTaint t u then (vs, True) else (u # vs, deleted)))"

text \<open>It returns a nil error on every path.\<close>

definition RemoveTaint :: "node \<Rightarrow> taint \<Rightarrow> node \<times> bool \<times> goerr option" where
  "RemoveTaint n t =
     (if nTaints n = [] then (n, False, None)
      else if \<not> TaintExists (nTaints n) t then (n, False, None)
      else (n\<lparr>nTaints := fst (DeleteTaint (nTaints n) t)\<rparr>, True, None))"

lemma fst_DeleteTaint: "fst (DeleteTaint ts t) = filter (\<lambda>u. \<not> MatchTaint t u) ts"
  by (induction ts) (auto split: prod.splits)

lemma snd_DeleteTaint: "snd (DeleteTaint ts t) \<longleftrightarrow> (\<exists>u \<in> set ts. MatchTaint t u)"
  by (induction ts) (auto split: prod.splits)

lemma RemoveTaint_node:
  "fst (RemoveTaint n t) = n\<lparr>nTaints := filter (\<lambda>u. \<not> MatchTaint t u) (nTaints n)\<rparr>"
proof (cases "TaintExists (nTaints n) t")
  case False
  then have "filter (\<lambda>u. \<not> MatchTaint t u) (nTaints n) = nTaints n"
    by (auto simp: TaintExists_def list_ex_iff MatchTaint_def filter_id_conv)
  with False show ?thesis by (simp add: RemoveTaint_def)
qed (auto simp: RemoveTaint_def fst_DeleteTaint)

lemma RemoveTaint_no_error [simp]: "snd (snd (RemoveTaint n t)) = None"
  by (simp add: RemoveTaint_def)

definition uninitializedTaint :: taint where
  "uninitializedTaint = \<lparr>taKey = ''node.cloudprovider.kubernetes.io/uninitialized'', taValue = [],
     taEffect = ''NoSchedule''\<rparr>"

definition SetProviderID ::
  "'w env \<Rightarrow> objectKey \<Rightarrow> string \<Rightarrow> string \<Rightarrow> ('w, event, goerr option) prog"
where
  "SetProviderID E cluster nodeName providerID = do {
     c \<leftarrow> kRemoteGetClient E cluster;
     (case c of
        Some e \<Rightarrow> ret (Some (wrapf (''getting remote client for cluster '' @
          sq (keyNamespace cluster @ ''/'' @ keyName cluster)) e))
      | None \<Rightarrow> do {
          r \<leftarrow> kRemoteGetNode E cluster nodeName;
          (case r of
             Inl e \<Rightarrow>
               if err_is e StatusNotFound
               then ret (Some (wrapf2 (''getting node '' @ sq nodeName)
                 (new_err ErrRemoteNodeNotFound ''remote node not found'') e))
               else ret (Some (wrapf (''getting downstream cluster node '' @ sq nodeName) e))
           | Inr n \<Rightarrow> do {
               h \<leftarrow> kNewPatchHelper E ''Node'' \<lparr>keyNamespace = [], keyName = nodeName\<rparr>;
               (case h of
                  Some e \<Rightarrow> ret (Some (wrapf ''initializing node patch helper'' e))
                | None \<Rightarrow>
                    (case RemoveTaint (n\<lparr>nProviderID := providerID\<rparr>) uninitializedTaint of
                       (n', _, Some e) \<Rightarrow> ret (Some (wrapf (''removing '' @ sq ''&Taint{Key:node.cloudprovider.kubernetes.io/uninitialized,Value:,Effect:NoSchedule,TimeAdded:<nil>,}'' @ '' taint from node'') e))
                     | (n', _, None) \<Rightarrow> do {
                         p \<leftarrow> kRemotePatchNode E cluster n n';
                         (case p of
                            Some e \<Rightarrow> ret (Some (wrapf ''patching downstream cluster node'' e))
                          | None \<Rightarrow> ret None)
                       }))
             })
        })
   }"

text \<open>The node the code patches: the provider id set, the uninitialized taint gone.\<close>

definition initialized_node :: "string \<Rightarrow> node \<Rightarrow> node" where
  "initialized_node providerID n = n\<lparr>nProviderID := providerID,
     nTaints := filter (\<lambda>u. \<not> MatchTaint uninitializedTaint u) (nTaints n)\<rparr>"

text \<open>
  What a call does: it succeeds exactly by patching the node it read, initialized; a failure before
  the patch writes nothing, and a failed patch is an error.
\<close>

definition provider_id_set :: "objectKey \<Rightarrow> string \<Rightarrow> string \<Rightarrow> goerr option \<Rightarrow> event list \<Rightarrow> bool" where
  "provider_id_set cluster nodeName providerID res l \<longleftrightarrow>
     (res = None \<longleftrightarrow> (\<forall>ev \<in> set l. ev_error ev = None)) \<and>
     (\<forall>k r. EvGetElementalHost k r \<notin> set l) \<and>
     ((writes l = [] \<and> res \<noteq> None) \<or>
     (\<exists>n r. EvRemoteGetNode cluster nodeName (Inr n) \<in> set l \<and>
        writes l = [EvRemotePatchNode cluster n (initialized_node providerID n) r] \<and>
        (res = None \<longleftrightarrow> r = None)))"

lemma wp_SetProviderID:
  "wp (SetProviderID E cluster nodeName providerID) (provider_id_set cluster nodeName providerID)"
proof -
  have remove: "RemoveTaint (n\<lparr>nProviderID := providerID\<rparr>) uninitializedTaint =
      (initialized_node providerID n, fst (snd (RemoveTaint (n\<lparr>nProviderID := providerID\<rparr>) uninitializedTaint)), None)"
    for n
    by (simp add: prod_eq_iff RemoveTaint_node initialized_node_def)
  show ?thesis
    unfolding SetProviderID_def
    apply (subst remove)
    unfolding prod.case option.case
    by (intro wp_intros) (auto simp: provider_id_set_def)
qed

end
