(* ===== verification/Machine_Controller.thy ===== *)
theory Machine_Controller
  imports Remote_Tracker
begin

text \<open>
  \<^verbatim>\<open>internal/controller/elementalmachine_controller.go\<close>: the reconciler that finds a host for
  an ElementalMachine, links the two, waits for the host to be bootstrapped and sets the provider id,
  and that asks for the host's reset when the machine is deleted. The requeue period of the
  reconciler is the argument \<open>rp\<close>.
\<close>

section \<open>What wakes the controller\<close>

definition ElementalHostToElementalMachine :: "clientObject \<Rightarrow> objectKey list" where
  "ElementalHostToElementalMachine obj = (case obj of
     ObjElementalHost host \<Rightarrow> (case hMachineRef host of
       Some r \<Rightarrow> [\<lparr>keyNamespace = refNamespace r, keyName = refName r\<rparr>]
     | None \<Rightarrow> [])
   | _ \<Rightarrow> [])"

definition MachineToElementalMachine :: "clientObject \<Rightarrow> objectKey list" where
  "MachineToElementalMachine obj = (case obj of
     ObjCapiMachine machine \<Rightarrow>
       (if refKind (cmInfrastructureRef machine) = ''ElementalMachine''
        then [\<lparr>keyNamespace = refNamespace (cmInfrastructureRef machine),
               keyName = refName (cmInfrastructureRef machine)\<rparr>]
        else [])
   | _ \<Rightarrow> [])"

fun machine_requests :: "capiMachine list \<Rightarrow> objectKey list" where
  "machine_requests [] = []"
| "machine_requests (m # ms) =
     (if refName (cmInfrastructureRef m) = [] then machine_requests ms
      else \<lparr>keyNamespace = (if refNamespace (cmInfrastructureRef m) \<noteq> []
               then refNamespace (cmInfrastructureRef m) else oNamespace m),
             keyName = refName (cmInfrastructureRef m)\<rparr> # machine_requests ms)"

definition ClusterToElementalMachines ::
  "'w env \<Rightarrow> clientObject \<Rightarrow> ('w, event, objectKey list) prog"
where
  "ClusterToElementalMachines E obj = (case obj of
     ObjCapiCluster cluster \<Rightarrow> do {
       r \<leftarrow> kListCapiMachines E (oNamespace cluster) [(ClusterNameLabel, oName cluster)];
       (case r of Inl e \<Rightarrow> ret [] | Inr ms \<Rightarrow> ret (machine_requests ms))
     }
   | _ \<Rightarrow> ret [])"

section \<open>Finding a host\<close>

text \<open>The first of the listed hosts, if any.\<close>

definition first_host :: "elementalHost list \<Rightarrow> elementalHost option" where
  "first_host hs = (case hs of [] \<Rightarrow> None | h # _ \<Rightarrow> Some h)"

definition lookUpAlreadyLinkedHost ::
  "'w env \<Rightarrow> elementalMachine \<Rightarrow> ('w, event, goerr + elementalHost option) prog"
where
  "lookUpAlreadyLinkedHost E elementalMachine =
     (case NewRequirement LabelElementalHostElementalMachineName OpEquals [oName elementalMachine] of
        Inl e \<Rightarrow> ret (Inl (wrapf ''adding elementalmachine name label requirement'' e))
      | Inr r1 \<Rightarrow>
          (case NewRequirement LabelElementalHostNeedsReset OpDoesNotExist [] of
             Inl e \<Rightarrow> ret (Inl (wrapf ''adding host needs reset label requirement'' e))
           | Inr r2 \<Rightarrow> do {
               l \<leftarrow> kListElementalHosts E (oNamespace elementalMachine)
                 (selector_add [r2] (selector_add [r1] []));
               (case l of
                  Inl e \<Rightarrow> ret (Inl (wrapf ''listing previously linked ElementalHosts'' e))
                | Inr hosts \<Rightarrow> ret (Inr (first_host hosts)))
             }))"

definition machine_selector :: "elementalMachine \<Rightarrow> goerr + selector" where
  "machine_selector elementalMachine = (case mSelector elementalMachine of
     Some s \<Rightarrow> (case LabelSelectorAsSelector s of
       Inl e \<Rightarrow> Inl (wrapf ''converting LabelSelector to Selector'' e) | Inr sel \<Rightarrow> Inr sel)
   | None \<Rightarrow> Inr [])"

definition lookUpNewAvailableHost ::
  "'w env \<Rightarrow> elementalMachine \<Rightarrow> ('w, event, goerr + elementalHost option) prog"
where
  "lookUpNewAvailableHost E elementalMachine =
     (case machine_selector elementalMachine of
        Inl e \<Rightarrow> ret (Inl e)
      | Inr selector \<Rightarrow>
     (case NewRequirement LabelElementalHostInstalled OpEquals [''true''] of
        Inl e \<Rightarrow> ret (Inl (wrapf ''adding host installed label requirement'' e))
      | Inr r1 \<Rightarrow>
     (case NewRequirement LabelElementalHostNeedsReset OpDoesNotExist [] of
        Inl e \<Rightarrow> ret (Inl (wrapf ''adding host needs reset label requirement'' e))
      | Inr r2 \<Rightarrow>
     (case NewRequirement LabelElementalHostMachineName OpDoesNotExist [] of
        Inl e \<Rightarrow> ret (Inl (wrapf ''adding host machine name label requirement'' e))
      | Inr r3 \<Rightarrow> do {
          l \<leftarrow> kListElementalHosts E (oNamespace elementalMachine)
            (selector_add [r3] (selector_add [r2] (selector_add [r1] selector)));
          (case l of
             Inl e \<Rightarrow> ret (Inl (wrapf ''listing available ElementalHosts'' e))
           | Inr hosts \<Rightarrow> ret (Inr (first_host hosts)))
        }))))"

definition findAvailableHost ::
  "'w env \<Rightarrow> elementalMachine \<Rightarrow> ('w, event, goerr + elementalHost option) prog"
where
  "findAvailableHost E elementalMachine = do {
     r \<leftarrow> lookUpAlreadyLinkedHost E elementalMachine;
     (case r of
        Inl e \<Rightarrow> ret (Inl (wrapf ''looking up already associated hosts'' e))
      | Inr (Some h) \<Rightarrow> ret (Inr (Some h))
      | Inr None \<Rightarrow> do {
          r' \<leftarrow> lookUpNewAvailableHost E elementalMachine;
          (case r' of
             Inl e \<Rightarrow> ret (Inl (wrapf ''looking up new available host'' e))
           | Inr h \<Rightarrow> ret (Inr h))
        })
   }"

section \<open>Linking\<close>

definition host_reference :: "elementalHost \<Rightarrow> objectReference" where
  "host_reference h = \<lparr>refAPIVersion = oAPIVersion h, refKind = oKind h, refNamespace = oNamespace h,
     refName = oName h, refUID = oUID h\<rparr>"

definition machine_reference :: "elementalMachine \<Rightarrow> objectReference" where
  "machine_reference m = \<lparr>refAPIVersion = oAPIVersion m, refKind = oKind m,
     refNamespace = oNamespace m, refName = oName m, refUID = oUID m\<rparr>"

text \<open>
  The host as \<^verbatim>\<open>linkElementalHostToElementalMachine\<close> leaves it, or the panic of
  dereferencing a nil secret name or of writing a label to a nil map.
\<close>

definition linked_host ::
  "capiMachine \<Rightarrow> elementalMachine \<Rightarrow> elementalHost \<Rightarrow> elementalHost option"
where
  "linked_host machine elementalMachine host = (case cmDataSecretName machine of
     None \<Rightarrow> None
   | Some secretName \<Rightarrow>
       (let host = host\<lparr>hMachineRef := Some (machine_reference elementalMachine)\<rparr>;
            host = host\<lparr>hBootstrapSecret := Some \<lparr>refAPIVersion = [], refKind = ''Secret'',
              refNamespace = oNamespace machine, refName = secretName, refUID = []\<rparr>\<rparr>
        in if oLabels host = None then None
           else
             (let host = put_label LabelElementalHostMachineName (oName machine) host;
                  host = put_label LabelElementalHostElementalMachineName (oName elementalMachine) host;
                  host = (case gget (oLabels elementalMachine) ClusterNameLabel of
                    Some n \<Rightarrow> put_label ClusterNameLabel n host | None \<Rightarrow> host)
              in Some (host\<lparr>hOSVersionManagement := mOSVersionManagement elementalMachine\<rparr>))))"

definition panic :: goerr where
  "panic = new_err GoPanic ''panic''"

definition linkElementalHostToElementalMachine ::
  "'w env \<Rightarrow> capiMachine \<Rightarrow> elementalMachine \<Rightarrow> elementalHost \<Rightarrow>
    ('w, event, goerr option \<times> elementalHost) prog"
where
  "linkElementalHostToElementalMachine E machine elementalMachine host = do {
     h \<leftarrow> kNewPatchHelper E ''ElementalHost'' (ObjectKeyFromObject host);
     (case h of
        Some e \<Rightarrow> ret (Some (wrapf ''initializing patch helper'' e), host)
      | None \<Rightarrow>
          (case linked_host machine elementalMachine host of
             None \<Rightarrow> ret (Some panic, host)
           | Some host' \<Rightarrow> do {
               p \<leftarrow> kPatchElementalHost E host host';
               (case p of
                  Some e \<Rightarrow> ret (Some (wrapf ''patching ElementalHost'' e), host')
                | None \<Rightarrow> ret (None, host'))
             }))
   }"

definition associateElementalHost ::
  "'w env \<Rightarrow> int \<Rightarrow> int \<Rightarrow> elementalMachine \<Rightarrow> capiMachine \<Rightarrow>
    ('w, event, reconcileResult \<times> elementalMachine) prog"
where
  "associateElementalHost E now rp elementalMachine machine = do {
     r \<leftarrow> findAvailableHost E elementalMachine;
     (case r of
        Inl e \<Rightarrow> ret ((0, Some (wrapf ''finding available host for association'' e)), elementalMachine)
      | Inr None \<Rightarrow> ret ((rp, None), machine_Set now (mk_condition AssociationReady ConditionFalse
            MissingAvailableHostsReasonSeverity MissingAvailableHostsReason
            ''No ElementalHosts available for association.'') elementalMachine)
      | Inr (Some candidate) \<Rightarrow> do {
          (err, host) \<leftarrow> linkElementalHostToElementalMachine E machine elementalMachine candidate;
          (case err of
             Some e \<Rightarrow> ret ((0, Some (wrapf ''linking ElementalHost to ElementalMachine'' e)), elementalMachine)
           | None \<Rightarrow>
               (let em = elementalMachine\<lparr>mHostRef := Some (host_reference host)\<rparr>;
                    em = machine_Set now (mk_condition AssociationReady ConditionTrue SeverityInfo [] []) em;
                    em = machine_Set now (mk_condition HostReady ConditionFalse
                      HostWaitingForBootstrapReasonSeverity HostWaitingForBootstrapReason
                      (''Waiting for ElementalHost '' @ sq (oName host) @ '' to be bootstrapped'')) em
                in ret ((0, None), em)))
        })
   }"

section \<open>The provider id\<close>

definition providerID_of :: "objectReference \<Rightarrow> string" where
  "providerID_of r = ''elemental://'' @ refNamespace r @ ''/'' @ refName r"

definition machine_setProviderID ::
  "'w env \<Rightarrow> int \<Rightarrow> elementalMachine \<Rightarrow> capiCluster \<Rightarrow>
    ('w, event, goerr option \<times> elementalMachine) prog"
where
  "machine_setProviderID E now elementalMachine cluster = (case mHostRef elementalMachine of
     None \<Rightarrow> ret (Some (new_err ErrMissingHostReference ''missing host reference''), elementalMachine)
   | Some hostRef \<Rightarrow>
       (if mProviderID elementalMachine = Some (providerID_of hostRef)
        then ret (None, elementalMachine)
        else do {
          r \<leftarrow> SetProviderID E (ObjectKeyFromObject cluster) (refName hostRef) (providerID_of hostRef);
          (case r of
             Some e \<Rightarrow>
               if err_is e ErrRemoteNodeNotFound
               then ret (Some (wrapf (''setting provider ID on remote node '' @ sq (refName hostRef)) e),
                 machine_Set now (mk_condition ProviderIDReady ConditionFalse SeverityError NodeNotFoundReason
                   (''Downstream cluster node '' @ sq (refName hostRef) @ '' is not found.'')) elementalMachine)
               else ret (Some (wrapf (''setting provider ID on remote node '' @ sq (refName hostRef)) e),
                 elementalMachine)
           | None \<Rightarrow> ret (None,
               machine_Set now (mk_condition ProviderIDReady ConditionTrue SeverityInfo [] [])
                 (elementalMachine\<lparr>mProviderID := Some (providerID_of hostRef)\<rparr>)))
        }))"

section \<open>Reconciling\<close>

definition machine_reconcileNormal ::
  "'w env \<Rightarrow> int \<Rightarrow> int \<Rightarrow> capiCluster \<Rightarrow> elementalMachine \<Rightarrow> capiMachine \<Rightarrow>
    ('w, event, reconcileResult \<times> elementalMachine) prog"
where
  "machine_reconcileNormal E now rp cluster elementalMachine0 machine =
     (let elementalMachine = elementalMachine0\<lparr>mReady := False\<rparr> in
      case mHostRef elementalMachine of
        None \<Rightarrow> associateElementalHost E now rp elementalMachine machine
      | Some hostRef \<Rightarrow> do {
          r \<leftarrow> kGetElementalHost E \<lparr>keyNamespace = refNamespace hostRef, keyName = refName hostRef\<rparr>;
          (case r of
             Inl e \<Rightarrow>
               if err_is e StatusNotFound
               then ret ((rp, None),
                 (machine_Set now (mk_condition AssociationReady ConditionFalse
                    AssociatedHostNotFoundReasonSeverity AssociatedHostNotFoundReason
                    (''Previously associated host not found: '' @ refName hostRef)) elementalMachine)
                   \<lparr>mProviderID := None, mHostRef := None\<rparr>)
               else
                 (let err = wrapf (''fetching associated ElementalHost '' @ sq (refName hostRef)) e
                  in ret ((rp, Some err),
                    machine_Set now (mk_condition AssociationReady ConditionFalse
                      AssociatedHostNotFoundReasonSeverity AssociatedHostNotFoundReason (err_msg err))
                      elementalMachine))
           | Inr host \<Rightarrow>
               (let em = machine_Set now (mk_condition AssociationReady ConditionTrue SeverityInfo [] [])
                      elementalMachine
                in
                if \<not> label_is_true host LabelElementalHostInstalled
                then ret ((0, None),
                  machine_Set now (mk_condition HostReady ConditionFalse SeverityError
                    HostWaitingForInstallReason
                    (''ElementalHost '' @ sq (oName host) @ '' is not installed.'')) em)
                else if \<not> label_is_true host LabelElementalHostBootstrapped
                then ret ((0, None),
                  machine_Set now (mk_condition HostReady ConditionFalse
                    HostWaitingForBootstrapReasonSeverity HostWaitingForBootstrapReason
                    (''Waiting for ElementalHost '' @ sq (oName host) @ '' to be bootstrapped'')) em)
                else
                  (let em = machine_Set now (mk_condition HostReady ConditionTrue SeverityInfo [] []) em
                   in
                   if ccControlPlaneRef cluster = None \<or>
                      \<not> conditions_IsTrue ccConditions cluster ControlPlaneInitializedCondition
                   then ret ((rp, None),
                     machine_Set now (mk_condition ProviderIDReady ConditionFalse
                       WaitingForControlPlaneReasonSeverity WaitingForControlPlaneReason
                       (''Waiting for downstream cluster '' @ sq (oName cluster) @ '' control plane initialized.'')) em)
                   else do {
                     (err, em) \<leftarrow> machine_setProviderID E now em cluster;
                     (case err of
                        Some e \<Rightarrow> ret ((rp, Some (wrapf ''setting ProviderID'' e)), em)
                      | None \<Rightarrow> ret ((0, None), em\<lparr>mReady := True\<rparr>))
                   })))
        })"

definition machine_reconcileDelete ::
  "'w env \<Rightarrow> elementalMachine \<Rightarrow> ('w, event, reconcileResult \<times> elementalMachine) prog"
where
  "machine_reconcileDelete E elementalMachine = (case mHostRef elementalMachine of
     None \<Rightarrow> ret ((0, None), RemoveFinalizer FinalizerElementalMachine elementalMachine)
   | Some hostRef \<Rightarrow> do {
       r \<leftarrow> kGetElementalHost E \<lparr>keyNamespace = refNamespace hostRef, keyName = refName hostRef\<rparr>;
       (case r of
          Inl e \<Rightarrow>
            if err_is e StatusNotFound then ret ((0, None), elementalMachine)
            else ret ((0, Some (wrapf ''fetching ElementalHost'' e)), elementalMachine)
        | Inr host \<Rightarrow> do {
            h \<leftarrow> kNewPatchHelper E ''ElementalHost'' (ObjectKeyFromObject host);
            (case h of
               Some e \<Rightarrow> ret ((0, Some (wrapf ''initializing patch helper'' e)), elementalMachine)
             | None \<Rightarrow> do {
                 p \<leftarrow> kPatchElementalHost E host
                   (put_label LabelElementalHostNeedsReset ''true'' (init_labels host));
                 (case p of
                    Some e \<Rightarrow> ret ((0, Some (wrapf ''patching ElementalHost'' e)), elementalMachine)
                  | None \<Rightarrow> ret ((0, None), RemoveFinalizer FinalizerElementalMachine elementalMachine))
               })
          })
     })"

text \<open>The condition of the early exits of \<^verbatim>\<open>Reconcile\<close>.\<close>

definition not_associated :: "int \<Rightarrow> string \<Rightarrow> string \<Rightarrow> elementalMachine \<Rightarrow> elementalMachine" where
  "not_associated now reason msg em =
     machine_Set now (mk_condition AssociationReady ConditionFalse SeverityError reason msg) em"

definition machine_body ::
  "'w env \<Rightarrow> int \<Rightarrow> int \<Rightarrow> elementalMachine \<Rightarrow> ('w, event, reconcileResult \<times> elementalMachine) prog"
where
  "machine_body E now rp elementalMachine = do {
     r \<leftarrow> GetOwnerMachine E elementalMachine;
     (case r of
        Inl e \<Rightarrow>
          (let err = wrapf ''getting Machine owner'' e
           in ret ((0, Some err), not_associated now MissingMachineOwnerReason (err_msg err) elementalMachine))
      | Inr None \<Rightarrow> ret ((0, None), not_associated now MissingMachineOwnerReason
          ''ElementalMachine resource has no Machine owner'' elementalMachine)
      | Inr (Some machine) \<Rightarrow> do {
          c \<leftarrow> GetClusterFromMetadata E elementalMachine;
          (case c of
             Inl e \<Rightarrow>
               (let err = wrapf ''fetching Cluster'' e
                in ret ((0, Some err),
                  not_associated now MissingAssociatedClusterReason (err_msg err) elementalMachine))
           | Inr None \<Rightarrow> ret ((0, None), not_associated now MissingAssociatedClusterReason
               ''ElementalMachine resource is not associated with any Cluster'' elementalMachine)
           | Inr (Some cluster) \<Rightarrow>
               if notDeleted elementalMachine then
                 (let em = AddFinalizer FinalizerElementalMachine elementalMachine in
                  if \<not> ccInfrastructureReady cluster
                  then ret ((0, None), not_associated now MissingClusterInfrastructureReadyReason
                    ''Cluster status.infrastructureReady is false'' em)
                  else if cmDataSecretName machine = None
                  then ret ((0, None), not_associated now MissingBootstrapSecretReason
                    ''Machine spec.bootstrap.dataSecretName is nil'' em)
                  else do {
                    (result, em) \<leftarrow> machine_reconcileNormal E now rp cluster em machine;
                    (case snd result of
                       Some e \<Rightarrow> ret ((0, Some (wrapf ''reconciling ElementalMachine'' e)), em)
                     | None \<Rightarrow> ret (result, em))
                  })
               else if ContainsFinalizer elementalMachine FinalizerElementalMachine then do {
                 (result, em) \<leftarrow> machine_reconcileDelete E elementalMachine;
                 (case snd result of
                    Some e \<Rightarrow> ret ((0, Some (wrapf ''reconciling ElementalMachine deletion'' e)), em)
                  | None \<Rightarrow> ret (result, em))
               }
               else ret ((0, None), elementalMachine))
        })
   }"

definition machine_deferred ::
  "'w env \<Rightarrow> int \<Rightarrow> elementalMachine \<Rightarrow> reconcileResult \<times> elementalMachine \<Rightarrow>
    ('w, event, reconcileResult) prog"
where
  "machine_deferred E now original out = (case out of (result, em) \<Rightarrow> do {
     r \<leftarrow> kPatchElementalMachine E original (machine_SetSummary now em);
     (case r of
        None \<Rightarrow> ret result
      | Some e \<Rightarrow> ret (fst result, Some (errors_join (snd result) (wrapf ''patching ElementalMachine'' e))))
   })"

definition Machine_Reconcile ::
  "'w env \<Rightarrow> int \<Rightarrow> int \<Rightarrow> objectKey \<Rightarrow> ('w, event, reconcileResult) prog"
where
  "Machine_Reconcile E now rp req = do {
     r \<leftarrow> kGetElementalMachine E req;
     (case r of
        Inl e \<Rightarrow> (if err_is e StatusNotFound then ret (0, None)
                  else ret (0, Some (wrapf ''fetching ElementalMachine'' e)))
      | Inr em \<Rightarrow> do {
          h \<leftarrow> kNewPatchHelper E ''ElementalMachine'' (ObjectKeyFromObject em);
          (case h of
             Some e \<Rightarrow> ret (0, Some (wrapf ''initializing patch helper'' e))
           | None \<Rightarrow> do { out \<leftarrow> machine_body E now rp em; machine_deferred E now em out })
        })
   }"

section \<open>Association\<close>

text \<open>
  A host the controller may associate with a machine: in its namespace, not due for a reset, and
  either already labelled with the machine's name (an association cut short) or installed, free
  and matching the machine's selector.
\<close>

definition candidate_ok :: "elementalMachine \<Rightarrow> elementalHost \<Rightarrow> bool" where
  "candidate_ok em h \<longleftrightarrow> oNamespace h = oNamespace em \<and>
     gget (oLabels h) LabelElementalHostNeedsReset = None \<and>
     (gget (oLabels h) LabelElementalHostElementalMachineName = Some (oName em) \<or>
      (label_is_true h LabelElementalHostInstalled \<and>
       gget (oLabels h) LabelElementalHostMachineName = None \<and>
       (\<exists>sel. machine_selector em = Inr sel \<and> selector_matches sel (oLabels h))))"

lemma candidate_labels: "candidate_ok em h \<Longrightarrow> oLabels h \<noteq> None"
  by (cases "oLabels h") (simp_all add: candidate_ok_def label_is_true_def)

lemma first_host_Some: "first_host hs = Some h \<Longrightarrow> h \<in> set hs"
  by (auto simp: first_host_def split: list.splits)

lemma req_matches_simps:
  "req_matches \<lparr>reqKey = k, reqOperator = OpEquals, reqValues = [v]\<rparr> ls \<longleftrightarrow> gget ls k = Some v"
  "req_matches \<lparr>reqKey = k, reqOperator = OpDoesNotExist, reqValues = []\<rparr> ls \<longleftrightarrow> gget ls k = None"
  by (auto split: option.splits)

lemma selector_matches_Nil [simp]: "selector_matches [] ls"
  by (simp add: selector_matches_def)

text \<open>
  A lookup reads; what it finds is a candidate that the API listed, it finds nothing only where nothing was listed, and a failure it
  met is its error.
\<close>

definition listed :: "elementalMachine \<Rightarrow> elementalHost \<Rightarrow> event list \<Rightarrow> bool" where
  "listed em h l \<longleftrightarrow> (\<exists>sel hs. EvListElementalHosts (oNamespace em) sel (Inr hs) \<in> set l \<and> h \<in> set hs)"

definition nothing_listed :: "event list \<Rightarrow> bool" where
  "nothing_listed l \<longleftrightarrow> (\<forall>ns sel hs. EvListElementalHosts ns sel (Inr hs) \<in> set l \<longrightarrow> hs = [])"

lemma nothing_listed_append [simp]: "nothing_listed (l @ l') \<longleftrightarrow> nothing_listed l \<and> nothing_listed l'"
  by (auto simp: nothing_listed_def)

lemma listed_append [simp]: "listed em h (l @ l') \<longleftrightarrow> listed em h l \<or> listed em h l'"
  by (auto simp: listed_def)

lemma listed_something: "listed em h l \<Longrightarrow> \<not> nothing_listed l"
  unfolding listed_def nothing_listed_def by force

lemma first_host_None [simp]: "first_host hs = None \<longleftrightarrow> hs = []"
  by (simp add: first_host_def split: list.splits)

definition found_candidate :: "elementalMachine \<Rightarrow> goerr + elementalHost option \<Rightarrow> event list \<Rightarrow> bool" where
  "found_candidate em r l \<longleftrightarrow> writes l = [] \<and> (\<forall>h. r = Inr (Some h) \<longrightarrow> candidate_ok em h \<and> listed em h l) \<and>
     (r = Inr None \<longrightarrow> nothing_listed l) \<and>
     ((\<exists>ev \<in> set l. reportable ev) \<longrightarrow> (\<exists>e. r = Inl e)) \<and>
     (\<forall>ev \<in> set l. \<exists>sel r. ev = EvListElementalHosts (oNamespace em) sel r)"

lemmas lookup_simps = found_candidate_def listed_def nothing_listed_def candidate_ok_def reportable_def req_matches_simps label_is_true_def

lemma wp_lookUpAlreadyLinkedHost:
  assumes E: "lists_honour_selectors E"
  shows "wp (lookUpAlreadyLinkedHost E em) (found_candidate em)"
  unfolding lookUpAlreadyLinkedHost_def
  by (intro wp_intros wp_kListElementalHosts_ok [OF E])
    (auto dest!: NewRequirement_Inr first_host_Some simp: lookup_simps simp del: req_matches.simps)

lemma wp_lookUpNewAvailableHost:
  assumes E: "lists_honour_selectors E"
  shows "wp (lookUpNewAvailableHost E em) (found_candidate em)"
  unfolding lookUpNewAvailableHost_def
  by (intro wp_intros wp_kListElementalHosts_ok [OF E])
    (auto dest!: NewRequirement_Inr first_host_Some simp: lookup_simps simp del: req_matches.simps)

lemma wp_findAvailableHost:
  assumes E: "lists_honour_selectors E"
  shows "wp (findAvailableHost E em) (found_candidate em)"
  unfolding findAvailableHost_def
  by (intro wp_intros wp_mono [OF wp_lookUpAlreadyLinkedHost [OF E]]
      wp_mono [OF wp_lookUpNewAvailableHost [OF E]])
    (auto simp: found_candidate_def)

text \<open>A free machine's requirement can always be built; that of its name only if it is a label value.\<close>

lemma lookup_requirements:
  "NewRequirement LabelElementalHostInstalled OpEquals [''true''] =
     Inr \<lparr>reqKey = LabelElementalHostInstalled, reqOperator = OpEquals, reqValues = [''true'']\<rparr>"
  "NewRequirement LabelElementalHostNeedsReset OpDoesNotExist [] =
     Inr \<lparr>reqKey = LabelElementalHostNeedsReset, reqOperator = OpDoesNotExist, reqValues = []\<rparr>"
  "NewRequirement LabelElementalHostMachineName OpDoesNotExist [] =
     Inr \<lparr>reqKey = LabelElementalHostMachineName, reqOperator = OpDoesNotExist, reqValues = []\<rparr>"
  by (simp_all add: NewRequirement_def values_ok_def IsValidLabelValue_def is_name_part_def is_alnum_def)

section \<open>Linking a host\<close>

text \<open>What a host is after it was linked to a machine: the abstract post-state of the association.\<close>

definition linked_to :: "capiMachine \<Rightarrow> elementalMachine \<Rightarrow> elementalHost \<Rightarrow> elementalHost \<Rightarrow> bool" where
  "linked_to machine em h h' \<longleftrightarrow>
     hMachineRef h' = Some (machine_reference em) \<and>
     (\<exists>s. hBootstrapSecret h' = Some s \<and> refKind s = ''Secret'' \<and> refNamespace s = oNamespace machine \<and>
        cmDataSecretName machine = Some (refName s)) \<and>
     hOSVersionManagement h' = mOSVersionManagement em \<and>
     gget (oLabels h') LabelElementalHostMachineName = Some (oName machine) \<and>
     gget (oLabels h') LabelElementalHostElementalMachineName = Some (oName em) \<and>
     (gget (oLabels em) ClusterNameLabel \<noteq> None \<longrightarrow>
        gget (oLabels h') ClusterNameLabel = gget (oLabels em) ClusterNameLabel) \<and>
     (\<forall>k. k \<notin> {LabelElementalHostMachineName, LabelElementalHostElementalMachineName, ClusterNameLabel} \<longrightarrow>
        gget (oLabels h') k = gget (oLabels h) k) \<and>
     host_reference h' = host_reference h \<and> hPubKey h' = hPubKey h \<and> hConditions h' = hConditions h \<and>
     oFinalizers h' = oFinalizers h \<and> oDeletionTimestamp h' = oDeletionTimestamp h"

lemma linked_host_Some:
  assumes "linked_host machine em h = Some h'"
  shows "linked_to machine em h h'"
  using assms unfolding linked_host_def linked_to_def host_reference_def put_label_def Let_def
  by (auto split: option.splits if_splits)

lemma linked_host_reference:
  "linked_host machine em h = Some h' \<Longrightarrow> host_reference h' = host_reference h"
  using linked_host_Some by (simp add: linked_to_def)

lemma linked_host_None_iff:
  "linked_host machine em h = None \<longleftrightarrow> cmDataSecretName machine = None \<or> oLabels h = None"
  by (auto simp: linked_host_def Let_def split: option.splits)

text \<open>
  The outcome of an association: nothing written and the machine left without a host reference, or one
  candidate patched as linked, and the machine referring to it exactly when that patch succeeded.
\<close>

definition associates ::
  "capiMachine \<Rightarrow> elementalMachine \<Rightarrow> reconcileResult \<Rightarrow> elementalMachine \<Rightarrow> event list \<Rightarrow> bool"
where
  "associates machine em res em' l \<longleftrightarrow> (\<forall>k r. EvGetElementalHost k r \<notin> set l) \<and>
     ((writes l = [] \<and> mHostRef em' = None \<and> (snd res = None \<longrightarrow> nothing_listed l) \<and>
        (\<forall>k. EvNewPatchHelper ''ElementalHost'' k None \<notin> set l)) \<or>
     (\<exists>l1 h h' r. l = l1 @ [EvPatchElementalHost h h' r] \<and> writes l1 = [] \<and> listed em h l1 \<and>
        candidate_ok em h \<and> linked_to machine em h h' \<and>
        mHostRef em' = (if r = None then Some (host_reference h) else None) \<and>
        (snd res = None \<longleftrightarrow> r = None)))"

lemma wp_associateElementalHost:
  assumes E: "lists_honour_selectors E" and "cmDataSecretName machine \<noteq> None" and "mHostRef em = None"
    and Q: "\<And>res em' l. associates machine em res em' l \<Longrightarrow> oFinalizers em' = oFinalizers em \<Longrightarrow>
      mReady em' = mReady em \<Longrightarrow> mProviderID em' = mProviderID em \<Longrightarrow> oName em' = oName em \<Longrightarrow>
      ((\<exists>ev \<in> set l. reportable ev) \<longrightarrow> snd res \<noteq> None) \<Longrightarrow>
      (snd res = None \<longrightarrow> mHostRef em' = None \<longrightarrow> fst res = rp) \<Longrightarrow> Q (res, em') l"
  shows "wp (associateElementalHost E now rp em machine) Q"
  unfolding associateElementalHost_def linkElementalHostToElementalMachine_def Let_def
  by (intro wp_intros wp_mono [OF wp_findAvailableHost [OF E]])
    (auto simp: found_candidate_def associates_def assms(2,3) reportable_def linked_host_None_iff
      dest: candidate_labels intro!: Q linked_host_Some linked_host_reference split: option.splits)

lemma machine_steps [simp]:
  "oName (AddFinalizer f (m::elementalMachine)) = oName m" "oNamespace (AddFinalizer f m) = oNamespace m"
  "oLabels (AddFinalizer f m) = oLabels m" "mHostRef (AddFinalizer f m) = mHostRef m"
  "mProviderID (AddFinalizer f m) = mProviderID m" "mReady (AddFinalizer f m) = mReady m"
  "mSelector (AddFinalizer f m) = mSelector m" "mOSVersionManagement (AddFinalizer f m) = mOSVersionManagement m"
  "mConditions (AddFinalizer f m) = mConditions m"
  "machine_reference (AddFinalizer f m) = machine_reference m"
  "mHostRef (RemoveFinalizer f m) = mHostRef m"
  "mProviderID (RemoveFinalizer f m) = mProviderID m" "mReady (RemoveFinalizer f m) = mReady m"
  "machine_reference (m\<lparr>mReady := b\<rparr>) = machine_reference m"
  "machine_selector (AddFinalizer f m) = machine_selector m"
  "machine_selector (m\<lparr>mReady := b\<rparr>) = machine_selector m"
  by (simp_all add: AddFinalizer_def RemoveFinalizer_def machine_reference_def machine_selector_def)

lemma candidate_ok_steps [simp]:
  "candidate_ok (AddFinalizer f m) h = candidate_ok m h" "candidate_ok (m\<lparr>mReady := b\<rparr>) h = candidate_ok m h"
  by (simp_all add: candidate_ok_def)

lemma listed_steps [simp]: "listed (AddFinalizer f m) h = listed m h" "listed (m\<lparr>mReady := b\<rparr>) h = listed m h"
  by (simp_all add: listed_def fun_eq_iff)

lemma linked_to_steps [simp]:
  "linked_to c (AddFinalizer f m) h = linked_to c m h" "linked_to c (m\<lparr>mReady := b\<rparr>) h = linked_to c m h"
  by (simp_all add: linked_to_def fun_eq_iff)

lemma associates_steps [simp]:
  "associates c (AddFinalizer f m) = associates c m" "associates c (m\<lparr>mReady := b\<rparr>) = associates c m"
  by (simp_all add: associates_def fun_eq_iff)

lemma associates_summary [simp]:
  "associates c m res (machine_SetSummary now em) l = associates c m res em l"
  by (simp add: associates_def)

text \<open>
  The run of the provider id step on a machine with a host reference: nothing to do, or the node of
  the downstream cluster is initialized.
\<close>

definition provider_id_step ::
  "capiCluster \<Rightarrow> objectReference \<Rightarrow> elementalMachine \<Rightarrow> goerr option \<Rightarrow> elementalMachine \<Rightarrow> event list \<Rightarrow> bool"
where
  "provider_id_step cluster ref em err em' l \<longleftrightarrow>
     oFinalizers em' = oFinalizers em \<and> mHostRef em' = mHostRef em \<and> mReady em' = mReady em \<and>
     (if mProviderID em = Some (providerID_of ref) then l = [] \<and> err = None
      else provider_id_set (ObjectKeyFromObject cluster) (refName ref) (providerID_of ref) err l) \<and>
     mProviderID em' = (if err = None then Some (providerID_of ref) else mProviderID em)"

lemma provider_id_set_wrapf [simp]:
  "provider_id_set c n p (Some (wrapf s e)) l \<longleftrightarrow> provider_id_set c n p (Some e) l"
  by (auto simp: provider_id_set_def)

lemma wp_machine_setProviderID:
  assumes "mHostRef em = Some ref"
  shows "wp (machine_setProviderID E now em cluster) (\<lambda>out. provider_id_step cluster ref em (fst out) (snd out))"
  unfolding machine_setProviderID_def assms option.case
  by (intro wp_intros wp_mono [OF wp_SetProviderID])
    (auto simp: provider_id_step_def assms)

text \<open>
  The run of a machine with a host reference: a missing host cuts the association, any other failure
  to read it keeps it, and the machine becomes ready exactly when the host is installed and
  bootstrapped, the control plane is initialized and the provider id could be set.
\<close>

definition host_up :: "elementalHost \<Rightarrow> bool" where
  "host_up h \<longleftrightarrow> label_is_true h LabelElementalHostInstalled \<and> label_is_true h LabelElementalHostBootstrapped"

definition control_plane_up :: "capiCluster \<Rightarrow> bool" where
  "control_plane_up c \<longleftrightarrow> ccControlPlaneRef c \<noteq> None \<and>
     conditions_IsTrue ccConditions c ControlPlaneInitializedCondition"

inductive tracks_host ::
  "int \<Rightarrow> capiCluster \<Rightarrow> objectReference \<Rightarrow> elementalMachine \<Rightarrow> reconcileResult \<Rightarrow> elementalMachine \<Rightarrow>
    event list \<Rightarrow> bool"
  for rp :: int and cluster :: capiCluster and ref :: objectReference and em :: elementalMachine
where
  host_missing: "err_is e StatusNotFound \<Longrightarrow> \<not> mReady em' \<Longrightarrow> mHostRef em' = None \<Longrightarrow> mProviderID em' = None \<Longrightarrow>
    tracks_host rp cluster ref em (rp, None) em' [EvGetElementalHost (refKey ref) (Inl e)]"
| host_unread: "\<not> err_is e StatusNotFound \<Longrightarrow> \<not> mReady em' \<Longrightarrow> mHostRef em' = mHostRef em \<Longrightarrow>
    mProviderID em' = mProviderID em \<Longrightarrow> snd res \<noteq> None \<Longrightarrow>
    tracks_host rp cluster ref em res em' [EvGetElementalHost (refKey ref) (Inl e)]"
| host_waiting: "\<not> (host_up host \<and> control_plane_up cluster) \<Longrightarrow> \<not> mReady em' \<Longrightarrow> mHostRef em' = mHostRef em \<Longrightarrow>
    mProviderID em' = mProviderID em \<Longrightarrow> snd res = None \<Longrightarrow>
    tracks_host rp cluster ref em res em' [EvGetElementalHost (refKey ref) (Inr host)]"
| host_known: "host_up host \<Longrightarrow> control_plane_up cluster \<Longrightarrow> mProviderID em = Some (providerID_of ref) \<Longrightarrow>
    mReady em' \<Longrightarrow> mHostRef em' = mHostRef em \<Longrightarrow> mProviderID em' = mProviderID em \<Longrightarrow> snd res = None \<Longrightarrow>
    tracks_host rp cluster ref em res em' [EvGetElementalHost (refKey ref) (Inr host)]"
| host_set: "host_up host \<Longrightarrow> control_plane_up cluster \<Longrightarrow> mProviderID em \<noteq> Some (providerID_of ref) \<Longrightarrow>
    provider_id_set (ObjectKeyFromObject cluster) (refName ref) (providerID_of ref) (snd res) l \<Longrightarrow>
    (mReady em' \<longleftrightarrow> snd res = None) \<Longrightarrow> mHostRef em' = mHostRef em \<Longrightarrow>
    mProviderID em' = (if snd res = None then Some (providerID_of ref) else mProviderID em) \<Longrightarrow>
    tracks_host rp cluster ref em res em' (EvGetElementalHost (refKey ref) (Inr host) # l)"

lemma wp_machine_reconcileNormal_associated:
  assumes ref: "mHostRef em = Some ref"
    and Q: "\<And>res em' l. tracks_host rp cluster ref em res em' l \<Longrightarrow> oFinalizers em' = oFinalizers em \<Longrightarrow>
      Q (res, em') l"
  shows "wp (machine_reconcileNormal E now rp cluster em machine) Q"
  unfolding machine_reconcileNormal_def Let_def
  by (intro wp_intros wp_mono [OF wp_machine_setProviderID [of _ ref]])
    (auto intro!: Q intro: tracks_host.intros simp: refKey_def [symmetric] host_up_def control_plane_up_def
      provider_id_step_def ref split: if_splits)

lemma wp_machine_reconcileNormal_free:
  assumes E: "lists_honour_selectors E" and "cmDataSecretName machine \<noteq> None" and free: "mHostRef em = None"
    and Q: "\<And>res em' l. associates machine em res em' l \<Longrightarrow> oFinalizers em' = oFinalizers em \<Longrightarrow>
      \<not> mReady em' \<Longrightarrow> mProviderID em' = mProviderID em \<Longrightarrow>
      ((\<exists>ev \<in> set l. reportable ev) \<longrightarrow> snd res \<noteq> None) \<Longrightarrow>
      (snd res = None \<longrightarrow> mHostRef em' = None \<longrightarrow> fst res = rp) \<Longrightarrow> Q (res, em') l"
  shows "wp (machine_reconcileNormal E now rp cluster em machine) Q"
proof -
  have "wp (associateElementalHost E now rp (em\<lparr>mReady := False\<rparr>) machine) Q"
    by (rule wp_associateElementalHost [OF E assms(2)]) (simp_all add: free Q)
  then show ?thesis by (simp add: machine_reconcileNormal_def free)
qed

text \<open>The deletion: the finalizer goes when no host is linked or the linked one was marked for reset.\<close>

definition same_machine :: "elementalMachine \<Rightarrow> elementalMachine \<Rightarrow> bool" where
  "same_machine em em' \<longleftrightarrow> mHostRef em' = mHostRef em \<and> mProviderID em' = mProviderID em \<and> mReady em' = mReady em"

definition releases_host ::
  "elementalMachine \<Rightarrow> reconcileResult \<Rightarrow> elementalMachine \<Rightarrow> event list \<Rightarrow> bool"
where
  "releases_host em res em' l \<longleftrightarrow> (case mHostRef em of
     None \<Rightarrow> l = [] \<and> res = (0, None) \<and> same_machine em em' \<and> oFinalizers em' = oFinalizers (RemoveFinalizer FinalizerElementalMachine em)
   | Some ref \<Rightarrow>
       (\<exists>e. l = [EvGetElementalHost (refKey ref) (Inl e)] \<and> same_machine em em' \<and> oFinalizers em' = oFinalizers em \<and>
          (if err_is e StatusNotFound then res = (0, None) else snd res \<noteq> None)) \<or>
       (\<exists>host e. l = [EvGetElementalHost (refKey ref) (Inr host),
          EvNewPatchHelper ''ElementalHost'' (ObjectKeyFromObject host) (Some e)] \<and> same_machine em em' \<and> oFinalizers em' = oFinalizers em \<and> snd res \<noteq> None) \<or>
       (\<exists>host r. l = [EvGetElementalHost (refKey ref) (Inr host),
          EvNewPatchHelper ''ElementalHost'' (ObjectKeyFromObject host) None,
          EvPatchElementalHost host (put_label LabelElementalHostNeedsReset ''true'' (init_labels host)) r] \<and>
          (if r = None then res = (0, None) \<and> same_machine em em' \<and> oFinalizers em' = oFinalizers (RemoveFinalizer FinalizerElementalMachine em)
           else snd res \<noteq> None \<and> same_machine em em' \<and> oFinalizers em' = oFinalizers em)))"

lemma wp_machine_reconcileDelete:
  "wp (machine_reconcileDelete E em) (\<lambda>out. releases_host em (fst out) (snd out))"
  unfolding machine_reconcileDelete_def releases_host_def refKey_def same_machine_def
  by (intro wp_intros) auto

section \<open>The body as a whole\<close>

text \<open>
  What the body of a reconciliation does: it stops early having written nothing (perhaps
  registering the finalizer), or it works with the owner machine and the cluster it has read.
\<close>

definition owners_read :: "capiMachine \<Rightarrow> capiCluster \<Rightarrow> event list \<Rightarrow> bool" where
  "owners_read machine cluster l \<longleftrightarrow> list_all lookup_event l \<and> (\<forall>ev \<in> set l. ev_error ev = None) \<and>
     (\<exists>k. EvGetCapiMachine k (Inr machine) \<in> set l) \<and> (\<exists>k. EvGetCapiCluster k (Inr cluster) \<in> set l)"

definition works_with_host ::
  "int \<Rightarrow> capiMachine \<Rightarrow> capiCluster \<Rightarrow> elementalMachine \<Rightarrow> reconcileResult \<Rightarrow> elementalMachine \<Rightarrow>
    event list \<Rightarrow> bool"
where
  "works_with_host rp machine cluster em res em' l \<longleftrightarrow> (case mHostRef em of
     None \<Rightarrow> associates machine em res em' l \<and> \<not> mReady em' \<and> mProviderID em' = mProviderID em \<and>
       ((\<exists>ev \<in> set l. reportable ev) \<longrightarrow> snd res \<noteq> None) \<and>
       (snd res = None \<longrightarrow> mHostRef em' = None \<longrightarrow> fst res = rp)
   | Some ref \<Rightarrow> tracks_host rp cluster ref em res em' l)"

definition machine_run ::
  "int \<Rightarrow> elementalMachine \<Rightarrow> reconcileResult \<Rightarrow> elementalMachine \<Rightarrow> event list \<Rightarrow> bool"
where
  "machine_run rp em res em' body \<longleftrightarrow>
     (list_all lookup_event body \<and> ((\<exists>ev \<in> set body. ev_error ev \<noteq> None) \<longrightarrow> snd res \<noteq> None) \<and>
        mHostRef em' = mHostRef em \<and> mProviderID em' = mProviderID em \<and>
        mReady em' = mReady em \<and>
        (oFinalizers em' = oFinalizers em \<or>
         notDeleted em \<and> oFinalizers em' = oFinalizers (AddFinalizer FinalizerElementalMachine em))) \<or>
     (\<exists>machine cluster l0 l. body = l0 @ l \<and> owners_read machine cluster l0 \<and>
        (if notDeleted em
         then ccInfrastructureReady cluster \<and> cmDataSecretName machine \<noteq> None \<and>
           oFinalizers em' = oFinalizers (AddFinalizer FinalizerElementalMachine em) \<and>
           works_with_host rp machine cluster em res em' l
         else ContainsFinalizer em FinalizerElementalMachine \<and> releases_host em res em' l))"

lemma tracks_host_steps: "tracks_host rp c ref (AddFinalizer f m) = tracks_host rp c ref m"
  by (intro ext) (simp only: tracks_host.simps machine_steps)

lemma works_with_host_steps [simp]:
  "works_with_host rp machine c (AddFinalizer f m) = works_with_host rp machine c m"
  by (intro ext, cases "mHostRef m") (simp_all add: works_with_host_def tracks_host_steps)

lemma tracks_host_err:
  "tracks_host rp c ref m (x, Some e) em' l \<Longrightarrow> tracks_host rp c ref m (0, Some (wrapf s e)) em' l"
  by (auto elim!: tracks_host.cases intro: tracks_host.intros)

lemma associates_err:
  "associates machine m (x, Some e) em' l \<Longrightarrow> associates machine m (0, Some (wrapf s e)) em' l"
  by (auto simp: associates_def)

lemma works_with_host_err:
  "works_with_host rp machine c m (x, Some e) em' l \<Longrightarrow>
   works_with_host rp machine c m (0, Some (wrapf s e)) em' l"
  by (auto simp: works_with_host_def tracks_host_err associates_err split: option.splits)

lemma wp_machine_reconcileNormal:
  assumes "lists_honour_selectors E" and "cmDataSecretName machine \<noteq> None"
  shows "wp (machine_reconcileNormal E now rp cluster em machine) (\<lambda>out l.
    works_with_host rp machine cluster em (fst out) (snd out) l \<and> oFinalizers (snd out) = oFinalizers em)"
proof (cases "mHostRef em")
  case None
  show ?thesis
    by (rule wp_machine_reconcileNormal_free [OF assms None]) (simp add: works_with_host_def None)
next
  case (Some ref)
  show ?thesis
    by (rule wp_machine_reconcileNormal_associated [OF Some]) (simp add: works_with_host_def Some)
qed

lemma releases_host_err:
  "releases_host m (x, Some e) em' l \<Longrightarrow> releases_host m (0, Some (wrapf s e)) em' l"
  by (cases "mHostRef m") (auto simp: releases_host_def split: if_splits)

lemma machine_run_early:
  "list_all lookup_event body \<Longrightarrow> (\<exists>ev \<in> set body. ev_error ev \<noteq> None) \<longrightarrow> snd res \<noteq> None \<Longrightarrow> oFinalizers em' = oFinalizers em \<or>
     notDeleted em \<and> oFinalizers em' = oFinalizers (AddFinalizer FinalizerElementalMachine em) \<Longrightarrow>
   mHostRef em' = mHostRef em \<Longrightarrow> mProviderID em' = mProviderID em \<Longrightarrow> mReady em' = mReady em \<Longrightarrow>
   machine_run rp em res em' body"
  unfolding machine_run_def by blast

lemma owners_readI:
  "looked_up (\<lambda>m. EvGetCapiMachine k (Inr m)) (Inr (Some machine)) l1 \<Longrightarrow>
   looked_up (\<lambda>c. EvGetCapiCluster k' (Inr c)) (Inr (Some cluster)) l2 \<Longrightarrow>
   owners_read machine cluster (l1 @ l2)"
  by (auto simp: looked_up_def owners_read_def)

lemma machine_run_works:
  "looked_up (\<lambda>m. EvGetCapiMachine k (Inr m)) (Inr (Some machine)) l1 \<Longrightarrow>
   looked_up (\<lambda>c. EvGetCapiCluster k' (Inr c)) (Inr (Some cluster)) l2 \<Longrightarrow>
   works_with_host rp machine cluster em res em' l \<Longrightarrow> notDeleted em \<Longrightarrow> ccInfrastructureReady cluster \<Longrightarrow>
   cmDataSecretName machine \<noteq> None \<Longrightarrow> oFinalizers em' = oFinalizers (AddFinalizer FinalizerElementalMachine em) \<Longrightarrow>
   machine_run rp em res em' (l1 @ l2 @ l)"
  unfolding machine_run_def append_assoc [symmetric]
  by (intro disjI2 exI conjI) (rule refl, erule (1) owners_readI, simp)

lemma machine_run_deletes:
  "looked_up (\<lambda>m. EvGetCapiMachine k (Inr m)) (Inr (Some machine)) l1 \<Longrightarrow>
   looked_up (\<lambda>c. EvGetCapiCluster k' (Inr c)) (Inr (Some cluster)) l2 \<Longrightarrow>
   releases_host em res em' l \<Longrightarrow> \<not> notDeleted em \<Longrightarrow> ContainsFinalizer em FinalizerElementalMachine \<Longrightarrow>
   machine_run rp em res em' (l1 @ l2 @ l)"
  unfolding machine_run_def append_assoc [symmetric]
  by (intro disjI2 exI conjI) (rule refl, erule (1) owners_readI, simp)

lemma not_associated_frame [simp]:
  "oFinalizers (not_associated now r msg m) = oFinalizers m" "mHostRef (not_associated now r msg m) = mHostRef m"
  "mProviderID (not_associated now r msg m) = mProviderID m" "mReady (not_associated now r msg m) = mReady m"
  by (simp_all add: not_associated_def)

lemma looked_up_lookup: "looked_up ev r l \<Longrightarrow> list_all lookup_event l"
  by (simp add: looked_up_def)

lemma looked_up_ok: "looked_up ev (Inr x) l \<Longrightarrow> ev' \<in> set l \<Longrightarrow> ev_error ev' = None"
  by (auto simp: looked_up_def)

lemma machine_run_early2:
  "looked_up ev1 (Inr x) l1 \<Longrightarrow> looked_up ev2 (Inr y) l2 \<Longrightarrow> oFinalizers em' = oFinalizers em \<or>
     notDeleted em \<and> oFinalizers em' = oFinalizers (AddFinalizer FinalizerElementalMachine em) \<Longrightarrow>
   mHostRef em' = mHostRef em \<Longrightarrow> mProviderID em' = mProviderID em \<Longrightarrow> mReady em' = mReady em \<Longrightarrow>
   machine_run rp em res em' (l1 @ l2)"
  by (rule machine_run_early) (auto simp: looked_up_lookup dest: looked_up_ok)

lemma machine_run_early1:
  "looked_up ev1 (Inr x) l \<Longrightarrow> oFinalizers em' = oFinalizers em \<Longrightarrow>
   mHostRef em' = mHostRef em \<Longrightarrow> mProviderID em' = mProviderID em \<Longrightarrow> mReady em' = mReady em \<Longrightarrow>
   machine_run rp em res em' l"
  by (rule machine_run_early) (auto simp: looked_up_lookup dest: looked_up_ok)

lemma wp_machine_body:
  assumes E: "lists_honour_selectors E"
  shows "wp (machine_body E now rp em) (\<lambda>out. machine_run rp em (fst out) (snd out))"
  unfolding machine_body_def Let_def
  apply (intro wp_intros wp_mono [OF wp_GetOwnerMachine] wp_mono [OF wp_GetClusterFromMetadata]
    wp_mono [OF wp_machine_reconcileDelete] wp_mono [OF wp_machine_reconcileNormal [OF E]])
  apply (simp_all only: fst_conv snd_conv append_Nil append_Nil2 not_not)
  by (auto intro: machine_run_early machine_run_early1 machine_run_early2 machine_run_works machine_run_deletes
      machine_run_works [OF _ _ works_with_host_err] machine_run_deletes [OF _ _ releases_host_err]
      simp: looked_up_lookup dest: looked_up_ok)

text \<open>What a run does, read off its shape.\<close>

lemma reportable_error: "reportable ev \<Longrightarrow> ev_error ev \<noteq> None"
  by (auto simp: reportable_def split: option.splits)

lemma tracks_host_errors:
  "tracks_host rp c ref em res em' l \<Longrightarrow> ev \<in> set l \<Longrightarrow> reportable ev \<Longrightarrow> snd res \<noteq> None"
  by (auto elim!: tracks_host.cases simp: reportable_def provider_id_set_def split: option.splits)

lemma releases_host_errors:
  "releases_host em res em' l \<Longrightarrow> ev \<in> set l \<Longrightarrow> reportable ev \<Longrightarrow> snd res \<noteq> None"
  unfolding releases_host_def
  by (cases "mHostRef em") (auto simp: reportable_def split: if_splits)

lemma works_with_host_errors:
  "works_with_host rp machine c em res em' l \<Longrightarrow> ev \<in> set l \<Longrightarrow> reportable ev \<Longrightarrow> snd res \<noteq> None"
  by (cases "mHostRef em") (auto simp: works_with_host_def dest: tracks_host_errors)

lemma owners_read_errors: "owners_read machine c l \<Longrightarrow> ev \<in> set l \<Longrightarrow> \<not> reportable ev"
  by (auto simp: owners_read_def reportable_def)

lemma machine_run_errors:
  assumes "machine_run rp em res em' body" and "ev \<in> set body" and "reportable ev"
  shows "snd res \<noteq> None"
  using assms unfolding machine_run_def
  by (auto split: if_splits dest: works_with_host_errors releases_host_errors owners_read_errors
      reportable_error)

lemma writes_singleton: "writes l = [x] \<Longrightarrow> x \<in> set l"
  by (auto simp: filter_eq_Cons_iff)

lemma host_patch_mem:
  "EvPatchElementalHost h h' r \<in> set l \<Longrightarrow> writes l = ys \<Longrightarrow> EvPatchElementalHost h h' r \<in> set ys"
  by auto

lemma provider_id_set_no_host_patch:
  assumes "provider_id_set c n p e l" shows "EvPatchElementalHost h h' r \<notin> set l"
proof
  assume l: "EvPatchElementalHost h h' r \<in> set l"
  from assms have "writes l = [] \<or> (\<exists>n r. writes l = [EvRemotePatchNode c n (initialized_node p n) r])"
    unfolding provider_id_set_def by blast
  with host_patch_mem [OF l] show False by fastforce
qed

lemma tracks_host_no_host_patch:
  "tracks_host rp c ref em res em' l \<Longrightarrow> EvPatchElementalHost h h' r \<notin> set l"
  by (auto elim!: tracks_host.cases dest: provider_id_set_no_host_patch)

lemma associates_host_patch:
  assumes "associates machine em res em' l" "EvPatchElementalHost h h' r \<in> set l"
  shows "\<exists>l1. l = l1 @ [EvPatchElementalHost h h' r] \<and> writes l1 = [] \<and> listed em h l1 \<and>
    candidate_ok em h \<and> linked_to machine em h h' \<and>
    mHostRef em' = (if r = None then Some (host_reference h) else None)"
proof -
  have "writes l \<noteq> []" using host_patch_mem [OF assms(2)] by force
  with assms(1) obtain l1 g g' r' where l: "l = l1 @ [EvPatchElementalHost g g' r']" "writes l1 = []"
    and g: "listed em g l1" "candidate_ok em g" "linked_to machine em g g'"
    "mHostRef em' = (if r' = None then Some (host_reference g) else None)"
    unfolding associates_def by blast
  from host_patch_mem [OF assms(2), of "[EvPatchElementalHost g g' r']"] l have "g = h" "g' = h'" "r' = r" by simp_all
  with l g show ?thesis by blast
qed

lemma owners_read_no_patch: "owners_read machine c l \<Longrightarrow> EvPatchElementalHost h h' r \<notin> set l"
  by (auto simp: owners_read_def list_all_iff)

lemma machine_run_host_patch:
  assumes run: "machine_run rp em res em' body" and ev: "EvPatchElementalHost h h' r \<in> set body"
    and "notDeleted em"
  shows "\<exists>machine k. EvGetCapiMachine k (Inr machine) \<in> set body \<and> candidate_ok em h \<and>
    linked_to machine em h h' \<and> writes body = [EvPatchElementalHost h h' r] \<and> mHostRef em = None \<and>
    mHostRef em' = (if r = None then Some (host_reference h) else None)"
proof -
  have "\<not> list_all lookup_event body" using ev by (fastforce simp: list_all_iff)
  with run \<open>notDeleted em\<close> obtain machine c l0 l where body: "body = l0 @ l"
    and o: "owners_read machine c l0" and w: "works_with_host rp machine c em res em' l"
    unfolding machine_run_def by auto
  from ev body owners_read_no_patch [OF o] have l: "EvPatchElementalHost h h' r \<in> set l" by simp
  with w have free: "mHostRef em = None"
    by (cases "mHostRef em") (auto simp: works_with_host_def dest: tracks_host_no_host_patch)
  with w have "associates machine em res em' l" by (simp add: works_with_host_def)
  from associates_host_patch [OF this l] free o show ?thesis
    unfolding body by (auto simp: owners_read_def)
qed

lemma machine_run_reference:
  assumes "machine_run rp em res em' body" and "notDeleted em" and "mHostRef em = None" and "mHostRef em' = Some ref"
  shows "\<exists>h h'. EvPatchElementalHost h h' None \<in> set body \<and> ref = host_reference h"
  using assms unfolding machine_run_def works_with_host_def
  by (auto simp: owners_read_def associates_def split: option.splits if_splits dest!: writes_singleton)

section \<open>Properties\<close>

interpretation machineR: patching_reconciler "Machine_Reconcile E now rp" EvGetElementalMachine
  "env_GetElementalMachine E" "\<lambda>m. EvNewPatchHelper ''ElementalMachine'' (ObjectKeyFromObject m)"
  "\<lambda>m. env_NewPatchHelper E ''ElementalMachine'' (ObjectKeyFromObject m)" EvPatchElementalMachine
  "env_PatchElementalMachine E" "machine_body E now rp" "machine_SetSummary now" "''ElementalMachine''"
  by unfold_locales (simp add: Machine_Reconcile_def machine_deferred_def kGetElementalMachine_def
      kNewPatchHelper_def kPatchElementalMachine_def case_prod_unfold
      cong: sum.case_cong option.case_cong if_cong)

abbreviation machine_reconciles_once ::
  "objectKey \<Rightarrow> (reconcileResult \<Rightarrow> elementalMachine \<Rightarrow> event list \<Rightarrow> elementalMachine \<Rightarrow> bool) \<Rightarrow>
    reconcileResult \<Rightarrow> event list \<Rightarrow> bool"
where
  "machine_reconciles_once req \<equiv> reconciles_once (EvGetElementalMachine req)
     (\<lambda>m. EvNewPatchHelper ''ElementalMachine'' (ObjectKeyFromObject m)) EvPatchElementalMachine"

lemma machine_run_summary [simp]:
  "machine_run rp em res (machine_SetSummary now em') body = machine_run rp em res em' body"
proof -
  have t: "tracks_host rp c ref em res (machine_SetSummary now em') l = tracks_host rp c ref em res em' l"
    for c ref l by (rule iffI; erule tracks_host.cases) (auto intro: tracks_host.intros)
  have w: "works_with_host rp m c em res (machine_SetSummary now em') l = works_with_host rp m c em res em' l"
    for m c l by (cases "mHostRef em") (simp_all add: works_with_host_def t)
  have r: "releases_host em res (machine_SetSummary now em') l = releases_host em res em' l" for l
    by (simp only: releases_host_def same_machine_def SetSummary_frame)
  show ?thesis by (simp only: machine_run_def w r SetSummary_frame)
qed

lemma wp_Machine_Reconcile:
  assumes "lists_honour_selectors E" and "\<And>before res after body. machine_run rp before res after body \<Longrightarrow> R res before body after"
  shows "wp (Machine_Reconcile E now rp req) (machine_reconciles_once req R)"
  by (rule machineR.wp_reconcile, rule wp_mono [OF wp_machine_body [OF assms(1)]]) (simp add: assms(2))

text \<open>What an association may do: the specification of a host choice and its link.\<close>

definition association_sound ::
  "reconcileResult \<Rightarrow> elementalMachine \<Rightarrow> event list \<Rightarrow> elementalMachine \<Rightarrow> bool"
where
  "association_sound res before body after \<longleftrightarrow>
    (notDeleted before \<longrightarrow>
    (\<forall>h h' r. EvPatchElementalHost h h' r \<in> set body \<longrightarrow>
       (\<exists>machine k. EvGetCapiMachine k (Inr machine) \<in> set body \<and> candidate_ok before h \<and>
          linked_to machine before h h' \<and> writes body = [EvPatchElementalHost h h' r] \<and>
          mHostRef before = None \<and> mHostRef after = (if r = None then Some (host_reference h) else None))) \<and>
    (\<forall>ref. mHostRef before = None \<and> mHostRef after = Some ref \<longrightarrow>
       (\<exists>h h'. EvPatchElementalHost h h' None \<in> set body \<and> ref = host_reference h)))"

text \<open>
  C2. Association. When the API honours list selectors, a run on a machine that is not being deleted
  patches no host but one it may associate (in the machine's namespace, not due for a reset, and already
  labelled with the machine or else installed, free and matching the selector); that host is patched
  exactly once, as linked to the machine (references, bootstrap secret of the owner machine, labels, OS
  version, all else kept), only when the machine had no host; and the machine refers to the host
  exactly when the patch succeeded. A machine without a host gets a reference in no other way.
\<close>

theorem Machine_Reconcile_associates:
  assumes "lists_honour_selectors E"
  shows "wp (Machine_Reconcile E now rp req) (machine_reconciles_once req association_sound)"
  by (rule wp_Machine_Reconcile [OF assms], unfold association_sound_def)
    (blast intro: machine_run_host_patch machine_run_reference)

lemma machine_run_ready:
  assumes run: "machine_run rp em res em' body" and new: "\<not> mReady em" "mReady em'"
  shows "\<exists>ref machine cluster l0 l. notDeleted em \<and> mHostRef em = Some ref \<and> body = l0 @ l \<and>
    owners_read machine cluster l0 \<and> tracks_host rp cluster ref em res em' l"
proof -
  from run new obtain machine c l0 l where body: "body = l0 @ l" and o: "owners_read machine c l0"
    and w: "if notDeleted em then works_with_host rp machine c em res em' l else releases_host em res em' l"
    unfolding machine_run_def by (auto split: if_splits)
  have "notDeleted em"
  proof (rule ccontr)
    assume "\<not> notDeleted em"
    with w have "releases_host em res em' l" by simp
    then have "mReady em' = mReady em"
      by (cases "mHostRef em") (auto simp: releases_host_def same_machine_def split: if_splits)
    with new show False by simp
  qed
  with w have "works_with_host rp machine c em res em' l" by simp
  with new obtain ref where "mHostRef em = Some ref" "tracks_host rp c ref em res em' l"
    by (cases "mHostRef em") (auto simp: works_with_host_def)
  with \<open>notDeleted em\<close> body o show ?thesis by blast
qed

lemma tracks_host_ready:
  assumes "tracks_host rp c ref em res em' l" "mReady em'"
  shows "snd res = None \<and> mHostRef em' = mHostRef em \<and> mProviderID em' = Some (providerID_of ref) \<and>
    control_plane_up c \<and> (\<exists>host. EvGetElementalHost (refKey ref) (Inr host) \<in> set l \<and> host_up host) \<and>
    (mProviderID em = mProviderID em' \<or>
     (\<exists>n. EvRemotePatchNode (ObjectKeyFromObject c) n (initialized_node (providerID_of ref) n) None \<in> set l))"
  using assms by cases (auto simp: provider_id_set_def dest!: writes_singleton)

text \<open>What must have been read and written for a machine to become ready.\<close>

definition ready_only_when_up ::
  "reconcileResult \<Rightarrow> elementalMachine \<Rightarrow> event list \<Rightarrow> elementalMachine \<Rightarrow> bool"
where
  "ready_only_when_up res before body after \<longleftrightarrow>
    (\<not> mReady before \<and> mReady after \<longrightarrow> notDeleted before \<and> snd res = None \<and>
    (\<exists>ref cluster k. mHostRef before = Some ref \<and> mHostRef after = Some ref \<and>
       (\<exists>host. EvGetElementalHost (refKey ref) (Inr host) \<in> set body \<and> host_up host) \<and>
       EvGetCapiCluster k (Inr cluster) \<in> set body \<and> control_plane_up cluster \<and>
       mProviderID after = Some (providerID_of ref) \<and>
       (mProviderID before = mProviderID after \<or>
        (\<exists>n. EvRemotePatchNode (ObjectKeyFromObject cluster) n (initialized_node (providerID_of ref) n) None
           \<in> set body))))"


text \<open>When the finalizer of a machine may go.\<close>

definition released_only_when_reset_asked ::
  "reconcileResult \<Rightarrow> elementalMachine \<Rightarrow> event list \<Rightarrow> elementalMachine \<Rightarrow> bool"
where
  "released_only_when_reset_asked res before body after \<longleftrightarrow>
    (ContainsFinalizer before FinalizerElementalMachine \<longrightarrow>
    (if notDeleted before then ContainsFinalizer after FinalizerElementalMachine
     else ContainsFinalizer after FinalizerElementalMachine \<or>
       (case mHostRef before of None \<Rightarrow> writes body = []
        | Some ref \<Rightarrow> \<exists>host. EvGetElementalHost (refKey ref) (Inr host) \<in> set body \<and>
            writes body = [EvPatchElementalHost host
              (put_label LabelElementalHostNeedsReset ''true'' (init_labels host)) None])))"

text \<open>
  C5. Deletion. A machine that is not being deleted never loses its finalizer. A machine being deleted
  loses it only if no host is linked, or the linked host was read and marked for reset by a patch
  that succeeded; and that patch changes nothing of the host but the needs-reset label.
\<close>

theorem Machine_Reconcile_releases:
  assumes "lists_honour_selectors E"
  shows "wp (Machine_Reconcile E now rp req) (machine_reconciles_once req released_only_when_reset_asked)"
  by (rule wp_Machine_Reconcile [OF assms])
    (auto simp: released_only_when_reset_asked_def machine_run_def owners_read_def releases_host_def
      ContainsFinalizer_def AddFinalizer_def split: if_splits option.splits)

text \<open>A failed call is the failure of the run.\<close>

definition errors_reported ::
  "reconcileResult \<Rightarrow> elementalMachine \<Rightarrow> event list \<Rightarrow> elementalMachine \<Rightarrow> bool"
where
  "errors_reported res before body after \<longleftrightarrow>
    (\<forall>ev \<in> set body. reportable ev \<longrightarrow> snd res \<noteq> None)"

text \<open>
  C8. Errors are never swallowed. If any call of the body failed (a write in any way, a read in any way
  but not-found), the run's result is an error.
\<close>

theorem Machine_Reconcile_reports_errors:
  assumes "lists_honour_selectors E"
  shows "wp (Machine_Reconcile E now rp req) (machine_reconciles_once req errors_reported)"
  by (rule wp_Machine_Reconcile [OF assms], unfold errors_reported_def, intro ballI impI)
    (rule machine_run_errors)

lemma machine_run_follows:
  assumes "machine_run rp em res em' body" "notDeleted em" "EvGetElementalHost k r \<in> set body"
  shows "\<exists>ref cluster k' l. mHostRef em = Some ref \<and> k = refKey ref \<and>
    EvGetCapiCluster k' (Inr cluster) \<in> set body \<and> tracks_host rp cluster ref em res em' (EvGetElementalHost (refKey ref) r # l)"
proof -
  have "\<not> list_all lookup_event body" using assms(3) by (fastforce simp: list_all_iff)
  with assms obtain machine c l0 l where body: "body = l0 @ l"
    and o: "owners_read machine c l0" and w: "works_with_host rp machine c em res em' l"
    unfolding machine_run_def by auto
  from o have "EvGetElementalHost k r \<notin> set l0" by (auto simp: owners_read_def list_all_iff)
  with assms(3) body have l: "EvGetElementalHost k r \<in> set l" by simp
  with w obtain ref where ref: "mHostRef em = Some ref" and t: "tracks_host rp c ref em res em' l"
    by (cases "mHostRef em") (auto simp: works_with_host_def associates_def)
  from t l obtain l' where "l = EvGetElementalHost (refKey ref) r # l'" "k = refKey ref"
    by cases (auto simp: provider_id_set_def)
  with ref o t body show ?thesis unfolding owners_read_def by auto
qed

text \<open>How a machine that has a host reacts to what it reads of it.\<close>

definition follows_host ::
  "int \<Rightarrow> reconcileResult \<Rightarrow> elementalMachine \<Rightarrow> event list \<Rightarrow> elementalMachine \<Rightarrow> bool"
where
  "follows_host rp res before body after \<longleftrightarrow>
    (\<forall>k r. notDeleted before \<and> EvGetElementalHost k r \<in> set body \<longrightarrow>
    (\<exists>ref. mHostRef before = Some ref \<and> k = refKey ref) \<and>
    (case r of
       Inl e \<Rightarrow> \<not> mReady after \<and>
         (if err_is e StatusNotFound
          then mHostRef after = None \<and> mProviderID after = None \<and> res = (rp, None)
          else mHostRef after = mHostRef before \<and> mProviderID after = mProviderID before \<and> snd res \<noteq> None)
     | Inr host \<Rightarrow> mHostRef after = mHostRef before \<and>
         (\<exists>k' cluster. EvGetCapiCluster k' (Inr cluster) \<in> set body \<and>
           (mReady after \<longleftrightarrow> host_up host \<and> control_plane_up cluster \<and> snd res = None))))"

text \<open>
  C7. A linked machine follows its host. A host that is gone cuts the association (no host reference, no
  provider id, not ready, retried after the requeue period), any other failure to read it keeps the
  association and is an error, and a host that was read makes the machine ready exactly when it is
  installed and bootstrapped, the control plane is initialized and the provider id is set without error.
\<close>

theorem Machine_Reconcile_follows_host:
  assumes "lists_honour_selectors E"
  shows "wp (Machine_Reconcile E now rp req) (machine_reconciles_once req (follows_host rp))"
proof (rule wp_Machine_Reconcile [OF assms], unfold follows_host_def, intro allI impI)
  fix before after res body k r
  assume "machine_run rp before res after body" and "notDeleted before \<and> EvGetElementalHost k r \<in> set body"
  then obtain ref cluster k' l where "mHostRef before = Some ref" "k = refKey ref"
    and c: "EvGetCapiCluster k' (Inr cluster) \<in> set body"
    and t: "tracks_host rp cluster ref before res after (EvGetElementalHost (refKey ref) r # l)"
    using machine_run_follows by blast
  from t have "case r of
       Inl e \<Rightarrow> \<not> mReady after \<and>
         (if err_is e StatusNotFound
          then mHostRef after = None \<and> mProviderID after = None \<and> res = (rp, None)
          else mHostRef after = mHostRef before \<and> mProviderID after = mProviderID before \<and> snd res \<noteq> None)
     | Inr host \<Rightarrow> mHostRef after = mHostRef before \<and>
           (mReady after \<longleftrightarrow> host_up host \<and> control_plane_up cluster \<and> snd res = None)"
    by cases auto
  with \<open>mHostRef before = Some ref\<close> \<open>k = refKey ref\<close> c
  show "(\<exists>ref. mHostRef before = Some ref \<and> k = refKey ref) \<and>
    (case r of
       Inl e \<Rightarrow> \<not> mReady after \<and>
         (if err_is e StatusNotFound
          then mHostRef after = None \<and> mProviderID after = None \<and> res = (rp, None)
          else mHostRef after = mHostRef before \<and> mProviderID after = mProviderID before \<and> snd res \<noteq> None)
     | Inr host \<Rightarrow> mHostRef after = mHostRef before \<and>
         (\<exists>k' cluster. EvGetCapiCluster k' (Inr cluster) \<in> set body \<and>
           (mReady after \<longleftrightarrow> host_up host \<and> control_plane_up cluster \<and> snd res = None)))"
    by (cases r) auto
qed

text \<open>How a machine without a host gets one.\<close>

definition association_progresses ::
  "int \<Rightarrow> reconcileResult \<Rightarrow> elementalMachine \<Rightarrow> event list \<Rightarrow> elementalMachine \<Rightarrow> bool"
where
  "association_progresses rp res before body after \<longleftrightarrow>
    (\<forall>sel hs. notDeleted before \<and> mHostRef before = None \<and> snd res = None \<and>
       EvListElementalHosts (oNamespace before) sel (Inr hs) \<in> set body \<longrightarrow>
       (if nothing_listed body then mHostRef after = None \<and> fst res = rp
        else \<exists>h. listed before h body \<and> mHostRef after = Some (host_reference h)))"

text \<open>
  C9. A waiting machine gets a host. A machine that has no host and looks for one without an error refers after the run to one of the
  hosts that were listed, and if none was, it is reconciled again after the requeue period: it is neither
  left without a host that was there, nor forgotten.
\<close>

theorem Machine_Reconcile_progresses:
  assumes "lists_honour_selectors E"
  shows "wp (Machine_Reconcile E now rp req) (machine_reconciles_once req (association_progresses rp))"
proof (rule wp_Machine_Reconcile [OF assms], unfold association_progresses_def, intro allI impI, elim conjE)
  fix before after res body sel hs
  assume run: "machine_run rp before res after body" and before: "notDeleted before" "mHostRef before = None"
    and ok: "snd res = None" and ev: "EvListElementalHosts (oNamespace before) sel (Inr hs) \<in> set body"
  have "\<not> list_all lookup_event body" using ev by (fastforce simp: list_all_iff)
  with run before obtain machine c l0 l where body: "body = l0 @ l" and o: "owners_read machine c l0"
    and w: "works_with_host rp machine c before res after l"
    unfolding machine_run_def by auto
  from o have l0: "nothing_listed l0" "\<not> listed before h l0" for h
    by (auto simp: owners_read_def nothing_listed_def listed_def list_all_iff)
  from w ok before(2) have a: "associates machine before res after l" "mHostRef after = None \<longrightarrow> fst res = rp"
    by (simp_all add: works_with_host_def)
  from a(1) consider "mHostRef after = None" "nothing_listed l"
    | h where "listed before h l" "mHostRef after = Some (host_reference h)"
    using ok unfolding associates_def by (fastforce split: if_splits)
  then show "if nothing_listed body then mHostRef after = None \<and> fst res = rp
      else \<exists>h. listed before h body \<and> mHostRef after = Some (host_reference h)"
    by cases (use a(2) l0 listed_something in \<open>auto simp: body\<close>)
qed

text \<open>What happens to a deleted machine whose host is gone.\<close>

definition missing_host_stuck ::
  "reconcileResult \<Rightarrow> elementalMachine \<Rightarrow> event list \<Rightarrow> elementalMachine \<Rightarrow> bool"
where
  "missing_host_stuck res before body after \<longleftrightarrow>
    (\<forall>k e. \<not> notDeleted before \<and> EvGetElementalHost k (Inl e) \<in> set body \<and> err_is e StatusNotFound \<longrightarrow>
      res = (0, None) \<and> writes body = [] \<and> oFinalizers after = oFinalizers before \<and>
      ContainsFinalizer after FinalizerElementalMachine)"

text \<open>
  A machine whose host object is gone is never released: the run reports success, asks for no
  requeue, writes nothing but its own patch and keeps the finalizer, although nothing is left to do for it.
\<close>

theorem Machine_Reconcile_missing_host_stuck:
  assumes "lists_honour_selectors E"
  shows "wp (Machine_Reconcile E now rp req) (machine_reconciles_once req missing_host_stuck)"
  apply (rule wp_Machine_Reconcile [OF assms])
  by (auto simp: missing_host_stuck_def machine_run_def owners_read_def releases_host_def
      ContainsFinalizer_def list_all_iff split: if_splits option.splits)

end
