(* ===== verification/Host_Controller.thy ===== *)
theory Host_Controller
  imports Controller_Common
begin

text \<open>
  \<^verbatim>\<open>internal/controller/elementalhost_controller.go\<close>: the reconciler that follows an
  ElementalHost through installation, bootstrap and reset by its labels and conditions. Each method
  returns the host it mutated with its result; \<open>Host_Reconcile\<close> runs the deferred summary and
  patch on every path that got as far as creating the patch helper.
\<close>

section \<open>What wakes the controller\<close>

definition ElementalMachineToElementalHost :: "clientObject \<Rightarrow> objectKey list" where
  "ElementalMachineToElementalHost obj = (case obj of
     ObjElementalMachine machine \<Rightarrow> (case mHostRef machine of
       Some r \<Rightarrow> [\<lparr>keyNamespace = refNamespace r, keyName = refName r\<rparr>]
     | None \<Rightarrow> [])
   | _ \<Rightarrow> [])"

section \<open>The reconciler\<close>

text \<open>The part of \<^verbatim>\<open>reconcileOSVersionManagement\<close> after the machine was fetched.\<close>

definition propagateOSVersion :: "int \<Rightarrow> elementalMachine \<Rightarrow> elementalHost \<Rightarrow> elementalHost" where
  "propagateOSVersion now machine host =
     (if \<not> gequal (hOSVersionManagement host) (mOSVersionManagement machine) then
        (let host = host\<lparr>hOSVersionManagement := mOSVersionManagement machine\<rparr>;
             isAlreadyBootstrapped = label_is_true host LabelElementalHostBootstrapped;
             isInPlaceUpdatePending =
               (gget (oLabels host) LabelElementalHostInPlaceUpdate = Some InPlaceUpdatePending)
         in if isAlreadyBootstrapped \<and> \<not> isInPlaceUpdatePending
            then host_Set now (mk_condition OSVersionReady ConditionFalse
              InPlaceUpdateNotPendingReasonSeverity InPlaceUpdateNotPendingReason
              (''ElementalMachine '' @ oName machine @ '' OSVersionManagement mutated, but no in-place-upgrade is pending. Mutation will be ignored.'')) host
            else host_Set now (mk_condition OSVersionReady ConditionFalse
              WaitingOSReconcileReasonSeverity WaitingOSReconcileReason
              (''ElementalMachine '' @ oName machine @ '' OSVersionManagement mutated'')) host)
      else host)"

definition host_reconcileOSVersionManagement ::
  "'w env \<Rightarrow> int \<Rightarrow> objectReference \<Rightarrow> elementalHost \<Rightarrow>
    ('w, event, goerr option \<times> elementalHost) prog"
where
  "host_reconcileOSVersionManagement E now machineRef host = do {
     r \<leftarrow> kGetElementalMachine E
       \<lparr>keyNamespace = refNamespace machineRef, keyName = refName machineRef\<rparr>;
     (case r of
        Inl e \<Rightarrow>
          if err_is e StatusNotFound then ret (None, host)
          else ret (Some (wrapf (''fetching associated ElementalMachine '' @ sq (refName machineRef)) e), host)
      | Inr machine \<Rightarrow> ret (None, propagateOSVersion now machine host))
   }"

text \<open>The conditions the labels stand for, in the order the code sets them.\<close>

definition host_installed_conditions :: "int \<Rightarrow> elementalHost \<Rightarrow> elementalHost" where
  "host_installed_conditions now host =
     (if label_is_true host LabelElementalHostInstalled
      then host_Set now (mk_condition InstallationReady ConditionTrue SeverityInfo [] [])
        (host_Set now (mk_condition RegistrationReady ConditionTrue SeverityInfo [] []) host)
      else host)"

definition host_bootstrapped_condition :: "int \<Rightarrow> elementalHost \<Rightarrow> elementalHost" where
  "host_bootstrapped_condition now host =
     (if label_is_true host LabelElementalHostBootstrapped
      then host_Set now (mk_condition BootstrapReady ConditionTrue SeverityInfo [] []) host
      else host)"

definition host_reconcileNormal ::
  "'w env \<Rightarrow> int \<Rightarrow> elementalHost \<Rightarrow> ('w, event, reconcileResult \<times> elementalHost) prog"
where
  "host_reconcileNormal E now host = do {
     (err, host) \<leftarrow> (case hMachineRef host of
        Some machineRef \<Rightarrow> host_reconcileOSVersionManagement E now machineRef host
      | None \<Rightarrow> ret (None, host));
     (case err of
        Some e \<Rightarrow> ret ((0, Some (wrapf ''reconciling OSVersionManagement'' e)), host)
      | None \<Rightarrow> ret ((0, None),
          host_bootstrapped_condition now (host_installed_conditions now host)))
   }"

definition host_reconcileDelete ::
  "int \<Rightarrow> elementalHost \<Rightarrow> reconcileResult \<times> elementalHost"
where
  "host_reconcileDelete now host =
     (if label_is_true host LabelElementalHostReset
      then ((0, None), host_Set now (mk_condition ResetReady ConditionTrue SeverityInfo [] [])
        (RemoveFinalizer FinalizerElementalMachine host))
      else if \<not> label_is_true host LabelElementalHostNeedsReset
      then ((0, None), host_Set now (mk_condition ResetReady ConditionFalse
          WaitingForResetReasonSeverity WaitingForResetReason ''Waiting for remote host to reset'')
        (put_label LabelElementalHostNeedsReset ''true'' host))
      else ((0, None), host))"

text \<open>
  The body of \<^verbatim>\<open>Reconcile\<close> once the patch helper exists, and the deferred function that runs
  after it.
\<close>

definition host_body ::
  "'w env \<Rightarrow> int \<Rightarrow> elementalHost \<Rightarrow> ('w, event, reconcileResult \<times> elementalHost) prog"
where
  "host_body E now host0 =
     (let host = init_labels host0 in
      if notDeleted host then do {
        (result, host) \<leftarrow> host_reconcileNormal E now (AddFinalizer FinalizerElementalMachine host);
        (case snd result of
           Some e \<Rightarrow> ret ((0, Some (wrapf ''reconciling ElementalHost'' e)), host)
         | None \<Rightarrow> ret (result, host))
      }
      else if ContainsFinalizer host FinalizerElementalMachine then
        (case host_reconcileDelete now host of (result, host) \<Rightarrow>
          (case snd result of
             Some e \<Rightarrow> ret ((0, Some (wrapf ''reconciling ElementalHost deletion'' e)), host)
           | None \<Rightarrow> ret (result, host)))
      else ret ((0, None), host))"

definition host_deferred ::
  "'w env \<Rightarrow> int \<Rightarrow> elementalHost \<Rightarrow> reconcileResult \<times> elementalHost \<Rightarrow>
    ('w, event, reconcileResult) prog"
where
  "host_deferred E now original out = (case out of (result, host) \<Rightarrow> do {
     r \<leftarrow> kPatchElementalHost E original (host_SetSummary now host);
     (case r of
        None \<Rightarrow> ret result
      | Some e \<Rightarrow> ret (fst result, Some (errors_join (snd result) (wrapf ''patching ElementalHost'' e))))
   })"

definition Host_Reconcile :: "'w env \<Rightarrow> int \<Rightarrow> objectKey \<Rightarrow> ('w, event, reconcileResult) prog" where
  "Host_Reconcile E now req = do {
     r \<leftarrow> kGetElementalHost E req;
     (case r of
        Inl e \<Rightarrow> (if err_is e StatusNotFound then ret (0, None)
                  else ret (0, Some (wrapf ''fetching ElementalHost'' e)))
      | Inr host \<Rightarrow> do {
          h \<leftarrow> kNewPatchHelper E ''ElementalHost'' (ObjectKeyFromObject host);
          (case h of
             Some e \<Rightarrow> ret (0, Some (wrapf ''initializing patch helper'' e))
           | None \<Rightarrow> do { out \<leftarrow> host_body E now host; host_deferred E now host out })
        })
   }"

section \<open>Frames\<close>

named_theorems host_simps \<open>how the steps of the host reconciler act on the fields of a host\<close>

lemma init_labels_host [host_simps]:
  "oFinalizers (init_labels h) = oFinalizers h" "notDeleted (init_labels h) = notDeleted h"
  "gget (oLabels (init_labels h)) k = gget (oLabels h) k" "oLabels (init_labels h) \<noteq> None"
  "hBootstrapSecret (init_labels (h::elementalHost)) = hBootstrapSecret h"
  "hMachineRef (init_labels h) = hMachineRef h" "hPubKey (init_labels h) = hPubKey h"
  "hOSVersionManagement (init_labels h) = hOSVersionManagement h"
  "hConditions (init_labels h) = hConditions h"
  "oDeletionTimestamp (init_labels h) = oDeletionTimestamp h"
  "oName (init_labels h) = oName h" "oNamespace (init_labels h) = oNamespace h"
  "oUID (init_labels h) = oUID h" "hPhase (init_labels h) = hPhase h"
  by (simp_all add: init_labels_def notDeleted_def)

lemma AddFinalizer_host [host_simps]:
  "notDeleted (AddFinalizer f h) = notDeleted h" "oLabels (AddFinalizer f h) = oLabels h"
  "hBootstrapSecret (AddFinalizer f (h::elementalHost)) = hBootstrapSecret h"
  "hMachineRef (AddFinalizer f h) = hMachineRef h" "hPubKey (AddFinalizer f h) = hPubKey h"
  "hOSVersionManagement (AddFinalizer f h) = hOSVersionManagement h"
  "hConditions (AddFinalizer f h) = hConditions h"
  "oDeletionTimestamp (AddFinalizer f h) = oDeletionTimestamp h"
  "oName (AddFinalizer f h) = oName h" "oNamespace (AddFinalizer f h) = oNamespace h"
  "oUID (AddFinalizer f h) = oUID h" "hPhase (AddFinalizer f h) = hPhase h"
  by (simp_all add: AddFinalizer_def notDeleted_def)

lemma RemoveFinalizer_host [host_simps]:
  "notDeleted (RemoveFinalizer f h) = notDeleted h" "oLabels (RemoveFinalizer f h) = oLabels h"
  "hBootstrapSecret (RemoveFinalizer f (h::elementalHost)) = hBootstrapSecret h"
  "hMachineRef (RemoveFinalizer f h) = hMachineRef h" "hPubKey (RemoveFinalizer f h) = hPubKey h"
  "hOSVersionManagement (RemoveFinalizer f h) = hOSVersionManagement h"
  "hConditions (RemoveFinalizer f h) = hConditions h"
  "oDeletionTimestamp (RemoveFinalizer f h) = oDeletionTimestamp h"
  "oName (RemoveFinalizer f h) = oName h" "oNamespace (RemoveFinalizer f h) = oNamespace h"
  by (simp_all add: RemoveFinalizer_def notDeleted_def)

lemma put_label_host [host_simps]:
  "oFinalizers (put_label k v h) = oFinalizers h" "notDeleted (put_label k v h) = notDeleted h"
  "oLabels (put_label k v h) = gput k v (oLabels h)"
  "hBootstrapSecret (put_label k v (h::elementalHost)) = hBootstrapSecret h"
  "hMachineRef (put_label k v h) = hMachineRef h" "hPubKey (put_label k v h) = hPubKey h"
  "hOSVersionManagement (put_label k v h) = hOSVersionManagement h"
  "hConditions (put_label k v h) = hConditions h"
  "oDeletionTimestamp (put_label k v h) = oDeletionTimestamp h"
  "oName (put_label k v h) = oName h" "oNamespace (put_label k v h) = oNamespace h"
  by (simp_all add: put_label_def notDeleted_def)

lemma host_Set_more [host_simps]:
  "notDeleted (conditions_Set hConditions host_SetConditions now c h) = notDeleted h"
  "ContainsFinalizer (conditions_Set hConditions host_SetConditions now c h) f = ContainsFinalizer h f"
  "label_is_true (conditions_Set hConditions host_SetConditions now c h) k = label_is_true h k"
  by (simp_all add: notDeleted_def ContainsFinalizer_def label_is_true_def)

lemma host_SetSummary_more [host_simps]:
  "notDeleted (host_SetSummary now h) = notDeleted h"
  "ContainsFinalizer (host_SetSummary now h) f = ContainsFinalizer h f"
  "label_is_true (host_SetSummary now h) k = label_is_true h k"
  by (simp_all add: conditions_SetSummary_def host_simps)

section \<open>What a reconciliation writes\<close>

text \<open>
  The fields of a host that no reconciliation of it may touch: its identity, the links the machine
  controller makes, and every label but needs-reset.
\<close>

definition host_frame :: "elementalHost \<Rightarrow> elementalHost \<Rightarrow> bool" where
  "host_frame h h' \<longleftrightarrow>
     oName h' = oName h \<and> oNamespace h' = oNamespace h \<and> oDeletionTimestamp h' = oDeletionTimestamp h \<and>
     hPubKey h' = hPubKey h \<and> hMachineRef h' = hMachineRef h \<and> hBootstrapSecret h' = hBootstrapSecret h \<and>
     (\<forall>k. k \<noteq> LabelElementalHostNeedsReset \<longrightarrow> gget (oLabels h') k = gget (oLabels h) k) \<and>
     (\<forall>f. f \<noteq> FinalizerElementalMachine \<longrightarrow> ContainsFinalizer h' f = ContainsFinalizer h f)"

text \<open>
  The life of a host towards its deletion, as the finalizer and the two reset labels show it, and
  the step one reconciliation takes. This is the abstract specification of the controller.
\<close>

datatype hostLifecycle = Fresh | Protected | DeletionRequested | AwaitingReset | ResetDone | Released

definition host_lifecycle :: "elementalHost \<Rightarrow> hostLifecycle" where
  "host_lifecycle h =
     (if notDeleted h then (if ContainsFinalizer h FinalizerElementalMachine then Protected else Fresh)
      else if \<not> ContainsFinalizer h FinalizerElementalMachine then Released
      else if label_is_true h LabelElementalHostReset then ResetDone
      else if label_is_true h LabelElementalHostNeedsReset then AwaitingReset
      else DeletionRequested)"

fun lifecycle_step :: "hostLifecycle \<Rightarrow> hostLifecycle" where
  "lifecycle_step Fresh = Protected"
| "lifecycle_step Protected = Protected"
| "lifecycle_step DeletionRequested = AwaitingReset"
| "lifecycle_step AwaitingReset = AwaitingReset"
| "lifecycle_step ResetDone = Released"
| "lifecycle_step Released = Released"

lemma label_is_true_simps [host_simps]:
  "label_is_true (init_labels h) k = label_is_true h k"
  "label_is_true (AddFinalizer f h) k = label_is_true h k"
  "label_is_true (RemoveFinalizer f h) k = label_is_true h k"
  "oLabels h \<noteq> None \<Longrightarrow>
   label_is_true (put_label k v h) k' = (if k = k' then v = ''true'' else label_is_true h k')"
  by (auto simp: label_is_true_def init_labels_def AddFinalizer_def RemoveFinalizer_def put_label_def)

lemma ContainsFinalizer_simps [host_simps]:
  "ContainsFinalizer (init_labels h) f = ContainsFinalizer h f"
  "ContainsFinalizer (put_label k v h) f = ContainsFinalizer h f"
  by (simp_all add: ContainsFinalizer_def init_labels_def put_label_def)

lemma host_frame_refl [simp]: "host_frame h h"
  by (simp add: host_frame_def)

lemma host_frame_trans: "host_frame a b \<Longrightarrow> host_frame b c \<Longrightarrow> host_frame a c"
  by (simp add: host_frame_def)

lemma host_frame_steps:
  "host_frame h (init_labels h)" "host_frame h (AddFinalizer FinalizerElementalMachine h)"
  "host_frame h (RemoveFinalizer FinalizerElementalMachine h)"
  "oLabels h \<noteq> None \<Longrightarrow> host_frame h (put_label LabelElementalHostNeedsReset v h)"
  "host_frame h (conditions_Set hConditions host_SetConditions now c h)"
  "host_frame h (h\<lparr>hOSVersionManagement := os\<rparr>)"
  "host_frame h (host_SetSummary now h)"
  by (simp_all add: host_frame_def host_simps conditions_SetSummary_def) (simp add: ContainsFinalizer_def)

text \<open>What a step does besides the conditions and the OS version: nothing the lifecycle sees.\<close>

definition host_same :: "elementalHost \<Rightarrow> elementalHost \<Rightarrow> bool" where
  "host_same h h' \<longleftrightarrow> host_frame h h' \<and> oLabels h' = oLabels h \<and> oFinalizers h' = oFinalizers h"

lemma host_same_refl [simp]: "host_same h h"
  by (simp add: host_same_def)

lemma host_same_trans: "host_same a b \<Longrightarrow> host_same b c \<Longrightarrow> host_same a c"
  by (auto simp: host_same_def intro: host_frame_trans)

lemma host_same_steps:
  "host_same h (conditions_Set hConditions host_SetConditions now c h)"
  "host_same h (h\<lparr>hOSVersionManagement := os\<rparr>)"
  "host_same h (host_SetSummary now h)"
  by (simp_all add: host_same_def host_frame_steps)

lemma host_same_Set [intro!]:
  "host_same h g \<Longrightarrow> host_same h (conditions_Set hConditions host_SetConditions now c g)"
  by (rule host_same_trans [OF _ host_same_steps(1)])

lemma host_same_lifecycle: "host_same h h' \<Longrightarrow> host_lifecycle h' = host_lifecycle h"
  by (simp add: host_same_def host_frame_def host_lifecycle_def notDeleted_def ContainsFinalizer_def
      label_is_true_def)

lemma host_same_installed: "host_same h (host_installed_conditions now h)"
  by (auto simp: host_installed_conditions_def)

lemma host_same_bootstrapped: "host_same h (host_bootstrapped_condition now h)"
  by (auto simp: host_bootstrapped_condition_def)

lemma host_same_propagate: "host_same h (propagateOSVersion now machine h)"
  unfolding propagateOSVersion_def Let_def
  by (auto intro!: host_same_trans [OF host_same_steps(2) host_same_steps(1)])

lemma wp_host_reconcileOSVersionManagement:
  "(\<And>err h' r. host_same h h' \<Longrightarrow>
      Q (err, h') [EvGetElementalMachine (refKey ref) r]) \<Longrightarrow>
   wp (host_reconcileOSVersionManagement E now ref h) Q"
  unfolding host_reconcileOSVersionManagement_def refKey_def
  by (intro wp_intros) (auto intro: host_same_propagate)

lemma wp_host_reconcileNormal:
  assumes "\<And>res h' l. host_same h h' \<Longrightarrow> (\<forall>ev \<in> set l. \<not> is_write ev) \<Longrightarrow> Q (res, h') l"
  shows "wp (host_reconcileNormal E now h) Q"
proof -
  have normal: "host_same h h' \<Longrightarrow>
      host_same h (host_bootstrapped_condition now (host_installed_conditions now h'))" for h'
    by (blast intro: host_same_trans host_same_installed host_same_bootstrapped)
  show ?thesis
    unfolding host_reconcileNormal_def
    by (intro wp_intros wp_host_reconcileOSVersionManagement) (auto intro!: assms normal)
qed

lemma lifecycle_alive:
  assumes "notDeleted h" "host_same (AddFinalizer FinalizerElementalMachine (init_labels h)) h'"
  shows "host_frame h h' \<and> host_lifecycle h' = lifecycle_step (host_lifecycle h)"
proof
  show "host_frame h h'"
    using assms(2) host_frame_trans [OF host_frame_trans [OF host_frame_steps(1) host_frame_steps(2)]]
    by (simp add: host_same_def)
  show "host_lifecycle h' = lifecycle_step (host_lifecycle h)"
    using assms(1) host_same_lifecycle [OF assms(2)] by (auto simp: host_lifecycle_def host_simps)
qed

lemma lifecycle_deleted:
  assumes "\<not> notDeleted h" "ContainsFinalizer h FinalizerElementalMachine"
    and "host_reconcileDelete now (init_labels h) = (res, h')"
  shows "host_frame h h' \<and> host_lifecycle h' = lifecycle_step (host_lifecycle h)"
proof
  show "host_frame h h'"
    using assms(3) unfolding host_reconcileDelete_def
    by (auto split: if_splits simp: host_simps host_frame_def)
  show "host_lifecycle h' = lifecycle_step (host_lifecycle h)"
    using assms unfolding host_reconcileDelete_def
    by (auto split: if_splits simp: host_simps host_lifecycle_def)
qed

lemma wp_host_body:
  assumes "\<And>res h' l. host_frame h h' \<Longrightarrow> host_lifecycle h' = lifecycle_step (host_lifecycle h) \<Longrightarrow>
    (\<forall>ev \<in> set l. \<not> is_write ev) \<Longrightarrow> Q (res, h') l"
  shows "wp (host_body E now h) Q"
proof -
  let ?h = "init_labels h"
  have alive: "Q (res, h') l"
    if "notDeleted ?h" "host_same (AddFinalizer FinalizerElementalMachine ?h) h'"
      "\<forall>ev \<in> set l. \<not> is_write ev" for res h' l
    using that lifecycle_alive [of h h'] by (intro assms) (simp_all add: host_simps)
  have deleted: "Q (res, h') []"
    if "\<not> notDeleted ?h" "ContainsFinalizer ?h FinalizerElementalMachine"
      "host_reconcileDelete now ?h = (res', h')" for res res' h'
    using that lifecycle_deleted [of h now res' h'] by (intro assms) (simp_all add: host_simps)
  have released: "Q (res, ?h) []"
    if "\<not> notDeleted ?h" "\<not> ContainsFinalizer ?h FinalizerElementalMachine" for res
    using that by (intro assms) (simp_all add: host_lifecycle_def host_simps host_frame_steps)
  show ?thesis
    unfolding host_body_def Let_def
    by (intro wp_intros wp_host_reconcileNormal) (auto intro: alive deleted released)
qed

section \<open>Conditions\<close>

abbreviation host_distinct :: "elementalHost \<Rightarrow> bool" where
  "host_distinct h \<equiv> distinct (map cType (hConditions h))"

lemma host_distinct_steps:
  "host_distinct h \<Longrightarrow> host_distinct (conditions_Set hConditions host_SetConditions now c h)"
  "host_distinct h \<Longrightarrow> host_distinct (host_installed_conditions now h)"
  "host_distinct h \<Longrightarrow> host_distinct (host_bootstrapped_condition now h)"
  "host_distinct h \<Longrightarrow> host_distinct (propagateOSVersion now m h)"
  "host_distinct h \<Longrightarrow> host_distinct (AddFinalizer f (init_labels h))"
  by (simp_all add: hostC.distinct_Set host_installed_conditions_def host_bootstrapped_condition_def
      propagateOSVersion_def Let_def host_simps)

lemma host_Get_congs [host_simps]:
  "conditions_Get hConditions (AddFinalizer f (init_labels (h::elementalHost))) t = conditions_Get hConditions h t"
  "conditions_IsTrue hConditions (AddFinalizer f (init_labels h)) t = conditions_IsTrue hConditions h t"
  "conditions_Get hConditions (h\<lparr>hOSVersionManagement := os\<rparr>) t = conditions_Get hConditions h t"
  "conditions_IsTrue hConditions (h\<lparr>hOSVersionManagement := os\<rparr>) t = conditions_IsTrue hConditions h t"
  by (simp_all add: conditions_Get_def conditions_IsTrue_def host_simps)

lemma IsTrue_installed:
  "host_distinct h \<Longrightarrow> conditions_IsTrue hConditions (host_installed_conditions now h) t \<longleftrightarrow>
     (t \<in> {RegistrationReady, InstallationReady} \<and> label_is_true h LabelElementalHostInstalled) \<or>
     conditions_IsTrue hConditions h t"
  by (auto simp: host_installed_conditions_def hostC.IsTrue_Set hostC.distinct_Set)

lemma IsTrue_bootstrapped:
  "host_distinct h \<Longrightarrow> conditions_IsTrue hConditions (host_bootstrapped_condition now h) t \<longleftrightarrow>
     (t = BootstrapReady \<and> label_is_true h LabelElementalHostBootstrapped) \<or>
     conditions_IsTrue hConditions h t"
  by (auto simp: host_bootstrapped_condition_def hostC.IsTrue_Set)

lemma IsTrue_propagate:
  "host_distinct h \<Longrightarrow> t \<noteq> OSVersionReady \<Longrightarrow>
   conditions_IsTrue hConditions (propagateOSVersion now m h) t = conditions_IsTrue hConditions h t"
  by (auto simp: propagateOSVersion_def Let_def hostC.IsTrue_Set host_simps)

lemma Get_installed_other:
  "host_distinct h \<Longrightarrow> t \<notin> {RegistrationReady, InstallationReady} \<Longrightarrow>
   conditions_Get hConditions (host_installed_conditions now h) t = conditions_Get hConditions h t"
  by (auto simp: host_installed_conditions_def hostC.Get_Set hostC.distinct_Set)

lemma Get_bootstrapped_other:
  "host_distinct h \<Longrightarrow> t \<noteq> BootstrapReady \<Longrightarrow>
   conditions_Get hConditions (host_bootstrapped_condition now h) t = conditions_Get hConditions h t"
  by (auto simp: host_bootstrapped_condition_def hostC.Get_Set)

lemma label_is_true_steps [host_simps]:
  "label_is_true (host_installed_conditions now h) k = label_is_true h k"
  "label_is_true (propagateOSVersion now m h) k = label_is_true h k"
  using host_same_installed [of h now] host_same_propagate [of h now m]
  by (simp_all add: host_same_def label_is_true_def)

lemma IsTrue_SetSummary_other:
  "host_distinct h \<Longrightarrow> t \<noteq> ReadyCondition \<Longrightarrow>
   conditions_IsTrue hConditions (host_SetSummary now h) t = conditions_IsTrue hConditions h t"
  using hostC.Get_SetSummary_other [of h t now]
  by (simp add: conditions_IsTrue_def isTrue_condition_def conditions_Get_def)

lemma gequal_nil_cong: "gequal a b \<Longrightarrow> gequal b a"
  by (auto simp: gequal_iff)

section \<open>Properties\<close>

interpretation hostR: patching_reconciler "Host_Reconcile E now" EvGetElementalHost
  "env_GetElementalHost E" "\<lambda>h. EvNewPatchHelper ''ElementalHost'' (ObjectKeyFromObject h)"
  "\<lambda>h. env_NewPatchHelper E ''ElementalHost'' (ObjectKeyFromObject h)" EvPatchElementalHost
  "env_PatchElementalHost E" "host_body E now" "host_SetSummary now" "''ElementalHost''"
  by unfold_locales (simp add: Host_Reconcile_def host_deferred_def kGetElementalHost_def
      kNewPatchHelper_def kPatchElementalHost_def case_prod_unfold
      cong: sum.case_cong option.case_cong if_cong)

abbreviation host_reconciles_once ::
  "objectKey \<Rightarrow> (reconcileResult \<Rightarrow> elementalHost \<Rightarrow> event list \<Rightarrow> elementalHost \<Rightarrow> bool) \<Rightarrow>
    reconcileResult \<Rightarrow> event list \<Rightarrow> bool"
where
  "host_reconciles_once req \<equiv> reconciles_once (EvGetElementalHost req)
     (\<lambda>h. EvNewPatchHelper ''ElementalHost'' (ObjectKeyFromObject h)) EvPatchElementalHost"

lemma summary_lifecycle: "host_frame h (host_SetSummary now g) = host_frame h g"
  "host_lifecycle (host_SetSummary now g) = host_lifecycle g"
  using host_same_lifecycle [OF host_same_steps(3)]
  by (simp_all add: host_frame_def host_simps conditions_SetSummary_def)


text \<open>How the conditions of the patched host follow from the host read and its labels.\<close>

definition conditions_follow_labels ::
  "reconcileResult \<Rightarrow> elementalHost \<Rightarrow> event list \<Rightarrow> elementalHost \<Rightarrow> bool"
where
  "conditions_follow_labels res before body after \<longleftrightarrow>
     (host_distinct before \<and> notDeleted before \<and> snd res = None \<longrightarrow>
     ready_consistent (hConditions after) \<and>
     (\<forall>t. t \<noteq> OSVersionReady \<longrightarrow> t \<noteq> ReadyCondition \<longrightarrow>
       (conditions_IsTrue hConditions after t \<longleftrightarrow>
         (t \<in> {RegistrationReady, InstallationReady} \<and> label_is_true before LabelElementalHostInstalled) \<or>
         (t = BootstrapReady \<and> label_is_true before LabelElementalHostBootstrapped) \<or>
         conditions_IsTrue hConditions before t)))"


text \<open>How the patched host relates to the machine read.\<close>

definition os_version_followed :: "elementalMachine \<Rightarrow> elementalHost \<Rightarrow> elementalHost \<Rightarrow> bool" where
  "os_version_followed machine before after \<longleftrightarrow>
     gequal (hOSVersionManagement after) (mOSVersionManagement machine) \<and>
     (if gequal (hOSVersionManagement before) (mOSVersionManagement machine)
      then conditions_Get hConditions after OSVersionReady = conditions_Get hConditions before OSVersionReady
      else (\<exists>c. conditions_Get hConditions after OSVersionReady = Some c \<and> cStatus c = ConditionFalse \<and>
        cReason c = (if label_is_true before LabelElementalHostBootstrapped \<and>
            gget (oLabels before) LabelElementalHostInPlaceUpdate \<noteq> Some InPlaceUpdatePending
          then InPlaceUpdateNotPendingReason else WaitingOSReconcileReason)))"

lemma os_version_propagate:
  assumes "host_distinct h"
  shows "os_version_followed machine h (propagateOSVersion now machine h)"
proof (cases "gequal (hOSVersionManagement h) (mOSVersionManagement machine)")
  case True
  then show ?thesis by (simp add: os_version_followed_def propagateOSVersion_def)
next
  case False
  have label: "label_is_true (h\<lparr>hOSVersionManagement := os\<rparr>) k = label_is_true h k" for os k
    by (simp add: label_is_true_def)
  from False assms show ?thesis
    by (simp add: os_version_followed_def propagateOSVersion_def Let_def label conditions_Get_def
        hostC.getC_Set get_set_condition stored_state)
qed

lemma os_version_followed_cong:
  assumes "os_version_followed machine h g"
    and "hOSVersionManagement h = hOSVersionManagement h'" "hOSVersionManagement g = hOSVersionManagement g'"
    and "conditions_Get hConditions h OSVersionReady = conditions_Get hConditions h' OSVersionReady"
    and "conditions_Get hConditions g OSVersionReady = conditions_Get hConditions g' OSVersionReady"
    and "\<And>k. gget (oLabels h) k = gget (oLabels h') k"
  shows "os_version_followed machine h' g'"
  using assms(1) unfolding os_version_followed_def label_is_true_def assms(2-6) .

lemma hOSVersion_steps [host_simps]:
  "hOSVersionManagement (host_installed_conditions now h) = hOSVersionManagement h"
  "hOSVersionManagement (host_bootstrapped_condition now h) = hOSVersionManagement h"
  by (simp_all add: host_installed_conditions_def host_bootstrapped_condition_def)

lemma os_version_reconciled:
  assumes "host_distinct h"
  shows "os_version_followed machine h (host_SetSummary now (host_bootstrapped_condition now
    (host_installed_conditions now (propagateOSVersion now machine
      (AddFinalizer FinalizerElementalMachine (init_labels h))))))"
proof -
  let ?h = "AddFinalizer FinalizerElementalMachine (init_labels h)"
  have d: "host_distinct ?h" by (simp add: assms host_distinct_steps)
  show ?thesis
    by (rule os_version_followed_cong [OF os_version_propagate [OF d, of machine now]])
      (simp_all add: assms host_distinct_steps host_simps hostC.Get_SetSummary_other Get_bootstrapped_other
        Get_installed_other)
qed

text \<open>The machine a run read is the one the host refers to, and the host follows it.\<close>

definition follows_os_version ::
  "reconcileResult \<Rightarrow> elementalHost \<Rightarrow> event list \<Rightarrow> elementalHost \<Rightarrow> bool"
where
  "follows_os_version res before body after \<longleftrightarrow>
     (\<forall>key machine. host_distinct before \<and> EvGetElementalMachine key (Inr machine) \<in> set body \<longrightarrow>
     (\<exists>ref. hMachineRef before = Some ref \<and> key = refKey ref) \<and>
     os_version_followed machine before after)"

text \<open>
  The host takes over the OS version of its machine. When a run read the machine a host is
  associated to, the patched host has the machine's OSVersionManagement; if that is a change, then
  OSVersionReady is false, with the warning that the mutation is ignored exactly when the host is
  bootstrapped and no in-place update is pending; if it is not a change, OSVersionReady is untouched.
\<close>

theorem Host_Reconcile_os_version:
  "wp (Host_Reconcile E now req) (host_reconciles_once req follows_os_version)"
  apply (rule hostR.wp_reconcile)
  unfolding follows_os_version_def host_body_def host_reconcileNormal_def host_reconcileOSVersionManagement_def Let_def
  by (intro wp_intros) (auto simp: refKey_def host_simps os_version_reconciled)

end
