(* ===== verification/Sample_World.thy ===== *)
theory Sample_World
  imports Controller_Common
begin

text \<open>
  A concrete environment: an API server that keeps its objects in lists and whose calls never fail
  but for objects that are missing or exist already. It is the instance on which the properties that
  assume something of the environment are shown to apply, and on which runs are evaluated.
\<close>

record world =
  wHosts :: "elementalHost list"
  wMachines :: "elementalMachine list"
  wRegistrations :: "elementalRegistration list"
  wClusters :: "elementalCluster list"
  wCapiMachines :: "capiMachine list"
  wCapiClusters :: "capiCluster list"
  wSecrets :: "secret list"
  wNodes :: "node list"

definition empty_world :: world where
  "empty_world = \<lparr>wHosts = [], wMachines = [], wRegistrations = [], wClusters = [], wCapiMachines = [],
     wCapiClusters = [], wSecrets = [], wNodes = []\<rparr>"

fun lookup_obj :: "objectKey \<Rightarrow> 'a objectMeta_scheme list \<Rightarrow> goerr + 'a objectMeta_scheme" where
  "lookup_obj k [] = Inl (new_err StatusNotFound ''not found'')"
| "lookup_obj k (x # xs) = (if ObjectKeyFromObject x = k then Inr x else lookup_obj k xs)"

definition replace_obj :: "'a objectMeta_scheme \<Rightarrow> 'a objectMeta_scheme list \<Rightarrow> 'a objectMeta_scheme list" where
  "replace_obj y xs = map (\<lambda>x. if ObjectKeyFromObject x = ObjectKeyFromObject y then y else x) xs"

text \<open>An object that is being deleted is gone when its last finalizer is.\<close>

definition collect_deleted :: "'a objectMeta_scheme list \<Rightarrow> 'a objectMeta_scheme list" where
  "collect_deleted xs = filter (\<lambda>x. notDeleted x \<or> oFinalizers x \<noteq> []) xs"

definition create_obj :: "'a objectMeta_scheme \<Rightarrow> 'a objectMeta_scheme list \<Rightarrow> goerr option \<times> 'a objectMeta_scheme list" where
  "create_obj y xs = (case lookup_obj (ObjectKeyFromObject y) xs of
     Inl e \<Rightarrow> (None, xs @ [y]) | Inr _ \<Rightarrow> (Some (new_err StatusAlreadyExists ''already exists''), xs))"

text \<open>The API server moves the string data of a secret into its data.\<close>

definition store_secret :: "secret \<Rightarrow> secret" where
  "store_secret s = s\<lparr>secData := gcopy (ginit (secData s)) (secStringData s), secStringData := None\<rparr>"

definition mark_deleted :: "objectKey \<Rightarrow> 'a objectMeta_scheme list \<Rightarrow> 'a objectMeta_scheme list" where
  "mark_deleted k xs = collect_deleted
     (map (\<lambda>x. if ObjectKeyFromObject x = k then x\<lparr>oDeletionTimestamp := Some 1\<rparr> else x) xs)"

definition sample_env :: "world env" where
  "sample_env = \<lparr>
     env_GetElementalHost = (\<lambda>k w. (lookup_obj k (wHosts w), w)),
     env_GetElementalMachine = (\<lambda>k w. (lookup_obj k (wMachines w), w)),
     env_GetElementalRegistration = (\<lambda>k w. (lookup_obj k (wRegistrations w), w)),
     env_GetElementalCluster = (\<lambda>k w. (lookup_obj k (wClusters w), w)),
     env_GetCapiMachine = (\<lambda>k w. (lookup_obj k (wCapiMachines w), w)),
     env_GetCapiCluster = (\<lambda>k w. (lookup_obj k (wCapiClusters w), w)),
     env_GetSecret = (\<lambda>k w. (lookup_obj k (wSecrets w), w)),
     env_ListElementalHosts = (\<lambda>ns sel w.
       (Inr (filter (\<lambda>h. oNamespace h = ns \<and> selector_matches sel (oLabels h)) (wHosts w)), w)),
     env_ListCapiMachines = (\<lambda>ns ls w.
       (Inr (filter (\<lambda>m. oNamespace m = ns \<and> list_all (\<lambda>(k, v). gget (oLabels m) k = Some v) ls)
          (wCapiMachines w)), w)),
     env_NewPatchHelper = (\<lambda>_ _ w. (None, w)),
     env_PatchElementalHost = (\<lambda>_ h w. (None, w\<lparr>wHosts := collect_deleted (replace_obj h (wHosts w))\<rparr>)),
     env_PatchElementalMachine = (\<lambda>_ m w. (None, w\<lparr>wMachines := collect_deleted (replace_obj m (wMachines w))\<rparr>)),
     env_PatchElementalRegistration = (\<lambda>_ r w. (None, w\<lparr>wRegistrations := replace_obj r (wRegistrations w)\<rparr>)),
     env_PatchElementalCluster = (\<lambda>_ c w. (None, w\<lparr>wClusters := replace_obj c (wClusters w)\<rparr>)),
     env_CreateElementalHost = (\<lambda>h w. (case create_obj h (wHosts w) of (r, hs) \<Rightarrow> (r, w\<lparr>wHosts := hs\<rparr>))),
     env_CreateSecret = (\<lambda>s w. (case create_obj (store_secret s) (wSecrets w) of
        (Some e, _) \<Rightarrow> (Inl e, w) | (None, ss) \<Rightarrow> (Inr s, w\<lparr>wSecrets := ss\<rparr>))),
     env_DeleteElementalHost = (\<lambda>k w. (None, w\<lparr>wHosts := mark_deleted k (wHosts w)\<rparr>)),
     env_RemoteGetClient = (\<lambda>_ w. (None, w)),
     env_RemoteGetNode = (\<lambda>_ n w. (lookup_obj \<lparr>keyNamespace = [], keyName = n\<rparr> (wNodes w), w)),
     env_RemotePatchNode = (\<lambda>_ _ n w. (None, w\<lparr>wNodes := replace_obj n (wNodes w)\<rparr>)),
     env_GenerateKey = (\<lambda>w. (Inr ''key'', w))\<rparr>"

lemma sample_lists [simp]: "lists_honour_selectors sample_env"
  by (auto simp: lists_honour_selectors_def sample_env_def)

section \<open>Sample objects\<close>

definition sample_host :: elementalHost where
  "sample_host = \<lparr>oAPIVersion = ''v1'', oKind = ''ElementalHost'', oName = ''h'', oNamespace = ''ns'',
     oUID = ''u1'', oLabels = Some [], oAnnotations = None, oOwnerReferences = [], oFinalizers = [],
     oDeletionTimestamp = None, hBootstrapSecret = None, hMachineRef = None, hPubKey = ''P'',
     hOSVersionManagement = None, hPhase = [], hConditions = []\<rparr>"

definition host_key :: objectKey where
  "host_key = \<lparr>keyNamespace = ''ns'', keyName = ''h''\<rparr>"

definition machine_key :: objectKey where
  "machine_key = \<lparr>keyNamespace = ''ns'', keyName = ''m''\<rparr>"

definition sample_host_ref :: objectReference where
  "sample_host_ref = \<lparr>refAPIVersion = ''v1'', refKind = ''ElementalHost'', refNamespace = ''ns'',
     refName = ''h'', refUID = ''u1''\<rparr>"

definition sample_machine_ref :: objectReference where
  "sample_machine_ref = \<lparr>refAPIVersion = ''v1'', refKind = ''ElementalMachine'', refNamespace = ''ns'',
     refName = ''m'', refUID = ''u2''\<rparr>"

definition sample_machine :: elementalMachine where
  "sample_machine = \<lparr>oAPIVersion = ''v1'', oKind = ''ElementalMachine'', oName = ''m'', oNamespace = ''ns'',
     oUID = ''u2'', oLabels = Some [(ClusterNameLabel, ''c'')], oAnnotations = None,
     oOwnerReferences = [\<lparr>owAPIVersion = ''cluster.x-k8s.io/v1beta1'', owKind = ''Machine'', owName = ''cm'',
        owUID = ''u3'', owController = Some True\<rparr>],
     oFinalizers = [], oDeletionTimestamp = None, mProviderID = None, mSelector = None, mHostRef = None,
     mOSVersionManagement = None, mReady = False, mConditions = []\<rparr>"

definition sample_capiMachine :: capiMachine where
  "sample_capiMachine = \<lparr>oAPIVersion = ''v1'', oKind = ''Machine'', oName = ''cm'', oNamespace = ''ns'',
     oUID = ''u3'', oLabels = Some [(ClusterNameLabel, ''c'')], oAnnotations = None, oOwnerReferences = [],
     oFinalizers = [], oDeletionTimestamp = None, cmDataSecretName = Some ''boot'',
     cmInfrastructureRef = sample_machine_ref\<rparr>"

definition sample_capiCluster :: capiCluster where
  "sample_capiCluster = \<lparr>oAPIVersion = ''v1'', oKind = ''Cluster'', oName = ''c'', oNamespace = ''ns'',
     oUID = ''u4'', oLabels = None, oAnnotations = None, oOwnerReferences = [], oFinalizers = [],
     oDeletionTimestamp = None, ccPaused = False, ccInfrastructureRef = None, ccInfrastructureReady = True, ccControlPlaneRef = Some sample_machine_ref,
     ccConditions = [mk_condition ControlPlaneInitializedCondition ConditionTrue SeverityInfo [] []]\<rparr>"

definition sample_node :: node where
  "sample_node = \<lparr>oAPIVersion = ''v1'', oKind = ''Node'', oName = ''h'', oNamespace = [], oUID = ''u5'',
     oLabels = None, oAnnotations = None, oOwnerReferences = [], oFinalizers = [],
     oDeletionTimestamp = None, nProviderID = [], nTaints = []\<rparr>"

text \<open>A cluster with one installed free host and one machine that waits for a host.\<close>

definition sample_world :: world where
  "sample_world = empty_world\<lparr>
     wHosts := [put_label LabelElementalHostInstalled ''true'' sample_host],
     wMachines := [sample_machine], wCapiMachines := [sample_capiMachine],
     wCapiClusters := [sample_capiCluster], wNodes := [sample_node]\<rparr>"

end
