(* ===== verification/Controller_Witnesses.thy ===== *)
theory Controller_Witnesses
  imports Machine_Controller Host_Controller Sample_World
begin

text \<open>
  Runs of the reconcilers in the concrete environment of \<open>Sample_World\<close>, which show that the
  hypotheses of their properties can hold and what the properties say there.
\<close>

section \<open>Worlds\<close>

definition linked_machine :: elementalMachine where
  "linked_machine = sample_machine\<lparr>oFinalizers := [FinalizerElementalMachine], mHostRef := Some sample_host_ref\<rparr>"

definition up_host :: elementalHost where
  "up_host = put_label LabelElementalHostBootstrapped ''true''
     (put_label LabelElementalHostInstalled ''true'' sample_host)"

definition linked_world :: world where
  "linked_world = sample_world\<lparr>wMachines := [linked_machine], wHosts := [up_host]\<rparr>"

definition deleting_world :: world where
  "deleting_world = linked_world\<lparr>wMachines := [linked_machine\<lparr>oDeletionTimestamp := Some 4\<rparr>]\<rparr>"

definition failing_env :: "world env" where
  "failing_env = sample_env\<lparr>env_ListElementalHosts := (\<lambda>_ _ w. (Inl (plain_err ''down''), w))\<rparr>"

definition os_world :: world where
  "os_world = sample_world\<lparr>
     wHosts := [sample_host\<lparr>hMachineRef := Some sample_machine_ref\<rparr>],
     wMachines := [sample_machine\<lparr>mOSVersionManagement := Some [(''image'', ''v2'')]\<rparr>]\<rparr>"

lemma failing_lists: "lists_honour_selectors failing_env"
  by (simp add: lists_honour_selectors_def failing_env_def sample_env_def)

text \<open>What the patches of a run show.\<close>

definition patches_machine :: "(elementalMachine \<Rightarrow> bool) \<Rightarrow> event list \<Rightarrow> bool" where
  "patches_machine P l \<longleftrightarrow> list_ex (\<lambda>ev. case ev of EvPatchElementalMachine _ m None \<Rightarrow> P m | _ \<Rightarrow> False) l"

definition patches_host :: "(elementalHost \<Rightarrow> bool) \<Rightarrow> event list \<Rightarrow> bool" where
  "patches_host P l \<longleftrightarrow> list_ex (\<lambda>ev. case ev of EvPatchElementalHost _ h None \<Rightarrow> P h | _ \<Rightarrow> False) l"

section \<open>Hosts\<close>


theorem Host_Reconcile_os_version_witness:
  "host_reconciles_once host_key follows_os_version
     (result_of (Host_Reconcile sample_env 5 host_key) os_world)
     (events_of (Host_Reconcile sample_env 5 host_key) os_world) \<and>
   patches_host (\<lambda>h. hOSVersionManagement h = Some [(''image'', ''v2'')])
     (events_of (Host_Reconcile sample_env 5 host_key) os_world)"
  by (rule conjI, rule wp_eventsD [OF Host_Reconcile_os_version], code_simp)

section \<open>Machines\<close>

theorem Machine_Reconcile_associates_witness:
  "machine_reconciles_once machine_key association_sound
     (result_of (Machine_Reconcile sample_env 5 7 machine_key) sample_world)
     (events_of (Machine_Reconcile sample_env 5 7 machine_key) sample_world) \<and>
   patches_machine (\<lambda>m. mHostRef m = Some sample_host_ref)
     (events_of (Machine_Reconcile sample_env 5 7 machine_key) sample_world)"
  by (rule conjI, rule wp_eventsD [OF Machine_Reconcile_associates [OF sample_lists]], code_simp)


theorem Machine_Reconcile_releases_witness:
  "machine_reconciles_once machine_key released_only_when_reset_asked
     (result_of (Machine_Reconcile sample_env 5 7 machine_key) deleting_world)
     (events_of (Machine_Reconcile sample_env 5 7 machine_key) deleting_world) \<and>
   patches_host (\<lambda>h. label_is_true h LabelElementalHostNeedsReset)
     (events_of (Machine_Reconcile sample_env 5 7 machine_key) deleting_world) \<and>
   patches_machine (\<lambda>m. oFinalizers m = [])
     (events_of (Machine_Reconcile sample_env 5 7 machine_key) deleting_world)"
  by (intro conjI, rule wp_eventsD [OF Machine_Reconcile_releases [OF sample_lists]], code_simp, code_simp)

theorem Machine_Reconcile_reports_errors_witness:
  "machine_reconciles_once machine_key errors_reported
     (result_of (Machine_Reconcile failing_env 5 7 machine_key) sample_world)
     (events_of (Machine_Reconcile failing_env 5 7 machine_key) sample_world) \<and>
   list_ex reportable (events_of (Machine_Reconcile failing_env 5 7 machine_key) sample_world) \<and>
   snd (result_of (Machine_Reconcile failing_env 5 7 machine_key) sample_world) \<noteq> None"
  by (intro conjI, rule wp_eventsD [OF Machine_Reconcile_reports_errors [OF failing_lists]],
      code_simp, code_simp)

theorem Machine_Reconcile_follows_host_witness:
  "machine_reconciles_once machine_key (follows_host 7)
     (result_of (Machine_Reconcile sample_env 5 7 machine_key) (linked_world\<lparr>wHosts := []\<rparr>))
     (events_of (Machine_Reconcile sample_env 5 7 machine_key) (linked_world\<lparr>wHosts := []\<rparr>)) \<and>
   patches_machine (\<lambda>m. mHostRef m = None)
     (events_of (Machine_Reconcile sample_env 5 7 machine_key) (linked_world\<lparr>wHosts := []\<rparr>))"
  by (rule conjI, rule wp_eventsD [OF Machine_Reconcile_follows_host [OF sample_lists]], code_simp)

theorem Machine_Reconcile_missing_host_stuck_witness:
  "machine_reconciles_once machine_key missing_host_stuck
     (result_of (Machine_Reconcile sample_env 5 7 machine_key) (deleting_world\<lparr>wHosts := []\<rparr>))
     (events_of (Machine_Reconcile sample_env 5 7 machine_key) (deleting_world\<lparr>wHosts := []\<rparr>)) \<and>
   patches_machine (\<lambda>m. oFinalizers m = [FinalizerElementalMachine])
     (events_of (Machine_Reconcile sample_env 5 7 machine_key) (deleting_world\<lparr>wHosts := []\<rparr>))"
  by (rule conjI, rule wp_eventsD [OF Machine_Reconcile_missing_host_stuck [OF sample_lists]], code_simp)

theorem Machine_Reconcile_progresses_witness:
  "machine_reconciles_once machine_key (association_progresses 7)
     (result_of (Machine_Reconcile sample_env 5 7 machine_key) sample_world)
     (events_of (Machine_Reconcile sample_env 5 7 machine_key) sample_world) \<and>
   patches_machine (\<lambda>m. mHostRef m = Some sample_host_ref)
     (events_of (Machine_Reconcile sample_env 5 7 machine_key) sample_world) \<and>
   result_of (Machine_Reconcile sample_env 5 7 machine_key) (sample_world\<lparr>wHosts := []\<rparr>) = (7, None)"
  by (intro conjI, rule wp_eventsD [OF Machine_Reconcile_progresses [OF sample_lists]], code_simp, code_simp)

end
