(* ===== verification/Cluster_Controller.thy ===== *)
theory Cluster_Controller
  imports Controller_Common
begin

text \<open>
  \<^verbatim>\<open>internal/controller/elementalcluster_controller.go\<close>: an ElementalCluster is ready when it
  is owned by a Cluster and its control plane endpoint is given. The reconcilers of the two templates
  do nothing.
\<close>

section \<open>The reconciler\<close>

definition IsValid :: "string \<Rightarrow> int \<Rightarrow> bool" where
  "IsValid host port \<longleftrightarrow> host \<noteq> [] \<and> port \<noteq> 0"

definition eMissingControlPlaneEndpoint :: goerr where
  "eMissingControlPlaneEndpoint = new_err ErrMissingControlPlaneEndpoint
     ''ElementalCluster.spec.controlPlaneEndpoint was not defined''"

definition eMissingCAPIClusterOwner :: goerr where
  "eMissingCAPIClusterOwner = new_err ErrMissingCAPIClusterOwner ''Missing CAPI Cluster owner''"

definition cluster_reconcileNormal :: "int \<Rightarrow> elementalCluster \<Rightarrow> goerr option \<times> elementalCluster" where
  "cluster_reconcileNormal now ec =
     (if \<not> IsValid (ecHost ec) (ecPort ec)
      then (Some eMissingControlPlaneEndpoint,
        cluster_Set now (mk_condition ControlPlaneEndpointReady ConditionFalse SeverityError
          MissingControlPlaneEndpointReason (err_msg eMissingControlPlaneEndpoint)) ec)
      else (None,
        cluster_Set now (mk_condition ControlPlaneEndpointReady ConditionTrue SeverityInfo [] []) ec))"

definition cluster_reconcileDelete :: "elementalCluster \<Rightarrow> goerr option \<times> elementalCluster" where
  "cluster_reconcileDelete ec = (None, ec)"

definition no_cluster_owner :: "int \<Rightarrow> string \<Rightarrow> elementalCluster \<Rightarrow> elementalCluster" where
  "no_cluster_owner now msg ec =
     cluster_Set now (mk_condition CAPIClusterReady ConditionFalse SeverityError MissingClusterOwnerReason msg) ec"

definition cluster_body ::
  "'w env \<Rightarrow> int \<Rightarrow> elementalCluster \<Rightarrow> ('w, event, reconcileResult \<times> elementalCluster) prog"
where
  "cluster_body E now elementalCluster =
     (let ec = elementalCluster\<lparr>ecReady := False\<rparr> in do {
        r \<leftarrow> GetOwnerCluster E ec;
        (case r of
           Inl e \<Rightarrow>
             (let err = wrapf ''getting CAPI Cluster owner'' e
              in ret ((0, Some err), no_cluster_owner now (err_msg err) ec))
         | Inr None \<Rightarrow> ret ((0, Some eMissingCAPIClusterOwner),
             no_cluster_owner now (err_msg eMissingCAPIClusterOwner) ec)
         | Inr (Some cluster) \<Rightarrow>
             (let ec = cluster_Set now (mk_condition CAPIClusterReady ConditionTrue SeverityInfo [] []) ec in
              if notDeleted ec
              then (case cluster_reconcileNormal now ec of
                 (Some e, ec) \<Rightarrow> ret ((0, Some (wrapf ''reconciling ElementalCluster'' e)), ec)
               | (None, ec) \<Rightarrow> ret ((0, None), ec\<lparr>ecReady := True\<rparr>))
              else (case cluster_reconcileDelete ec of
                 (Some e, ec) \<Rightarrow> ret ((0, Some (wrapf ''reconciling ElementalCluster deletion'' e)), ec)
               | (None, ec) \<Rightarrow> ret ((0, None), ec\<lparr>ecReady := True\<rparr>))))
      })"

definition cluster_deferred ::
  "'w env \<Rightarrow> int \<Rightarrow> elementalCluster \<Rightarrow> reconcileResult \<times> elementalCluster \<Rightarrow>
    ('w, event, reconcileResult) prog"
where
  "cluster_deferred E now original out = (case out of (result, ec) \<Rightarrow> do {
     r \<leftarrow> kPatchElementalCluster E original (cluster_SetSummary now ec);
     (case r of
        None \<Rightarrow> ret result
      | Some e \<Rightarrow> ret (fst result, Some (errors_join (snd result) (wrapf ''patching ElementalCluster'' e))))
   })"

definition Cluster_Reconcile :: "'w env \<Rightarrow> int \<Rightarrow> objectKey \<Rightarrow> ('w, event, reconcileResult) prog" where
  "Cluster_Reconcile E now req = do {
     r \<leftarrow> kGetElementalCluster E req;
     (case r of
        Inl e \<Rightarrow> (if err_is e StatusNotFound then ret (0, None)
                  else ret (0, Some (wrapf ''fetching ElementalCluster'' e)))
      | Inr ec \<Rightarrow> do {
          h \<leftarrow> kNewPatchHelper E ''ElementalCluster'' (ObjectKeyFromObject ec);
          (case h of
             Some e \<Rightarrow> ret (0, Some (wrapf ''initializing patch helper'' e))
           | None \<Rightarrow> do { out \<leftarrow> cluster_body E now ec; cluster_deferred E now ec out })
        })
   }"

text \<open>The templates are data only.\<close>

definition ClusterTemplate_Reconcile :: "objectKey \<Rightarrow> ('w, event, reconcileResult) prog" where
  "ClusterTemplate_Reconcile req = ret (0, None)"

definition MachineTemplate_Reconcile :: "objectKey \<Rightarrow> ('w, event, reconcileResult) prog" where
  "MachineTemplate_Reconcile req = ret (0, None)"

section \<open>What a run does\<close>

abbreviation cluster_distinct :: "elementalCluster \<Rightarrow> bool" where
  "cluster_distinct ec \<equiv> distinct (map cType (ecConditions ec))"

lemma cluster_more [simp]:
  "notDeleted (conditions_Set ecConditions cluster_SetConditions now c ec) = notDeleted ec"
  "notDeleted (ec\<lparr>ecReady := b\<rparr>) = notDeleted (ec::elementalCluster)"
  "conditions_IsTrue ecConditions (ec\<lparr>ecReady := b\<rparr>) t = conditions_IsTrue ecConditions ec t"
  "oNamespace (conditions_Set ecConditions cluster_SetConditions now c ec) = oNamespace ec"
  by (simp_all add: notDeleted_def conditions_IsTrue_def conditions_Set_def cluster_SetConditions_def
      split: option.splits)

lemma cluster_IsTrue_SetSummary_other:
  "cluster_distinct ec \<Longrightarrow> t \<noteq> ReadyCondition \<Longrightarrow>
   conditions_IsTrue ecConditions (cluster_SetSummary now ec) t = conditions_IsTrue ecConditions ec t"
  using clusterC.Get_SetSummary_other [of ec t now]
  by (simp add: conditions_IsTrue_def isTrue_condition_def conditions_Get_def)

text \<open>
  When an ElementalCluster is ready: its owner was read and, unless it is being deleted, its endpoint
  is valid; then the run succeeds, and the two conditions say which of the two is missing.
\<close>

definition cluster_ready_iff ::
  "reconcileResult \<Rightarrow> elementalCluster \<Rightarrow> event list \<Rightarrow> elementalCluster \<Rightarrow> bool"
where
  "cluster_ready_iff res before body after \<longleftrightarrow>
     (let owned = (\<exists>k c. EvGetCapiCluster k (Inr c) \<in> set body);
          valid = IsValid (ecHost before) (ecPort before)
      in writes body = [] \<and> fst res = 0 \<and> (snd res = None \<longleftrightarrow> ecReady after) \<and>
         (ecReady after \<longleftrightarrow> owned \<and> (notDeleted before \<longrightarrow> valid)) \<and>
         ecHost after = ecHost before \<and> ecPort after = ecPort before \<and>
         oFinalizers after = oFinalizers before \<and>
         (cluster_distinct before \<longrightarrow>
           ready_consistent (ecConditions after) \<and>
           (conditions_IsTrue ecConditions after CAPIClusterReady \<longleftrightarrow> owned) \<and>
           (owned \<and> notDeleted before \<longrightarrow>
             (conditions_IsTrue ecConditions after ControlPlaneEndpointReady \<longleftrightarrow> valid))))"

interpretation clusterR: patching_reconciler "Cluster_Reconcile E now" EvGetElementalCluster
  "env_GetElementalCluster E" "\<lambda>c. EvNewPatchHelper ''ElementalCluster'' (ObjectKeyFromObject c)"
  "\<lambda>c. env_NewPatchHelper E ''ElementalCluster'' (ObjectKeyFromObject c)" EvPatchElementalCluster
  "env_PatchElementalCluster E" "cluster_body E now" "cluster_SetSummary now" "''ElementalCluster''"
  by unfold_locales (simp add: Cluster_Reconcile_def cluster_deferred_def kGetElementalCluster_def
      kNewPatchHelper_def kPatchElementalCluster_def case_prod_unfold
      cong: sum.case_cong option.case_cong if_cong)

abbreviation cluster_reconciles_once ::
  "objectKey \<Rightarrow> (reconcileResult \<Rightarrow> elementalCluster \<Rightarrow> event list \<Rightarrow> elementalCluster \<Rightarrow> bool) \<Rightarrow>
    reconcileResult \<Rightarrow> event list \<Rightarrow> bool"
where
  "cluster_reconciles_once req \<equiv> reconciles_once (EvGetElementalCluster req)
     (\<lambda>c. EvNewPatchHelper ''ElementalCluster'' (ObjectKeyFromObject c)) EvPatchElementalCluster"

lemma looked_up_read: "looked_up ev (Inr (Some x)) l \<Longrightarrow> ev x \<in> set l"
  by (simp add: looked_up_def)

lemma wp_GetOwnerCluster_read:
  "wp (GetOwnerCluster E obj) (\<lambda>r l. list_all lookup_event l \<and>
     ((\<exists>k c. EvGetCapiCluster k (Inr c) \<in> set l) \<longleftrightarrow> (\<exists>c. r = Inr (Some c))))"
  unfolding GetOwnerCluster_def GetClusterByName_def by (intro wp_intros) auto

lemma cluster_distinct_Set [simp]:
  "cluster_distinct ec \<Longrightarrow> cluster_distinct (conditions_Set ecConditions cluster_SetConditions now c ec)"
  by (rule clusterC.distinct_Set)

lemma cluster_SetSummary_more [simp]:
  "ecPort (cluster_SetSummary now ec) = ecPort ec" "oFinalizers (cluster_SetSummary now ec) = oFinalizers ec"
  by (simp_all add: conditions_SetSummary_def)

lemmas cluster_simps = cluster_ready_iff_def cluster_reconcileNormal_def cluster_reconcileDelete_def
  no_cluster_owner_def cluster_IsTrue_SetSummary_other clusterC.IsTrue_Set
  clusterC.ready_consistent_SetSummary Let_def


end
