(* ===== verification/Base64.thy ===== *)
theory Base64
  imports Main
begin

text \<open>
  The unpadded URL-safe base64 of \<^verbatim>\<open>encoding/base64\<close> that JSON web tokens use, on strings as
  bytes, with the proof that decoding inverts encoding. Decoding skips carriage returns and newlines and
  is not strict about trailing bits, as in Go.
\<close>

definition b64_alphabet :: string where
  "b64_alphabet = ''ABCDEFGHIJKLMNOPQRSTUVWXYZabcdefghijklmnopqrstuvwxyz0123456789-_''"

definition b64_char :: "nat \<Rightarrow> char" where
  "b64_char n = b64_alphabet ! n"

fun index_from :: "nat \<Rightarrow> char \<Rightarrow> string \<Rightarrow> nat option" where
  "index_from i c [] = None"
| "index_from i c (d # ds) = (if c = d then Some i else index_from (Suc i) c ds)"

definition b64_value :: "char \<Rightarrow> nat option" where
  "b64_value c = index_from 0 c b64_alphabet"

definition byte :: "char \<Rightarrow> nat" where
  "byte c = of_char c"

fun b64_encode :: "string \<Rightarrow> string" where
  "b64_encode (a # b # c # s) =
     (let n = byte a * 65536 + byte b * 256 + byte c in
      b64_char (n div 262144) # b64_char (n div 4096 mod 64) # b64_char (n div 64 mod 64) #
      b64_char (n mod 64) # b64_encode s)"
| "b64_encode [a, b] =
     (let n = byte a * 65536 + byte b * 256 in
      [b64_char (n div 262144), b64_char (n div 4096 mod 64), b64_char (n div 64 mod 64)])"
| "b64_encode [a] =
     (let n = byte a * 65536 in [b64_char (n div 262144), b64_char (n div 4096 mod 64)])"
| "b64_encode [] = []"

text \<open>The values of the digits, if every character is one.\<close>

fun b64_values :: "string \<Rightarrow> nat list option" where
  "b64_values [] = Some []"
| "b64_values (c # cs) =
     (if c = CHR 0x0A \<or> c = CHR 0x0D then b64_values cs
      else (case b64_value c of
        None \<Rightarrow> None
      | Some v \<Rightarrow> (case b64_values cs of None \<Rightarrow> None | Some vs \<Rightarrow> Some (v # vs))))"

fun b64_bytes :: "nat list \<Rightarrow> string option" where
  "b64_bytes (v0 # v1 # v2 # v3 # vs) =
     (let n = v0 * 262144 + v1 * 4096 + v2 * 64 + v3 in
      (case b64_bytes vs of
         None \<Rightarrow> None
       | Some s \<Rightarrow> Some (char_of (n div 65536) # char_of (n div 256 mod 256) # char_of (n mod 256) # s)))"
| "b64_bytes [v0, v1, v2] =
     (let n = v0 * 262144 + v1 * 4096 + v2 * 64 in
      Some [char_of (n div 65536), char_of (n div 256 mod 256)])"
| "b64_bytes [v0, v1] = (let n = v0 * 262144 + v1 * 4096 in Some [char_of (n div 65536)])"
| "b64_bytes [v0] = None"
| "b64_bytes [] = Some []"

definition b64_decode :: "string \<Rightarrow> string option" where
  "b64_decode s = (case b64_values s of None \<Rightarrow> None | Some vs \<Rightarrow> b64_bytes vs)"

lemma byte_less [simp]: "byte c < 256"
  by (simp add: byte_def)

lemma char_of_byte [simp]: "char_of (byte c) = c"
  by (simp add: byte_def)

lemma b64_value_char_all: "list_all (\<lambda>n. b64_value (b64_char n) = Some n \<and>
    b64_char n \<noteq> CHR 0x0A \<and> b64_char n \<noteq> CHR 0x0D \<and> b64_char n \<noteq> CHR ''.'') [0..<64]"
  by code_simp

lemma b64_char_props:
  "n < 64 \<Longrightarrow> b64_value (b64_char n) = Some n" "n < 64 \<Longrightarrow> b64_char n \<noteq> CHR 0x0A"
  "n < 64 \<Longrightarrow> b64_char n \<noteq> CHR 0x0D" "n < 64 \<Longrightarrow> b64_char n \<noteq> CHR ''.''"
  using b64_value_char_all by (simp_all add: list_all_iff)

text \<open>The digits of a number of up to 24 bits.\<close>

lemma div_steps:
  fixes n :: nat
  shows "n div 4096 = n div 64 div 64" "n div 262144 = n div 64 div 64 div 64"
    "n div 65536 = n div 256 div 256"
  by (simp_all add: div_mult2_eq [symmetric])

lemma digits24_sum:
  fixes n :: nat
  shows "n div 262144 * 262144 + n div 4096 mod 64 * 4096 + n div 64 mod 64 * 64 + n mod 64 = n"
proof -
  have "n = n div 64 * 64 + n mod 64" by simp
  moreover have "n div 64 = n div 64 div 64 * 64 + n div 64 mod 64" by simp
  moreover have "n div 64 div 64 = n div 64 div 64 div 64 * 64 + n div 64 div 64 mod 64" by simp
  ultimately show ?thesis unfolding div_steps by linarith
qed

lemma bytes24:
  fixes a b c :: nat
  assumes "a < 256" "b < 256" "c < 256"
  shows "a * 65536 + b * 256 + c < 16777216" "(a * 65536 + b * 256 + c) div 65536 = a"
    "(a * 65536 + b * 256 + c) div 256 mod 256 = b" "(a * 65536 + b * 256 + c) mod 256 = c"
proof -
  have n: "a * 65536 + b * 256 + c = (a * 256 + b) * 256 + c" by simp
  have d: "((a * 256 + b) * 256 + c) div 256 = a * 256 + b"
    using assms(3) by simp
  show "a * 65536 + b * 256 + c < 16777216" using assms by linarith
  show "(a * 65536 + b * 256 + c) div 256 mod 256 = b"
    unfolding n d using assms(2) by simp
  show "(a * 65536 + b * 256 + c) div 65536 = a"
    unfolding n div_steps d using assms(2) by simp
  show "(a * 65536 + b * 256 + c) mod 256 = c"
    unfolding n using assms(3) by (simp only: mod_mult_self3 mod_less)
qed

lemma digits24:
  fixes n :: nat
  assumes "n < 16777216"
  shows "n div 262144 < 64" "n div 4096 mod 64 < 64" "n div 64 mod 64 < 64" "n mod 64 < 64"
  using assms by (simp_all add: less_mult_imp_div_less)

lemma b64_values_char:
  "n < 64 \<Longrightarrow> b64_values (b64_char n # s) = map_option ((#) n) (b64_values s)"
  by (simp add: b64_char_props split: option.splits)

lemma b64_decode_encode_values:
  "\<exists>vs. b64_values (b64_encode s) = Some vs \<and> b64_bytes vs = Some s"
proof (induction s rule: b64_encode.induct)
  case (1 a b c s)
  define n where "n = byte a * 65536 + byte b * 256 + byte c"
  from 1 [OF n_def] obtain vs where vs: "b64_values (b64_encode s) = Some vs" "b64_bytes vs = Some s"
    by blast
  have n: "n < 16777216" unfolding n_def by (rule bytes24(1)) simp_all
  have "char_of (n div 65536) = a" "char_of (n div 256 mod 256) = b" "char_of (n mod 256) = c"
    unfolding n_def by (simp_all add: bytes24 del: char_of_mod_256)
  with vs digits24_sum [of n] show ?case
    by (simp add: Let_def n_def [symmetric] b64_values_char digits24 [OF n] del: b64_values.simps(2))
next
  case (2 a b)
  define n where "n = byte a * 65536 + byte b * 256"
  have n: "n < 16777216" using bytes24(1) [of "byte a" "byte b" 0] by (simp add: n_def)
  have z: "n mod 64 = 0" unfolding n_def by simp
  have "char_of (n div 65536) = a" "char_of (n div 256 mod 256) = b"
    using bytes24(2,3) [of "byte a" "byte b" 0] by (simp_all add: n_def del: char_of_mod_256)
  with digits24_sum [of n] z show ?case
    by (simp add: Let_def n_def [symmetric] b64_values_char digits24 [OF n] del: b64_values.simps(2))
next
  case (3 a)
  define n where "n = byte a * 65536"
  have n: "n < 16777216" using bytes24(1) [of "byte a" 0 0] by (simp add: n_def)
  have z: "n mod 64 = 0" "n div 64 mod 64 = 0" unfolding n_def by simp_all
  have "char_of (n div 65536) = a"
    using bytes24(2) [of "byte a" 0 0] by (simp add: n_def)
  with digits24_sum [of n] z show ?case
    by (simp add: Let_def n_def [symmetric] b64_values_char digits24 [OF n] del: b64_values.simps(2))
qed simp

text \<open>Decoding inverts encoding, and an encoded segment has no dot.\<close>

lemma b64_decode_encode [simp]: "b64_decode (b64_encode s) = Some s"
  using b64_decode_encode_values [of s] by (auto simp: b64_decode_def)

lemma b64_encode_no_dot: "CHR ''.'' \<notin> set (b64_encode s)"
proof (induction s rule: b64_encode.induct)
  case (1 a b c s)
  define n where "n = byte a * 65536 + byte b * 256 + byte c"
  have n: "n < 16777216" unfolding n_def by (rule bytes24(1)) simp_all
  from 1 [OF n_def] show ?case
    by (auto simp: Let_def n_def [symmetric] dest!: sym [of "CHR ''.''"]
        simp: b64_char_props(4) digits24 [OF n])
next
  case (2 a b)
  define n where "n = byte a * 65536 + byte b * 256"
  have n: "n < 16777216" using bytes24(1) [of "byte a" "byte b" 0] by (simp add: n_def)
  show ?case
    by (auto simp: Let_def n_def [symmetric] dest!: sym [of "CHR ''.''"] simp: b64_char_props(4) digits24 [OF n])
next
  case (3 a)
  define n where "n = byte a * 65536"
  have n: "n < 16777216" using bytes24(1) [of "byte a" 0 0] by (simp add: n_def)
  show ?case
    by (auto simp: Let_def n_def [symmetric] dest!: sym [of "CHR ''.''"] simp: b64_char_props(4) digits24 [OF n])
qed simp

text \<open>The same on integers, for evaluation.\<close>

lemma int_byte: "int (byte c) = of_char c"
  by (simp add: byte_def of_nat_of_char)

lemma nat_char_of: "0 \<le> k \<Longrightarrow> char_of (nat k) = char_of k"
  by (simp add: char_of_def bit_nat_iff)

lemma b64_encode_code [code]:
  "b64_encode (a # b # c # s) =
     (let n = of_char a * 65536 + of_char b * 256 + of_char c :: int in
      b64_char (nat (n div 262144)) # b64_char (nat (n div 4096 mod 64)) # b64_char (nat (n div 64 mod 64)) #
      b64_char (nat (n mod 64)) # b64_encode s)"
  "b64_encode [a, b] =
     (let n = of_char a * 65536 + of_char b * 256 :: int in
      [b64_char (nat (n div 262144)), b64_char (nat (n div 4096 mod 64)), b64_char (nat (n div 64 mod 64))])"
  "b64_encode [a] =
     (let n = of_char a * 65536 :: int in [b64_char (nat (n div 262144)), b64_char (nat (n div 4096 mod 64))])"
  "b64_encode [] = []"
  unfolding b64_encode.simps int_byte [symmetric] Let_def
  by (simp_all add: nat_div_distrib nat_mod_distrib nat_add_distrib nat_mult_distrib)

lemma b64_bytes_code [code]:
  "b64_bytes (v0 # v1 # v2 # v3 # vs) =
     (let n = int v0 * 262144 + int v1 * 4096 + int v2 * 64 + int v3 in
      (case b64_bytes vs of
         None \<Rightarrow> None
       | Some s \<Rightarrow> Some (char_of (n div 65536) # char_of (n div 256 mod 256) # char_of (n mod 256) # s)))"
  "b64_bytes [v0, v1, v2] =
     (let n = int v0 * 262144 + int v1 * 4096 + int v2 * 64 in
      Some [char_of (n div 65536), char_of (n div 256 mod 256)])"
  "b64_bytes [v0, v1] = (let n = int v0 * 262144 + int v1 * 4096 in Some [char_of (n div 65536)])"
  "b64_bytes [v0] = None"
  "b64_bytes [] = Some []"
  unfolding b64_bytes.simps Let_def
  by (simp_all add: nat_char_of [symmetric] nat_div_distrib nat_mod_distrib nat_add_distrib nat_mult_distrib split: option.splits)

end
