(* ===== verification/Jwt.thy ===== *)
theory Jwt
  imports Go_Prelude Base64
begin

text \<open>
  JSON web tokens: \<^verbatim>\<open>golang-jwt\<close>'s parser and validator (vendored) as
  \<^verbatim>\<open>internal/api/auth.go\<close> uses them, and the Ed25519 identity of
  \<^verbatim>\<open>internal/identity\<close>. Base64 is defined in \<open>Base64\<close>; JSON, PEM, X.509 and the
  signature scheme are the record \<open>codec\<close>, a parameter, with their documented laws in
  \<open>codec_ok\<close>. Times are nanoseconds.
\<close>

section \<open>Claims\<close>

record claims =
  rcIssuer :: string
  rcSubject :: string
  rcAudience :: "string list"
  rcExpiresAt :: "int option"
  rcNotBefore :: "int option"
  rcIssuedAt :: "int option"
  rcID :: string

text \<open>
  The fields a JSON object gives; decoding into a \<^verbatim>\<open>RegisteredClaims\<close> writes those and keeps
  what the destination had for the others.
\<close>

record claimsJSON =
  cjIssuer :: "string option"
  cjSubject :: "string option"
  cjAudience :: "string list option"
  cjExpiresAt :: "int option option"
  cjNotBefore :: "int option option"
  cjIssuedAt :: "int option option"
  cjID :: "string option"

definition overlay_claims :: "claimsJSON \<Rightarrow> claims \<Rightarrow> claims" where
  "overlay_claims j c = \<lparr>
     rcIssuer = (case cjIssuer j of None \<Rightarrow> rcIssuer c | Some x \<Rightarrow> x),
     rcSubject = (case cjSubject j of None \<Rightarrow> rcSubject c | Some x \<Rightarrow> x),
     rcAudience = (case cjAudience j of None \<Rightarrow> rcAudience c | Some x \<Rightarrow> x),
     rcExpiresAt = (case cjExpiresAt j of None \<Rightarrow> rcExpiresAt c | Some x \<Rightarrow> x),
     rcNotBefore = (case cjNotBefore j of None \<Rightarrow> rcNotBefore c | Some x \<Rightarrow> x),
     rcIssuedAt = (case cjIssuedAt j of None \<Rightarrow> rcIssuedAt c | Some x \<Rightarrow> x),
     rcID = (case cjID j of None \<Rightarrow> rcID c | Some x \<Rightarrow> x)\<rparr>"

text \<open>What encoding writes: every field is \<^verbatim>\<open>omitempty\<close>.\<close>

definition claims_json :: "claims \<Rightarrow> claimsJSON" where
  "claims_json c = \<lparr>
     cjIssuer = (if rcIssuer c = [] then None else Some (rcIssuer c)),
     cjSubject = (if rcSubject c = [] then None else Some (rcSubject c)),
     cjAudience = (if rcAudience c = [] then None else Some (rcAudience c)),
     cjExpiresAt = map_option Some (rcExpiresAt c),
     cjNotBefore = map_option Some (rcNotBefore c),
     cjIssuedAt = map_option Some (rcIssuedAt c),
     cjID = (if rcID c = [] then None else Some (rcID c))\<rparr>"

section \<open>The codecs and the signature scheme\<close>

datatype parsedKey = EdKey string | NotEdKey

record codec =
  cd_header_alg :: "string \<Rightarrow> goerr + string option"
    \<comment> \<open>decode a header; its \<^verbatim>\<open>alg\<close> if that is a string\<close>
  cd_header :: "string \<Rightarrow> string" \<comment> \<open>the header with that algorithm\<close>
  cd_claims_dec :: "string \<Rightarrow> goerr + claimsJSON"
  cd_claims_enc :: "claims \<Rightarrow> string"
  cd_pem_decode :: "string \<Rightarrow> string option"
  cd_pem_encode :: "string \<Rightarrow> string \<Rightarrow> string" \<comment> \<open>block type, bytes\<close>
  cd_parse_pkix :: "string \<Rightarrow> goerr + parsedKey"
  cd_marshal_pkix :: "string \<Rightarrow> goerr + string"
  cd_parse_pkcs8 :: "string \<Rightarrow> goerr + parsedKey"
  cd_marshal_pkcs8 :: "string \<Rightarrow> goerr + string"
  cd_ed_public :: "string \<Rightarrow> string" \<comment> \<open>the public key of a private key\<close>
  cd_ed_sign :: "string \<Rightarrow> string \<Rightarrow> goerr + string"
  cd_ed_verify :: "string \<Rightarrow> string \<Rightarrow> string \<Rightarrow> bool" \<comment> \<open>public key, message, signature\<close>
  cd_verify_other :: "string \<Rightarrow> string \<Rightarrow> string \<Rightarrow> string \<Rightarrow> goerr option"
    \<comment> \<open>the other signing methods\<close>

text \<open>
  Claims that JSON carries unchanged: ASCII strings, and times that are whole seconds and, as JSON numbers are
  read into floating point, small enough to be exact there.
\<close>

definition ascii :: "string \<Rightarrow> bool" where
  "ascii s \<longleftrightarrow> list_all (\<lambda>c. of_char c < (128 :: nat)) s"

definition json_exact :: "claims \<Rightarrow> bool" where
  "json_exact c \<longleftrightarrow> list_all ascii ([rcIssuer c, rcSubject c, rcID c] @ rcAudience c) \<and>
     (\<forall>t \<in> set_option (rcExpiresAt c) \<union> set_option (rcNotBefore c) \<union> set_option (rcIssuedAt c).
        t mod 1000000000 = 0 \<and> \<bar>t\<bar> < 2 ^ 53 * 1000000000)"

text \<open>What the libraries document: decoding inverts encoding, and signatures verify.\<close>

definition codec_ok :: "codec \<Rightarrow> bool" where
  "codec_ok C \<longleftrightarrow>
     (\<forall>a. cd_header_alg C (cd_header C a) = Inr (Some a)) \<and>
     (\<forall>c. json_exact c \<longrightarrow> cd_claims_dec C (cd_claims_enc C c) = Inr (claims_json c)) \<and>
     (\<forall>t b. cd_pem_decode C (cd_pem_encode C t b) = Some b) \<and>
     (\<forall>k d. cd_marshal_pkix C k = Inr d \<longrightarrow> cd_parse_pkix C d = Inr (EdKey k)) \<and>
     (\<forall>k d. cd_marshal_pkcs8 C k = Inr d \<longrightarrow> cd_parse_pkcs8 C d = Inr (EdKey k)) \<and>
     (\<forall>k. length (cd_ed_public C k) = 32) \<and>
     (\<forall>k m s. cd_ed_sign C k m = Inr s \<longrightarrow> cd_ed_verify C (cd_ed_public C k) m s)"

section \<open>Errors, signing methods, keys\<close>

text \<open>
  \<^verbatim>\<open>newError(message, err, more...)\<close>: the message of the sentinel, then the given one, then the
  wrapped errors.
\<close>

fun jwt_more :: "goerr list \<Rightarrow> string" where
  "jwt_more [] = []"
| "jwt_more (e # es) = '': '' @ err_msg e @ jwt_more es"

definition newError :: "string \<Rightarrow> goerr \<Rightarrow> goerr list \<Rightarrow> goerr" where
  "newError message e es = \<lparr>
     err_msg = err_msg e @ (if message = [] then [] else '': '' @ message) @ jwt_more es,
     err_chain = err_chain e @ concat (map err_chain es)\<rparr>"

definition joinErrors :: "goerr list \<Rightarrow> goerr" where
  "joinErrors es = \<lparr>err_msg = join_with '', '' (map err_msg es), err_chain = concat (map err_chain es)\<rparr>"

definition eTokenMalformed :: goerr where "eTokenMalformed = new_err ErrTokenMalformed ''token is malformed''"
definition eTokenUnverifiable :: goerr where
  "eTokenUnverifiable = new_err ErrTokenUnverifiable ''token is unverifiable''"
definition eTokenSignatureInvalid :: goerr where
  "eTokenSignatureInvalid = new_err ErrTokenSignatureInvalid ''token signature is invalid''"
definition eTokenInvalidClaims :: goerr where
  "eTokenInvalidClaims = new_err ErrTokenInvalidClaims ''token has invalid claims''"
definition eTokenExpired :: goerr where "eTokenExpired = new_err ErrTokenExpired ''token is expired''"
definition eTokenNotValidYet :: goerr where
  "eTokenNotValidYet = new_err ErrTokenNotValidYet ''token is not valid yet''"

text \<open>The signing methods the package registers when it is initialized.\<close>

definition signingMethods :: "string list" where
  "signingMethods = [''ES256'', ''ES384'', ''ES512'', ''EdDSA'', ''HS256'', ''HS384'', ''HS512'',
     ''none'', ''RS256'', ''RS384'', ''RS512'', ''PS256'', ''PS384'', ''PS512'']"

definition GetSigningMethod :: "string \<Rightarrow> string option" where
  "GetSigningMethod alg = (if alg \<in> set signingMethods then Some alg else None)"

definition Ed25519_Verify :: "codec \<Rightarrow> string \<Rightarrow> string \<Rightarrow> string \<Rightarrow> goerr option" where
  "Ed25519_Verify C signingString sig key =
     (if length key \<noteq> 32 then Some (plain_err ''key is invalid'')
      else if \<not> cd_ed_verify C key signingString sig
      then Some (plain_err ''ed25519: verification error'')
      else None)"

definition method_verify :: "codec \<Rightarrow> string \<Rightarrow> string \<Rightarrow> string \<Rightarrow> string \<Rightarrow> goerr option" where
  "method_verify C alg text sig key =
     (if alg = ''EdDSA'' then Ed25519_Verify C text sig key else cd_verify_other C alg text sig key)"

definition ParseEdPublicKeyFromPEM :: "codec \<Rightarrow> string \<Rightarrow> goerr + string" where
  "ParseEdPublicKeyFromPEM C key = (case cd_pem_decode C key of
     None \<Rightarrow> Inl (plain_err ''invalid key: Key must be a PEM encoded PKCS1 or PKCS8 key'')
   | Some block \<Rightarrow> (case cd_parse_pkix C block of
       Inl e \<Rightarrow> Inl e
     | Inr NotEdKey \<Rightarrow> Inl (plain_err ''key is not a valid Ed25519 public key'')
     | Inr (EdKey k) \<Rightarrow> Inr k))"

definition eNotEdPrivateKey :: goerr where
  "eNotEdPrivateKey = new_err ErrNotEdPrivateKey ''key is not a valid Ed25519 private key''"

definition ParseEdPrivateKeyFromPEM :: "codec \<Rightarrow> string \<Rightarrow> goerr + string" where
  "ParseEdPrivateKeyFromPEM C key = (case cd_pem_decode C key of
     None \<Rightarrow> Inl (plain_err ''invalid key: Key must be a PEM encoded PKCS1 or PKCS8 key'')
   | Some block \<Rightarrow> (case cd_parse_pkcs8 C block of
       Inl e \<Rightarrow> Inl e
     | Inr NotEdKey \<Rightarrow> Inl eNotEdPrivateKey
     | Inr (EdKey k) \<Rightarrow> Inr k))"

section \<open>Validation\<close>

text \<open>The validator of \<^verbatim>\<open>NewParser()\<close> without options: no leeway, nothing required or expected.\<close>

definition verifyExpiresAt :: "claims \<Rightarrow> int \<Rightarrow> goerr option" where
  "verifyExpiresAt c cmp = (case rcExpiresAt c of
     None \<Rightarrow> None | Some e \<Rightarrow> if cmp < e then None else Some eTokenExpired)"

definition verifyNotBefore :: "claims \<Rightarrow> int \<Rightarrow> goerr option" where
  "verifyNotBefore c cmp = (case rcNotBefore c of
     None \<Rightarrow> None | Some n \<Rightarrow> if \<not> cmp < n then None else Some eTokenNotValidYet)"

definition Validate :: "claims \<Rightarrow> int \<Rightarrow> goerr option" where
  "Validate c now =
     (let errs = (case verifyExpiresAt c now of None \<Rightarrow> [] | Some e \<Rightarrow> [e]) @
                 (case verifyNotBefore c now of None \<Rightarrow> [] | Some e \<Rightarrow> [e])
      in if errs = [] then None else Some (joinErrors errs))"

section \<open>Parsing\<close>

definition DecodeSegment :: "string \<Rightarrow> goerr + string" where
  "DecodeSegment seg = (case b64_decode seg of
     None \<Rightarrow> Inl (plain_err ''illegal base64 data'') | Some b \<Rightarrow> Inr b)"

definition EncodeSegment :: "string \<Rightarrow> string" where
  "EncodeSegment seg = b64_encode seg"

text \<open>
  \<^verbatim>\<open>ParseUnverified\<close> first decodes the token, which does not look at the destination of the
  claims, then writes the decoded claims into it: the three parts, the algorithm and those claims.
\<close>

definition decode_token ::
  "codec \<Rightarrow> string \<Rightarrow> goerr + (string \<times> string \<times> string) \<times> string \<times> claimsJSON"
where
  "decode_token C tokenString = (case split_on (CHR ''.'') tokenString of
     [p0, p1, p2] \<Rightarrow>
       (case DecodeSegment p0 of
          Inl e \<Rightarrow> Inl (newError ''could not base64 decode header'' eTokenMalformed [e])
        | Inr headerBytes \<Rightarrow>
       (case cd_header_alg C headerBytes of
          Inl e \<Rightarrow> Inl (newError ''could not JSON decode header'' eTokenMalformed [e])
        | Inr alg \<Rightarrow>
       (case DecodeSegment p1 of
          Inl e \<Rightarrow> Inl (newError ''could not base64 decode claim'' eTokenMalformed [e])
        | Inr claimBytes \<Rightarrow>
       (case cd_claims_dec C claimBytes of
          Inl e \<Rightarrow> Inl (newError ''could not JSON decode claim'' eTokenMalformed [e])
        | Inr j \<Rightarrow>
       (case alg of
          None \<Rightarrow> Inl (newError ''signing method (alg) is unspecified'' eTokenUnverifiable [])
        | Some a \<Rightarrow>
       (case GetSigningMethod a of
          None \<Rightarrow> Inl (newError ''signing method (alg) is unavailable'' eTokenUnverifiable [])
        | Some m \<Rightarrow> Inr ((p0, p1, p2), m, j)))))))
   | _ \<Rightarrow> Inl (newError ''token contains an invalid number of segments'' eTokenMalformed []))"

definition ParseUnverified ::
  "codec \<Rightarrow> string \<Rightarrow> claims \<Rightarrow> goerr + (string \<times> string \<times> string) \<times> string \<times> claims"
where
  "ParseUnverified C tokenString claims = (case decode_token C tokenString of
     Inl e \<Rightarrow> Inl e | Inr (parts, alg, j) \<Rightarrow> Inr (parts, alg, overlay_claims j claims))"

definition ParseWithClaims ::
  "codec \<Rightarrow> int \<Rightarrow> string \<Rightarrow> claims \<Rightarrow> (string \<Rightarrow> goerr + string) \<Rightarrow> goerr + claims"
where
  "ParseWithClaims C now tokenString claims keyFunc = (case ParseUnverified C tokenString claims of
     Inl e \<Rightarrow> Inl e
   | Inr ((p0, p1, p2), alg, claims') \<Rightarrow>
       (case DecodeSegment p2 of
          Inl e \<Rightarrow> Inl (newError ''could not base64 decode signature'' eTokenMalformed [e])
        | Inr sig \<Rightarrow>
       (case keyFunc alg of
          Inl e \<Rightarrow> Inl (newError ''error while executing keyfunc'' eTokenUnverifiable [e])
        | Inr key \<Rightarrow>
       (case method_verify C alg (join_with ''.'' [p0, p1]) sig key of
          Some e \<Rightarrow> Inl (newError [] eTokenSignatureInvalid [e])
        | None \<Rightarrow>
       (case Validate claims' now of
          Some e \<Rightarrow> Inl (newError [] eTokenInvalidClaims [e])
        | None \<Rightarrow> Inr claims')))))"

section \<open>Signing\<close>

definition NewNumericDate :: "int \<Rightarrow> int" where
  "NewNumericDate t = t div 1000000000 * 1000000000"

definition SigningString :: "codec \<Rightarrow> string \<Rightarrow> claims \<Rightarrow> string" where
  "SigningString C alg c = EncodeSegment (cd_header C alg) @ ''.'' @ EncodeSegment (cd_claims_enc C c)"

definition SignedString :: "codec \<Rightarrow> string \<Rightarrow> claims \<Rightarrow> string \<Rightarrow> goerr + string" where
  "SignedString C alg c key = (case cd_ed_sign C key (SigningString C alg c) of
     Inl e \<Rightarrow> Inl e
   | Inr sig \<Rightarrow> Inr (SigningString C alg c @ ''.'' @ EncodeSegment sig))"

text \<open>\<^verbatim>\<open>internal/identity/ed25519.go\<close>; an identity is its private key, and the
  answer of the key generator is an argument.\<close>

definition NewED25519Identity :: "goerr + string \<Rightarrow> goerr + string" where
  "NewED25519Identity generated = (case generated of
     Inl e \<Rightarrow> Inl (wrapf ''generating new key'' e) | Inr key \<Rightarrow> Inr key)"

definition identity_MarshalPublic :: "codec \<Rightarrow> string \<Rightarrow> goerr + string" where
  "identity_MarshalPublic C key = (case cd_marshal_pkix C (cd_ed_public C key) of
     Inl e \<Rightarrow> Inl (wrapf ''marshalling public key'' e)
   | Inr der \<Rightarrow> Inr (cd_pem_encode C ''PUBLIC KEY'' der))"

definition identity_Sign :: "codec \<Rightarrow> string \<Rightarrow> claims \<Rightarrow> goerr + string" where
  "identity_Sign C key c = (case SignedString C ''EdDSA'' c key of
     Inl e \<Rightarrow> Inl (wrapf ''signing token'' e) | Inr signed \<Rightarrow> Inr signed)"

definition identity_Marshal :: "codec \<Rightarrow> string \<Rightarrow> goerr + string" where
  "identity_Marshal C key = (case cd_marshal_pkcs8 C key of
     Inl e \<Rightarrow> Inl (wrapf ''marshalling key'' e)
   | Inr der \<Rightarrow> Inr (cd_pem_encode C ''PRIVATE KEY'' der))"

definition identity_Unmarshal :: "codec \<Rightarrow> string \<Rightarrow> goerr + string" where
  "identity_Unmarshal C pem = (case ParseEdPrivateKeyFromPEM C pem of
     Inl e \<Rightarrow> Inl (wrapf ''parsing Ed25519 private key'' e) | Inr k \<Rightarrow> Inr k)"

section \<open>What validation accepts\<close>

lemma Validate_None_iff:
  "Validate c now = None \<longleftrightarrow>
     (\<forall>e. rcExpiresAt c = Some e \<longrightarrow> now < e) \<and> (\<forall>n. rcNotBefore c = Some n \<longrightarrow> n \<le> now)"
  by (auto simp: Validate_def verifyExpiresAt_def verifyNotBefore_def Let_def split: option.splits)

lemma Validate_cong:
  "rcExpiresAt c = rcExpiresAt d \<Longrightarrow> rcNotBefore c = rcNotBefore d \<Longrightarrow> Validate c now = Validate d now"
  by (simp add: Validate_def verifyExpiresAt_def verifyNotBefore_def)

text \<open>A token that was signed over its claims, at the level of its three segments.\<close>

definition token_signed :: "codec \<Rightarrow> (string \<Rightarrow> goerr + string) \<Rightarrow> string \<Rightarrow> claimsJSON \<Rightarrow> bool" where
  "token_signed C keyFunc token j \<longleftrightarrow> (\<exists>p0 p1 p2 sig alg key.
     decode_token C token = Inr ((p0, p1, p2), alg, j) \<and> b64_decode p2 = Some sig \<and>
     keyFunc alg = Inr key \<and> method_verify C alg (p0 @ ''.'' @ p1) sig key = None)"

lemma decode_token_Inr_iff:
  "decode_token C token = Inr ((p0, p1, p2), alg, j) \<longleftrightarrow>
     split_on (CHR ''.'') token = [p0, p1, p2] \<and> alg \<in> set signingMethods \<and>
     (\<exists>h b. b64_decode p0 = Some h \<and> cd_header_alg C h = Inr (Some alg) \<and>
        b64_decode p1 = Some b \<and> cd_claims_dec C b = Inr j)"
proof -
  have three: "(case l of [a, b, c] \<Rightarrow> g a b c | _ \<Rightarrow> Inl e) = Inr z \<longleftrightarrow>
      (\<exists>a b c. l = [a, b, c] \<and> g a b c = Inr z)"
    for l :: "string list" and g e and z :: "(string \<times> string \<times> string) \<times> string \<times> claimsJSON"
    by (auto split: list.splits)
  have seg: "DecodeSegment p = Inr b \<longleftrightarrow> b64_decode p = Some b" for p b
    by (simp add: DecodeSegment_def split: option.splits)
  have meth: "GetSigningMethod a = Some m \<longleftrightarrow> m = a \<and> a \<in> set signingMethods" for a m
    by (auto simp: GetSigningMethod_def)
  show ?thesis
    unfolding decode_token_def three case_sum_Inr_iff case_option_Inr_iff seg meth by auto
qed

lemma ParseWithClaims_Inr_iff:
  "ParseWithClaims C now token c keyFunc = Inr c' \<longleftrightarrow>
     (\<exists>j. token_signed C keyFunc token j \<and> c' = overlay_claims j c \<and> Validate c' now = None)"
proof -
  have "ParseWithClaims C now token c keyFunc = Inr c' \<longleftrightarrow>
    (\<exists>p0 p1 p2 alg sig key j. decode_token C token = Inr ((p0, p1, p2), alg, j) \<and>
       b64_decode p2 = Some sig \<and> keyFunc alg = Inr key \<and>
       method_verify C alg (p0 @ ''.'' @ p1) sig key = None \<and> c' = overlay_claims j c \<and> Validate c' now = None)"
    unfolding ParseWithClaims_def ParseUnverified_def DecodeSegment_def
    by (auto split: sum.splits option.splits)
  then show ?thesis unfolding token_signed_def by blast
qed

text \<open>
  The outcome depends on the given claims only through their times: the subject and the
  audience of the destination are never compared with those of the token.
\<close>

lemma ParseWithClaims_error_cong:
  assumes "rcExpiresAt c = rcExpiresAt d" and "rcNotBefore c = rcNotBefore d"
  shows "ParseWithClaims C now token c keyFunc = Inl e \<longleftrightarrow> ParseWithClaims C now token d keyFunc = Inl e"
proof (cases "decode_token C token")
  case (Inr r)
  obtain parts alg j where r: "r = (parts, alg, j)" by (cases r)
  have V: "Validate (overlay_claims j c) now = Validate (overlay_claims j d) now"
    by (rule Validate_cong) (simp_all add: overlay_claims_def assms split: option.splits)
  show ?thesis
    by (cases parts) (simp add: ParseWithClaims_def ParseUnverified_def Inr r V split: sum.splits option.splits)
qed (simp add: ParseWithClaims_def ParseUnverified_def)

section \<open>Round trips\<close>

lemma overlay_claims_json:
  "overlay_claims (claims_json c) d = c" if
    "rcIssuer c = [] \<longrightarrow> rcIssuer d = []" "rcSubject c = [] \<longrightarrow> rcSubject d = []"
    "rcAudience c = [] \<longrightarrow> rcAudience d = []" "rcExpiresAt c = None \<longrightarrow> rcExpiresAt d = None"
    "rcNotBefore c = None \<longrightarrow> rcNotBefore d = None" "rcIssuedAt c = None \<longrightarrow> rcIssuedAt d = None"
    "rcID c = [] \<longrightarrow> rcID d = []"
  using that by (cases c) (auto simp: overlay_claims_def claims_json_def split: option.splits)

lemma NewNumericDate_props: "NewNumericDate t mod 1000000000 = 0" "NewNumericDate t \<le> t"
  by (simp_all add: NewNumericDate_def)

lemma SignedString_signed:
  assumes C: "codec_ok C" and w: "json_exact c" and s: "SignedString C ''EdDSA'' c key = Inr token"
    and k: "keyFunc ''EdDSA'' = Inr (cd_ed_public C key)"
  shows "token_signed C keyFunc token (claims_json c)"
proof -
  from s obtain sig where sig: "cd_ed_sign C key (SigningString C ''EdDSA'' c) = Inr sig"
    and token: "token = SigningString C ''EdDSA'' c @ ''.'' @ EncodeSegment sig"
    by (auto simp: SignedString_def split: sum.splits)
  have parts: "split_on (CHR ''.'') token =
      [b64_encode (cd_header C ''EdDSA''), b64_encode (cd_claims_enc C c), b64_encode sig]"
    by (simp add: token SigningString_def EncodeSegment_def b64_encode_no_dot split_on_append split_on_plain)
  have "cd_claims_dec C (cd_claims_enc C c) = Inr (claims_json c)"
    using C w unfolding codec_ok_def by blast
  moreover have "cd_header_alg C (cd_header C ''EdDSA'') = Inr (Some ''EdDSA'')"
    using C unfolding codec_ok_def by blast
  moreover have "method_verify C ''EdDSA'' (SigningString C ''EdDSA'' c) sig (cd_ed_public C key) = None"
    using C sig by (simp add: codec_ok_def method_verify_def Ed25519_Verify_def)
  ultimately show ?thesis
    unfolding token_signed_def decode_token_Inr_iff parts using k
    by (simp add: signingMethods_def SigningString_def EncodeSegment_def)
qed

lemma identity_roundtrip:
  assumes "codec_ok C" and "identity_Marshal C key = Inr pem"
  shows "identity_Unmarshal C pem = Inr key" and "ParseEdPrivateKeyFromPEM C pem = Inr key"
proof -
  from assms obtain der where d: "cd_marshal_pkcs8 C key = Inr der" and pem: "pem = cd_pem_encode C ''PRIVATE KEY'' der"
    by (auto simp: identity_Marshal_def split: sum.splits)
  with assms(1) have "cd_parse_pkcs8 C der = Inr (EdKey key)" "cd_pem_decode C pem = Some der"
    unfolding codec_ok_def by blast+
  then show "ParseEdPrivateKeyFromPEM C pem = Inr key" by (simp add: ParseEdPrivateKeyFromPEM_def)
  then show "identity_Unmarshal C pem = Inr key" by (simp add: identity_Unmarshal_def)
qed

lemma identity_public_roundtrip:
  assumes "codec_ok C" and "identity_MarshalPublic C key = Inr pem"
  shows "ParseEdPublicKeyFromPEM C pem = Inr (cd_ed_public C key)"
proof -
  from assms obtain der where "cd_marshal_pkix C (cd_ed_public C key) = Inr der"
    and "pem = cd_pem_encode C ''PUBLIC KEY'' der"
    by (auto simp: identity_MarshalPublic_def split: sum.splits)
  with assms(1) have "cd_parse_pkix C der = Inr (EdKey (cd_ed_public C key))" "cd_pem_decode C pem = Some der"
    unfolding codec_ok_def by blast+
  then show ?thesis by (simp add: ParseEdPublicKeyFromPEM_def)
qed

end
