(* ===== verification/Http.thy ===== *)
theory Http
  imports Api_Types
begin

text \<open>
  What the API handlers use of \<^verbatim>\<open>net/http\<close> and \<^verbatim>\<open>html\<close>: a response under construction,
  whose status is fixed by the first \<^verbatim>\<open>WriteHeader\<close> or, if there is none, is 200 from the first
  \<^verbatim>\<open>Write\<close> on; headers set after that are not sent. With it the helpers of
  \<^verbatim>\<open>internal/api/common.go\<close>.
\<close>

record response =
  rsStatus :: "nat option"
  rsHeaders :: "(string \<times> string) list"
  rsBody :: "string list"

definition new_response :: response where
  "new_response = \<lparr>rsStatus = None, rsHeaders = [], rsBody = []\<rparr>"

definition WriteHeader :: "nat \<Rightarrow> response \<Rightarrow> response" where
  "WriteHeader code r = (case rsStatus r of None \<Rightarrow> r\<lparr>rsStatus := Some code\<rparr> | Some _ \<Rightarrow> r)"

definition Header_Set :: "string \<Rightarrow> string \<Rightarrow> response \<Rightarrow> response" where
  "Header_Set k v r = (case rsStatus r of
     None \<Rightarrow> r\<lparr>rsHeaders := AList.update k v (rsHeaders r)\<rparr> | Some _ \<Rightarrow> r)"

definition WriteResponseBytes :: "string \<Rightarrow> response \<Rightarrow> response" where
  "WriteResponseBytes b r = (WriteHeader 200 r)\<lparr>rsBody := rsBody r @ [b]\<rparr>"

definition WriteResponse :: "string \<Rightarrow> response \<Rightarrow> response" where
  "WriteResponse s r = WriteResponseBytes s r"

text \<open>The status the client sees.\<close>

definition sent_status :: "response \<Rightarrow> nat" where
  "sent_status r = (case rsStatus r of None \<Rightarrow> 200 | Some c \<Rightarrow> c)"

definition StatusOK :: nat where "StatusOK = 200"
definition StatusCreated :: nat where "StatusCreated = 201"
definition StatusAccepted :: nat where "StatusAccepted = 202"
definition StatusBadRequest :: nat where "StatusBadRequest = 400"
definition StatusUnauthorized :: nat where "StatusUnauthorized = 401"
definition StatusForbidden :: nat where "StatusForbidden = 403"
definition HTTPNotFound :: nat where "HTTPNotFound = 404"
definition HTTPMethodNotAllowed :: nat where "HTTPMethodNotAllowed = 405"
definition HTTPConflict :: nat where "HTTPConflict = 409"
definition StatusInternalServerError :: nat where "StatusInternalServerError = 500"

lemmas status_defs = StatusOK_def StatusCreated_def StatusAccepted_def StatusBadRequest_def
  StatusUnauthorized_def StatusForbidden_def HTTPNotFound_def HTTPMethodNotAllowed_def
  HTTPConflict_def StatusInternalServerError_def

lemma response_simps [simp]:
  "rsStatus new_response = None" "rsBody new_response = []" "rsHeaders new_response = []"
  "rsStatus (WriteHeader c r) = Some (case rsStatus r of None \<Rightarrow> c | Some d \<Rightarrow> d)"
  "rsBody (WriteHeader c r) = rsBody r" "rsHeaders (WriteHeader c r) = rsHeaders r"
  "rsStatus (Header_Set k v r) = rsStatus r" "rsBody (Header_Set k v r) = rsBody r"
  "rsStatus (WriteResponse s r) = Some (case rsStatus r of None \<Rightarrow> 200 | Some d \<Rightarrow> d)"
  "rsBody (WriteResponse s r) = rsBody r @ [s]" "rsHeaders (WriteResponse s r) = rsHeaders r"
  "rsStatus (WriteResponseBytes s r) = Some (case rsStatus r of None \<Rightarrow> 200 | Some d \<Rightarrow> d)"
  "rsBody (WriteResponseBytes s r) = rsBody r @ [s]" "rsHeaders (WriteResponseBytes s r) = rsHeaders r"
  by (simp_all add: new_response_def WriteHeader_def Header_Set_def WriteResponse_def
      WriteResponseBytes_def split: option.splits)

lemma Header_Set_headers [simp]:
  "rsStatus r = None \<Longrightarrow> rsHeaders (Header_Set k v r) = AList.update k v (rsHeaders r)"
  by (simp add: Header_Set_def)

text \<open>\<^verbatim>\<open>html.EscapeString\<close>.\<close>

definition html_escape_char :: "char \<Rightarrow> string" where
  "html_escape_char c =
     (if c = CHR ''&'' then ''&amp;'' else if c = CHR 0x27 then ''&#39;''
      else if c = CHR ''<'' then ''&lt;'' else if c = CHR ''>'' then ''&gt;''
      else if c = CHR 0x22 then ''&#34;'' else [c])"

definition EscapeString :: "string \<Rightarrow> string" where
  "EscapeString s = concat (map html_escape_char s)"

lemma EscapeString_plain:
  "set s \<inter> {CHR ''&'', CHR 0x27, CHR ''<'', CHR ''>'', CHR 0x22} = {} \<Longrightarrow> EscapeString s = s"
  by (induction s) (auto simp: EscapeString_def html_escape_char_def)

lemma EscapeString_safe: "set (EscapeString s) \<inter> {CHR 0x27, CHR ''<'', CHR ''>'', CHR 0x22} = {}"
  by (induction s) (auto simp: EscapeString_def html_escape_char_def split: if_splits)

text \<open>The prefixes of \<^verbatim>\<open>internal/api/server.go\<close>.\<close>

definition api_Prefix :: string where "api_Prefix = ''/elemental''"
definition api_PrefixV1 :: string where "api_PrefixV1 = ''/v1''"

text \<open>
  A request as the handlers see it: the path variables the router cut out, the two authorization
  headers and the body.
\<close>

record request =
  rqVars :: "string gomap"
  rqAuthorization :: string
  rqRegistrationAuthorization :: string
  rqBody :: string

definition path_var :: "request \<Rightarrow> string \<Rightarrow> string" where
  "path_var rq k = EscapeString (case gget (rqVars rq) k of None \<Rightarrow> [] | Some v \<Rightarrow> v)"

end
