(* ===== verification/Api_Auth.thy ===== *)
theory Api_Auth
  imports Kube Jwt Http
begin

text \<open>
  \<^verbatim>\<open>internal/api/auth.go\<close>: who may use the API. A host proves that it holds the private key
  of its \<open>hPubKey\<close>, a registration token must be signed with the key of the registration's
  secret. The Go interface \<^verbatim>\<open>Authenticator\<close> is a record of two calls; what its users rely on
  is the locale \<open>authentication\<close>, which the authenticator of the repository interprets.
\<close>

section \<open>The interface\<close>

record 'w authenticator =
  au_ValidateHostRequest :: "request \<Rightarrow> response \<Rightarrow> elementalHost \<Rightarrow> elementalRegistration \<Rightarrow>
    ('w, event, goerr option \<times> response) prog"
  au_ValidateRegistrationRequest :: "request \<Rightarrow> response \<Rightarrow> elementalRegistration \<Rightarrow>
    ('w, event, goerr option \<times> response) prog"

section \<open>The authenticator\<close>

definition eUnauthorized :: goerr where "eUnauthorized = new_err ErrUnauthorized ''unauthorized''"
definition eForbidden :: goerr where "eForbidden = new_err ErrForbidden ''forbidden''"
definition eMissingRegistrationSecret :: goerr where
  "eMissingRegistrationSecret = new_err ErrMissingRegistrationSecret ''registration secret is missing''"
definition eNoSigningKey :: goerr where
  "eNoSigningKey = new_err ErrNoSigningKey ''registration signing key is missing''"

definition auth_writeResponse :: "goerr \<Rightarrow> response \<Rightarrow> response" where
  "auth_writeResponse e rs =
     (if err_is e ErrUnauthorized
      then WriteResponse (''Unauthorized: '' @ err_msg e) (WriteHeader StatusUnauthorized rs)
      else if err_is e ErrForbidden
      then WriteResponse (''Forbidden: '' @ err_msg e) (WriteHeader StatusForbidden rs)
      else WriteResponse (''Could not authenticate request: '' @ err_msg e)
        (WriteHeader StatusInternalServerError rs))"

text \<open>The token of a header, or the refusal.\<close>

definition bearer_token :: "string \<Rightarrow> string \<Rightarrow> goerr + string" where
  "bearer_token name authValue =
     (if authValue = [] then Inl (wrapf (''missing '' @ sq name @ '' header'') eUnauthorized)
      else (case cut_prefix authValue ''Bearer '' of
        None \<Rightarrow> Inl (wrapf (''not a '' @ sq ''Bearer'' @ '' token'') eUnauthorized)
      | Some token \<Rightarrow> Inr token))"

definition unsupported_alg :: "string \<Rightarrow> goerr" where
  "unsupported_alg alg = wrapf (''JWT is using unsupported '' @ sq alg @ '' signing algorithm'') eUnauthorized"

definition host_keyfunc :: "codec \<Rightarrow> elementalHost \<Rightarrow> string \<Rightarrow> goerr + string" where
  "host_keyfunc C host signingAlg =
     (if signingAlg = ''EdDSA''
      then (case ParseEdPublicKeyFromPEM C (hPubKey host) of
        Inl e \<Rightarrow> Inl (wrapf ''parsing host Public Key'' e) | Inr k \<Rightarrow> Inr k)
      else Inl (unsupported_alg signingAlg))"

definition expected_claims :: "string \<Rightarrow> string \<Rightarrow> claims" where
  "expected_claims subject audience = \<lparr>rcIssuer = [], rcSubject = subject, rcAudience = [audience],
     rcExpiresAt = None, rcNotBefore = None, rcIssuedAt = None, rcID = []\<rparr>"

definition ValidateHostRequest ::
  "codec \<Rightarrow> int \<Rightarrow> request \<Rightarrow> response \<Rightarrow> elementalHost \<Rightarrow> elementalRegistration \<Rightarrow> goerr option \<times> response"
where
  "ValidateHostRequest C now rq rs host registration =
     (case bearer_token ''Authorization'' (rqAuthorization rq) of
        Inl e \<Rightarrow> (Some e, auth_writeResponse e rs)
      | Inr token \<Rightarrow>
          (case ParseWithClaims C now token
             (expected_claims (oName host) (rgURI (registration_of registration))) (host_keyfunc C host) of
             Inl e \<Rightarrow> (let err = wrapf2 ''validating JWT token'' e eForbidden
                       in (Some err, auth_writeResponse err rs))
           | Inr _ \<Rightarrow> (None, rs)))"

definition registration_keyfunc :: "codec \<Rightarrow> string \<Rightarrow> string \<Rightarrow> goerr + string" where
  "registration_keyfunc C privKey signingAlg =
     (if signingAlg = ''EdDSA'' then Inr (cd_ed_public C privKey) else Inl (unsupported_alg signingAlg))"

definition ValidateRegistrationRequest ::
  "'w env \<Rightarrow> codec \<Rightarrow> int \<Rightarrow> request \<Rightarrow> response \<Rightarrow> elementalRegistration \<Rightarrow>
    ('w, event, goerr option \<times> response) prog"
where
  "ValidateRegistrationRequest E C now rq rs registration =
     (case bearer_token ''Registration-Authorization'' (rqRegistrationAuthorization rq) of
        Inl e \<Rightarrow> ret (Some e, auth_writeResponse e rs)
      | Inr token \<Rightarrow> do {
          r \<leftarrow> kGetSecret E \<lparr>keyNamespace = oNamespace registration, keyName = oName registration\<rparr>;
          (case r of
             Inl e \<Rightarrow> (let err = wrapf ''getting registration secret'' eMissingRegistrationSecret
                       in ret (Some err, auth_writeResponse err rs))
           | Inr secret \<Rightarrow>
               (case gget (secData secret) ''privKey'' of
                  None \<Rightarrow> ret (Some eNoSigningKey, auth_writeResponse eNoSigningKey rs)
                | Some privKeyPem \<Rightarrow>
                    (case ParseEdPrivateKeyFromPEM C privKeyPem of
                       Inl e \<Rightarrow> (let err = wrapf ''parsing ed25519 key'' e
                                 in ret (Some err, auth_writeResponse err rs))
                     | Inr privKey \<Rightarrow>
                         (case ParseWithClaims C now token
                            (expected_claims (rgURI (registration_of registration))
                               (rgURI (registration_of registration))) (registration_keyfunc C privKey) of
                            Inl e \<Rightarrow> (let err = wrapf2 ''validating JWT token'' e eForbidden
                                      in ret (Some err, auth_writeResponse err rs))
                          | Inr _ \<Rightarrow> ret (None, rs)))))
        })"

definition NewAuthenticator :: "'w env \<Rightarrow> codec \<Rightarrow> int \<Rightarrow> 'w authenticator" where
  "NewAuthenticator E C now = \<lparr>
     au_ValidateHostRequest = (\<lambda>rq rs host reg. ret (ValidateHostRequest C now rq rs host reg)),
     au_ValidateRegistrationRequest = ValidateRegistrationRequest E C now\<rparr>"

section \<open>Who is accepted\<close>

text \<open>The times a token states, if it states them.\<close>

definition token_timely :: "claimsJSON \<Rightarrow> int \<Rightarrow> bool" where
  "token_timely j now \<longleftrightarrow> (\<forall>e. cjExpiresAt j = Some (Some e) \<longrightarrow> now < e) \<and>
     (\<forall>n. cjNotBefore j = Some (Some n) \<longrightarrow> n \<le> now)"

definition bearer_ok :: "codec \<Rightarrow> int \<Rightarrow> string \<Rightarrow> string \<Rightarrow> bool" where
  "bearer_ok C now header key \<longleftrightarrow> (\<exists>token j. header = ''Bearer '' @ token \<and>
     token_signed C (\<lambda>alg. if alg = ''EdDSA'' then Inr key else Inl eUnauthorized) token j \<and>
     token_timely j now)"

definition host_accepted :: "codec \<Rightarrow> int \<Rightarrow> request \<Rightarrow> elementalHost \<Rightarrow> bool" where
  "host_accepted C now rq host \<longleftrightarrow> (\<exists>key. ParseEdPublicKeyFromPEM C (hPubKey host) = Inr key \<and>
     bearer_ok C now (rqAuthorization rq) key)"

definition registration_accepted :: "codec \<Rightarrow> int \<Rightarrow> request \<Rightarrow> secret \<Rightarrow> bool" where
  "registration_accepted C now rq secret \<longleftrightarrow> (\<exists>pem key. gget (secData secret) ''privKey'' = Some pem \<and>
     ParseEdPrivateKeyFromPEM C pem = Inr key \<and>
     bearer_ok C now (rqRegistrationAuthorization rq) (cd_ed_public C key))"

lemma bearer_token_Inr_iff: "bearer_token n v = Inr token \<longleftrightarrow> v = ''Bearer '' @ token"
  by (auto simp: bearer_token_def cut_prefix_Some_iff split: option.splits)

lemma token_signed_keyfunc_cong:
  assumes "\<And>alg k. f alg = Inr k \<longleftrightarrow> g alg = Inr k"
  shows "token_signed C f token j = token_signed C g token j"
  unfolding token_signed_def assms ..

lemma Validate_overlay_iff:
  "Validate (overlay_claims j (expected_claims s a)) now = None \<longleftrightarrow> token_timely j now"
  by (auto simp: Validate_None_iff overlay_claims_def expected_claims_def token_timely_def
      split: option.splits)

lemma parse_expected_iff:
  "(\<exists>c. ParseWithClaims C now token (expected_claims s a) f = Inr c) \<longleftrightarrow>
     (\<exists>j. token_signed C f token j \<and> token_timely j now)"
  by (auto simp: ParseWithClaims_Inr_iff Validate_overlay_iff)

lemma host_token_iff:
  "(\<exists>j. token_signed C (host_keyfunc C host) token j \<and> token_timely j now) \<longleftrightarrow>
   (\<exists>key. ParseEdPublicKeyFromPEM C (hPubKey host) = Inr key \<and> bearer_ok C now (''Bearer '' @ token) key)"
proof (cases "ParseEdPublicKeyFromPEM C (hPubKey host)")
  case (Inl e)
  have "host_keyfunc C host alg \<noteq> Inr k" for alg k
    by (simp add: host_keyfunc_def Inl)
  with Inl show ?thesis by (simp add: token_signed_def)
next
  case (Inr key)
  have "token_signed C (host_keyfunc C host) token j \<longleftrightarrow>
      token_signed C (\<lambda>alg. if alg = ''EdDSA'' then Inr key else Inl eUnauthorized) token j" for j
    by (rule token_signed_keyfunc_cong) (simp add: host_keyfunc_def Inr)
  with Inr show ?thesis by (simp add: bearer_ok_def)
qed

lemma registration_token_iff:
  "(\<exists>j. token_signed C (registration_keyfunc C key) token j \<and> token_timely j now) \<longleftrightarrow>
   bearer_ok C now (''Bearer '' @ token) (cd_ed_public C key)"
proof -
  have "token_signed C (registration_keyfunc C key) token j \<longleftrightarrow>
      token_signed C (\<lambda>alg. if alg = ''EdDSA'' then Inr (cd_ed_public C key) else Inl eUnauthorized) token j" for j
    by (rule token_signed_keyfunc_cong) (simp add: registration_keyfunc_def)
  then show ?thesis by (simp add: bearer_ok_def)
qed

text \<open>A refusal answers 401, 403 or 500 with one message, on a response nothing was written to.\<close>

definition refused :: "goerr \<Rightarrow> response \<Rightarrow> response \<Rightarrow> bool" where
  "refused e rs rs' \<longleftrightarrow> rs' = auth_writeResponse e rs"

lemma auth_writeResponse_status:
  "rsStatus rs = None \<Longrightarrow> rsStatus (auth_writeResponse e rs) =
     Some (if err_is e ErrUnauthorized then StatusUnauthorized
           else if err_is e ErrForbidden then StatusForbidden else StatusInternalServerError)"
  by (simp add: auth_writeResponse_def)

definition host_verdict :: "codec \<Rightarrow> int \<Rightarrow> request \<Rightarrow> response \<Rightarrow> elementalHost \<Rightarrow> goerr option \<times> response \<Rightarrow> bool" where
  "host_verdict C now rq rs host out \<longleftrightarrow> (case out of
     (None, rs') \<Rightarrow> host_accepted C now rq host \<and> rs' = rs
   | (Some e, rs') \<Rightarrow> \<not> host_accepted C now rq host \<and> refused e rs rs')"

lemma verdict_host:
  "host_verdict C now rq rs host (ValidateHostRequest C now rq rs host registration)"
proof (cases "bearer_token ''Authorization'' (rqAuthorization rq)")
  case (Inl e)
  then have "\<not> host_accepted C now rq host"
    using bearer_token_Inr_iff [of "''Authorization''" "rqAuthorization rq"]
    by (auto simp: host_accepted_def bearer_ok_def)
  with Inl show ?thesis by (simp add: ValidateHostRequest_def host_verdict_def refused_def)
next
  case (Inr token)
  let ?p = "ParseWithClaims C now token
    (expected_claims (oName host) (rgURI (registration_of registration))) (host_keyfunc C host)"
  from Inr have "host_accepted C now rq host \<longleftrightarrow> (\<exists>c. ?p = Inr c)"
    unfolding parse_expected_iff host_token_iff bearer_token_Inr_iff by (simp add: host_accepted_def)
  with Inr show ?thesis
    by (cases ?p) (simp_all add: ValidateHostRequest_def host_verdict_def refused_def Let_def)
qed

text \<open>
  C19. Host authentication is exact. A request is accepted for a host exactly when its Authorization header
  is a Bearer token in three segments, EdDSA signed with the private key of the host's public key,
  whose times, if it states any, are met; then the response is untouched, and otherwise it is the
  refusal of the returned error.
\<close>

theorem ValidateHostRequest_exact:
  "host_verdict C now rq rs host (ValidateHostRequest C now rq rs host registration)"
  by (rule verdict_host)

definition registration_verdict ::
  "codec \<Rightarrow> int \<Rightarrow> request \<Rightarrow> response \<Rightarrow> elementalRegistration \<Rightarrow> goerr option \<times> response \<Rightarrow> event list \<Rightarrow> bool"
where
  "registration_verdict C now rq rs registration out l \<longleftrightarrow>
     (\<forall>ev \<in> set l. \<exists>r. ev = EvGetSecret (ObjectKeyFromObject registration) r) \<and>
     (let accepted = (\<exists>secret. EvGetSecret (ObjectKeyFromObject registration) (Inr secret) \<in> set l \<and>
            registration_accepted C now rq secret)
      in case out of (None, rs') \<Rightarrow> accepted \<and> rs' = rs | (Some e, rs') \<Rightarrow> \<not> accepted \<and> refused e rs rs')"

lemma verdict_registration:
  "wp (ValidateRegistrationRequest E C now rq rs registration) (registration_verdict C now rq rs registration)"
proof (cases "bearer_token ''Registration-Authorization'' (rqRegistrationAuthorization rq)")
  case (Inl e)
  then show ?thesis
    unfolding ValidateRegistrationRequest_def
    by (auto intro!: wp_ret simp: registration_verdict_def refused_def)
next
  case (Inr token)
  then have "rqRegistrationAuthorization rq = ''Bearer '' @ token" by (simp add: bearer_token_Inr_iff)
  then have accepted: "registration_accepted C now rq secret \<longleftrightarrow>
    (\<exists>pem key c. gget (secData secret) ''privKey'' = Some pem \<and> ParseEdPrivateKeyFromPEM C pem = Inr key \<and>
      ParseWithClaims C now token (expected_claims u u) (registration_keyfunc C key) = Inr c)" for secret u
    by (simp add: registration_accepted_def parse_expected_iff registration_token_iff)
  show ?thesis
    unfolding ValidateRegistrationRequest_def Inr sum.case
    by (intro wp_intros)
      (auto simp: registration_verdict_def refused_def ObjectKeyFromObject_def Let_def
        accepted [of _ "rgURI (registration_of registration)"])
qed

text \<open>
  C20. Registration authentication is exact. A request is accepted for a registration exactly when the
  secret with the registration's name was read, holds an Ed25519 private key, and the
  Registration-Authorization header is a Bearer token signed with it whose times are met.
\<close>

theorem ValidateRegistrationRequest_exact:
  "wp (ValidateRegistrationRequest E C now rq rs registration) (registration_verdict C now rq rs registration)"
  by (rule verdict_registration)

section \<open>The contract\<close>

text \<open>
  What the handlers need of an authenticator: it writes nothing to the cluster, leaves the response alone when it
  accepts, and when it refuses answers with one of its three statuses.
\<close>

definition auth_outcome :: "bool \<Rightarrow> response \<Rightarrow> goerr option \<times> response \<Rightarrow> bool" where
  "auth_outcome accepted rs out \<longleftrightarrow> (case out of
     (None, rs') \<Rightarrow> accepted \<and> rs' = rs
   | (Some e, rs') \<Rightarrow> \<not> accepted \<and> (rsStatus rs = None \<longrightarrow>
       (\<exists>c msg. c \<in> {StatusUnauthorized, StatusForbidden, StatusInternalServerError} \<and>
         rsStatus rs' = Some c \<and> rsBody rs' = rsBody rs @ [msg])))"

locale authentication =
  fixes auth :: "'w authenticator"
    and host_ok :: "request \<Rightarrow> elementalHost \<Rightarrow> bool"
    and registration_ok :: "request \<Rightarrow> secret \<Rightarrow> bool"
  assumes host_auth: "wp (au_ValidateHostRequest auth rq rs host reg)
      (\<lambda>out l. l = [] \<and> auth_outcome (host_ok rq host) rs out)"
    and registration_auth: "wp (au_ValidateRegistrationRequest auth rq rs reg)
      (\<lambda>out l. (\<forall>ev \<in> set l. \<exists>r. ev = EvGetSecret (ObjectKeyFromObject reg) r) \<and>
        auth_outcome (\<exists>secret. EvGetSecret (ObjectKeyFromObject reg) (Inr secret) \<in> set l \<and>
          registration_ok rq secret) rs out)"

lemma refused_outcome: "refused e rs rs' \<Longrightarrow> auth_outcome False rs (Some e, rs')"
  by (auto simp: refused_def auth_outcome_def auth_writeResponse_status)
    (auto simp: auth_writeResponse_def)

lemma verdict_outcome:
  "host_verdict C now rq rs host out \<Longrightarrow> auth_outcome (host_accepted C now rq host) rs out"
  using refused_outcome by (auto simp: host_verdict_def auth_outcome_def split: option.splits prod.splits)

lemma registration_verdict_outcome:
  assumes "registration_verdict C now rq rs registration out l"
  shows "(\<forall>ev \<in> set l. \<exists>r. ev = EvGetSecret (ObjectKeyFromObject registration) r) \<and>
    auth_outcome (\<exists>secret. EvGetSecret (ObjectKeyFromObject registration) (Inr secret) \<in> set l \<and>
      registration_accepted C now rq secret) rs out"
proof (cases "fst out")
  case None
  with assms show ?thesis by (cases out) (simp add: registration_verdict_def auth_outcome_def)
next
  case (Some e)
  with assms refused_outcome [of e rs "snd out"] show ?thesis
    by (cases out) (simp add: registration_verdict_def auth_outcome_def)
qed

interpretation provider_auth: authentication "NewAuthenticator E C now" "host_accepted C now"
  "registration_accepted C now"
proof
  show "wp (au_ValidateHostRequest (NewAuthenticator E C now) rq rs host reg)
      (\<lambda>out l. l = [] \<and> auth_outcome (host_accepted C now rq host) rs out)" for rq rs host reg
    by (simp add: NewAuthenticator_def wp_ret verdict_outcome verdict_host)
  show "wp (au_ValidateRegistrationRequest (NewAuthenticator E C now) rq rs reg)
      (\<lambda>out l. (\<forall>ev \<in> set l. \<exists>r. ev = EvGetSecret (ObjectKeyFromObject reg) r) \<and>
        auth_outcome (\<exists>secret. EvGetSecret (ObjectKeyFromObject reg) (Inr secret) \<in> set l \<and>
          registration_accepted C now rq secret) rs out)" for rq rs reg
    unfolding NewAuthenticator_def authenticator.select_convs
    by (rule wp_mono [OF verdict_registration]) (rule registration_verdict_outcome)
qed

end
