(* ===== verification/Api_Requests.thy ===== *)
theory Api_Requests
  imports Api_Types Http
begin

text \<open>
  \<^verbatim>\<open>internal/api/types.go\<close>: the bodies of requests and responses and how they are turned into
  objects and back. Go's \<^verbatim>\<open>encoding/json\<close> is the record \<open>apiCodec\<close>, a parameter.
\<close>

section \<open>Requests\<close>

record hostCreateRequest =
  hcName :: string
  hcAnnotations :: "string gomap"
  hcLabels :: "string gomap"
  hcPubKey :: string

definition toElementalHost :: "string \<Rightarrow> hostCreateRequest \<Rightarrow> elementalHost" where
  "toElementalHost namespace h = \<lparr>oAPIVersion = [], oKind = [], oName = hcName h, oNamespace = namespace,
     oUID = [], oLabels = hcLabels h, oAnnotations = hcAnnotations h, oOwnerReferences = [],
     oFinalizers = [], oDeletionTimestamp = None, hBootstrapSecret = None, hMachineRef = None,
     hPubKey = hcPubKey h, hOSVersionManagement = None, hPhase = [], hConditions = []\<rparr>"

record hostPatchRequest =
  hpAnnotations :: "string gomap"
  hpLabels :: "string gomap"
  hpBootstrapped :: "bool option"
  hpInstalled :: "bool option"
  hpReset :: "bool option"
  hpInPlaceUpdate :: "string option"
  hpCondition :: "condition option"
  hpPhase :: "string option"

definition SetCondition ::
  "string \<Rightarrow> conditionStatus \<Rightarrow> conditionSeverity \<Rightarrow> string \<Rightarrow> string \<Rightarrow> hostPatchRequest \<Rightarrow> hostPatchRequest"
where
  "SetCondition t st sev reason message h = h\<lparr>hpCondition := Some \<lparr>cType = t, cStatus = st, cSeverity = sev,
     cLastTransitionTime = 0, cReason = reason, cMessage = message\<rparr>\<rparr>"

text \<open>A label that is set when the pointer is not nil, whatever it points to.\<close>

definition set_flag :: "'a option \<Rightarrow> string \<Rightarrow> elementalHost \<Rightarrow> elementalHost" where
  "set_flag f k host = (case f of None \<Rightarrow> host | Some _ \<Rightarrow> put_label k ''true'' host)"

definition applyToElementalHost :: "int \<Rightarrow> hostPatchRequest \<Rightarrow> elementalHost \<Rightarrow> elementalHost" where
  "applyToElementalHost now h host =
     (let host = host\<lparr>oAnnotations := gcopy (ginit (oAnnotations host)) (hpAnnotations h)\<rparr>;
          host = host\<lparr>oLabels := gcopy (ginit (oLabels host)) (hpLabels h)\<rparr>;
          host = set_flag (hpInstalled h) LabelElementalHostInstalled host;
          host = set_flag (hpBootstrapped h) LabelElementalHostBootstrapped host;
          host = set_flag (hpReset h) LabelElementalHostReset host;
          host = (case hpInPlaceUpdate h of
            None \<Rightarrow> host | Some v \<Rightarrow> put_label LabelElementalHostInPlaceUpdate v host);
          host = conditions_Set hConditions host_SetConditions now (hpCondition h) host;
          host = host_SetSummary now host
      in (case hpPhase h of None \<Rightarrow> host | Some p \<Rightarrow> host\<lparr>hPhase := p\<rparr>))"

section \<open>Responses\<close>

record hostResponse =
  hrName :: string
  hrAnnotations :: "string gomap"
  hrLabels :: "string gomap"
  hrBootstrapReady :: bool
  hrBootstrapped :: bool
  hrInstalled :: bool
  hrNeedsReset :: bool
  hrInPlaceUpgrade :: string
  hrOSVersionManagement :: rawMap

definition empty_hostResponse :: hostResponse where
  "empty_hostResponse = \<lparr>hrName = [], hrAnnotations = None, hrLabels = None, hrBootstrapReady = False,
     hrBootstrapped = False, hrInstalled = False, hrNeedsReset = False, hrInPlaceUpgrade = [],
     hrOSVersionManagement = None\<rparr>"

definition fromElementalHost :: "elementalHost \<Rightarrow> hostResponse \<Rightarrow> hostResponse" where
  "fromElementalHost host h =
     (let h = h\<lparr>hrName := oName host, hrAnnotations := oAnnotations host, hrLabels := oLabels host,
            hrBootstrapReady := (hBootstrapSecret host \<noteq> None)\<rparr>
      in if oLabels host = None then h
         else
           (let h = (if label_is_true host LabelElementalHostBootstrapped then h\<lparr>hrBootstrapped := True\<rparr> else h);
                h = (if label_is_true host LabelElementalHostInstalled then h\<lparr>hrInstalled := True\<rparr> else h);
                h = (if label_is_true host LabelElementalHostNeedsReset then h\<lparr>hrNeedsReset := True\<rparr> else h);
                h = (case gget (oLabels host) LabelElementalHostInPlaceUpdate of
                  Some v \<Rightarrow> h\<lparr>hrInPlaceUpgrade := v\<rparr> | None \<Rightarrow> h)
            in h\<lparr>hrOSVersionManagement := hOSVersionManagement host\<rparr>))"

record registrationResponse =
  rrHostLabels :: "string gomap"
  rrHostAnnotations :: "string gomap"
  rrConfig :: config

definition fromElementalRegistration :: "elementalRegistration \<Rightarrow> registrationResponse" where
  "fromElementalRegistration r = \<lparr>rrHostLabels = rHostLabels r, rrHostAnnotations = rHostAnnotations r,
     rrConfig = rConfig r\<rparr>"

record bootstrapResponse =
  brFormat :: string
  brConfig :: string

definition eBootstrapSecretNoConfig :: goerr where
  "eBootstrapSecretNoConfig = new_err ErrBootstrapSecretNoConfig ''CAPI bootstrap secret does not contain any config''"

text \<open>The response is filled in even where an error is returned.\<close>

definition fromSecret :: "secret \<Rightarrow> goerr option \<times> bootstrapResponse" where
  "fromSecret s =
     (let b = \<lparr>brFormat = (case gget (secData s) ''format'' of Some f \<Rightarrow> f | None \<Rightarrow> ''cloud-config''),
               brConfig = []\<rparr>
      in (case gget (secData s) ''value'' of
        Some c \<Rightarrow> (None, b\<lparr>brConfig := c\<rparr>)
      | None \<Rightarrow> (Some eBootstrapSecretNoConfig, b)))"

section \<open>JSON\<close>

record apiCodec =
  ac_decode_create :: "string \<Rightarrow> goerr + hostCreateRequest"
  ac_decode_patch :: "string \<Rightarrow> goerr + hostPatchRequest"
  ac_encode_host :: "hostResponse \<Rightarrow> goerr + string"
  ac_encode_registration :: "registrationResponse \<Rightarrow> goerr + string"
  ac_encode_bootstrap :: "bootstrapResponse \<Rightarrow> goerr + string"

section \<open>What a patch request does to a host\<close>

lemma set_flag_frame [simp]:
  "hBootstrapSecret (set_flag f k h) = hBootstrapSecret h" "hMachineRef (set_flag f k h) = hMachineRef h"
  "hPubKey (set_flag f k h) = hPubKey h" "oName (set_flag f k h) = oName h"
  "oNamespace (set_flag f k h) = oNamespace h" "oFinalizers (set_flag f k h) = oFinalizers h"
  "oDeletionTimestamp (set_flag f k h) = oDeletionTimestamp h"
  "oOwnerReferences (set_flag f k h) = oOwnerReferences h"
  "hOSVersionManagement (set_flag f k h) = hOSVersionManagement h" "hConditions (set_flag f k h) = hConditions h"
  "oLabels (set_flag f k h) = (if f = None then oLabels h else gput k ''true'' (oLabels h))"
  "oAnnotations (set_flag f k h) = oAnnotations h"
  by (simp_all add: set_flag_def put_label_def split: option.splits)

text \<open>The last value a patch gives a label: a flag over the request's labels over the host's.\<close>

definition patched_label :: "hostPatchRequest \<Rightarrow> elementalHost \<Rightarrow> string \<Rightarrow> string option" where
  "patched_label h host k =
     (if k = LabelElementalHostInPlaceUpdate \<and> hpInPlaceUpdate h \<noteq> None then hpInPlaceUpdate h
      else if (k = LabelElementalHostInstalled \<and> hpInstalled h \<noteq> None) \<or>
              (k = LabelElementalHostBootstrapped \<and> hpBootstrapped h \<noteq> None) \<or>
              (k = LabelElementalHostReset \<and> hpReset h \<noteq> None) then Some ''true''
      else (case map_of (rev (case hpLabels h of None \<Rightarrow> [] | Some al \<Rightarrow> al)) k of
         Some v \<Rightarrow> Some v | None \<Rightarrow> gget (oLabels host) k))"

lemma labels_distinct:
  "LabelElementalHostInPlaceUpdate \<noteq> LabelElementalHostInstalled"
  "LabelElementalHostInPlaceUpdate \<noteq> LabelElementalHostBootstrapped"
  "LabelElementalHostInPlaceUpdate \<noteq> LabelElementalHostReset"
  by (simp_all add: LabelElementalHostInPlaceUpdate_def LabelElementalHostInstalled_def
      LabelElementalHostBootstrapped_def LabelElementalHostReset_def)

definition patch_applied :: "hostPatchRequest \<Rightarrow> elementalHost \<Rightarrow> elementalHost \<Rightarrow> bool" where
  "patch_applied h host host' \<longleftrightarrow>
     oName host' = oName host \<and> oNamespace host' = oNamespace host \<and> oFinalizers host' = oFinalizers host \<and>
     oDeletionTimestamp host' = oDeletionTimestamp host \<and> oOwnerReferences host' = oOwnerReferences host \<and>
     hPubKey host' = hPubKey host \<and> hBootstrapSecret host' = hBootstrapSecret host \<and>
     hMachineRef host' = hMachineRef host \<and> hOSVersionManagement host' = hOSVersionManagement host \<and>
     (\<forall>k. gget (oLabels host') k = patched_label h host k) \<and>
     (distinct (map cType (hConditions host)) \<longrightarrow> ready_consistent (hConditions host') \<and>
       (\<forall>c. hpCondition h = Some c \<and> cType c \<noteq> ReadyCondition \<longrightarrow>
         (conditions_IsTrue hConditions host' (cType c) \<longleftrightarrow> cStatus c = ConditionTrue)))"

text \<open>The host before its conditions are set.\<close>

definition relabelled :: "hostPatchRequest \<Rightarrow> elementalHost \<Rightarrow> elementalHost" where
  "relabelled h host =
     (let host = host\<lparr>oAnnotations := gcopy (ginit (oAnnotations host)) (hpAnnotations h)\<rparr>;
          host = host\<lparr>oLabels := gcopy (ginit (oLabels host)) (hpLabels h)\<rparr>;
          host = set_flag (hpInstalled h) LabelElementalHostInstalled host;
          host = set_flag (hpBootstrapped h) LabelElementalHostBootstrapped host;
          host = set_flag (hpReset h) LabelElementalHostReset host
      in (case hpInPlaceUpdate h of
            None \<Rightarrow> host | Some v \<Rightarrow> put_label LabelElementalHostInPlaceUpdate v host))"

lemma put_label_frame:
  "hBootstrapSecret (put_label k v h) = hBootstrapSecret h" "hMachineRef (put_label k v h) = hMachineRef h"
  "hPubKey (put_label k v h) = hPubKey h" "oName (put_label k v h) = oName h"
  "oNamespace (put_label k v h) = oNamespace h" "oFinalizers (put_label k v h) = oFinalizers h"
  "oDeletionTimestamp (put_label k v h) = oDeletionTimestamp h"
  "oOwnerReferences (put_label k v h) = oOwnerReferences h"
  "hOSVersionManagement (put_label k v h) = hOSVersionManagement h" "hConditions (put_label k v h) = hConditions h"
  "oLabels (put_label k v h) = gput k v (oLabels h)"
  for h :: elementalHost
  by (simp_all add: put_label_def)

lemma relabelled_frame [simp]:
  "hBootstrapSecret (relabelled h host) = hBootstrapSecret host" "hMachineRef (relabelled h host) = hMachineRef host"
  "hPubKey (relabelled h host) = hPubKey host" "oName (relabelled h host) = oName host"
  "oNamespace (relabelled h host) = oNamespace host" "oFinalizers (relabelled h host) = oFinalizers host"
  "oDeletionTimestamp (relabelled h host) = oDeletionTimestamp host"
  "oOwnerReferences (relabelled h host) = oOwnerReferences host"
  "hOSVersionManagement (relabelled h host) = hOSVersionManagement host"
  "hConditions (relabelled h host) = hConditions host"
  by (cases "hpInPlaceUpdate h"; simp add: relabelled_def Let_def put_label_frame)+

lemma oLabels_relabelled: "oLabels (relabelled h host) =
   (let ls = gcopy (ginit (oLabels host)) (hpLabels h);
        ls = (if hpInstalled h = None then ls else gput LabelElementalHostInstalled ''true'' ls);
        ls = (if hpBootstrapped h = None then ls else gput LabelElementalHostBootstrapped ''true'' ls);
        ls = (if hpReset h = None then ls else gput LabelElementalHostReset ''true'' ls)
    in (case hpInPlaceUpdate h of None \<Rightarrow> ls | Some v \<Rightarrow> gput LabelElementalHostInPlaceUpdate v ls))"
  by (cases "hpInPlaceUpdate h") (simp_all add: relabelled_def Let_def put_label_frame)

lemma gget_relabelled: "gget (oLabels (relabelled h host)) k = patched_label h host k"
  unfolding oLabels_relabelled patched_label_def Let_def
  by (cases "hpInPlaceUpdate h"; cases "hpInstalled h"; cases "hpBootstrapped h"; cases "hpReset h")
    (simp_all add: gget_gcopy labels_distinct cong: option.case_cong)

lemma applyToElementalHost_eq:
  "applyToElementalHost now h host =
     (let host' = host_SetSummary now
            (conditions_Set hConditions host_SetConditions now (hpCondition h) (relabelled h host))
      in (case hpPhase h of None \<Rightarrow> host' | Some p \<Rightarrow> host'\<lparr>hPhase := p\<rparr>))"
  by (simp add: applyToElementalHost_def relabelled_def Let_def)

lemma applied_conditions:
  "hConditions (applyToElementalHost now h host) = hConditions (host_SetSummary now
     (conditions_Set hConditions host_SetConditions now (hpCondition h) (relabelled h host)))"
  by (simp add: applyToElementalHost_eq Let_def split: option.splits)

lemma host_SetSummary_refs [simp]:
  "oOwnerReferences (host_SetSummary now h) = oOwnerReferences h"
  by (simp add: conditions_SetSummary_def)

lemma patch_applied_lemma: "patch_applied h host (applyToElementalHost now h host)"
proof -
  let ?g = "conditions_Set hConditions host_SetConditions now (hpCondition h) (relabelled h host)"
  have labels: "oLabels (applyToElementalHost now h host) = oLabels (relabelled h host)"
    by (simp add: applyToElementalHost_eq Let_def split: option.splits)
  have d: "distinct (map cType (hConditions ?g))" if "distinct (map cType (hConditions host))"
    by (rule hostC.distinct_Set) (simp add: that)
  have "ready_consistent (hConditions (host_SetSummary now ?g))" if "distinct (map cType (hConditions host))"
    by (rule hostC.ready_consistent_SetSummary [OF d [OF that]])
  moreover have "conditions_IsTrue hConditions (host_SetSummary now ?g) (cType c) \<longleftrightarrow> cStatus c = ConditionTrue"
    if "distinct (map cType (hConditions host))" "hpCondition h = Some c" "cType c \<noteq> ReadyCondition" for c
    using hostC.Get_SetSummary_other [OF d [OF that(1)] that(3)] hostC.IsTrue_Set [of "relabelled h host" now c "cType c"] that
    by (simp add: conditions_IsTrue_def isTrue_condition_def conditions_Get_def)
  ultimately show ?thesis
    unfolding patch_applied_def labels gget_relabelled
    by (simp add: applied_conditions conditions_IsTrue_def)
      (simp add: applyToElementalHost_eq Let_def split: option.splits)
qed

text \<open>
  C21. A patch request changes exactly what it says. Every label gets the value of the request, the flags
  (installed, bootstrapped, reset, in-place update) over the request's own labels; the identity, key,
  links, finalizers and OS version of the host stay; the request's condition is in force, and Ready is
  the summary of the conditions.
\<close>

theorem applyToElementalHost_patch: "patch_applied h host (applyToElementalHost now h host)"
  by (rule patch_applied_lemma)

end
