(* ===== verification/Api_Handlers.thy ===== *)
theory Api_Handlers
  imports Api_Auth Api_Requests
begin

text \<open>
  \<^verbatim>\<open>internal/api/elementalhost_controller.go\<close> and
  \<^verbatim>\<open>elementalregistration_controller.go\<close>: the five HTTP handlers of the Elemental API. A
  handler takes the response it writes to and returns it; the steps they repeat literally (fetching
  the registration and the host) are defined once. What a handler promises of any authenticator is
  proved in the locale \<open>authentication\<close>, and then stated for the one of the repository.
\<close>

section \<open>Shared steps\<close>

definition http_fail :: "nat \<Rightarrow> string \<Rightarrow> response \<Rightarrow> response" where
  "http_fail code msg rs = WriteResponse msg (WriteHeader code rs)"

definition http_json :: "string \<Rightarrow> response \<Rightarrow> response" where
  "http_json bytes rs = WriteResponseBytes bytes (WriteHeader StatusOK (Header_Set ''Content-Type'' ''application/json'' rs))"

definition fetchRegistration ::
  "'w env \<Rightarrow> string \<Rightarrow> string \<Rightarrow> response \<Rightarrow> ('w, event, response + elementalRegistration) prog"
where
  "fetchRegistration E namespace registrationName rs = do {
     r \<leftarrow> kGetElementalRegistration E \<lparr>keyNamespace = namespace, keyName = registrationName\<rparr>;
     (case r of
        Inl e \<Rightarrow>
          if err_is e StatusNotFound
          then ret (Inl (http_fail HTTPNotFound (''ElementalRegistration '' @ sq registrationName @ '' not found'') rs))
          else ret (Inl (http_fail StatusInternalServerError
            (''Could not fetch ElementalRegistration '' @ sq registrationName) rs))
      | Inr registration \<Rightarrow> ret (Inr registration))
   }"

text \<open>\<open>updated\<close> is the wording of the second read of a patch.\<close>

definition fetchHost ::
  "'w env \<Rightarrow> bool \<Rightarrow> string \<Rightarrow> string \<Rightarrow> response \<Rightarrow> ('w, event, response + elementalHost) prog"
where
  "fetchHost E updated namespace hostName rs = do {
     r \<leftarrow> kGetElementalHost E \<lparr>keyNamespace = namespace, keyName = hostName\<rparr>;
     (case r of
        Inl e \<Rightarrow>
          if err_is e StatusNotFound
          then ret (Inl (http_fail HTTPNotFound
            ((if updated then ''Updated ElementalHost '' else ''ElementalHost '') @ sq hostName @ '' not found'') rs))
          else ret (Inl (http_fail StatusInternalServerError
            ((if updated then ''Could not fetch updated ElementalHost '' else ''Could not fetch ElementalHost '') @
             sq hostName) rs))
      | Inr host \<Rightarrow> ret (Inr host))
   }"

section \<open>PATCH of a host\<close>

definition PatchElementalHost ::
  "'w env \<Rightarrow> 'w authenticator \<Rightarrow> apiCodec \<Rightarrow> int \<Rightarrow> request \<Rightarrow> response \<Rightarrow> ('w, event, response) prog"
where
  "PatchElementalHost E auth A now rq rs =
     (let namespace = path_var rq ''namespace''; registrationName = path_var rq ''registrationName'';
          hostName = path_var rq ''hostName''
      in do {
        g \<leftarrow> fetchRegistration E namespace registrationName rs;
        (case g of Inl rs \<Rightarrow> ret rs | Inr registration \<Rightarrow> do {
          f \<leftarrow> fetchHost E False namespace hostName rs;
          (case f of Inl rs \<Rightarrow> ret rs | Inr host \<Rightarrow> do {
            (err, rs) \<leftarrow> au_ValidateHostRequest auth rq rs host registration;
            (case err of Some e \<Rightarrow> ret rs | None \<Rightarrow>
              (case ac_decode_patch A (rqBody rq) of
                 Inl e \<Rightarrow> ret (http_fail StatusBadRequest (err_msg (wrapf ''Could not decode request'' e)) rs)
               | Inr patchRequest \<Rightarrow>
                   if hpBootstrapped patchRequest = Some True \<and> hBootstrapSecret host = None
                   then ret (http_fail StatusBadRequest
                     (''Can'' @ [CHR 0x27] @ ''t mark the Host as bootstrapped if no bootstrap secret has been associated yet.'') rs)
                   else do {
                     h \<leftarrow> kNewPatchHelper E ''ElementalHost'' (ObjectKeyFromObject host);
                     (case h of
                        Some e \<Rightarrow> ret (http_fail StatusInternalServerError
                          ''Could not initialize ElementalHost patch helper'' rs)
                      | None \<Rightarrow> do {
                          p \<leftarrow> kPatchElementalHost E host (applyToElementalHost now patchRequest host);
                          (case p of
                             Some e \<Rightarrow> ret (http_fail StatusInternalServerError
                               (''Could not patch ElementalHost '' @ sq hostName) rs)
                           | None \<Rightarrow> do {
                               u \<leftarrow> fetchHost E True namespace hostName rs;
                               (case u of Inl rs \<Rightarrow> ret rs | Inr host \<Rightarrow>
                                 (case ac_encode_host A (fromElementalHost host empty_hostResponse) of
                                    Inl e \<Rightarrow> ret (http_fail StatusInternalServerError
                                      (err_msg (wrapf ''Could not encode response body'' e)) rs)
                                  | Inr responseBytes \<Rightarrow> ret (http_json responseBytes rs)))
                             })
                        })
                   }))
          })
        })
      })"

section \<open>POST of a host\<close>

definition sanitizeTypeMeta :: "elementalRegistration \<Rightarrow> elementalRegistration" where
  "sanitizeTypeMeta registration =
     (if oAPIVersion registration = [] \<or> oKind registration = []
      then registration\<lparr>oKind := ''ElementalRegistration'', oAPIVersion := InfraGroup @ ''/'' @ InfraVersion\<rparr>
      else registration)"

definition owned_by :: "elementalRegistration \<Rightarrow> elementalHost \<Rightarrow> elementalHost" where
  "owned_by registration host = host\<lparr>oOwnerReferences := [\<lparr>owAPIVersion = oAPIVersion registration,
     owKind = oKind registration, owName = oName registration, owUID = oUID registration,
     owController = Some True\<rparr>]\<rparr>"

definition host_location :: "string \<Rightarrow> string \<Rightarrow> string \<Rightarrow> string" where
  "host_location namespace registrationName hostName = api_Prefix @ api_PrefixV1 @ ''/namespaces/'' @ namespace @
     ''/registrations/'' @ registrationName @ ''/hosts/'' @ hostName"

definition PostElementalHost ::
  "'w env \<Rightarrow> 'w authenticator \<Rightarrow> apiCodec \<Rightarrow> request \<Rightarrow> response \<Rightarrow> ('w, event, response) prog"
where
  "PostElementalHost E auth A rq rs =
     (let namespace = path_var rq ''namespace''; registrationName = path_var rq ''registrationName''
      in do {
        g \<leftarrow> fetchRegistration E namespace registrationName rs;
        (case g of Inl rs \<Rightarrow> ret rs | Inr fetched \<Rightarrow>
          (let registration = sanitizeTypeMeta fetched in
           (case ac_decode_create A (rqBody rq) of
              Inl e \<Rightarrow> ret (http_fail StatusBadRequest (err_msg (wrapf ''Could not decode request body'' e)) rs)
            | Inr createRequest \<Rightarrow>
                (let newHost = owned_by registration (toElementalHost namespace createRequest);
                     newHostName = EscapeString (oName newHost)
                 in do {
                   (err, rs) \<leftarrow> au_ValidateHostRequest auth rq rs newHost registration;
                   (case err of Some e \<Rightarrow> ret rs | None \<Rightarrow> do {
                     (err, rs) \<leftarrow> au_ValidateRegistrationRequest auth rq rs registration;
                     (case err of Some e \<Rightarrow> ret rs | None \<Rightarrow> do {
                       c \<leftarrow> kCreateElementalHost E newHost;
                       (case c of
                          Some e \<Rightarrow>
                            if err_is e StatusAlreadyExists
                            then ret (http_fail HTTPConflict
                              (''Host '' @ sq namespace @ '' in namespace '' @ sq newHostName @ '' already exists'') rs)
                            else ret (http_fail StatusInternalServerError
                              (''Could not create Elemental Host '' @ sq newHostName) rs)
                        | None \<Rightarrow> ret (WriteHeader StatusCreated
                            (Header_Set ''Location'' (host_location namespace registrationName newHostName) rs)))
                     })
                   })
                 }))))
      })"

section \<open>DELETE of a host\<close>

definition DeleteElementalHost ::
  "'w env \<Rightarrow> 'w authenticator \<Rightarrow> request \<Rightarrow> response \<Rightarrow> ('w, event, response) prog"
where
  "DeleteElementalHost E auth rq rs =
     (let namespace = path_var rq ''namespace''; registrationName = path_var rq ''registrationName'';
          hostName = path_var rq ''hostName''
      in do {
        g \<leftarrow> fetchRegistration E namespace registrationName rs;
        (case g of Inl rs \<Rightarrow> ret rs | Inr registration \<Rightarrow> do {
          f \<leftarrow> fetchHost E False namespace hostName rs;
          (case f of Inl rs \<Rightarrow> ret rs | Inr host \<Rightarrow> do {
            (err, rs) \<leftarrow> au_ValidateHostRequest auth rq rs host registration;
            (case err of Some e \<Rightarrow> ret rs | None \<Rightarrow>
              if \<not> notDeleted host then ret (WriteHeader StatusAccepted rs)
              else do {
                d \<leftarrow> kDeleteElementalHost E (ObjectKeyFromObject host);
                (case d of
                   Some e \<Rightarrow> ret (http_fail StatusInternalServerError
                     (''Could not delete ElementalHost '' @ sq hostName) rs)
                 | None \<Rightarrow> ret (WriteHeader StatusAccepted rs))
              })
          })
        })
      })"

section \<open>GET of the bootstrap instructions\<close>

definition GetElementalHostBootstrap ::
  "'w env \<Rightarrow> 'w authenticator \<Rightarrow> apiCodec \<Rightarrow> request \<Rightarrow> response \<Rightarrow> ('w, event, response) prog"
where
  "GetElementalHostBootstrap E auth A rq rs =
     (let namespace = path_var rq ''namespace''; registrationName = path_var rq ''registrationName'';
          hostName = path_var rq ''hostName''
      in do {
        g \<leftarrow> fetchRegistration E namespace registrationName rs;
        (case g of Inl rs \<Rightarrow> ret rs | Inr registration \<Rightarrow> do {
          f \<leftarrow> fetchHost E False namespace hostName rs;
          (case f of Inl rs \<Rightarrow> ret rs | Inr host \<Rightarrow> do {
            (err, rs) \<leftarrow> au_ValidateHostRequest auth rq rs host registration;
            (case err of Some e \<Rightarrow> ret rs | None \<Rightarrow>
              (case hBootstrapSecret host of
                 None \<Rightarrow> ret (http_fail HTTPNotFound ''There is no associated boostrap secret yet'' rs)
               | Some ref \<Rightarrow> do {
                   s \<leftarrow> kGetSecret E (refKey ref);
                   (case s of
                      Inl e \<Rightarrow>
                        if err_is e StatusNotFound
                        then ret (http_fail StatusInternalServerError ''Could not find expected Bootstrap secret'' rs)
                        else ret (http_fail StatusInternalServerError ''Could not fetch Bootstrap secret'' rs)
                    | Inr secret \<Rightarrow>
                        (case fromSecret secret of (err, bootstrapResponse) \<Rightarrow>
                          (let rs = (case err of None \<Rightarrow> rs | Some e \<Rightarrow> http_fail StatusInternalServerError
                                 (err_msg (wrapf ''Could not prepare bootstrap response'' e)) rs)
                           in (case ac_encode_bootstrap A bootstrapResponse of
                                 Inl e \<Rightarrow> ret (http_fail StatusInternalServerError
                                   (err_msg (wrapf ''Could not encode bootstrap response body'' e)) rs)
                               | Inr responseBytes \<Rightarrow> ret (http_json responseBytes rs)))))
                 }))
          })
        })
      })"

section \<open>GET of a registration\<close>

definition GetElementalRegistration ::
  "'w env \<Rightarrow> 'w authenticator \<Rightarrow> apiCodec \<Rightarrow> request \<Rightarrow> response \<Rightarrow> ('w, event, response) prog"
where
  "GetElementalRegistration E auth A rq rs =
     (let namespace = path_var rq ''namespace''; registrationName = path_var rq ''registrationName''
      in do {
        g \<leftarrow> fetchRegistration E namespace registrationName rs;
        (case g of Inl rs \<Rightarrow> ret rs | Inr registration \<Rightarrow> do {
          (err, rs) \<leftarrow> au_ValidateRegistrationRequest auth rq rs registration;
          (case err of Some e \<Rightarrow> ret rs | None \<Rightarrow>
            (case ac_encode_registration A (fromElementalRegistration registration) of
               Inl e \<Rightarrow> ret (http_fail StatusInternalServerError
                 (err_msg (wrapf ''Could not encode response body'' e)) rs)
             | Inr responseBytes \<Rightarrow> ret (http_json responseBytes rs)))
        })
      })"

section \<open>The documented answers\<close>

text \<open>\<^verbatim>\<open>SetupOpenAPIOperation\<close>: description, content type and status of each documented answer.\<close>

type_synonym responseDoc = "string \<times> string \<times> nat"

definition PatchElementalHost_responses :: "responseDoc list" where
  "PatchElementalHost_responses = [
     (''Returns the patched ElementalHost'', ''application/json'', StatusOK),
     (''If the ElementalRegistration or the ElementalHost are not found'', ''text/html'', HTTPNotFound),
     (''If the ElementalHostPatch request is badly formatted'', ''text/html'', StatusBadRequest),
     ((''If the '' @ sq ''Authorization'' @ '' header does not contain a Bearer token''), ''text/html'', StatusUnauthorized),
     ((''If the '' @ sq ''Authorization'' @ '' token is not valid''), ''text/html'', StatusForbidden),
     ([], ''text/html'', StatusInternalServerError)]"

definition PostElementalHost_responses :: "responseDoc list" where
  "PostElementalHost_responses = [
     (''ElementalHost correctly created. Location Header contains its URI'', '''', StatusCreated),
     (''ElementalHost with same name within this ElementalRegistration already exists'', ''text/html'', HTTPConflict),
     (''ElementalRegistration not found'', ''text/html'', HTTPNotFound),
     (''ElementalHost request is badly formatted'', ''text/html'', StatusBadRequest),
     ((''If the '' @ sq ''Authorization'' @ '' or '' @ sq ''Registration-Authorization'' @ '' headers do not contain Bearer tokens''), ''text/html'', StatusUnauthorized),
     ((''If the '' @ sq ''Authorization'' @ '' or '' @ sq ''Registration-Authorization'' @ '' tokens are not valid''), ''text/html'', StatusForbidden),
     ([], ''text/html'', StatusInternalServerError)]"

definition DeleteElementalHost_responses :: "responseDoc list" where
  "DeleteElementalHost_responses = [
     (''ElementalHost correctly deleted.'', '''', StatusAccepted),
     (''ElementalHost not found'', ''text/html'', HTTPNotFound),
     ((''If the '' @ sq ''Authorization'' @ '' header does not contain a Bearer token''), ''text/html'', StatusUnauthorized),
     ((''If the '' @ sq ''Authorization'' @ '' token is not valid''), ''text/html'', StatusForbidden),
     ([], ''text/html'', StatusInternalServerError)]"

definition GetElementalHostBootstrap_responses :: "responseDoc list" where
  "GetElementalHostBootstrap_responses = [
     (''Returns the ElementalHost bootstrap instructions'', ''application/json'', StatusOK),
     (''If the ElementalRegistration or ElementalHost are not found, or if there are no bootstrap instructions yet'', ''text/html'', HTTPNotFound),
     ((''If the '' @ sq ''Authorization'' @ '' header does not contain a Bearer token''), ''text/html'', StatusUnauthorized),
     ((''If the '' @ sq ''Authorization'' @ '' token is not valid''), ''text/html'', StatusForbidden),
     ([], ''text/html'', StatusInternalServerError)]"

definition GetElementalRegistration_responses :: "responseDoc list" where
  "GetElementalRegistration_responses = [
     (''Returns the ElementalRegistration'', ''application/json'', StatusOK),
     (''If the ElementalRegistration is not found'', ''text/html'', HTTPNotFound),
     ((''If the '' @ sq ''Registration-Authorization'' @ '' header does not contain a Bearer token''), ''text/html'', StatusUnauthorized),
     ((''If the '' @ sq ''Registration-Authorization'' @ '' token is not valid''), ''text/html'', StatusForbidden),
     ([], ''text/html'', StatusInternalServerError)]"

definition documented :: "responseDoc list \<Rightarrow> nat set" where
  "documented ds = set (map (\<lambda>(_, _, status). status) ds)"

lemmas documented_defs = documented_def PatchElementalHost_responses_def PostElementalHost_responses_def
  DeleteElementalHost_responses_def GetElementalHostBootstrap_responses_def GetElementalRegistration_responses_def

section \<open>What the handlers promise\<close>

lemma http_fail_simps [simp]:
  "rsStatus (http_fail c msg rs) = Some (case rsStatus rs of None \<Rightarrow> c | Some d \<Rightarrow> d)" "rsBody (http_fail c msg rs) = rsBody rs @ [msg]"
  by (simp_all add: http_fail_def)

lemma http_json_simps [simp]:
  "rsStatus (http_json b rs) = Some (case rsStatus rs of None \<Rightarrow> StatusOK | Some d \<Rightarrow> d)" "rsBody (http_json b rs) = rsBody rs @ [b]"
  by (simp_all add: http_json_def)

lemma sent_status_Some [simp]: "rsStatus rs = Some c \<Longrightarrow> sent_status rs = c"
  by (simp add: sent_status_def)

lemma sent_status_refused:
  "auth_outcome ok rs (Some e, rs') \<Longrightarrow> rsStatus rs = None \<Longrightarrow>
   sent_status rs' \<in> {StatusUnauthorized, StatusForbidden, StatusInternalServerError} \<and> \<not> ok"
  by (auto simp: auth_outcome_def)

lemma accepted_outcome: "auth_outcome ok rs (None, rs') \<Longrightarrow> ok \<and> rs' = rs"
  by (simp add: auth_outcome_def)

text \<open>The patch endpoint.\<close>

definition patch_served ::
  "(request \<Rightarrow> elementalHost \<Rightarrow> bool) \<Rightarrow> apiCodec \<Rightarrow> int \<Rightarrow> request \<Rightarrow> response \<Rightarrow> event list \<Rightarrow> bool"
where
  "patch_served host_ok A now rq rs l \<longleftrightarrow>
     (let key = \<lparr>keyNamespace = path_var rq ''namespace'', keyName = path_var rq ''hostName''\<rparr>
      in sent_status rs \<in> documented PatchElementalHost_responses \<and>
         (writes l = [] \<and> sent_status rs \<noteq> StatusOK \<or>
          (\<exists>host patchRequest r. EvGetElementalHost key (Inr host) \<in> set l \<and> host_ok rq host \<and>
             ac_decode_patch A (rqBody rq) = Inr patchRequest \<and>
             (hpBootstrapped patchRequest = Some True \<longrightarrow> hBootstrapSecret host \<noteq> None) \<and>
             writes l = [EvPatchElementalHost host (applyToElementalHost now patchRequest host) r] \<and>
             (sent_status rs = StatusOK \<longrightarrow> r = None \<and>
               (\<exists>updated bytes. last l = EvGetElementalHost key (Inr updated) \<and>
                  ac_encode_host A (fromElementalHost updated empty_hostResponse) = Inr bytes \<and>
                  rsBody rs = [bytes])))))"


lemma wp_fetchRegistration:
  assumes "\<And>reg. Q (Inr reg) [EvGetElementalRegistration \<lparr>keyNamespace = ns, keyName = n\<rparr> (Inr reg)]"
    and "\<And>c msg e. c \<in> {HTTPNotFound, StatusInternalServerError} \<Longrightarrow>
      Q (Inl (http_fail c msg rs)) [EvGetElementalRegistration \<lparr>keyNamespace = ns, keyName = n\<rparr> (Inl e)]"
  shows "wp (fetchRegistration E ns n rs) Q"
  unfolding fetchRegistration_def by (intro wp_intros) (auto intro: assms)

lemma wp_fetchHost:
  assumes "\<And>host. Q (Inr host) [EvGetElementalHost \<lparr>keyNamespace = ns, keyName = n\<rparr> (Inr host)]"
    and "\<And>c msg e. c \<in> {HTTPNotFound, StatusInternalServerError} \<Longrightarrow>
      Q (Inl (http_fail c msg rs)) [EvGetElementalHost \<lparr>keyNamespace = ns, keyName = n\<rparr> (Inl e)]"
  shows "wp (fetchHost E upd ns n rs) Q"
  unfolding fetchHost_def by (intro wp_intros) (auto intro: assms)

text \<open>Every status the handlers answer with is documented.\<close>

lemma documented_statuses [simp]:
  "documented PatchElementalHost_responses =
     {StatusOK, HTTPNotFound, StatusBadRequest, StatusUnauthorized, StatusForbidden, StatusInternalServerError}"
  "documented PostElementalHost_responses =
     {StatusCreated, HTTPConflict, HTTPNotFound, StatusBadRequest, StatusUnauthorized, StatusForbidden,
      StatusInternalServerError}"
  "documented DeleteElementalHost_responses =
     {StatusAccepted, HTTPNotFound, StatusUnauthorized, StatusForbidden, StatusInternalServerError}"
  "documented GetElementalHostBootstrap_responses =
     {StatusOK, HTTPNotFound, StatusUnauthorized, StatusForbidden, StatusInternalServerError}"
  "documented GetElementalRegistration_responses =
     {StatusOK, HTTPNotFound, StatusUnauthorized, StatusForbidden, StatusInternalServerError}"
  by (simp_all add: documented_defs)

lemma statuses_distinct [simp]:
  "StatusOK \<noteq> HTTPNotFound" "StatusOK \<noteq> StatusBadRequest" "StatusOK \<noteq> StatusInternalServerError"
  "StatusOK \<noteq> StatusUnauthorized" "StatusOK \<noteq> StatusForbidden"
  "HTTPNotFound \<noteq> StatusOK" "StatusBadRequest \<noteq> StatusOK" "StatusInternalServerError \<noteq> StatusOK"
  "StatusUnauthorized \<noteq> StatusOK" "StatusForbidden \<noteq> StatusOK"
  by (simp_all add: status_defs)

text \<open>The other four endpoints.\<close>

definition post_served ::
  "(request \<Rightarrow> elementalHost \<Rightarrow> bool) \<Rightarrow> (request \<Rightarrow> secret \<Rightarrow> bool) \<Rightarrow> apiCodec \<Rightarrow> request \<Rightarrow>
    response \<Rightarrow> event list \<Rightarrow> bool"
where
  "post_served host_ok registration_ok A rq rs l \<longleftrightarrow>
     (let ns = path_var rq ''namespace''; rn = path_var rq ''registrationName'' in
      sent_status rs \<in> documented PostElementalHost_responses \<and>
      (writes l = [] \<and> sent_status rs \<notin> {StatusCreated, HTTPConflict} \<or>
       (\<exists>registration createRequest secret host r.
          EvGetElementalRegistration \<lparr>keyNamespace = ns, keyName = rn\<rparr> (Inr registration) \<in> set l \<and>
          ac_decode_create A (rqBody rq) = Inr createRequest \<and>
          host = owned_by (sanitizeTypeMeta registration) (toElementalHost ns createRequest) \<and>
          host_ok rq host \<and>
          EvGetSecret (ObjectKeyFromObject registration) (Inr secret) \<in> set l \<and> registration_ok rq secret \<and>
          writes l = [EvCreateElementalHost host r] \<and>
          (sent_status rs = StatusCreated \<longleftrightarrow> r = None) \<and>
          (sent_status rs = HTTPConflict \<longleftrightarrow> (\<exists>e. r = Some e \<and> err_is e StatusAlreadyExists)) \<and>
          (r = None \<longrightarrow> rsBody rs = [] \<and>
             rsHeaders rs = [(''Location'', host_location ns rn (EscapeString (oName host)))]))))"

definition delete_served ::
  "(request \<Rightarrow> elementalHost \<Rightarrow> bool) \<Rightarrow> request \<Rightarrow> response \<Rightarrow> event list \<Rightarrow> bool"
where
  "delete_served host_ok rq rs l \<longleftrightarrow>
     (let key = \<lparr>keyNamespace = path_var rq ''namespace'', keyName = path_var rq ''hostName''\<rparr> in
      sent_status rs \<in> documented DeleteElementalHost_responses \<and>
      (\<forall>host. EvGetElementalHost key (Inr host) \<in> set l \<and> sent_status rs = StatusAccepted \<longrightarrow>
         host_ok rq host \<and>
         writes l = (if notDeleted host then [EvDeleteElementalHost (ObjectKeyFromObject host) None] else [])) \<and>
      (writes l = [] \<or> (\<exists>host r. EvGetElementalHost key (Inr host) \<in> set l \<and> host_ok rq host \<and>
         notDeleted host \<and> writes l = [EvDeleteElementalHost (ObjectKeyFromObject host) r] \<and>
         (sent_status rs = StatusAccepted \<longleftrightarrow> r = None))))"

text \<open>A bootstrap secret is read only for its host, and sent only if that could be done.\<close>

definition bootstrap_served ::
  "(request \<Rightarrow> elementalHost \<Rightarrow> bool) \<Rightarrow> apiCodec \<Rightarrow> request \<Rightarrow> response \<Rightarrow> event list \<Rightarrow> bool"
where
  "bootstrap_served host_ok A rq rs l \<longleftrightarrow>
     (let key = \<lparr>keyNamespace = path_var rq ''namespace'', keyName = path_var rq ''hostName''\<rparr> in
      sent_status rs \<in> documented GetElementalHostBootstrap_responses \<and> writes l = [] \<and>
      (\<forall>k r. EvGetSecret k r \<in> set l \<longrightarrow> (\<exists>host ref. EvGetElementalHost key (Inr host) \<in> set l \<and>
         host_ok rq host \<and> hBootstrapSecret host = Some ref \<and> k = refKey ref)) \<and>
      (sent_status rs = StatusOK \<longrightarrow> (\<exists>k secret b bytes. EvGetSecret k (Inr secret) \<in> set l \<and>
         fromSecret secret = (None, b) \<and> ac_encode_bootstrap A b = Inr bytes \<and> rsBody rs = [bytes])))"

definition registration_served ::
  "(request \<Rightarrow> secret \<Rightarrow> bool) \<Rightarrow> apiCodec \<Rightarrow> request \<Rightarrow> response \<Rightarrow> event list \<Rightarrow> bool"
where
  "registration_served registration_ok A rq rs l \<longleftrightarrow>
     sent_status rs \<in> documented GetElementalRegistration_responses \<and> writes l = [] \<and>
     (sent_status rs = StatusOK \<longrightarrow> (\<exists>k registration secret bytes.
        EvGetElementalRegistration k (Inr registration) \<in> set l \<and>
        EvGetSecret (ObjectKeyFromObject registration) (Inr secret) \<in> set l \<and> registration_ok rq secret \<and>
        ac_encode_registration A (fromElementalRegistration registration) = Inr bytes \<and> rsBody rs = [bytes]))"

text \<open>The answer to a host whose bootstrap secret has no configuration.\<close>

definition double_body :: "apiCodec \<Rightarrow> response \<Rightarrow> event list \<Rightarrow> bool" where
  "double_body A rs l \<longleftrightarrow> (\<forall>k secret e b bytes. EvGetSecret k (Inr secret) \<in> set l \<and>
     fromSecret secret = (Some e, b) \<and> ac_encode_bootstrap A b = Inr bytes \<longrightarrow>
     sent_status rs = StatusInternalServerError \<and> length (rsBody rs) = 2 \<and> last (rsBody rs) = bytes)"


lemma statuses_distinct_more [simp]:
  "StatusCreated \<noteq> HTTPNotFound" "StatusCreated \<noteq> StatusBadRequest" "StatusCreated \<noteq> StatusInternalServerError"
  "StatusCreated \<noteq> StatusUnauthorized" "StatusCreated \<noteq> StatusForbidden" "StatusCreated \<noteq> HTTPConflict"
  "HTTPConflict \<noteq> HTTPNotFound" "HTTPConflict \<noteq> StatusBadRequest" "HTTPConflict \<noteq> StatusInternalServerError"
  "HTTPConflict \<noteq> StatusUnauthorized" "HTTPConflict \<noteq> StatusForbidden" "HTTPConflict \<noteq> StatusCreated"
  "StatusAccepted \<noteq> HTTPNotFound" "StatusAccepted \<noteq> StatusInternalServerError"
  "StatusAccepted \<noteq> StatusUnauthorized" "StatusAccepted \<noteq> StatusForbidden"
  "HTTPNotFound \<noteq> StatusCreated" "HTTPNotFound \<noteq> HTTPConflict" "StatusInternalServerError \<noteq> StatusCreated"
  "StatusInternalServerError \<noteq> HTTPConflict" "StatusBadRequest \<noteq> StatusCreated" "StatusBadRequest \<noteq> HTTPConflict"
  "StatusUnauthorized \<noteq> StatusCreated" "StatusUnauthorized \<noteq> HTTPConflict" "StatusForbidden \<noteq> StatusCreated"
  "StatusForbidden \<noteq> HTTPConflict" "HTTPNotFound \<noteq> StatusAccepted" "StatusInternalServerError \<noteq> StatusAccepted"
  "StatusUnauthorized \<noteq> StatusAccepted" "StatusForbidden \<noteq> StatusAccepted"
  by (simp_all add: status_defs)

lemma ObjectKey_sanitize [simp]: "ObjectKeyFromObject (sanitizeTypeMeta r) = ObjectKeyFromObject r"
  by (simp add: ObjectKeyFromObject_def sanitizeTypeMeta_def)

lemma only_secret_reads: "\<forall>ev \<in> set l. \<exists>r. ev = EvGetSecret k r \<Longrightarrow> writes l = []"
  by (auto simp: filter_empty_conv)

context authentication
begin

lemma wp_host_auth:
  assumes "host_ok rq host \<Longrightarrow> Q (None, rs) []" and "rsStatus rs = None"
    and "\<And>e c msg rs'. \<not> host_ok rq host \<Longrightarrow> c \<in> {StatusUnauthorized, StatusForbidden, StatusInternalServerError} \<Longrightarrow>
      rsStatus rs' = Some c \<Longrightarrow> rsBody rs' = rsBody rs @ [msg] \<Longrightarrow> Q (Some e, rs') []"
  shows "wp (au_ValidateHostRequest auth rq rs host reg) Q"
proof (rule wp_mono [OF host_auth [of rq rs host reg]])
  fix out and l :: "event list"
  assume *: "l = [] \<and> auth_outcome (host_ok rq host) rs out"
  show "Q out l"
  proof (cases out)
    case (Pair err rs')
    with * assms show ?thesis by (cases err) (auto simp: auth_outcome_def)
  qed
qed

lemma wp_Patch:
  "wp (PatchElementalHost E auth A now rq new_response) (patch_served host_ok A now rq)"
  unfolding PatchElementalHost_def Let_def
  apply (intro wp_intros wp_fetchRegistration wp_fetchHost wp_host_auth)
  apply (simp_all only: response_simps append_Nil append_Nil2)
  by (auto simp: patch_served_def Let_def)

lemma wp_registration_auth:
  assumes "\<And>l secret. writes l = [] \<Longrightarrow> EvGetSecret (ObjectKeyFromObject reg) (Inr secret) \<in> set l \<Longrightarrow>
      registration_ok rq secret \<Longrightarrow> Q (None, rs) l" and "rsStatus rs = None"
    and "\<And>e c msg rs' l. writes l = [] \<Longrightarrow> c \<in> {StatusUnauthorized, StatusForbidden, StatusInternalServerError} \<Longrightarrow>
      rsStatus rs' = Some c \<Longrightarrow> rsBody rs' = rsBody rs @ [msg] \<Longrightarrow> Q (Some e, rs') l"
  shows "wp (au_ValidateRegistrationRequest auth rq rs reg) Q"
proof (rule wp_mono [OF registration_auth [of rq rs reg]])
  fix out and l :: "event list"
  assume *: "(\<forall>ev \<in> set l. \<exists>r. ev = EvGetSecret (ObjectKeyFromObject reg) r) \<and>
    auth_outcome (\<exists>secret. EvGetSecret (ObjectKeyFromObject reg) (Inr secret) \<in> set l \<and> registration_ok rq secret) rs out"
  then have "writes l = []" by (blast intro: only_secret_reads)
  with * show "Q out l"
    by (cases out; cases "fst out") (use assms(2) in \<open>auto simp: auth_outcome_def intro: assms(1,3)\<close>)
qed

lemma wp_Post:
  "wp (PostElementalHost E auth A rq new_response) (post_served host_ok registration_ok A rq)"
  unfolding PostElementalHost_def Let_def
  apply (intro wp_intros wp_fetchRegistration wp_host_auth wp_registration_auth)
  apply (simp_all only: response_simps append_Nil append_Nil2 ObjectKey_sanitize)
  by (auto simp: post_served_def Let_def)

lemma wp_Delete:
  "wp (DeleteElementalHost E auth rq new_response) (delete_served host_ok rq)"
  unfolding DeleteElementalHost_def Let_def
  apply (intro wp_intros wp_fetchRegistration wp_fetchHost wp_host_auth)
  apply (simp_all only: response_simps append_Nil append_Nil2)
  by (auto simp: delete_served_def Let_def)

lemma wp_Bootstrap:
  "wp (GetElementalHostBootstrap E auth A rq new_response) (bootstrap_served host_ok A rq)"
  unfolding GetElementalHostBootstrap_def Let_def
  apply (intro wp_intros wp_fetchRegistration wp_fetchHost wp_host_auth)
  apply (simp_all only: response_simps append_Nil append_Nil2)
  by (auto simp: bootstrap_served_def Let_def split: option.splits)

lemma wp_Bootstrap_double:
  "wp (GetElementalHostBootstrap E auth A rq new_response) (\<lambda>rs l. double_body A rs l)"
  unfolding GetElementalHostBootstrap_def Let_def
  apply (intro wp_intros wp_fetchRegistration wp_fetchHost wp_host_auth)
  apply (simp_all only: response_simps append_Nil append_Nil2)
  by (auto simp: double_body_def split: option.splits)

lemma wp_GetRegistration:
  "wp (GetElementalRegistration E auth A rq new_response) (registration_served registration_ok A rq)"
  unfolding GetElementalRegistration_def Let_def
  apply (intro wp_intros wp_fetchRegistration wp_registration_auth)
  apply (simp_all only: response_simps append_Nil append_Nil2)
  by (auto simp: registration_served_def)

end

section \<open>Properties\<close>

lemma patched_flag:
  "hpBootstrapped h = Some b \<Longrightarrow> label_is_true (applyToElementalHost now h host) LabelElementalHostBootstrapped"
  using labels_distinct(2)
  by (simp add: label_is_true_def patched_label_def patch_applied_lemma [unfolded patch_applied_def])

text \<open>
  C22. PATCH. Only a request accepted for the host it names changes anything, and then it patches that
  host once, as the request says; a host without bootstrap secret is not marked bootstrapped by
  \<open>true\<close>. 200 carries the host as read back after the patch; every status is documented.
\<close>

theorem PatchElementalHost_serves:
  "wp (PatchElementalHost E (NewAuthenticator E C now) A clock rq new_response)
     (patch_served (host_accepted C now) A clock rq)"
  by (rule provider_auth.wp_Patch)

text \<open>
  C23. POST. A host is created only for a request that is accepted both for the key in its body and for the
  registration, in the registration's namespace and owned by it; 201 is answered exactly for a created
  host, with its location, and 409 exactly for one that exists.
\<close>

theorem PostElementalHost_serves:
  "wp (PostElementalHost E (NewAuthenticator E C now) A rq new_response)
     (post_served (host_accepted C now) (registration_accepted C now) A rq)"
  by (rule provider_auth.wp_Post)

text \<open>
  C24. DELETE. Only a request accepted for the host deletes it, at most once and only if it is not being deleted
  already; 202 means that it was deleted now or before.
\<close>

theorem DeleteElementalHost_serves:
  "wp (DeleteElementalHost E (NewAuthenticator E C now) rq new_response)
     (delete_served (host_accepted C now) rq)"
  by (rule provider_auth.wp_Delete)

text \<open>
  C25. Bootstrap data is confidential. The handler reads no secret but the one the host refers to, and only for a
  request accepted for that host; it writes nothing; and 200 carries exactly the instructions of the
  secret read.
\<close>

theorem GetElementalHostBootstrap_serves:
  "wp (GetElementalHostBootstrap E (NewAuthenticator E C now) A rq new_response)
     (bootstrap_served (host_accepted C now) A rq)"
  by (rule provider_auth.wp_Bootstrap)

text \<open>
  A registration is sent only to a request whose token was signed with its key; the handler
  writes nothing and every status is documented.
\<close>

theorem GetElementalRegistration_serves:
  "wp (GetElementalRegistration E (NewAuthenticator E C now) A rq new_response)
     (registration_served (registration_accepted C now) A rq)"
  by (rule provider_auth.wp_GetRegistration)

text \<open>
  A secret without configuration is answered twice. The handler goes on after it wrote its error, so the
  500 response carries the error text followed by an empty bootstrap document.
\<close>

theorem GetElementalHostBootstrap_double_body:
  "wp (GetElementalHostBootstrap E (NewAuthenticator E C now) A rq new_response) (\<lambda>rs l. double_body A rs l)"
  by (rule provider_auth.wp_Bootstrap_double)

text \<open>
  A patch that says a host is not bootstrapped marks it bootstrapped. The flags are pointers, and a pointer
  to false sets the label too; it also passes the check that a bootstrap secret is there.
\<close>

theorem applyToElementalHost_false_flag:
  "hpBootstrapped h = Some b \<Longrightarrow> label_is_true (applyToElementalHost now h host) LabelElementalHostBootstrapped"
  by (rule patched_flag)

end
