(* ===== verification/Registration_Controller.thy ===== *)
theory Registration_Controller
  imports Controller_Common Jwt Http
begin

text \<open>
  \<^verbatim>\<open>internal/controller/elementalregistration_controller.go\<close>: the reconciler that gives an
  ElementalRegistration its URI, the default CA certificate, a signing key (kept in a secret of the
  same name) and a registration token signed with it. \<open>clock\<close> is the time in nanoseconds.
\<close>

section \<open>The reconciler\<close>

record registrationReconciler =
  rrAPIUrl :: "string option" \<comment> \<open>as a string\<close>
  rrDefaultCACert :: string

definition eAPIEndpointNil :: goerr where
  "eAPIEndpointNil = new_err ErrAPIEndpointNil
     ''API endpoint is nil, the controller was not initialized correctly''"

definition eNoPrivateKey :: goerr where
  "eNoPrivateKey = new_err ErrNoPrivateKey (''could not find '' @ sq ''privKey'' @ '' value in registration secret'')"

definition registration_URI :: "string \<Rightarrow> 'a objectMeta_scheme \<Rightarrow> string" where
  "registration_URI apiUrl r = apiUrl @ api_Prefix @ api_PrefixV1 @ ''/namespaces/'' @ oNamespace r @
     ''/registrations/'' @ oName r"

definition setURI :: "registrationReconciler \<Rightarrow> elementalRegistration \<Rightarrow> goerr option \<times> elementalRegistration" where
  "setURI R registration = (case rrAPIUrl R of
     None \<Rightarrow> (Some eAPIEndpointNil, registration)
   | Some url \<Rightarrow> (None, set_registration_of
       ((registration_of registration)\<lparr>rgURI := registration_URI url registration\<rparr>) registration))"

definition registration_secret :: "elementalRegistration \<Rightarrow> string \<Rightarrow> secret" where
  "registration_secret registration privKeyPem = \<lparr>oAPIVersion = [], oKind = [], oName = oName registration,
     oNamespace = oNamespace registration, oUID = [], oLabels = None, oAnnotations = None,
     oOwnerReferences = [\<lparr>owAPIVersion = oAPIVersion registration, owKind = oKind registration,
       owName = oName registration, owUID = oUID registration, owController = Some True\<rparr>],
     oFinalizers = [], oDeletionTimestamp = None, secData = None,
     secStringData = Some [(''privKey'', privKeyPem)]\<rparr>"

definition secret_reference :: "secret \<Rightarrow> objectReference" where
  "secret_reference s = \<lparr>refAPIVersion = [], refKind = oKind s, refNamespace = oNamespace s,
     refName = oName s, refUID = oUID s\<rparr>"

definition generateNewIdentity ::
  "'w env \<Rightarrow> codec \<Rightarrow> elementalRegistration \<Rightarrow> ('w, event, goerr option \<times> elementalRegistration) prog"
where
  "generateNewIdentity E C registration = do {
     g \<leftarrow> kGenerateKey E;
     (case NewED25519Identity g of
        Inl e \<Rightarrow> ret (Some (wrapf ''generating new ed25519 identity'' e), registration)
      | Inr key \<Rightarrow>
          (case identity_Marshal C key of
             Inl e \<Rightarrow> ret (Some (wrapf ''marshaling PEM key'' e), registration)
           | Inr privKeyPem \<Rightarrow> do {
               r \<leftarrow> kCreateSecret E (registration_secret registration privKeyPem);
               (case r of
                  Inl e \<Rightarrow>
                    if \<not> err_is e StatusAlreadyExists
                    then ret (Some (wrapf ''creating new secret'' e), registration)
                    else ret (None, registration\<lparr>rPrivateKeyRef :=
                      Some (secret_reference (registration_secret registration privKeyPem))\<rparr>)
                | Inr secret \<Rightarrow>
                    ret (None, registration\<lparr>rPrivateKeyRef := Some (secret_reference secret)\<rparr>))
             }))
   }"

definition registration_claims :: "int \<Rightarrow> registrationConfig \<Rightarrow> claims" where
  "registration_claims clock g = \<lparr>
     rcIssuer = ''ElementalRegistrationReconciler'', rcSubject = rgURI g, rcAudience = [rgURI g],
     rcExpiresAt = (if rgTokenDuration g \<noteq> 0 then Some (NewNumericDate (clock + rgTokenDuration g)) else None),
     rcNotBefore = Some (NewNumericDate clock), rcIssuedAt = Some (NewNumericDate clock), rcID = []\<rparr>"

definition setNewToken ::
  "'w env \<Rightarrow> codec \<Rightarrow> int \<Rightarrow> elementalRegistration \<Rightarrow>
    ('w, event, goerr option \<times> elementalRegistration) prog"
where
  "setNewToken E C clock registration = do {
     r \<leftarrow> kGetSecret E \<lparr>keyNamespace = oNamespace registration, keyName = oName registration\<rparr>;
     (case r of
        Inl e \<Rightarrow> ret (Some (wrapf ''fetching signing key secret'' e), registration)
      | Inr secret \<Rightarrow>
          (case gget (secData secret) ''privKey'' of
             None \<Rightarrow> ret (Some eNoPrivateKey, registration)
           | Some privKeyPem \<Rightarrow>
               (case identity_Unmarshal C privKeyPem of
                  Inl e \<Rightarrow> ret (Some (wrapf ''parsing private key PEM'' e), registration)
                | Inr key \<Rightarrow>
                    (case identity_Sign C key (registration_claims clock (registration_of registration)) of
                       Inl e \<Rightarrow> ret (Some (wrapf ''signing JWT claims'' e), registration)
                     | Inr token \<Rightarrow> ret (None, set_registration_of
                         ((registration_of registration)\<lparr>rgToken := token\<rparr>) registration)))))
   }"

text \<open>The steps of \<^verbatim>\<open>Reconcile\<close> that do not touch the API: the URI and the default certificate.\<close>

definition default_URI ::
  "registrationReconciler \<Rightarrow> elementalRegistration \<Rightarrow> goerr option \<times> elementalRegistration"
where
  "default_URI R registration =
     (if rgURI (registration_of registration) = [] then setURI R registration else (None, registration))"

definition default_CACert :: "registrationReconciler \<Rightarrow> elementalRegistration \<Rightarrow> elementalRegistration" where
  "default_CACert R registration =
     (if rgCACert (registration_of registration) = [] \<and> rrDefaultCACert R \<noteq> []
      then set_registration_of ((registration_of registration)\<lparr>rgCACert := rrDefaultCACert R\<rparr>) registration
      else registration)"

definition registration_ready :: "int \<Rightarrow> elementalRegistration \<Rightarrow> elementalRegistration" where
  "registration_ready clock registration = conditions_Set rConditions registration_SetConditions
     (clock div 1000000000) (Some (mk_condition ReadyCondition ConditionTrue SeverityNone [] [])) registration"

definition registration_body ::
  "'w env \<Rightarrow> codec \<Rightarrow> registrationReconciler \<Rightarrow> int \<Rightarrow> elementalRegistration \<Rightarrow>
    ('w, event, reconcileResult \<times> elementalRegistration) prog"
where
  "registration_body E C R clock registration = (case default_URI R registration of
     (Some e, registration) \<Rightarrow> ret ((0, Some (wrapf ''updating registration URI'' e)), registration)
   | (None, registration) \<Rightarrow> do {
       (err, registration) \<leftarrow> (let registration = default_CACert R registration in
         (if rPrivateKeyRef registration = None then generateNewIdentity E C registration
          else ret (None, registration)));
       (case err of
          Some e \<Rightarrow> ret ((0, Some (wrapf ''generating new identity'' e)), registration)
        | None \<Rightarrow> do {
            (err, registration) \<leftarrow>
              (if rgToken (registration_of registration) = [] then setNewToken E C clock registration
               else ret (None, registration));
            (case err of
               Some e \<Rightarrow> ret ((0, Some (wrapf ''refreshing registration token'' e)), registration)
             | None \<Rightarrow> ret ((0, None), registration_ready clock registration))
          })
     })"

definition registration_deferred ::
  "'w env \<Rightarrow> elementalRegistration \<Rightarrow> reconcileResult \<times> elementalRegistration \<Rightarrow>
    ('w, event, reconcileResult) prog"
where
  "registration_deferred E original out = (case out of (result, registration) \<Rightarrow> do {
     r \<leftarrow> kPatchElementalRegistration E original registration;
     (case r of
        None \<Rightarrow> ret result
      | Some e \<Rightarrow> ret (fst result, Some (errors_join (snd result) (wrapf ''patching ElementalRegistration'' e))))
   })"

definition Registration_Reconcile ::
  "'w env \<Rightarrow> codec \<Rightarrow> registrationReconciler \<Rightarrow> int \<Rightarrow> objectKey \<Rightarrow> ('w, event, reconcileResult) prog"
where
  "Registration_Reconcile E C R clock req = do {
     r \<leftarrow> kGetElementalRegistration E req;
     (case r of
        Inl e \<Rightarrow> (if err_is e StatusNotFound then ret (0, None)
                  else ret (0, Some (wrapf ''fetching ElementalRegistration'' e)))
      | Inr registration \<Rightarrow> do {
          h \<leftarrow> kNewPatchHelper E ''ElementalRegistration'' (ObjectKeyFromObject registration);
          (case h of
             Some e \<Rightarrow> ret (0, Some (wrapf ''initializing patch helper'' e))
           | None \<Rightarrow> do {
               out \<leftarrow> registration_body E C R clock registration;
               registration_deferred E registration out
             })
        })
   }"

section \<open>What a run does\<close>

interpretation registrationR: patching_reconciler "Registration_Reconcile E C R clock" EvGetElementalRegistration
  "env_GetElementalRegistration E" "\<lambda>r. EvNewPatchHelper ''ElementalRegistration'' (ObjectKeyFromObject r)"
  "\<lambda>r. env_NewPatchHelper E ''ElementalRegistration'' (ObjectKeyFromObject r)" EvPatchElementalRegistration
  "env_PatchElementalRegistration E" "registration_body E C R clock" "\<lambda>r. r" "''ElementalRegistration''"
  by unfold_locales (simp add: Registration_Reconcile_def registration_deferred_def
      kGetElementalRegistration_def kNewPatchHelper_def kPatchElementalRegistration_def case_prod_unfold
      cong: sum.case_cong option.case_cong if_cong)

abbreviation registration_reconciles_once ::
  "objectKey \<Rightarrow> (reconcileResult \<Rightarrow> elementalRegistration \<Rightarrow> event list \<Rightarrow> elementalRegistration \<Rightarrow> bool) \<Rightarrow>
    reconcileResult \<Rightarrow> event list \<Rightarrow> bool"
where
  "registration_reconciles_once req \<equiv> reconciles_once (EvGetElementalRegistration req)
     (\<lambda>r. EvNewPatchHelper ''ElementalRegistration'' (ObjectKeyFromObject r)) EvPatchElementalRegistration"

text \<open>A token signed with the key of the registration's secret, for the registration's URI.\<close>

definition token_minted ::
  "codec \<Rightarrow> int \<Rightarrow> elementalRegistration \<Rightarrow> event list \<Rightarrow> bool"
where
  "token_minted C clock r l \<longleftrightarrow> (\<exists>secret pem key.
     EvGetSecret (ObjectKeyFromObject r) (Inr secret) \<in> set l \<and> gget (secData secret) ''privKey'' = Some pem \<and>
     identity_Unmarshal C pem = Inr key \<and>
     identity_Sign C key (registration_claims clock (registration_of r)) = Inr (rgToken (registration_of r)))"

text \<open>What a run may change of a registration, and what it must have set when it succeeds.\<close>

definition keeps_or_sets :: "'a \<Rightarrow> 'a \<Rightarrow> 'a \<Rightarrow> bool" where
  "keeps_or_sets unset x y \<longleftrightarrow> (x \<noteq> unset \<longrightarrow> y = x)"

definition registration_provisioned ::
  "codec \<Rightarrow> registrationReconciler \<Rightarrow> int \<Rightarrow>
    reconcileResult \<Rightarrow> elementalRegistration \<Rightarrow> event list \<Rightarrow> elementalRegistration \<Rightarrow> bool"
where
  "registration_provisioned C R clock res before body after \<longleftrightarrow>
     (let old = registration_of before; new = registration_of after in
      keeps_or_sets [] (rgURI old) (rgURI new) \<and> keeps_or_sets [] (rgCACert old) (rgCACert new) \<and>
      keeps_or_sets [] (rgToken old) (rgToken new) \<and>
      keeps_or_sets None (rPrivateKeyRef before) (rPrivateKeyRef after) \<and>
      rgTokenDuration new = rgTokenDuration old \<and> ObjectKeyFromObject after = ObjectKeyFromObject before \<and>
      (snd res = None \<longrightarrow>
        (rgURI old = [] \<longrightarrow> (\<exists>url. rrAPIUrl R = Some url \<and> rgURI new = registration_URI url before)) \<and>
        (rgCACert old = [] \<longrightarrow> rgCACert new = rrDefaultCACert R) \<and>
        rPrivateKeyRef after \<noteq> None \<and> (rgToken old = [] \<longrightarrow> token_minted C clock after body)))"

lemma set_registration_frame [simp]:
  "rPrivateKeyRef (set_registration_of g r) = rPrivateKeyRef r" "oName (set_registration_of g r) = oName r"
  "oNamespace (set_registration_of g r) = oNamespace r"
  "registration_of (r\<lparr>rPrivateKeyRef := k\<rparr>) = registration_of r"
  "registration_of (conditions_Set rConditions registration_SetConditions now c r) = registration_of r"
  "rPrivateKeyRef (conditions_Set rConditions registration_SetConditions now c r) = rPrivateKeyRef r"
  "oName (conditions_Set rConditions registration_SetConditions now c r) = oName r"
  "oNamespace (conditions_Set rConditions registration_SetConditions now c r) = oNamespace r"
  by (simp_all add: set_registration_of_def registration_of_def conditions_Set_def
      registration_SetConditions_def split: option.splits)

lemma registration_URI_cong:
  "oName r = oName r' \<Longrightarrow> oNamespace r = oNamespace r' \<Longrightarrow> registration_URI u r = registration_URI u r'"
  by (simp add: registration_URI_def)

lemma registration_claims_token [simp]:
  "registration_claims clock (g\<lparr>rgToken := t\<rparr>) = registration_claims clock g"
  by (simp add: registration_claims_def)

text \<open>The two steps that use the API, as their callers see them.\<close>

definition generates_identity ::
  "codec \<Rightarrow> elementalRegistration \<Rightarrow> goerr option \<Rightarrow> elementalRegistration \<Rightarrow> event list \<Rightarrow> bool"
where
  "generates_identity C r err r' l \<longleftrightarrow>
     (\<exists>k. r' = r\<lparr>rPrivateKeyRef := k\<rparr>) \<and> (err = None \<longrightarrow> rPrivateKeyRef r' \<noteq> None) \<and>
     (\<forall>s a. EvCreateSecret s a \<in> set l \<longrightarrow> (\<exists>key pem. EvGenerateKey (Inr key) \<in> set l \<and>
        identity_Marshal C key = Inr pem \<and> s = registration_secret r pem)) \<and>
     (writes l = [] \<or> (\<exists>s a. writes l = [EvCreateSecret s a])) \<and>
     (\<forall>ev \<in> set l. \<forall>e. ev_error ev = Some e \<longrightarrow>
        err \<noteq> None \<or> (\<exists>s. ev = EvCreateSecret s (Inl e)) \<and> err_is e StatusAlreadyExists)"

definition sets_token ::
  "codec \<Rightarrow> int \<Rightarrow> elementalRegistration \<Rightarrow> goerr option \<Rightarrow> elementalRegistration \<Rightarrow> event list \<Rightarrow> bool"
where
  "sets_token C clock r err r' l \<longleftrightarrow>
     (\<exists>t. r' = r \<or> r' = set_registration_of ((registration_of r)\<lparr>rgToken := t\<rparr>) r) \<and>
     (err = None \<longrightarrow> token_minted C clock r' l) \<and>
     (\<forall>ev \<in> set l. (\<exists>k a. ev = EvGetSecret k a) \<and> (ev_error ev \<noteq> None \<longrightarrow> err \<noteq> None))"

lemma wp_generateNewIdentity:
  "wp (generateNewIdentity E C r) (\<lambda>out. generates_identity C r (fst out) (snd out))"
proof -
  have keep: "\<exists>k. r = r\<lparr>rPrivateKeyRef := k\<rparr>" by (rule exI [of _ "rPrivateKeyRef r"]) simp
  show ?thesis
    unfolding generateNewIdentity_def NewED25519Identity_def
    by (intro wp_intros) (auto simp: generates_identity_def keep split: sum.splits)
qed

lemma wp_setNewToken:
  "wp (setNewToken E C clock r) (\<lambda>out. sets_token C clock r (fst out) (snd out))"
  unfolding setNewToken_def
  by (intro wp_intros) (auto simp: sets_token_def token_minted_def ObjectKeyFromObject_def)

text \<open>The steps that do not use the API.\<close>

definition provisioned_offline ::
  "registrationReconciler \<Rightarrow> elementalRegistration \<Rightarrow> elementalRegistration \<Rightarrow> bool"
where
  "provisioned_offline R r r' \<longleftrightarrow>
     (\<exists>u c. r' = set_registration_of ((registration_of r)\<lparr>rgURI := u, rgCACert := c\<rparr>) r \<and>
       u = (if rgURI (registration_of r) = []
            then (case rrAPIUrl R of None \<Rightarrow> [] | Some url \<Rightarrow> registration_URI url r)
            else rgURI (registration_of r)) \<and>
       c = (if rgCACert (registration_of r) = [] then rrDefaultCACert R else rgCACert (registration_of r)) \<and>
       (rgURI (registration_of r) = [] \<longrightarrow> rrAPIUrl R \<noteq> None))"

lemma set_registration_of_twice [simp]:
  "set_registration_of g (set_registration_of g' r) = set_registration_of g r"
  "set_registration_of (registration_of r) r = r"
  by (simp_all add: set_registration_of_def registration_of_def)

lemma registration_URI_set [simp]: "registration_URI u (set_registration_of g r) = registration_URI u r"
  by (simp add: registration_URI_def)

lemma provisioned_offline_frame:
  "provisioned_offline R r r' \<Longrightarrow> rPrivateKeyRef r' = rPrivateKeyRef r \<and>
     rgToken (registration_of r') = rgToken (registration_of r)"
  by (auto simp: provisioned_offline_def)

lemma rgCACert_same: "rgCACert g = c \<Longrightarrow> g\<lparr>rgCACert := c\<rparr> = g"
  by (cases g) simp

lemma default_CACert_eq:
  "default_CACert R r = set_registration_of ((registration_of r)\<lparr>rgCACert :=
     (if rgCACert (registration_of r) = [] then rrDefaultCACert R else rgCACert (registration_of r))\<rparr>) r"
  by (auto simp: default_CACert_def rgCACert_same)

lemma default_steps:
  assumes "default_URI R r = (None, r')"
  shows "provisioned_offline R r (default_CACert R r')"
proof -
  let ?u = "if rgURI (registration_of r) = []
     then (case rrAPIUrl R of None \<Rightarrow> [] | Some url \<Rightarrow> registration_URI url r) else rgURI (registration_of r)"
  have r': "r' = set_registration_of ((registration_of r)\<lparr>rgURI := ?u\<rparr>) r"
    using assms by (simp add: default_URI_def setURI_def split: if_splits option.splits)
  have "rgURI (registration_of r) = [] \<longrightarrow> rrAPIUrl R \<noteq> None"
    using assms by (simp add: default_URI_def setURI_def split: if_splits option.splits)
  then show ?thesis
    unfolding provisioned_offline_def r'
    by (simp add: default_CACert_eq)
qed

lemma default_URI_error:
  "default_URI R r = (Some e, r') \<Longrightarrow> r' = r \<and> rgURI (registration_of r) = [] \<and> rrAPIUrl R = None"
  by (auto simp: default_URI_def setURI_def split: if_splits option.splits)

text \<open>
  The body: it stops at the URI or at the identity, or goes on to the token. The identity is generated
  only where there was no key, the token only where there was none.
\<close>

inductive registration_run ::
  "codec \<Rightarrow> registrationReconciler \<Rightarrow> int \<Rightarrow> elementalRegistration \<Rightarrow>
    reconcileResult \<Rightarrow> event list \<Rightarrow> elementalRegistration \<Rightarrow> bool"
  for C :: codec and R :: registrationReconciler and clock :: int and before :: elementalRegistration
where
  no_URI: "rgURI (registration_of before) = [] \<Longrightarrow> rrAPIUrl R = None \<Longrightarrow>
    registration_run C R clock before (0, Some e) [] before"
| no_identity: "provisioned_offline R before r1 \<Longrightarrow> rPrivateKeyRef before = None \<Longrightarrow>
    generates_identity C r1 (Some e) r2 l \<Longrightarrow> registration_run C R clock before (0, Some e') l r2"
| reached_token: "provisioned_offline R before r1 \<Longrightarrow>
    (if rPrivateKeyRef before = None then generates_identity C r1 None r2 l1 else r2 = r1 \<and> l1 = []) \<Longrightarrow>
    (if rgToken (registration_of before) = [] then sets_token C clock r2 err r3 l2
     else err = None \<and> r3 = r2 \<and> l2 = []) \<Longrightarrow>
    (snd res = None \<longleftrightarrow> err = None) \<Longrightarrow> fst res = 0 \<Longrightarrow>
    after = (if err = None then registration_ready clock r3 else r3) \<Longrightarrow>
    registration_run C R clock before res (l1 @ l2) after"

lemma registration_frames:
  "generates_identity C r err r' l \<Longrightarrow> registration_of r' = registration_of r"
  "provisioned_offline R r r' \<Longrightarrow> rPrivateKeyRef r' = rPrivateKeyRef r"
  "provisioned_offline R r r' \<Longrightarrow> rgToken (registration_of r') = rgToken (registration_of r)"
  by (auto simp: generates_identity_def provisioned_offline_def)

lemmas registration_run_intros = no_URI no_identity reached_token [where ?l1.0 = "[]", simplified]
  reached_token [where ?l2.0 = "[]", simplified] reached_token [where ?l1.0 = "[]" and ?l2.0 = "[]", simplified] reached_token

lemma wp_registration_body:
  "wp (registration_body E C R clock r) (\<lambda>out l. registration_run C R clock r (fst out) l (snd out))"
  unfolding registration_body_def Let_def
  apply (intro wp_intros wp_mono [OF wp_generateNewIdentity] wp_mono [OF wp_setNewToken])
  apply (simp_all only: fst_conv snd_conv append_Nil append_Nil2)
  by (auto dest!: default_URI_error default_steps simp: registration_frames intro: registration_run_intros)

lemma wp_Registration_Reconcile:
  assumes "\<And>before res body after. registration_run C R clock before res body after \<Longrightarrow> Q res before body after"
  shows "wp (Registration_Reconcile E C R clock req) (registration_reconciles_once req Q)"
  by (rule registrationR.wp_reconcile, rule wp_mono [OF wp_registration_body]) (rule assms)

text \<open>What each stage keeps of the registration.\<close>

lemma registration_secret_set [simp]: "registration_secret (set_registration_of g r) = registration_secret r"
  by (simp add: registration_secret_def set_registration_of_def fun_eq_iff)

lemma offline_keeps:
  "provisioned_offline R r r' \<Longrightarrow>
   keeps_or_sets [] (rgURI (registration_of r)) (rgURI (registration_of r')) \<and>
   keeps_or_sets [] (rgCACert (registration_of r)) (rgCACert (registration_of r')) \<and>
   rgTokenDuration (registration_of r') = rgTokenDuration (registration_of r) \<and>
   ObjectKeyFromObject r' = ObjectKeyFromObject r \<and> registration_secret r' = registration_secret r"
  by (auto simp: provisioned_offline_def keeps_or_sets_def ObjectKeyFromObject_def)

lemma identity_keeps:
  "generates_identity C r err r' l \<Longrightarrow> ObjectKeyFromObject r' = ObjectKeyFromObject r"
  by (auto simp: generates_identity_def ObjectKeyFromObject_def)

lemma token_keeps:
  assumes "sets_token C clock r err r' l"
  shows "rgURI (registration_of r') = rgURI (registration_of r) \<and>
    rgCACert (registration_of r') = rgCACert (registration_of r) \<and>
    rgTokenDuration (registration_of r') = rgTokenDuration (registration_of r) \<and>
    rPrivateKeyRef r' = rPrivateKeyRef r \<and> ObjectKeyFromObject r' = ObjectKeyFromObject r"
proof -
  from assms obtain t where "r' = r \<or> r' = set_registration_of ((registration_of r)\<lparr>rgToken := t\<rparr>) r"
    unfolding sets_token_def by blast
  then show ?thesis by (elim disjE) (simp_all add: ObjectKeyFromObject_def)
qed

lemma ready_keeps [simp]:
  "registration_of (registration_ready clock r) = registration_of r"
  "rPrivateKeyRef (registration_ready clock r) = rPrivateKeyRef r"
  "ObjectKeyFromObject (registration_ready clock r) = ObjectKeyFromObject r"
  by (simp_all add: registration_ready_def ObjectKeyFromObject_def)

lemma token_minted_ready [simp]:
  "token_minted C clock (registration_ready clock r) l = token_minted C clock r l"
  by (simp only: token_minted_def ready_keeps)

lemma token_minted_mono: "token_minted C clock r l \<Longrightarrow> set l \<subseteq> set l' \<Longrightarrow> token_minted C clock r l'"
  unfolding token_minted_def by blast

lemma offline_URI:
  "provisioned_offline R r r' \<Longrightarrow> rgURI (registration_of r) = [] \<Longrightarrow>
   rgURI (registration_of r') = (case rrAPIUrl R of None \<Rightarrow> [] | Some url \<Rightarrow> registration_URI url r)"
  "provisioned_offline R r r' \<Longrightarrow> rgCACert (registration_of r) = [] \<Longrightarrow>
   rgCACert (registration_of r') = rrDefaultCACert R"
  by (auto simp: provisioned_offline_def)

text \<open>The state before the token is asked for.\<close>

lemma identity_stage:
  assumes "provisioned_offline R r r1"
    and "if rPrivateKeyRef r = None then generates_identity C r1 err r2 l else r2 = r1 \<and> err = None"
  shows "registration_of r2 = registration_of r1" "ObjectKeyFromObject r2 = ObjectKeyFromObject r"
    "keeps_or_sets None (rPrivateKeyRef r) (rPrivateKeyRef r2)" "err = None \<Longrightarrow> rPrivateKeyRef r2 \<noteq> None"
  using assms offline_keeps [OF assms(1)] identity_keeps [of C r1 err r2 l] registration_frames(2) [OF assms(1)]
  by (auto simp: keeps_or_sets_def generates_identity_def split: if_splits)

lemma registration_run_provisioned:
  assumes "registration_run C R clock before res body after"
  shows "registration_provisioned C R clock res before body after"
  using assms
proof (induction rule: registration_run.induct)
  case (no_identity r1 e r2 l e')
  have *: "if rPrivateKeyRef before = None then generates_identity C r1 (Some e) r2 l else r2 = r1 \<and> Some e = None"
    using no_identity by simp
  show ?case
    using offline_keeps [OF no_identity(1)] identity_stage [OF no_identity(1) *] registration_frames(3) [OF no_identity(1)]
    by (simp add: registration_provisioned_def Let_def keeps_or_sets_def)
next
  case (reached_token r1 r2 l1 err r3 l2 res after)
  note stage = identity_stage [OF reached_token(1), of C None r2 l1]
  have *: "if rPrivateKeyRef before = None then generates_identity C r1 None r2 l1 else r2 = r1 \<and> None = None"
    using reached_token(2) by (simp split: if_splits)
  have tok: "rgURI (registration_of r3) = rgURI (registration_of r2)"
    "rgCACert (registration_of r3) = rgCACert (registration_of r2)"
    "rgTokenDuration (registration_of r3) = rgTokenDuration (registration_of r2)"
    "rPrivateKeyRef r3 = rPrivateKeyRef r2" "ObjectKeyFromObject r3 = ObjectKeyFromObject r2"
    using reached_token(3) token_keeps [of C clock r2 err r3 l2] by (auto split: if_splits)
  have minted: "token_minted C clock r3 (l1 @ l2)" if "rgToken (registration_of before) = []" "err = None"
    using reached_token(3) that by (auto simp: sets_token_def intro: token_minted_mono)
  have kept: "rgToken (registration_of r3) = rgToken (registration_of before)" if "rgToken (registration_of before) \<noteq> []"
    using reached_token(3) that stage(1) [OF *] registration_frames(3) [OF reached_token(1)] by simp
  have URI: "rgURI (registration_of before) = [] \<longrightarrow>
      (\<exists>url. rrAPIUrl R = Some url \<and> rgURI (registration_of r1) = registration_URI url before)"
    using reached_token(1) by (auto simp: provisioned_offline_def)
  show ?case
    using offline_keeps [OF reached_token(1)] stage [OF *] tok minted kept URI offline_URI(2) [OF reached_token(1)]
      reached_token(4,6)
    by (simp add: registration_provisioned_def Let_def keeps_or_sets_def)
qed (simp add: registration_provisioned_def keeps_or_sets_def)

text \<open>How a signing key may come into being.\<close>

definition key_created_safely ::
  "codec \<Rightarrow> reconcileResult \<Rightarrow> elementalRegistration \<Rightarrow> event list \<Rightarrow> elementalRegistration \<Rightarrow> bool"
where
  "key_created_safely C res before body after \<longleftrightarrow>
     (writes body = [] \<or> (\<exists>s a. writes body = [EvCreateSecret s a])) \<and>
     (\<forall>s a. EvCreateSecret s a \<in> set body \<longrightarrow> rPrivateKeyRef before = None \<and>
        (\<exists>key pem. EvGenerateKey (Inr key) \<in> set body \<and> identity_Marshal C key = Inr pem \<and>
           s = registration_secret before pem))"

lemma registration_run_key:
  "registration_run C R clock before res body after \<Longrightarrow> key_created_safely C res before body after"
proof (induction rule: registration_run.induct)
  case (no_identity r1 e r2 l e')
  then show ?case
    using offline_keeps [OF no_identity(1)]
    by (auto simp: key_created_safely_def generates_identity_def)
next
  case (reached_token r1 r2 l1 err r3 l2 res after)
  have l2: "\<exists>k a. ev = EvGetSecret k a" if "ev \<in> set l2" for ev
    using reached_token(3) that by (auto simp: sets_token_def split: if_splits)
  then have "writes l2 = []" by (fastforce simp: filter_empty_conv)
  moreover have "EvCreateSecret s a \<notin> set l2" "EvGenerateKey b \<notin> set l2" for s a b using l2 by blast+
  ultimately show ?case
    using reached_token(2) offline_keeps [OF reached_token(1)]
    by (auto simp: key_created_safely_def generates_identity_def split: if_splits)
qed (simp add: key_created_safely_def)

section \<open>Properties\<close>


text \<open>
  A run writes at most one secret, and only for a registration that has no key: a fresh key under
  the registration's name and namespace, owned by the registration, and created rather than updated, so
  that a key that exists already stays.
\<close>

theorem Registration_Reconcile_key:
  "wp (Registration_Reconcile E C R clock req) (registration_reconciles_once req (key_created_safely C))"
  by (rule wp_Registration_Reconcile) (rule registration_run_key)

text \<open>A failed call is the failure of the run, but for a key secret that exists already.\<close>

definition registration_errors_reported ::
  "reconcileResult \<Rightarrow> elementalRegistration \<Rightarrow> event list \<Rightarrow> elementalRegistration \<Rightarrow> bool"
where
  "registration_errors_reported res before body after \<longleftrightarrow>
     (\<forall>ev \<in> set body. \<forall>e. ev_error ev = Some e \<longrightarrow> snd res \<noteq> None \<or>
        (\<exists>s. ev = EvCreateSecret s (Inl e)) \<and> err_is e StatusAlreadyExists)"

text \<open>
  Errors of a registration run are never swallowed, a missing secret included; the one exception is the
  creation of a secret that exists.
\<close>

theorem Registration_Reconcile_reports_errors:
  "wp (Registration_Reconcile E C R clock req) (registration_reconciles_once req registration_errors_reported)"
  apply (rule wp_Registration_Reconcile)
  apply (erule registration_run.cases)
  by (auto simp: registration_errors_reported_def generates_identity_def sets_token_def split: if_splits)
end
