(* ===== verification/Api_Server.thy ===== *)
theory Api_Server
  imports Api_Handlers Registration_Controller
begin

text \<open>
  \<^verbatim>\<open>internal/api/server.go\<close>: the routes of the API and their dispatch by gorilla/mux
  (vendored), as far as the router of the provider uses it: one sub-router under a literal prefix, path
  templates with \<^verbatim>\<open>{name}\<close> variables, one method each, path cleaning on, no strict slash.
  Listening, TLS and shutdown are not modelled.
\<close>

section \<open>Templates\<close>

datatype tplSegment = Lit string | Var string

definition tpl_segment :: "string \<Rightarrow> tplSegment" where
  "tpl_segment s = (if s \<noteq> [] \<and> hd s = CHR ''{'' then Var (butlast (tl s)) else Lit s)"

definition parse_template :: "string \<Rightarrow> tplSegment list" where
  "parse_template t = map tpl_segment (split_on (CHR ''/'') t)"

text \<open>The anchored regular expression of a template: a variable is one non-empty path segment.\<close>

fun match_segments :: "tplSegment list \<Rightarrow> string list \<Rightarrow> (string \<times> string) list option" where
  "match_segments [] [] = Some []"
| "match_segments (Lit l # ts) (s # ss) = (if s = l then match_segments ts ss else None)"
| "match_segments (Var v # ts) (s # ss) = (if s = [] then None else
     (case match_segments ts ss of None \<Rightarrow> None | Some vs \<Rightarrow> Some ((v, s) # vs)))"
| "match_segments _ _ = None"

definition match_template :: "string \<Rightarrow> string \<Rightarrow> (string \<times> string) list option" where
  "match_template t path = match_segments (parse_template t) (split_on (CHR ''/'') path)"

section \<open>Cleaning\<close>

text \<open>\<^verbatim>\<open>path.Clean\<close> of a rooted path, on its segments (\<open>acc\<close> is the reversed output).\<close>

fun clean_segments :: "string list \<Rightarrow> string list \<Rightarrow> string list" where
  "clean_segments [] acc = rev acc"
| "clean_segments (s # ss) acc =
     (if s = [] \<or> s = ''.'' then clean_segments ss acc
      else if s = ''..'' then clean_segments ss (tl acc)
      else clean_segments ss (s # acc))"

definition cleanPath :: "string \<Rightarrow> string" where
  "cleanPath p0 =
     (if p0 = [] then ''/''
      else
        (let p = (if hd p0 \<noteq> CHR ''/'' then CHR ''/'' # p0 else p0);
             np = CHR ''/'' # join_with ''/'' (clean_segments (split_on (CHR ''/'') p) [])
         in if last p = CHR ''/'' \<and> np \<noteq> ''/'' then np @ ''/'' else np))"

section \<open>Matching\<close>

datatype apiHandler = HGetRegistration | HPostHost | HDeleteHost | HPatchHost | HGetBootstrap

record route =
  rtTemplate :: string
  rtHandler :: apiHandler
  rtMethod :: string

text \<open>\<^verbatim>\<open>NewRouter\<close>, in the order of registration.\<close>

definition NewRouter :: "route list" where
  "NewRouter = [
     \<lparr>rtTemplate = ''/namespaces/{namespace}/registrations/{registrationName}'',
      rtHandler = HGetRegistration, rtMethod = ''GET''\<rparr>,
     \<lparr>rtTemplate = ''/namespaces/{namespace}/registrations/{registrationName}/hosts'',
      rtHandler = HPostHost, rtMethod = ''POST''\<rparr>,
     \<lparr>rtTemplate = ''/namespaces/{namespace}/registrations/{registrationName}/hosts/{hostName}'',
      rtHandler = HDeleteHost, rtMethod = ''DELETE''\<rparr>,
     \<lparr>rtTemplate = ''/namespaces/{namespace}/registrations/{registrationName}/hosts/{hostName}'',
      rtHandler = HPatchHost, rtMethod = ''PATCH''\<rparr>,
     \<lparr>rtTemplate = ''/namespaces/{namespace}/registrations/{registrationName}/hosts/{hostName}/bootstrap'',
      rtHandler = HGetBootstrap, rtMethod = ''GET''\<rparr>]"

text \<open>
  A route of the sub-router has three matchers: the prefix it inherits, its path and its method. Every
  matcher that matches clears an earlier method mismatch, so that only a mismatch of the last route
  survives. \<open>mismatch\<close> is that state of the match.
\<close>

definition route_match ::
  "string \<Rightarrow> string \<Rightarrow> route \<Rightarrow> bool \<Rightarrow> (string \<times> string) list option \<times> bool"
where
  "route_match method path r mismatch =
     (if cut_prefix path (api_Prefix @ api_PrefixV1) = None then (None, mismatch)
      else (case match_template (api_Prefix @ api_PrefixV1 @ rtTemplate r) path of
        None \<Rightarrow> (None, False)
      | Some vars \<Rightarrow> if rtMethod r = method then (Some vars, False) else (None, True)))"

fun router_match ::
  "string \<Rightarrow> string \<Rightarrow> route list \<Rightarrow> bool \<Rightarrow> (apiHandler \<times> (string \<times> string) list) option \<times> bool"
where
  "router_match method path [] mismatch = (None, mismatch)"
| "router_match method path (r # rs) mismatch = (case route_match method path r mismatch of
     (Some vars, _) \<Rightarrow> (Some (rtHandler r, vars), False)
   | (None, mismatch) \<Rightarrow> router_match method path rs mismatch)"

datatype routed =
    MovedPermanently string
  | Serve apiHandler "(string \<times> string) list"
  | MethodNotAllowed
  | PageNotFound

definition router_ServeHTTP :: "string \<Rightarrow> string \<Rightarrow> routed" where
  "router_ServeHTTP method path =
     (if cleanPath path \<noteq> path then MovedPermanently (cleanPath path)
      else if cut_prefix path (api_Prefix @ api_PrefixV1) = None then PageNotFound
      else (case router_match method path NewRouter False of
        (Some (h, vars), _) \<Rightarrow> Serve h vars
      | (None, True) \<Rightarrow> MethodNotAllowed
      | (None, False) \<Rightarrow> PageNotFound))"

text \<open>The whole server: a request in, the response out. \<open>clock\<close> is in seconds, \<open>now\<close> in nanoseconds.\<close>

definition api_serve ::
  "'w env \<Rightarrow> codec \<Rightarrow> apiCodec \<Rightarrow> int \<Rightarrow> int \<Rightarrow> string \<Rightarrow> string \<Rightarrow> request \<Rightarrow> ('w, event, response) prog"
where
  "api_serve E C A now clock method path rq0 = (case router_ServeHTTP method path of
     MovedPermanently p \<Rightarrow> ret (WriteHeader 301 (Header_Set ''Location'' p new_response))
   | MethodNotAllowed \<Rightarrow> ret (WriteHeader HTTPMethodNotAllowed new_response)
   | PageNotFound \<Rightarrow> ret (http_fail HTTPNotFound (''404 page not found'' @ [CHR 0x0A])
       (Header_Set ''X-Content-Type-Options'' ''nosniff''
         (Header_Set ''Content-Type'' ''text/plain; charset=utf-8'' new_response)))
   | Serve h vars \<Rightarrow>
       (let auth = NewAuthenticator E C now; rq = rq0\<lparr>rqVars := Some vars\<rparr>
        in (case h of
             HGetRegistration \<Rightarrow> GetElementalRegistration E auth A rq new_response
           | HPostHost \<Rightarrow> PostElementalHost E auth A rq new_response
           | HDeleteHost \<Rightarrow> DeleteElementalHost E auth rq new_response
           | HPatchHost \<Rightarrow> PatchElementalHost E auth A clock rq new_response
           | HGetBootstrap \<Rightarrow> GetElementalHostBootstrap E auth A rq new_response)))"


section \<open>What is routed where\<close>

text \<open>The API as documented: the reference the router is compared with.\<close>

definition reference_route :: "string \<Rightarrow> string list \<Rightarrow> (apiHandler \<times> (string \<times> string) list) option" where
  "reference_route method segs = (case segs of
     [e, el, v1, n, ns, r, rn] \<Rightarrow>
       if [e, el, v1, n, r] = [[], ''elemental'', ''v1'', ''namespaces'', ''registrations''] \<and> ns \<noteq> [] \<and> rn \<noteq> [] \<and>
         method = ''GET''
       then Some (HGetRegistration, [(''namespace'', ns), (''registrationName'', rn)]) else None
   | [e, el, v1, n, ns, r, rn, h] \<Rightarrow>
       if [e, el, v1, n, r, h] = [[], ''elemental'', ''v1'', ''namespaces'', ''registrations'', ''hosts''] \<and>
         ns \<noteq> [] \<and> rn \<noteq> [] \<and> method = ''POST''
       then Some (HPostHost, [(''namespace'', ns), (''registrationName'', rn)]) else None
   | [e, el, v1, n, ns, r, rn, h, hn] \<Rightarrow>
       if [e, el, v1, n, r, h] = [[], ''elemental'', ''v1'', ''namespaces'', ''registrations'', ''hosts''] \<and>
         ns \<noteq> [] \<and> rn \<noteq> [] \<and> hn \<noteq> [] \<and> method \<in> {''DELETE'', ''PATCH''}
       then Some (if method = ''DELETE'' then HDeleteHost else HPatchHost,
         [(''namespace'', ns), (''registrationName'', rn), (''hostName'', hn)]) else None
   | [e, el, v1, n, ns, r, rn, h, hn, b] \<Rightarrow>
       if [e, el, v1, n, r, h, b] =
           [[], ''elemental'', ''v1'', ''namespaces'', ''registrations'', ''hosts'', ''bootstrap''] \<and>
         ns \<noteq> [] \<and> rn \<noteq> [] \<and> hn \<noteq> [] \<and> method = ''GET''
       then Some (HGetBootstrap, [(''namespace'', ns), (''registrationName'', rn), (''hostName'', hn)]) else None
   | _ \<Rightarrow> None)"

lemma match_segments_Cons:
  "match_segments (Lit l # ts) ss = (case ss of s # ss' \<Rightarrow> if s = l then match_segments ts ss' else None | [] \<Rightarrow> None)"
  "match_segments (Var v # ts) ss = (case ss of s # ss' \<Rightarrow> if s = [] then None else
     map_option (\<lambda>vs. (v, s) # vs) (match_segments ts ss') | [] \<Rightarrow> None)"
  "match_segments [] ss = (if ss = [] then Some [] else None)"
  by (cases ss; simp split: option.splits)+

definition api_segments :: "tplSegment list \<Rightarrow> tplSegment list" where
  "api_segments ts = [Lit [], Lit ''elemental'', Lit ''v1'', Lit ''namespaces'', Var ''namespace'',
     Lit ''registrations'', Var ''registrationName''] @ ts"

lemma match_length: "match_segments ts ss = Some vs \<Longrightarrow> length ss = length ts"
  by (induction ts ss arbitrary: vs rule: match_segments.induct) (auto split: if_splits option.splits)

lemma templates:
  "match_template (api_Prefix @ api_PrefixV1 @ ''/namespaces/{namespace}/registrations/{registrationName}'') path =
     match_segments (api_segments []) (split_on (CHR ''/'') path)"
  "match_template (api_Prefix @ api_PrefixV1 @ ''/namespaces/{namespace}/registrations/{registrationName}/hosts'') path =
     match_segments (api_segments [Lit ''hosts'']) (split_on (CHR ''/'') path)"
  "match_template (api_Prefix @ api_PrefixV1 @ ''/namespaces/{namespace}/registrations/{registrationName}/hosts/{hostName}'') path =
     match_segments (api_segments [Lit ''hosts'', Var ''hostName'']) (split_on (CHR ''/'') path)"
  "match_template (api_Prefix @ api_PrefixV1 @ ''/namespaces/{namespace}/registrations/{registrationName}/hosts/{hostName}/bootstrap'') path =
     match_segments (api_segments [Lit ''hosts'', Var ''hostName'', Lit ''bootstrap'']) (split_on (CHR ''/'') path)"
proof -
  have "parse_template (api_Prefix @ api_PrefixV1 @ ''/namespaces/{namespace}/registrations/{registrationName}'') = api_segments []"
    "parse_template (api_Prefix @ api_PrefixV1 @ ''/namespaces/{namespace}/registrations/{registrationName}/hosts'') = api_segments [Lit ''hosts'']"
    "parse_template (api_Prefix @ api_PrefixV1 @ ''/namespaces/{namespace}/registrations/{registrationName}/hosts/{hostName}'') = api_segments [Lit ''hosts'', Var ''hostName'']"
    "parse_template (api_Prefix @ api_PrefixV1 @ ''/namespaces/{namespace}/registrations/{registrationName}/hosts/{hostName}/bootstrap'') = api_segments [Lit ''hosts'', Var ''hostName'', Lit ''bootstrap'']"
    by code_simp+
  then show "match_template (api_Prefix @ api_PrefixV1 @ ''/namespaces/{namespace}/registrations/{registrationName}'') path =
     match_segments (api_segments []) (split_on (CHR ''/'') path)"
  "match_template (api_Prefix @ api_PrefixV1 @ ''/namespaces/{namespace}/registrations/{registrationName}/hosts'') path =
     match_segments (api_segments [Lit ''hosts'']) (split_on (CHR ''/'') path)"
  "match_template (api_Prefix @ api_PrefixV1 @ ''/namespaces/{namespace}/registrations/{registrationName}/hosts/{hostName}'') path =
     match_segments (api_segments [Lit ''hosts'', Var ''hostName'']) (split_on (CHR ''/'') path)"
  "match_template (api_Prefix @ api_PrefixV1 @ ''/namespaces/{namespace}/registrations/{registrationName}/hosts/{hostName}/bootstrap'') path =
     match_segments (api_segments [Lit ''hosts'', Var ''hostName'', Lit ''bootstrap'']) (split_on (CHR ''/'') path)"
    by (simp_all only: match_template_def)
qed

lemma api_segments_prefix:
  assumes "match_segments (api_segments ts) (split_on (CHR ''/'') path) = Some vs"
  shows "cut_prefix path (api_Prefix @ api_PrefixV1) \<noteq> None"
proof -
  from assms obtain x xs where "split_on (CHR ''/'') path = [] # ''elemental'' # ''v1'' # x # xs"
    by (auto simp: api_segments_def match_segments_Cons split: list.splits if_splits)
  then have "join_with [CHR ''/''] ([] # ''elemental'' # ''v1'' # x # xs) = path"
    by (metis join_split_on)
  then have "path = (api_Prefix @ api_PrefixV1) @ CHR ''/'' # join_with [CHR ''/''] (x # xs)"
    by (simp add: api_Prefix_def api_PrefixV1_def)
  then show ?thesis by (metis cut_prefix_append option.distinct(1))
qed

lemma segments_7: "length ss = 7 \<Longrightarrow> \<exists>a b c d e f g. ss = [a, b, c, d, e, f, g]"
  by (auto simp: length_Suc_conv numeral_eq_Suc)

lemma segments_8: "length ss = 8 \<Longrightarrow> \<exists>a b c d e f g h. ss = [a, b, c, d, e, f, g, h]"
  by (auto simp: length_Suc_conv numeral_eq_Suc)

lemma segments_9: "length ss = 9 \<Longrightarrow> \<exists>a b c d e f g h i. ss = [a, b, c, d, e, f, g, h, i]"
  by (auto simp: length_Suc_conv numeral_eq_Suc)

lemma segments_10: "length ss = 10 \<Longrightarrow> \<exists>a b c d e f g h i j. ss = [a, b, c, d, e, f, g, h, i, j]"
  by (auto simp: length_Suc_conv numeral_eq_Suc)

lemma length_api_segments: "length (api_segments ts) = 7 + length ts"
  by (simp add: api_segments_def)

lemma no_match: "length ss \<noteq> 7 + length ts \<Longrightarrow> match_segments (api_segments ts) ss = None"
  using match_length [of "api_segments ts" ss] by (cases "match_segments (api_segments ts) ss") (auto simp: length_api_segments)

text \<open>A router serves the first route that matches, whatever mismatches it met.\<close>

fun first_route :: "string \<Rightarrow> string \<Rightarrow> route list \<Rightarrow> (apiHandler \<times> (string \<times> string) list) option" where
  "first_route method path [] = None"
| "first_route method path (r # rs) =
     (case match_template (api_Prefix @ api_PrefixV1 @ rtTemplate r) path of
        Some vars \<Rightarrow> if rtMethod r = method then Some (rtHandler r, vars) else first_route method path rs
      | None \<Rightarrow> first_route method path rs)"

lemma router_match_first:
  "cut_prefix path (api_Prefix @ api_PrefixV1) \<noteq> None \<Longrightarrow>
   fst (router_match method path rs mismatch) = first_route method path rs"
  by (induction rs arbitrary: mismatch) (auto simp: route_match_def split: option.splits)

lemma first_route_reference: "first_route method path NewRouter = reference_route method (split_on (CHR ''/'') path)"
proof -
  let ?ss = "split_on (CHR ''/'') path"
  note unfolds = NewRouter_def first_route.simps route.select_convs templates
  consider "length ?ss = 7" | "length ?ss = 8" | "length ?ss = 9" | "length ?ss = 10"
    | "length ?ss \<notin> {7, 8, 9, 10}" by auto
  then show ?thesis
  proof cases
    case 1
    from segments_7 [OF 1] obtain a b c d e f g where "?ss = [a, b, c, d, e, f, g]"
      by (elim exE)
    then show ?thesis
      unfolding unfolds
      by (simp add: no_match cong: option.case_cong if_cong)
        (simp add: api_segments_def match_segments_Cons reference_route_def)
  next
    case 2
    from segments_8 [OF 2] obtain a b c d e f g h where "?ss = [a, b, c, d, e, f, g, h]"
      by (elim exE)
    then show ?thesis
      unfolding unfolds
      by (simp add: no_match cong: option.case_cong if_cong)
        (simp add: api_segments_def match_segments_Cons reference_route_def)
  next
    case 3
    from segments_9 [OF 3] obtain a b c d e f g h i where "?ss = [a, b, c, d, e, f, g, h, i]"
      by (elim exE)
    then show ?thesis
      unfolding unfolds
      by (simp add: no_match cong: option.case_cong if_cong)
        (simp add: api_segments_def match_segments_Cons reference_route_def)
  next
    case 4
    from segments_10 [OF 4] obtain a b c d e f g h i j where "?ss = [a, b, c, d, e, f, g, h, i, j]"
      by (elim exE)
    then show ?thesis
      unfolding unfolds
      by (simp add: no_match cong: option.case_cong if_cong)
        (simp add: api_segments_def match_segments_Cons reference_route_def)
  next
    case 5
    then show ?thesis
      unfolding unfolds by (simp add: no_match) (auto simp: reference_route_def split: list.splits)
  qed
qed

lemma first_route_match:
  "first_route method path rs = Some (h, vars) \<Longrightarrow>
   \<exists>r \<in> set rs. match_template (api_Prefix @ api_PrefixV1 @ rtTemplate r) path = Some vars"
  by (induction rs) (auto split: option.splits if_splits)

lemma NewRouter_segments:
  "rt \<in> set NewRouter \<Longrightarrow> \<exists>ts. match_template (api_Prefix @ api_PrefixV1 @ rtTemplate rt) path =
     match_segments (api_segments ts) (split_on (CHR ''/'') path)"
  unfolding NewRouter_def set_simps using templates [of path]
  by (elim insertE emptyE) (hypsubst, unfold route.select_convs, blast)+

lemma reference_route_prefix:
  assumes "reference_route method (split_on (CHR ''/'') path) = Some r"
  shows "cut_prefix path (api_Prefix @ api_PrefixV1) \<noteq> None"
proof -
  obtain h vars where "r = (h, vars)" by (cases r)
  with assms have "first_route method path NewRouter = Some (h, vars)" by (simp add: first_route_reference)
  from first_route_match [OF this] obtain rt where "rt \<in> set NewRouter"
    and m: "match_template (api_Prefix @ api_PrefixV1 @ rtTemplate rt) path = Some vars" by blast
  from NewRouter_segments [OF \<open>rt \<in> set NewRouter\<close>, of path] obtain ts
    where "match_segments (api_segments ts) (split_on (CHR ''/'') path) = Some vars"
    using m by (elim exE) simp
  then show ?thesis by (rule api_segments_prefix)
qed

lemma router_serve_iff:
  "router_ServeHTTP method path = Serve h vars \<longleftrightarrow>
     cleanPath path = path \<and> reference_route method (split_on (CHR ''/'') path) = Some (h, vars)"
proof (cases "cut_prefix path (api_Prefix @ api_PrefixV1) = None")
  case True
  then show ?thesis using reference_route_prefix [where path = path] by (auto simp: router_ServeHTTP_def)
next
  case False
  then have "fst (router_match method path NewRouter False) = reference_route method (split_on (CHR ''/'') path)"
    by (simp add: router_match_first first_route_reference)
  then obtain b where "router_match method path NewRouter False = (reference_route method (split_on (CHR ''/'') path), b)"
    by (metis prod.collapse)
  with False show ?thesis by (auto simp: router_ServeHTTP_def split: option.splits bool.splits)
qed

text \<open>A name that is one segment of a clean path.\<close>

definition path_safe :: "string \<Rightarrow> bool" where
  "path_safe s \<longleftrightarrow> s \<noteq> [] \<and> s \<noteq> ''.'' \<and> s \<noteq> ''..'' \<and> CHR ''/'' \<notin> set s"

lemma clean_segments_safe: "\<forall>s \<in> set ss. path_safe s \<Longrightarrow> clean_segments ss acc = rev acc @ ss"
  by (induction ss arbitrary: acc) (auto simp: path_safe_def)

lemma join_slash_last: "ss \<noteq> [] \<Longrightarrow> \<forall>s \<in> set ss. path_safe s \<Longrightarrow>
    join_with ''/'' ss \<noteq> [] \<and> last (join_with ''/'' ss) \<noteq> CHR ''/''"
proof (induction "''/''" ss rule: join_with.induct)
  case (2 x)
  then have "x \<noteq> []" "CHR ''/'' \<notin> set x" by (simp_all add: path_safe_def)
  with last_in_set [OF \<open>x \<noteq> []\<close>] have "last x \<noteq> CHR ''/''" by metis
  with \<open>x \<noteq> []\<close> show ?case by simp
qed auto

lemma cleanPath_safe:
  assumes "split_on (CHR ''/'') path = [] # ss" "ss \<noteq> []" "\<forall>s \<in> set ss. path_safe s"
  shows "cleanPath path = path"
proof -
  have path: "path = CHR ''/'' # join_with ''/'' ss"
    using join_split_on [of "CHR ''/''" path] assms(1,2) by (cases ss) simp_all
  have "clean_segments (split_on (CHR ''/'') path) [] = ss"
    using clean_segments_safe [OF assms(3)] assms(1) by simp
  moreover have "last path \<noteq> CHR ''/''"
    using join_slash_last [OF assms(2,3)] path by simp
  ultimately show ?thesis using path by (simp add: cleanPath_def)
qed

lemma split_location:
  assumes "path_safe ns" "path_safe rn" "path_safe hn"
  shows "split_on (CHR ''/'') (host_location ns rn hn) =
    [[], ''elemental'', ''v1'', ''namespaces'', ns, ''registrations'', rn, ''hosts'', hn]"
  using assms by (simp add: host_location_def api_Prefix_def api_PrefixV1_def path_safe_def split_on_append split_on_plain)

lemma path_safe_segments:
  "path_safe ''elemental''" "path_safe ''v1''" "path_safe ''namespaces''" "path_safe ''registrations''"
  "path_safe ''hosts''" "path_safe ''bootstrap''"
  by (simp_all add: path_safe_def)

definition registration_path :: "string \<Rightarrow> string \<Rightarrow> string" where
  "registration_path ns rn = registration_URI []
     \<lparr>oAPIVersion = [], oKind = [], oName = rn, oNamespace = ns, oUID = [], oLabels = None, oAnnotations = None,
      oOwnerReferences = [], oFinalizers = [], oDeletionTimestamp = None\<rparr>"

lemma split_registration_path:
  assumes "path_safe ns" "path_safe rn"
  shows "split_on (CHR ''/'') (registration_path ns rn) =
      [[], ''elemental'', ''v1'', ''namespaces'', ns, ''registrations'', rn]"
    "split_on (CHR ''/'') (registration_path ns rn @ ''/hosts'') =
      [[], ''elemental'', ''v1'', ''namespaces'', ns, ''registrations'', rn, ''hosts'']"
  using assms by (simp_all add: registration_path_def registration_URI_def api_Prefix_def api_PrefixV1_def
      path_safe_def split_on_append split_on_plain)

lemma split_bootstrap_path:
  assumes "path_safe ns" "path_safe rn" "path_safe hn"
  shows "split_on (CHR ''/'') (host_location ns rn hn @ ''/bootstrap'') =
    [[], ''elemental'', ''v1'', ''namespaces'', ns, ''registrations'', rn, ''hosts'', hn, ''bootstrap'']"
  using assms by (simp add: host_location_def api_Prefix_def api_PrefixV1_def path_safe_def split_on_append split_on_plain)

lemma serves_segments:
  assumes "split_on (CHR ''/'') path = [] # ss" "ss \<noteq> []" "\<forall>s \<in> set ss. path_safe s"
    and "reference_route method ([] # ss) = Some (h, vars)"
  shows "router_ServeHTTP method path = Serve h vars"
  using assms by (simp add: router_serve_iff cleanPath_safe)

lemma locations_route:
  assumes "path_safe ns" and "path_safe rn" and "path_safe hn"
  shows "let vars = [(''namespace'', ns), (''registrationName'', rn)];
             host_vars = vars @ [(''hostName'', hn)]; location = host_location ns rn hn
         in router_ServeHTTP ''PATCH'' location = Serve HPatchHost host_vars \<and>
            router_ServeHTTP ''DELETE'' location = Serve HDeleteHost host_vars \<and>
            router_ServeHTTP ''GET'' (location @ ''/bootstrap'') = Serve HGetBootstrap host_vars \<and>
            router_ServeHTTP ''GET'' (registration_path ns rn) = Serve HGetRegistration vars \<and>
            router_ServeHTTP ''POST'' (registration_path ns rn @ ''/hosts'') = Serve HPostHost vars"
proof -
  note names = assms path_safe_segments
  have ne: "ns \<noteq> []" "rn \<noteq> []" "hn \<noteq> []" using assms by (simp_all add: path_safe_def)
  show ?thesis
    unfolding Let_def
    by (intro conjI serves_segments [OF split_location [OF assms]]
        serves_segments [OF split_bootstrap_path [OF assms]]
        serves_segments [OF split_registration_path(1) [OF assms(1,2)]]
        serves_segments [OF split_registration_path(2) [OF assms(1,2)]])
      (simp_all add: names ne reference_route_def)
qed

section \<open>Properties of the server\<close>

text \<open>
  C26. The router serves exactly the documented API. For every method and path, a handler runs if and only if the path is
  clean and is one of the five documented routes with a non-empty name in each variable, and it runs with
  those names as its variables; no path reaches a second handler.
\<close>

theorem NewRouter_exact:
  "router_ServeHTTP method path = Serve h vars \<longleftrightarrow>
     cleanPath path = path \<and> reference_route method (split_on (CHR ''/'') path) = Some (h, vars)"
  by (rule router_serve_iff)

text \<open>
  The links the server hands out lead back to it. For names that are single path segments, the
  Location of a created host is routed to the patch and delete handlers, and with /bootstrap to the bootstrap handler; the
  path of a registration's URI is routed to the registration handler, and with /hosts to the
  create handler; each with exactly the names the link was made of.
\<close>

theorem Location_routes_back:
  assumes "path_safe ns" and "path_safe rn" and "path_safe hn"
  shows "let vars = [(''namespace'', ns), (''registrationName'', rn)];
             host_vars = vars @ [(''hostName'', hn)]; location = host_location ns rn hn
         in router_ServeHTTP ''PATCH'' location = Serve HPatchHost host_vars \<and>
            router_ServeHTTP ''DELETE'' location = Serve HDeleteHost host_vars \<and>
            router_ServeHTTP ''GET'' (location @ ''/bootstrap'') = Serve HGetBootstrap host_vars \<and>
            router_ServeHTTP ''GET'' (registration_path ns rn) = Serve HGetRegistration vars \<and>
            router_ServeHTTP ''POST'' (registration_path ns rn @ ''/hosts'') = Serve HPostHost vars"
  by (rule locations_route [OF assms])

theorem Location_routes_back_witness:
  "router_ServeHTTP ''PATCH'' (host_location ''default'' ''my-reg'' ''host-1'') =
     Serve HPatchHost [(''namespace'', ''default''), (''registrationName'', ''my-reg''), (''hostName'', ''host-1'')]"
  using Location_routes_back [of "''default''" "''my-reg''" "''host-1''"]
  by (simp add: path_safe_def Let_def)


text \<open>What the whole server may read and write, and for whom.\<close>

fun write_authorised ::
  "(request \<Rightarrow> elementalHost \<Rightarrow> bool) \<Rightarrow> (request \<Rightarrow> secret \<Rightarrow> bool) \<Rightarrow> request \<Rightarrow> event list \<Rightarrow> event \<Rightarrow> bool"
where
  "write_authorised host_ok registration_ok rq l (EvPatchElementalHost host _ _) \<longleftrightarrow>
     (\<exists>k. EvGetElementalHost k (Inr host) \<in> set l) \<and> host_ok rq host"
| "write_authorised host_ok registration_ok rq l (EvDeleteElementalHost key _) \<longleftrightarrow>
     (\<exists>k host. EvGetElementalHost k (Inr host) \<in> set l \<and> key = ObjectKeyFromObject host \<and> host_ok rq host)"
| "write_authorised host_ok registration_ok rq l (EvCreateElementalHost host _) \<longleftrightarrow>
     host_ok rq host \<and> (\<exists>registration secret k.
        EvGetElementalRegistration k (Inr registration) \<in> set l \<and>
        EvGetSecret (ObjectKeyFromObject registration) (Inr secret) \<in> set l \<and> registration_ok rq secret)"
| "write_authorised host_ok registration_ok rq l _ \<longleftrightarrow> False"

definition secret_authorised :: "(request \<Rightarrow> elementalHost \<Rightarrow> bool) \<Rightarrow> request \<Rightarrow> event list \<Rightarrow> objectKey \<Rightarrow> bool" where
  "secret_authorised host_ok rq l k \<longleftrightarrow>
     (\<exists>key registration. EvGetElementalRegistration key (Inr registration) \<in> set l \<and> k = ObjectKeyFromObject registration) \<or>
     (\<exists>key host ref. EvGetElementalHost key (Inr host) \<in> set l \<and> host_ok rq host \<and>
        hBootstrapSecret host = Some ref \<and> k = refKey ref)"

definition server_safe ::
  "(request \<Rightarrow> elementalHost \<Rightarrow> bool) \<Rightarrow> (request \<Rightarrow> secret \<Rightarrow> bool) \<Rightarrow> request \<Rightarrow> event list \<Rightarrow> bool"
where
  "server_safe host_ok registration_ok rq l \<longleftrightarrow>
     length (writes l) \<le> 1 \<and> (\<forall>ev \<in> set (writes l). write_authorised host_ok registration_ok rq l ev) \<and>
     (\<forall>k r. EvGetSecret k r \<in> set l \<longrightarrow> secret_authorised host_ok rq l k)"

context authentication
begin

text \<open>As \<open>wp_registration_auth\<close>, with the keys of the secrets it reads.\<close>

lemma wp_registration_reads:
  assumes "\<And>l secret. writes l = [] \<Longrightarrow> EvGetSecret (ObjectKeyFromObject reg) (Inr secret) \<in> set l \<Longrightarrow>
      registration_ok rq secret \<Longrightarrow> (\<And>k r. EvGetSecret k r \<in> set l \<Longrightarrow> k = ObjectKeyFromObject reg) \<Longrightarrow> Q (None, rs) l"
    and "\<And>e rs' l. writes l = [] \<Longrightarrow> (\<And>k r. EvGetSecret k r \<in> set l \<Longrightarrow> k = ObjectKeyFromObject reg) \<Longrightarrow>
      Q (Some e, rs') l"
  shows "wp (au_ValidateRegistrationRequest auth rq rs reg) Q"
proof (rule wp_mono [OF registration_auth [of rq rs reg]])
  fix out and l :: "event list"
  assume *: "(\<forall>ev \<in> set l. \<exists>r. ev = EvGetSecret (ObjectKeyFromObject reg) r) \<and>
    auth_outcome (\<exists>secret. EvGetSecret (ObjectKeyFromObject reg) (Inr secret) \<in> set l \<and> registration_ok rq secret) rs out"
  then have "writes l = []" by (blast intro: only_secret_reads)
  moreover have "k = ObjectKeyFromObject reg" if "EvGetSecret k r \<in> set l" for k r
    using * that by blast
  ultimately show "Q out l"
    using * by (cases out; cases "fst out") (auto simp: auth_outcome_def intro: assms)
qed

lemma handlers_safe:
  "wp (PatchElementalHost E auth A clock rq new_response) (\<lambda>_. server_safe host_ok registration_ok rq)"
  "wp (DeleteElementalHost E auth rq new_response) (\<lambda>_. server_safe host_ok registration_ok rq)"
  "wp (GetElementalHostBootstrap E auth A rq new_response) (\<lambda>_. server_safe host_ok registration_ok rq)"
  unfolding PatchElementalHost_def DeleteElementalHost_def GetElementalHostBootstrap_def Let_def
  by (intro wp_intros wp_fetchRegistration wp_fetchHost wp_host_auth;
      simp only: response_simps append_Nil append_Nil2; auto simp: server_safe_def secret_authorised_def)+

lemma registration_handlers_safe:
  "wp (PostElementalHost E auth A rq new_response) (\<lambda>_. server_safe host_ok registration_ok rq)"
  "wp (GetElementalRegistration E auth A rq new_response) (\<lambda>_. server_safe host_ok registration_ok rq)"
  unfolding PostElementalHost_def GetElementalRegistration_def Let_def
  by (intro wp_intros wp_fetchRegistration wp_host_auth wp_registration_reads;
      simp only: response_simps append_Nil append_Nil2 ObjectKey_sanitize;
      (auto simp: server_safe_def secret_authorised_def; metis)?)+

end

lemma vars_irrelevant [simp]:
  "host_accepted C now (rq\<lparr>rqVars := v\<rparr>) h = host_accepted C now rq h"
  "registration_accepted C now (rq\<lparr>rqVars := v\<rparr>) s = registration_accepted C now rq s"
  by (simp_all add: host_accepted_def registration_accepted_def)

lemma server_safe_vars [simp]:
  "server_safe (host_accepted C now) (registration_accepted C now) (rq\<lparr>rqVars := v\<rparr>) =
   server_safe (host_accepted C now) (registration_accepted C now) rq"
proof
  fix l
  have "write_authorised (host_accepted C now) (registration_accepted C now) (rq\<lparr>rqVars := v\<rparr>) l ev =
    write_authorised (host_accepted C now) (registration_accepted C now) rq l ev" for ev
    by (cases ev) simp_all
  then show "server_safe (host_accepted C now) (registration_accepted C now) (rq\<lparr>rqVars := v\<rparr>) l =
    server_safe (host_accepted C now) (registration_accepted C now) rq l"
    by (simp add: server_safe_def secret_authorised_def)
qed

text \<open>
  C27. Nothing gets past authentication. Whatever the method, the path and the request, a served request changes at
  most one object: a host it patches or deletes after reading it and being accepted for that host's
  key, or a host it creates being accepted both for the key in the body and for the
  registration; and it reads no secret but the registration's own and the bootstrap secret of a host it was accepted for.
\<close>

theorem api_serve_authenticated:
  "wp (api_serve E C A now clock method path rq)
     (\<lambda>_. server_safe (host_accepted C now) (registration_accepted C now) rq)"
proof -
  have none: "server_safe (host_accepted C now) (registration_accepted C now) rq []"
    by (simp add: server_safe_def)
  show ?thesis
    using provider_auth.handlers_safe [where rq = "rq\<lparr>rqVars := v\<rparr>" for v]
      provider_auth.registration_handlers_safe [where rq = "rq\<lparr>rqVars := v\<rparr>" for v]
    by (auto simp: api_serve_def Let_def none intro!: wp_ret split: routed.splits apiHandler.splits)
qed
end
