(* ===== verification/Api_Witnesses.thy ===== *)
theory Api_Witnesses
  imports Api_Server Sample_World
begin

text \<open>Concrete requests that the properties of the API which assume something apply to.\<close>

definition unset_patch :: hostPatchRequest where
  "unset_patch = \<lparr>hpAnnotations = None, hpLabels = None, hpBootstrapped = Some False, hpInstalled = None,
     hpReset = None, hpInPlaceUpdate = None, hpCondition = None, hpPhase = None\<rparr>"

theorem applyToElementalHost_false_flag_witness:
  "hpBootstrapped unset_patch = Some False \<and> \<not> label_is_true sample_host LabelElementalHostBootstrapped \<and>
   label_is_true (applyToElementalHost 0 unset_patch sample_host) LabelElementalHostBootstrapped"
proof -
  have patch: "hpBootstrapped unset_patch = Some False"
    by (simp add: unset_patch_def)
  have fresh: "\<not> label_is_true sample_host LabelElementalHostBootstrapped"
    by code_simp
  show ?thesis
    using patch fresh applyToElementalHost_false_flag [OF patch, of 0 sample_host] by blast
qed

end
