(* ===== verification/Call_Bounds.thy ===== *)
theory Call_Bounds
  imports Host_Controller Machine_Controller Registration_Controller Cluster_Controller Api_Server
begin

text \<open>
  How many calls a run makes at most, and how many of them write: whatever the API answers, no
  reconciliation and no request of an agent can flood it. The bounds are computed along the
  structure of the programs by the rules collected in \<open>counting\<close>.
\<close>

section \<open>Counting calls\<close>

named_theorems counting \<open>the calls of a program from those of its parts\<close>

definition at_most :: "nat \<Rightarrow> nat \<Rightarrow> ('w, event, 'a) prog \<Rightarrow> bool" where
  "at_most n k m \<longleftrightarrow> wp m (\<lambda>_ l. length l \<le> n \<and> length (writes l) \<le> k)"

lemma at_most_ret [counting]: "at_most n k (ret a)"
  unfolding at_most_def by (rule wp_ret) simp

text \<open>A step of at most \<open>i\<close> calls and \<open>j\<close> writes leaves \<open>n - i\<close> and \<open>k - j\<close> to the rest; the side conditions are numbers.\<close>

lemma at_most_step:
  assumes "at_most i j m" and "\<And>a. at_most (n - i) (k - j) (f a)" and "i \<le> n" and "j \<le> k"
  shows "at_most n k (State_Monad.bind m f)"
  unfolding at_most_def
proof (intro wp_bind wp_mono [OF assms(1) [unfolded at_most_def]])
  fix a and l1 :: "event list"
  assume "length l1 \<le> i \<and> length (writes l1) \<le> j"
  then show "wp (f a) (\<lambda>_ l2. length (l1 @ l2) \<le> n \<and> length (writes (l1 @ l2)) \<le> k)"
    by (intro wp_mono [OF assms(2) [unfolded at_most_def]]) (use assms(3,4) in auto)
qed

lemma at_most_read:
  assumes "m = ask g ev" and "\<And>a. at_most (n - 1) k (f a)" and "\<And>r. \<not> is_write (ev r)" and "1 \<le> n"
  shows "at_most n k (State_Monad.bind m f)"
proof (rule at_most_step)
  show "at_most 1 0 m"
    unfolding at_most_def assms(1) by (rule wp_ask) (simp add: assms(3))
qed (use assms in simp_all)

lemma at_most_write:
  assumes "m = ask g ev" and "\<And>a. at_most (n - 1) (k - 1) (f a)" and "1 \<le> n" and "1 \<le> k"
  shows "at_most n k (State_Monad.bind m f)"
proof (rule at_most_step)
  show "at_most 1 1 m"
    unfolding at_most_def assms(1) by (rule wp_ask) simp
qed (use assms in simp_all)

lemma at_most_option [counting]:
  "at_most n k m \<Longrightarrow> (\<And>y. at_most n k (f y)) \<Longrightarrow> at_most n k (case x of None \<Rightarrow> m | Some y \<Rightarrow> f y)"
  by (cases x) auto

lemma at_most_sum [counting]:
  "(\<And>y. at_most n k (f y)) \<Longrightarrow> (\<And>z. at_most n k (g z)) \<Longrightarrow>
    at_most n k (case x of Inl y \<Rightarrow> f y | Inr z \<Rightarrow> g z)"
  by (cases x) auto

lemma at_most_prod [counting]: "(\<And>a b. at_most n k (f a b)) \<Longrightarrow> at_most n k (case x of (a, b) \<Rightarrow> f a b)"
  by (cases x) auto

lemma at_most_if [counting]: "at_most n k m \<Longrightarrow> at_most n k m' \<Longrightarrow> at_most n k (if b then m else m')"
  by simp

lemma at_most_let [counting]: "(\<And>y. at_most n k (f y)) \<Longrightarrow> at_most n k (let y = x in f y)"
  by simp

lemmas read_steps [counting] =
  kGetElementalHost_def [THEN at_most_read] kGetElementalMachine_def [THEN at_most_read]
  kGetElementalRegistration_def [THEN at_most_read] kGetElementalCluster_def [THEN at_most_read]
  kGetCapiMachine_def [THEN at_most_read] kGetCapiCluster_def [THEN at_most_read]
  kGetSecret_def [THEN at_most_read] kListElementalHosts_def [THEN at_most_read]
  kNewPatchHelper_def [THEN at_most_read] kRemoteGetClient_def [THEN at_most_read]
  kRemoteGetNode_def [THEN at_most_read] kGenerateKey_def [THEN at_most_read]

lemmas write_steps [counting] =
  kPatchElementalHost_def [THEN at_most_write] kPatchElementalMachine_def [THEN at_most_write]
  kPatchElementalRegistration_def [THEN at_most_write] kPatchElementalCluster_def [THEN at_most_write]
  kCreateElementalHost_def [THEN at_most_write] kCreateSecret_def [THEN at_most_write]
  kDeleteElementalHost_def [THEN at_most_write] kRemotePatchNode_def [THEN at_most_write]

section \<open>The reconcilers\<close>

lemma at_most_owner:
  "at_most 1 0 (GetOwnerMachine E obj)" "at_most 1 0 (GetClusterFromMetadata E obj)"
  "at_most 1 0 (GetOwnerCluster E obj)"
  unfolding GetOwnerMachine_def GetClusterFromMetadata_def GetClusterByName_def GetOwnerCluster_def
  by (intro counting; simp)+

lemma at_most_SetProviderID: "at_most 4 1 (SetProviderID E k n p)"
  unfolding SetProviderID_def by (intro counting; simp)

lemma at_most_lookUp: "at_most 1 0 (lookUpAlreadyLinkedHost E em)" "at_most 1 0 (lookUpNewAvailableHost E em)"
  unfolding lookUpAlreadyLinkedHost_def lookUpNewAvailableHost_def by (intro counting; simp)+

lemmas lookUp_steps [counting] = at_most_owner [THEN at_most_step] at_most_SetProviderID [THEN at_most_step]
  at_most_lookUp [THEN at_most_step]

lemma at_most_findAvailableHost: "at_most 2 0 (findAvailableHost E em)"
  unfolding findAvailableHost_def by (intro counting; simp)

lemma at_most_link: "at_most 2 1 (linkElementalHostToElementalMachine E m em h)"
  unfolding linkElementalHostToElementalMachine_def by (intro counting; simp)

lemma at_most_setProviderID: "at_most 4 1 (machine_setProviderID E now em c)"
  unfolding machine_setProviderID_def by (intro counting; simp)

lemmas link_steps [counting] = at_most_findAvailableHost [THEN at_most_step] at_most_link [THEN at_most_step]
  at_most_setProviderID [THEN at_most_step]

lemma at_most_associate: "at_most 5 1 (associateElementalHost E now rp em m)"
  unfolding associateElementalHost_def by (intro counting; simp)

lemma at_most_reconcileNormal: "at_most 5 1 (machine_reconcileNormal E now rp c em m)"
  unfolding machine_reconcileNormal_def by (intro counting at_most_associate; simp)

lemma at_most_reconcileDelete: "at_most 5 1 (machine_reconcileDelete E em)"
  unfolding machine_reconcileDelete_def by (intro counting; simp)

lemmas machine_steps [counting] = at_most_reconcileNormal [THEN at_most_step] at_most_reconcileDelete [THEN at_most_step]

lemma at_most_machine_body: "at_most 7 1 (machine_body E now rp em)"
  unfolding machine_body_def by (intro counting; simp)

lemma at_most_Machine_Reconcile: "at_most 10 2 (Machine_Reconcile E now rp req)"
  unfolding Machine_Reconcile_def machine_deferred_def
  by (intro counting at_most_machine_body [THEN at_most_step]; simp)

lemma at_most_reconcileOSVersion: "at_most 1 0 (host_reconcileOSVersionManagement E now r h)"
  unfolding host_reconcileOSVersionManagement_def by (intro counting; simp)

lemma at_most_host_body: "at_most 1 0 (host_body E now h)"
  unfolding host_body_def host_reconcileNormal_def
  by (intro counting at_most_step [where i = 1 and j = 0] at_most_reconcileOSVersion; simp)

lemma at_most_Host_Reconcile: "at_most 4 1 (Host_Reconcile E now req)"
  unfolding Host_Reconcile_def host_deferred_def
  by (intro counting at_most_host_body [THEN at_most_step]; simp)

lemma at_most_cluster_body: "at_most 1 0 (cluster_body E now ec)"
  unfolding cluster_body_def by (intro counting; simp)

lemma at_most_Cluster_Reconcile: "at_most 4 1 (Cluster_Reconcile E now req)"
  unfolding Cluster_Reconcile_def cluster_deferred_def
  by (intro counting at_most_cluster_body [THEN at_most_step]; simp)

lemma at_most_generateNewIdentity: "at_most 2 1 (generateNewIdentity E C g)"
  unfolding generateNewIdentity_def by (intro counting; simp)

lemma at_most_setNewToken: "at_most 1 0 (setNewToken E C clock g)"
  unfolding setNewToken_def by (intro counting; simp)

lemma at_most_registration_body: "at_most 3 1 (registration_body E C R clock g)"
proof -
  have "at_most 2 1 (if b then generateNewIdentity E C g else ret (None, g))"
    and "at_most 1 0 (if b then setNewToken E C clock g else ret (None, g))" for b g
    by (intro counting at_most_generateNewIdentity at_most_setNewToken)+
  note steps = this [THEN at_most_step]
  show ?thesis
    unfolding registration_body_def Let_def by (intro counting steps; simp)
qed

lemma at_most_Registration_Reconcile: "at_most 6 2 (Registration_Reconcile E C R clock req)"
  unfolding Registration_Reconcile_def registration_deferred_def
  by (intro counting at_most_registration_body [THEN at_most_step]; simp)

section \<open>The API server\<close>

lemma at_most_authenticator:
  "at_most 0 0 (au_ValidateHostRequest (NewAuthenticator E C now) rq rs h g)"
  "at_most 1 0 (au_ValidateRegistrationRequest (NewAuthenticator E C now) rq rs g)"
  unfolding NewAuthenticator_def authenticator.simps ValidateRegistrationRequest_def
  by (intro counting; simp)+

lemma at_most_fetch: "at_most 1 0 (fetchRegistration E ns n rs)" "at_most 1 0 (fetchHost E u ns n rs)"
  unfolding fetchRegistration_def fetchHost_def by (intro counting; simp)+

lemmas handler_steps [counting] = at_most_authenticator [THEN at_most_step] at_most_fetch [THEN at_most_step]

lemma at_most_handlers:
  "at_most 2 0 (GetElementalRegistration E (NewAuthenticator E C now) A rq rs)"
  "at_most 3 1 (PostElementalHost E (NewAuthenticator E C now) A rq rs)"
  "at_most 3 1 (DeleteElementalHost E (NewAuthenticator E C now) rq rs)"
  "at_most 5 1 (PatchElementalHost E (NewAuthenticator E C now) A clock rq rs)"
  "at_most 3 0 (GetElementalHostBootstrap E (NewAuthenticator E C now) A rq rs)"
  unfolding GetElementalRegistration_def PostElementalHost_def DeleteElementalHost_def
    PatchElementalHost_def GetElementalHostBootstrap_def
  by (intro counting; simp)+

lemma at_most_mono: "at_most i j m \<Longrightarrow> i \<le> n \<Longrightarrow> j \<le> k \<Longrightarrow> at_most n k m"
  unfolding at_most_def by (erule wp_mono) simp

lemma at_most_api_serve: "at_most 5 1 (api_serve E C A now clock meth path rq)"
  unfolding api_serve_def Let_def
  by (simp add: at_most_ret at_most_handlers at_most_handlers [THEN at_most_mono] split: routed.split apiHandler.split)

section \<open>Property\<close>


end
