(* ===== verification/Well_Formed.thy ===== *)
theory Well_Formed
  imports Host_Controller Machine_Controller Registration_Controller Cluster_Controller Api_Server
begin

text \<open>
  The type invariant of the status: an object has at most one condition of a type, in the order \<^verbatim>\<open>Set\<close> keeps. Every
  reconciler and every handler of the API server writes objects that have it, if the ones they read had it.
\<close>

section \<open>Writes\<close>

fun well_formed_write :: "event \<Rightarrow> bool" where
  "well_formed_write (EvPatchElementalHost h h' r) \<longleftrightarrow> (wf_conditions (hConditions h) \<longrightarrow> wf_conditions (hConditions h'))"
| "well_formed_write (EvPatchElementalMachine m m' r) \<longleftrightarrow> (wf_conditions (mConditions m) \<longrightarrow> wf_conditions (mConditions m'))"
| "well_formed_write (EvPatchElementalRegistration g g' r) \<longleftrightarrow> (wf_conditions (rConditions g) \<longrightarrow> wf_conditions (rConditions g'))"
| "well_formed_write (EvPatchElementalCluster c c' r) \<longleftrightarrow> (wf_conditions (ecConditions c) \<longrightarrow> wf_conditions (ecConditions c'))"
| "well_formed_write (EvCreateElementalHost h r) \<longleftrightarrow> wf_conditions (hConditions h)"
| "well_formed_write _ \<longleftrightarrow> True"

lemma wf_conditions_distinct [dest]: "wf_conditions cs \<Longrightarrow> distinct (map cType cs)"
  by (simp add: wf_conditions_def)

lemma wf_conditions_Nil [simp]: "wf_conditions []"
  by (simp add: wf_conditions_def)

text \<open>The summary sorts what it is given.\<close>

lemma wf_set_summary:
  assumes "distinct (map cType cs)"
  shows "wf_conditions (set_summary now cs)"
proof (cases "summary cs")
  case None
  then have "\<forall>c \<in> set cs. cType c = ReadyCondition" by (simp add: summary_None_iff)
  with assms have "cs = [] \<or> (\<exists>c. cs = [c])"
    by (cases cs; cases "tl cs") auto
  with None asympD [OF asymp_lexicographicLess] show ?thesis
    by (auto simp: set_summary_def wf_conditions_def)
next
  case (Some r)
  with assms show ?thesis by (simp add: set_summary_def set_condition_wf)
qed

context setter
begin

lemma wf_SetSummary:
  "distinct (map cType (getC obj)) \<Longrightarrow> wf_conditions (getC (conditions_SetSummary getC setC now obj))"
  by (simp add: getC_SetSummary wf_set_summary)

end

lemmas wf_SetSummary = hostC.wf_SetSummary machineC.wf_SetSummary clusterC.wf_SetSummary registrationC.wf_SetSummary
lemmas distinct_steps = hostC.distinct_Set machineC.distinct_Set clusterC.distinct_Set registrationC.distinct_Set

section \<open>Reconcilers\<close>

text \<open>The relation of a run: its writes are well formed, and so is what it leaves, if what it read was.\<close>

definition stays_wf :: "('o \<Rightarrow> condition list) \<Rightarrow> reconcileResult \<Rightarrow> 'o \<Rightarrow> event list \<Rightarrow> 'o \<Rightarrow> bool" where
  "stays_wf getC res before body after \<longleftrightarrow> list_all well_formed_write body \<and>
     (wf_conditions (getC before) \<longrightarrow> wf_conditions (getC after))"

lemma reconciles_once_wf:
  assumes "reconciles_once got helper patched (stays_wf getC) res l"
    and "\<And>r. well_formed_write (got r)" and "\<And>x r. well_formed_write (helper x r)"
    and "\<And>x y r. well_formed_write (patched x y r) \<longleftrightarrow> (wf_conditions (getC x) \<longrightarrow> wf_conditions (getC y))"
  shows "list_all well_formed_write l"
  using assms unfolding reconciles_once_def stays_wf_def by auto

text \<open>A patching reconciler writes well-formed objects if its body keeps the types of the conditions distinct.\<close>

lemma wp_Host_wf: "wp (Host_Reconcile E now req) (\<lambda>res l. list_all well_formed_write l)"
proof -
  have deleted: "host_distinct (snd (host_reconcileDelete now (init_labels h)))" if "wf_conditions (hConditions h)" for h
    using that by (auto simp: host_reconcileDelete_def host_simps intro!: distinct_steps)
  have "wp (host_body E now h) (\<lambda>out l. stays_wf hConditions (fst out) h l (host_SetSummary now (snd out)))" for h
    unfolding stays_wf_def host_body_def host_reconcileNormal_def host_reconcileOSVersionManagement_def Let_def
    by (intro wp_intros) (use deleted [of h] in \<open>auto intro!: wf_SetSummary host_distinct_steps simp: host_simps\<close>)
  note run = hostR.wp_reconcile [where R = "stays_wf hConditions", OF this]
  show ?thesis by (rule wp_mono [OF run]) (erule reconciles_once_wf; simp)
qed

lemma wp_Cluster_wf: "wp (Cluster_Reconcile E now req) (\<lambda>res l. list_all well_formed_write l)"
proof -
  have normal: "cluster_distinct (snd (cluster_reconcileNormal now c))" if "cluster_distinct c" for c
    using that by (simp add: cluster_reconcileNormal_def)
  have normal_pair: "cluster_distinct c'" if "cluster_reconcileNormal now c = (r, c')" "cluster_distinct c" for c c' r
    using normal [OF that(2)] that(1) by simp
  have "wp (cluster_body E now c) (\<lambda>out l. stays_wf ecConditions (fst out) c l (cluster_SetSummary now (snd out)))" for c
    unfolding stays_wf_def cluster_body_def cluster_reconcileDelete_def no_cluster_owner_def
      GetOwnerCluster_def GetClusterByName_def Let_def
    by (intro wp_intros) (auto intro!: wf_SetSummary distinct_steps simp: wf_conditions_distinct elim!: normal_pair)
  note run = clusterR.wp_reconcile [where R = "stays_wf ecConditions", OF this]
  show ?thesis by (rule wp_mono [OF run]) (erule reconciles_once_wf; simp)
qed

abbreviation machine_distinct :: "elementalMachine \<Rightarrow> bool" where
  "machine_distinct m \<equiv> distinct (map cType (mConditions m))"

text \<open>The steps of a machine run: well-formed writes, and conditions that stay distinct.\<close>

definition machine_step_wf :: "elementalMachine \<Rightarrow> 'r \<times> elementalMachine \<Rightarrow> event list \<Rightarrow> bool" where
  "machine_step_wf em out l \<longleftrightarrow> list_all well_formed_write l \<and> (machine_distinct em \<longrightarrow> machine_distinct (snd out))"

lemma wp_find_wf: "wp (findAvailableHost E em) (\<lambda>r l. list_all well_formed_write l)"
  unfolding findAvailableHost_def lookUpAlreadyLinkedHost_def lookUpNewAvailableHost_def
  by (intro wp_intros wp_kListElementalHosts) simp_all

lemma linked_host_conditions: "linked_host m em h = Some h' \<Longrightarrow> hConditions h' = hConditions h"
  by (auto simp: linked_host_def Let_def put_label_def split: option.splits if_splits)

lemma wp_link_wf: "wp (linkElementalHostToElementalMachine E m em h) (\<lambda>r l. list_all well_formed_write l)"
  unfolding linkElementalHostToElementalMachine_def by (intro wp_intros) (auto simp: linked_host_conditions)

lemma wp_associate_wf: "wp (associateElementalHost E now rp em m) (machine_step_wf em)"
  unfolding associateElementalHost_def machine_step_wf_def Let_def
  by (intro wp_intros wp_mono [OF wp_find_wf] wp_mono [OF wp_link_wf]) (auto intro!: distinct_steps)

lemma wp_setProviderID_wf: "wp (machine_setProviderID E now em c) (machine_step_wf em)"
  unfolding machine_setProviderID_def SetProviderID_def machine_step_wf_def
  by (intro wp_intros) (auto intro!: distinct_steps)

lemma wp_normal_wf: "wp (machine_reconcileNormal E now rp c em m) (machine_step_wf em)"
  unfolding machine_reconcileNormal_def Let_def
  by (intro wp_intros wp_mono [OF wp_associate_wf] wp_mono [OF wp_setProviderID_wf])
    (auto simp: machine_step_wf_def intro!: distinct_steps)

lemma wp_delete_wf: "wp (machine_reconcileDelete E em) (machine_step_wf em)"
  unfolding machine_reconcileDelete_def machine_step_wf_def
  by (intro wp_intros) (auto simp: host_simps RemoveFinalizer_def)

lemma wp_machine_body_wf: "wp (machine_body E now rp em) (machine_step_wf em)"
  unfolding machine_body_def GetOwnerMachine_def GetClusterFromMetadata_def GetClusterByName_def not_associated_def Let_def
  by (intro wp_intros wp_mono [OF wp_normal_wf] wp_mono [OF wp_delete_wf])
    (auto simp: machine_step_wf_def AddFinalizer_def intro!: distinct_steps)

lemma wp_Machine_wf: "wp (Machine_Reconcile E now rp req) (\<lambda>res l. list_all well_formed_write l)"
proof -
  have "wp (machine_body E now rp em) (\<lambda>out l. stays_wf mConditions (fst out) em l (machine_SetSummary now (snd out)))" for em
    by (rule wp_mono [OF wp_machine_body_wf]) (auto simp: machine_step_wf_def stays_wf_def intro!: wf_SetSummary)
  note run = machineR.wp_reconcile [where R = "stays_wf mConditions", OF this]
  show ?thesis by (rule wp_mono [OF run]) (erule reconciles_once_wf; simp)
qed

lemma wp_Registration_wf: "wp (Registration_Reconcile E C R clock req) (\<lambda>res l. list_all well_formed_write l)"
proof -
  have same: "rConditions (snd (default_URI R g)) = rConditions g" "rConditions (default_CACert R g) = rConditions g" for g
    by (simp_all add: default_URI_def setURI_def default_CACert_def set_registration_of_def split: option.splits)
  have uri: "rConditions g' = rConditions g" if "default_URI R g = (e, g')" for e g g'
    using same(1) [of g] that by simp
  have key: "wp (generateNewIdentity E C g) (\<lambda>out l. list_all well_formed_write l \<and> rConditions (snd out) = rConditions g)"
    and token: "wp (setNewToken E C clock g) (\<lambda>out l. list_all well_formed_write l \<and> rConditions (snd out) = rConditions g)" for g
    unfolding generateNewIdentity_def setNewToken_def by (intro wp_intros; simp add: set_registration_of_def)+
  have "wp (registration_body E C R clock g) (\<lambda>out l. stays_wf rConditions (fst out) g l (snd out))" for g
    unfolding registration_body_def registration_ready_def stays_wf_def Let_def
    by (intro wp_intros wp_mono [OF key] wp_mono [OF token])
      (auto simp: same uri intro!: registrationC.wf_Set)
  note run = registrationR.wp_reconcile [where R = "stays_wf rConditions", OF this]
  show ?thesis by (rule wp_mono [OF run]) (erule reconciles_once_wf; simp)
qed

section \<open>The API server\<close>

lemma wf_applied: "wf_conditions (hConditions h) \<Longrightarrow> wf_conditions (hConditions (applyToElementalHost now p h))"
  unfolding applied_conditions by (intro wf_SetSummary distinct_steps) (simp add: wf_conditions_distinct)

lemma wp_handlers_wf:
  "wp (GetElementalRegistration E (NewAuthenticator E C now) A rq rs) (\<lambda>res l. list_all well_formed_write l)"
  "wp (PostElementalHost E (NewAuthenticator E C now) A rq rs) (\<lambda>res l. list_all well_formed_write l)"
  "wp (DeleteElementalHost E (NewAuthenticator E C now) rq rs) (\<lambda>res l. list_all well_formed_write l)"
  "wp (PatchElementalHost E (NewAuthenticator E C now) A clock rq rs) (\<lambda>res l. list_all well_formed_write l)"
  "wp (GetElementalHostBootstrap E (NewAuthenticator E C now) A rq rs) (\<lambda>res l. list_all well_formed_write l)"
  unfolding GetElementalRegistration_def PostElementalHost_def DeleteElementalHost_def PatchElementalHost_def
    GetElementalHostBootstrap_def fetchRegistration_def fetchHost_def NewAuthenticator_def authenticator.simps
    ValidateRegistrationRequest_def Let_def
  by (intro wp_intros; auto simp: wf_applied owned_by_def toElementalHost_def)+

lemma wp_api_serve_wf: "wp (api_serve E C A now clock meth path rq) (\<lambda>res l. list_all well_formed_write l)"
  unfolding api_serve_def Let_def
  by (simp add: wp_ret wp_handlers_wf split: routed.split apiHandler.split)

section \<open>Property\<close>

text \<open>
  C15. Status is well formed. Whatever the calls answer, each of the four reconcilers and every request to the API server patches an
  object whose conditions have distinct types and are in the order of the conditions package to one whose conditions are again so,
  and creates hosts only with such conditions.
\<close>

theorem Conditions_stay_well_formed:
  "list_all well_formed_write (events_of (Host_Reconcile E now req) w) \<and>
   list_all well_formed_write (events_of (Machine_Reconcile E now rp req) w) \<and>
   list_all well_formed_write (events_of (Cluster_Reconcile E now req) w) \<and>
   list_all well_formed_write (events_of (Registration_Reconcile E C R clock req) w) \<and>
   list_all well_formed_write (events_of (api_serve E C A now clock meth path rq) w)"
  by (intro conjI wp_eventsD [OF wp_Host_wf] wp_eventsD [OF wp_Machine_wf] wp_eventsD [OF wp_Cluster_wf]
      wp_eventsD [OF wp_Registration_wf] wp_eventsD [OF wp_api_serve_wf])

end
