(* ===== verification/Watches.thy ===== *)
theory Watches
  imports Host_Controller Machine_Controller Cluster_Controller Registration_Controller
begin

text \<open>
  What wakes the reconcilers: \<^verbatim>\<open>SetupWithManager\<close> of every controller, with the event handlers and
  predicates of the vendored controller-runtime and cluster-api it uses. An event of a watch is delivered to the
  handlers of the watches of its kind whose predicates all accept it; what they enqueue is the list of requests. An event
  carries objects (the code's checks for nil objects have nothing to do here).
\<close>

section \<open>Events and predicates\<close>

datatype watchEvent =
    CreateEvent clientObject
  | UpdateEvent clientObject clientObject
  | DeleteEvent clientObject
  | GenericEvent clientObject

record predicateFuncs =
  CreateFunc :: "clientObject \<Rightarrow> bool"
  UpdateFunc :: "clientObject \<Rightarrow> clientObject \<Rightarrow> bool"
  DeleteFunc :: "clientObject \<Rightarrow> bool"
  GenericFunc :: "clientObject \<Rightarrow> bool"

fun accepts :: "predicateFuncs \<Rightarrow> watchEvent \<Rightarrow> bool" where
  "accepts p (CreateEvent x) = CreateFunc p x"
| "accepts p (UpdateEvent x y) = UpdateFunc p x y"
| "accepts p (DeleteEvent x) = DeleteFunc p x"
| "accepts p (GenericEvent x) = GenericFunc p x"

definition predicates_All :: "predicateFuncs list \<Rightarrow> predicateFuncs" where
  "predicates_All ps = \<lparr>
     CreateFunc = (\<lambda>x. list_all (\<lambda>p. CreateFunc p x) ps),
     UpdateFunc = (\<lambda>x y. list_all (\<lambda>p. UpdateFunc p x y) ps),
     DeleteFunc = (\<lambda>x. list_all (\<lambda>p. DeleteFunc p x) ps),
     GenericFunc = (\<lambda>x. list_all (\<lambda>p. GenericFunc p x) ps)\<rparr>"

definition predicates_Any :: "predicateFuncs list \<Rightarrow> predicateFuncs" where
  "predicates_Any ps = \<lparr>
     CreateFunc = (\<lambda>x. list_ex (\<lambda>p. CreateFunc p x) ps),
     UpdateFunc = (\<lambda>x y. list_ex (\<lambda>p. UpdateFunc p x y) ps),
     DeleteFunc = (\<lambda>x. list_ex (\<lambda>p. DeleteFunc p x) ps),
     GenericFunc = (\<lambda>x. list_ex (\<lambda>p. GenericFunc p x) ps)\<rparr>"

definition ClusterCreateInfraReady :: predicateFuncs where
  "ClusterCreateInfraReady = \<lparr>
     CreateFunc = (\<lambda>x. case x of ObjCapiCluster c \<Rightarrow> ccInfrastructureReady c | _ \<Rightarrow> False),
     UpdateFunc = (\<lambda>_ _. False), DeleteFunc = (\<lambda>_. False), GenericFunc = (\<lambda>_. False)\<rparr>"

definition ClusterCreateNotPaused :: predicateFuncs where
  "ClusterCreateNotPaused = \<lparr>
     CreateFunc = (\<lambda>x. case x of ObjCapiCluster c \<Rightarrow> \<not> ccPaused c | _ \<Rightarrow> False),
     UpdateFunc = (\<lambda>_ _. False), DeleteFunc = (\<lambda>_. False), GenericFunc = (\<lambda>_. False)\<rparr>"

text \<open>An update carries two objects of the kind of its watch; the code casts the new one without a check.\<close>

definition ClusterUpdateInfraReady :: predicateFuncs where
  "ClusterUpdateInfraReady = \<lparr>
     CreateFunc = (\<lambda>_. False),
     UpdateFunc = (\<lambda>x y. case (x, y) of (ObjCapiCluster old, ObjCapiCluster new) \<Rightarrow>
       \<not> ccInfrastructureReady old \<and> ccInfrastructureReady new | _ \<Rightarrow> False),
     DeleteFunc = (\<lambda>_. False), GenericFunc = (\<lambda>_. False)\<rparr>"

definition ClusterUpdateUnpaused :: predicateFuncs where
  "ClusterUpdateUnpaused = \<lparr>
     CreateFunc = (\<lambda>_. False),
     UpdateFunc = (\<lambda>x y. case (x, y) of (ObjCapiCluster old, ObjCapiCluster new) \<Rightarrow>
       ccPaused old \<and> \<not> ccPaused new | _ \<Rightarrow> False),
     DeleteFunc = (\<lambda>_. False), GenericFunc = (\<lambda>_. False)\<rparr>"

definition ClusterUnpaused :: predicateFuncs where
  "ClusterUnpaused = predicates_Any [ClusterCreateNotPaused, ClusterUpdateUnpaused]"

definition ClusterUnpausedAndInfrastructureReady :: predicateFuncs where
  "ClusterUnpausedAndInfrastructureReady =
     (let createPredicates = predicates_All [ClusterCreateNotPaused, ClusterCreateInfraReady];
          updatePredicates = predicates_Any [ClusterUpdateUnpaused, ClusterUpdateInfraReady]
      in predicates_Any [createPredicates, updatePredicates])"

text \<open>The metadata of an object.\<close>

definition meta_of :: "'a objectMeta_scheme \<Rightarrow> objectMeta" where
  "meta_of x = objectMeta.truncate x"

fun object_meta :: "clientObject \<Rightarrow> objectMeta" where
  "object_meta (ObjElementalHost x) = meta_of x"
| "object_meta (ObjElementalMachine x) = meta_of x"
| "object_meta (ObjElementalCluster x) = meta_of x"
| "object_meta (ObjElementalRegistration x) = meta_of x"
| "object_meta (ObjElementalClusterTemplate x) = x"
| "object_meta (ObjElementalMachineTemplate x) = x"
| "object_meta (ObjCapiMachine x) = meta_of x"
| "object_meta (ObjCapiCluster x) = meta_of x"
| "object_meta (ObjOther x) = x"

definition ManagedByAnnotation :: string where
  "ManagedByAnnotation = ''cluster.x-k8s.io/managed-by''"

definition IsExternallyManaged :: "'a objectMeta_scheme \<Rightarrow> bool" where
  "IsExternallyManaged o' \<longleftrightarrow> gget (oAnnotations o') ManagedByAnnotation \<noteq> None"

definition ResourceIsNotExternallyManaged :: predicateFuncs where
  "ResourceIsNotExternallyManaged = \<lparr>
     CreateFunc = (\<lambda>x. \<not> IsExternallyManaged (object_meta x)),
     UpdateFunc = (\<lambda>_ y. \<not> IsExternallyManaged (object_meta y)),
     DeleteFunc = (\<lambda>x. \<not> IsExternallyManaged (object_meta x)),
     GenericFunc = (\<lambda>x. \<not> IsExternallyManaged (object_meta x))\<rparr>"

section \<open>Handlers\<close>

definition object_key :: "clientObject \<Rightarrow> objectKey" where
  "object_key x = ObjectKeyFromObject (object_meta x)"

fun EnqueueRequestForObject :: "watchEvent \<Rightarrow> objectKey list" where
  "EnqueueRequestForObject (CreateEvent x) = [object_key x]"
| "EnqueueRequestForObject (UpdateEvent x y) = [object_key y]"
| "EnqueueRequestForObject (DeleteEvent x) = [object_key x]"
| "EnqueueRequestForObject (GenericEvent x) = [object_key x]"

text \<open>The requests added to the queue; one that was added for the same event is not added again.\<close>

fun mapAndEnqueue :: "objectKey list \<Rightarrow> objectKey list \<Rightarrow> objectKey list" where
  "mapAndEnqueue [] reqs = reqs"
| "mapAndEnqueue (r # rs) reqs = mapAndEnqueue rs (if r \<in> set reqs then reqs else reqs @ [r])"

type_synonym 'w mapFunc = "clientObject \<Rightarrow> ('w, event, objectKey list) prog"

fun EnqueueRequestsFromMapFunc :: "'w mapFunc \<Rightarrow> watchEvent \<Rightarrow> ('w, event, objectKey list) prog" where
  "EnqueueRequestsFromMapFunc fn (CreateEvent x) = do { rs \<leftarrow> fn x; ret (mapAndEnqueue rs []) }"
| "EnqueueRequestsFromMapFunc fn (UpdateEvent x y) = do {
     rs \<leftarrow> fn x; rs' \<leftarrow> fn y; ret (mapAndEnqueue rs' (mapAndEnqueue rs [])) }"
| "EnqueueRequestsFromMapFunc fn (DeleteEvent x) = do { rs \<leftarrow> fn x; ret (mapAndEnqueue rs []) }"
| "EnqueueRequestsFromMapFunc fn (GenericEvent x) = do { rs \<leftarrow> fn x; ret (mapAndEnqueue rs []) }"

lemma set_mapAndEnqueue [simp]: "set (mapAndEnqueue rs reqs) = set rs \<union> set reqs"
  by (induction rs reqs rule: mapAndEnqueue.induct) auto

text \<open>\<^verbatim>\<open>GroupVersionKind().GroupKind()\<close> of a reference: an API version that cannot be parsed has no group.\<close>

definition ref_GroupKind :: "objectReference \<Rightarrow> string \<times> string" where
  "ref_GroupKind ref = ((case ParseGroup (refAPIVersion ref) of Inl _ \<Rightarrow> [] | Inr g \<Rightarrow> g), refKind ref)"

text \<open>From a Cluster to its infrastructure object, which is read to see whether it is managed elsewhere.\<close>

definition ClusterToInfrastructureMapFunc :: "'w env \<Rightarrow> string \<Rightarrow> string \<Rightarrow> 'w mapFunc" where
  "ClusterToInfrastructureMapFunc E infraGroup infraKind x = (case x of
     ObjCapiCluster cluster \<Rightarrow> (case ccInfrastructureRef cluster of
       None \<Rightarrow> ret []
     | Some ref \<Rightarrow>
         (if ref_GroupKind ref \<noteq> (infraGroup, infraKind) then ret []
          else do {
            r \<leftarrow> kGetElementalCluster E \<lparr>keyNamespace = oNamespace cluster, keyName = refName ref\<rparr>;
            (case r of
               Inl e \<Rightarrow> ret []
             | Inr providerCluster \<Rightarrow>
                 if IsExternallyManaged providerCluster then ret []
                 else ret [\<lparr>keyNamespace = oNamespace cluster, keyName = refName ref\<rparr>])
          }))
   | _ \<Rightarrow> ret [])"

section \<open>Controllers\<close>

datatype objectKind = KElementalHost | KElementalMachine | KElementalCluster | KElementalRegistration
  | KElementalClusterTemplate | KElementalMachineTemplate | KCapiMachine | KCapiCluster | KOther

fun kind_of :: "clientObject \<Rightarrow> objectKind" where
  "kind_of (ObjElementalHost _) = KElementalHost"
| "kind_of (ObjElementalMachine _) = KElementalMachine"
| "kind_of (ObjElementalCluster _) = KElementalCluster"
| "kind_of (ObjElementalRegistration _) = KElementalRegistration"
| "kind_of (ObjElementalClusterTemplate _) = KElementalClusterTemplate"
| "kind_of (ObjElementalMachineTemplate _) = KElementalMachineTemplate"
| "kind_of (ObjCapiMachine _) = KCapiMachine"
| "kind_of (ObjCapiCluster _) = KCapiCluster"
| "kind_of (ObjOther _) = KOther"

text \<open>The object of an event, the new one of an update.\<close>

fun event_object :: "watchEvent \<Rightarrow> clientObject" where
  "event_object (CreateEvent x) = x"
| "event_object (UpdateEvent x y) = y"
| "event_object (DeleteEvent x) = x"
| "event_object (GenericEvent x) = x"

definition event_kind :: "watchEvent \<Rightarrow> objectKind" where
  "event_kind ev = kind_of (event_object ev)"

record 'w watch =
  wtKind :: objectKind
  wtPredicates :: "predicateFuncs list"
  wtHandler :: "watchEvent \<Rightarrow> ('w, event, objectKey list) prog"

record 'w controllerBuilder =
  cbWatches :: "'w watch list"
  cbEventFilters :: "predicateFuncs list"

definition NewController :: "'w controllerBuilder" where
  "NewController = \<lparr>cbWatches = [], cbEventFilters = []\<rparr>"

definition builder_For :: "objectKind \<Rightarrow> 'w controllerBuilder \<Rightarrow> 'w controllerBuilder" where
  "builder_For k b = b\<lparr>cbWatches := \<lparr>wtKind = k, wtPredicates = [],
     wtHandler = (\<lambda>ev. ret (EnqueueRequestForObject ev))\<rparr> # cbWatches b\<rparr>"

definition builder_Watches ::
  "objectKind \<Rightarrow> 'w mapFunc \<Rightarrow> predicateFuncs list \<Rightarrow> 'w controllerBuilder \<Rightarrow> 'w controllerBuilder" where
  "builder_Watches k fn ps b = b\<lparr>cbWatches := cbWatches b @
     [\<lparr>wtKind = k, wtPredicates = ps, wtHandler = EnqueueRequestsFromMapFunc fn\<rparr>]\<rparr>"

definition WithEventFilter :: "predicateFuncs \<Rightarrow> 'w controllerBuilder \<Rightarrow> 'w controllerBuilder" where
  "WithEventFilter p b = b\<lparr>cbEventFilters := cbEventFilters b @ [p]\<rparr>"

text \<open>\<^verbatim>\<open>doWatch\<close>: a watch has the filters of its controller and its own predicates. \<open>deliver\<close> is what an event enqueues.\<close>

definition watch_accepts :: "'w controllerBuilder \<Rightarrow> 'w watch \<Rightarrow> watchEvent \<Rightarrow> bool" where
  "watch_accepts b wt ev \<longleftrightarrow> wtKind wt = event_kind ev \<and> list_all (\<lambda>p. accepts p ev) (cbEventFilters b @ wtPredicates wt)"

fun deliver_to :: "'w controllerBuilder \<Rightarrow> 'w watch list \<Rightarrow> watchEvent \<Rightarrow> ('w, event, objectKey list) prog" where
  "deliver_to b [] ev = ret []"
| "deliver_to b (wt # wts) ev = do {
     rs \<leftarrow> (if watch_accepts b wt ev then wtHandler wt ev else ret []);
     rs' \<leftarrow> deliver_to b wts ev;
     ret (rs @ rs')
   }"

definition deliver :: "'w controllerBuilder \<Rightarrow> watchEvent \<Rightarrow> ('w, event, objectKey list) prog" where
  "deliver b ev = deliver_to b (cbWatches b) ev"

definition Host_SetupWithManager :: "'w controllerBuilder" where
  "Host_SetupWithManager =
     builder_Watches KElementalMachine (\<lambda>x. ret (ElementalMachineToElementalHost x)) []
       (builder_For KElementalHost NewController)"

definition Machine_SetupWithManager :: "'w env \<Rightarrow> 'w controllerBuilder" where
  "Machine_SetupWithManager E =
     builder_Watches KCapiCluster (ClusterToElementalMachines E) [ClusterUnpausedAndInfrastructureReady]
       (builder_Watches KCapiMachine (\<lambda>x. ret (MachineToElementalMachine x)) []
         (builder_Watches KElementalHost (\<lambda>x. ret (ElementalHostToElementalMachine x)) []
           (builder_For KElementalMachine NewController)))"

definition Cluster_SetupWithManager :: "'w env \<Rightarrow> 'w controllerBuilder" where
  "Cluster_SetupWithManager E =
     WithEventFilter ResourceIsNotExternallyManaged
       (builder_Watches KCapiCluster (ClusterToInfrastructureMapFunc E InfraGroup ''ElementalCluster'') [ClusterUnpaused]
         (builder_For KElementalCluster NewController))"

definition Registration_SetupWithManager :: "'w controllerBuilder" where
  "Registration_SetupWithManager = builder_For KElementalRegistration NewController"

definition ClusterTemplate_SetupWithManager :: "'w controllerBuilder" where
  "ClusterTemplate_SetupWithManager = builder_For KElementalClusterTemplate NewController"

definition MachineTemplate_SetupWithManager :: "'w controllerBuilder" where
  "MachineTemplate_SetupWithManager = builder_For KElementalMachineTemplate NewController"

section \<open>Who waits for what\<close>

text \<open>
  A run that ends without an error and without a requeue leaves a machine that is not ready to one of these changes.
\<close>

datatype awaited =
    AwaitsOwner
  | AwaitsInfrastructure capiCluster
  | AwaitsBootstrapData capiMachine
  | AwaitsHost elementalHost
  | JustLinked

fun awaits :: "elementalMachine \<Rightarrow> event list \<Rightarrow> elementalMachine \<Rightarrow> awaited \<Rightarrow> bool" where
  "awaits before body after AwaitsOwner \<longleftrightarrow> find_owner_machine (oOwnerReferences before) = Inr None"
| "awaits before body after (AwaitsInfrastructure c) \<longleftrightarrow>
     (\<exists>k. EvGetCapiCluster k (Inr c) \<in> set body) \<and> \<not> ccInfrastructureReady c"
| "awaits before body after (AwaitsBootstrapData m) \<longleftrightarrow>
     (\<exists>k. EvGetCapiMachine k (Inr m) \<in> set body) \<and> cmDataSecretName m = None"
| "awaits before body after (AwaitsHost h) \<longleftrightarrow>
     (\<exists>ref. mHostRef before = Some ref \<and> EvGetElementalHost (refKey ref) (Inr h) \<in> set body) \<and> \<not> host_up h"
| "awaits before body after JustLinked \<longleftrightarrow> mHostRef before = None \<and> mHostRef after \<noteq> None"

text \<open>The updates that bring it.\<close>

fun brings :: "awaited \<Rightarrow> clientObject \<Rightarrow> clientObject \<Rightarrow> bool" where
  "brings AwaitsOwner old new \<longleftrightarrow> kind_of old = KElementalMachine \<and> kind_of new = KElementalMachine"
| "brings (AwaitsInfrastructure c) old new \<longleftrightarrow> (case (old, new) of
     (ObjCapiCluster c1, ObjCapiCluster c2) \<Rightarrow> ObjectKeyFromObject c2 = ObjectKeyFromObject c \<and>
       \<not> ccInfrastructureReady c1 \<and> ccInfrastructureReady c2
   | _ \<Rightarrow> False)"
| "brings (AwaitsBootstrapData m) old new \<longleftrightarrow> (case (old, new) of
     (ObjCapiMachine m1, ObjCapiMachine m2) \<Rightarrow> ObjectKeyFromObject m2 = ObjectKeyFromObject m \<and>
       cmDataSecretName m2 \<noteq> None
   | _ \<Rightarrow> False)"
| "brings (AwaitsHost h) old new \<longleftrightarrow> (case (old, new) of
     (ObjElementalHost h1, ObjElementalHost h2) \<Rightarrow> ObjectKeyFromObject h2 = ObjectKeyFromObject h \<and> host_up h2
   | _ \<Rightarrow> False)"
| "brings JustLinked old new \<longleftrightarrow> kind_of old = KElementalMachine \<and> kind_of new = KElementalMachine"

text \<open>How an object points at the machine; a Cluster does so through the Machines that are listed for it.\<close>

definition infrastructure_key :: "capiMachine \<Rightarrow> objectKey" where
  "infrastructure_key m = \<lparr>keyNamespace = (if refNamespace (cmInfrastructureRef m) \<noteq> []
     then refNamespace (cmInfrastructureRef m) else oNamespace m), keyName = refName (cmInfrastructureRef m)\<rparr>"

fun points_at :: "objectKey \<Rightarrow> event list \<Rightarrow> clientObject \<Rightarrow> bool" where
  "points_at req l (ObjElementalMachine m) \<longleftrightarrow> ObjectKeyFromObject m = req"
| "points_at req l (ObjElementalHost h) \<longleftrightarrow> (\<exists>r. hMachineRef h = Some r \<and> refKey r = req)"
| "points_at req l (ObjCapiMachine m) \<longleftrightarrow> refKind (cmInfrastructureRef m) = ''ElementalMachine'' \<and>
     refKey (cmInfrastructureRef m) = req"
| "points_at req l (ObjCapiCluster c) \<longleftrightarrow> (\<exists>ms m. EvListCapiMachines (oNamespace c) [(ClusterNameLabel, oName c)] (Inr ms) \<in> set l \<and>
     m \<in> set ms \<and> refName (cmInfrastructureRef m) \<noteq> [] \<and> infrastructure_key m = req)"
| "points_at req l _ \<longleftrightarrow> False"

lemma set_machine_requests: "set (machine_requests ms) = infrastructure_key ` {m \<in> set ms. refName (cmInfrastructureRef m) \<noteq> []}"
  by (induction ms rule: machine_requests.induct) (auto simp: infrastructure_key_def)

lemmas builder_defs = deliver_def NewController_def builder_For_def builder_Watches_def WithEventFilter_def watch_accepts_def

lemma object_key_simps [simp]:
  "object_key (ObjElementalMachine m) = ObjectKeyFromObject m" "object_key (ObjElementalCluster c) = ObjectKeyFromObject c"
  by (simp_all add: object_key_def meta_of_def ObjectKeyFromObject_def objectMeta.defs)

text \<open>What an event enqueues for the machine reconciler, by the kind of its object.\<close>

lemma deliver_machine:
  "deliver (Machine_SetupWithManager E) ev = (case event_kind ev of
     KElementalMachine \<Rightarrow> ret (EnqueueRequestForObject ev)
   | KElementalHost \<Rightarrow> EnqueueRequestsFromMapFunc (\<lambda>x. ret (ElementalHostToElementalMachine x)) ev
   | KCapiMachine \<Rightarrow> EnqueueRequestsFromMapFunc (\<lambda>x. ret (MachineToElementalMachine x)) ev
   | KCapiCluster \<Rightarrow> (if accepts ClusterUnpausedAndInfrastructureReady ev
       then EnqueueRequestsFromMapFunc (ClusterToElementalMachines E) ev else ret [])
   | _ \<Rightarrow> ret [])"
  by (simp add: Machine_SetupWithManager_def builder_defs split: objectKind.split)

lemma accepts_cluster_update:
  "accepts ClusterUnpausedAndInfrastructureReady (UpdateEvent (ObjCapiCluster c) (ObjCapiCluster c')) \<longleftrightarrow>
     ccPaused c \<and> \<not> ccPaused c' \<or> \<not> ccInfrastructureReady c \<and> ccInfrastructureReady c'"
  by (simp add: ClusterUnpausedAndInfrastructureReady_def predicates_All_def predicates_Any_def
      ClusterCreateInfraReady_def ClusterCreateNotPaused_def ClusterUpdateInfraReady_def ClusterUpdateUnpaused_def)

lemma wp_ret_iff: "wp (ret a) Q \<longleftrightarrow> Q a []"
  by (auto simp: wp_def)

lemma wp_cluster_update:
  "wp (EnqueueRequestsFromMapFunc (ClusterToElementalMachines E) (UpdateEvent (ObjCapiCluster c) (ObjCapiCluster c')))
     (\<lambda>rs l. points_at req l (ObjCapiCluster c') \<longrightarrow> req \<in> set rs)"
  unfolding EnqueueRequestsFromMapFunc.simps ClusterToElementalMachines_def clientObject.case
  by (intro wp_intros) (auto simp: set_machine_requests)

text \<open>An update that brings what a machine waits for enqueues the machine, if the new object points at it.\<close>

lemma brings_delivers:
  assumes "brings a old new"
  shows "wp (deliver (Machine_SetupWithManager E) (UpdateEvent old new)) (\<lambda>rs l. points_at req l new \<longrightarrow> req \<in> set rs)"
proof (cases new)
  case (ObjCapiCluster c')
  with assms obtain c where "old = ObjCapiCluster c" "\<not> ccInfrastructureReady c" "ccInfrastructureReady c'"
    by (cases a; cases old) auto
  moreover from this have "deliver (Machine_SetupWithManager E) (UpdateEvent old new) =
      EnqueueRequestsFromMapFunc (ClusterToElementalMachines E) (UpdateEvent old new)"
    by (simp only: deliver_machine event_kind_def event_object.simps kind_of.simps objectKind.case accepts_cluster_update ObjCapiCluster) simp
  ultimately show ?thesis
    by (simp only: wp_cluster_update ObjCapiCluster)
qed (auto simp: deliver_machine event_kind_def wp_ret_iff ElementalHostToElementalMachine_def MachineToElementalMachine_def refKey_def)

lemma wp_findAvailableHost_any: "wp (findAvailableHost E em) (\<lambda>_ _. True)"
  unfolding findAvailableHost_def lookUpAlreadyLinkedHost_def lookUpNewAvailableHost_def
  by (intro wp_intros wp_kListElementalHosts) simp_all

lemma wp_associate_waits:
  "mHostRef em = None \<Longrightarrow> wp (associateElementalHost E now rp em m)
     (\<lambda>(res, em') l. snd res = None \<longrightarrow> fst res = rp \<or> mHostRef em' \<noteq> None)"
  unfolding associateElementalHost_def linkElementalHostToElementalMachine_def Let_def
  by (intro wp_intros wp_mono [OF wp_findAvailableHost_any]) auto

lemma wp_machine_setProviderID_any: "wp (machine_setProviderID E now em c) (\<lambda>_ _. True)"
  unfolding machine_setProviderID_def SetProviderID_def by (intro wp_intros) simp_all

lemma wp_normal_waits:
  "wp (machine_reconcileNormal E now rp c em m) (\<lambda>(res, em') l. snd res = None \<and> \<not> mReady em' \<longrightarrow>
     (case mHostRef em of
        None \<Rightarrow> fst res = rp \<or> mHostRef em' \<noteq> None
      | Some ref \<Rightarrow> fst res = rp \<or> (\<exists>h. EvGetElementalHost (refKey ref) (Inr h) \<in> set l \<and> \<not> host_up h)))"
proof (cases "mHostRef em")
  case None
  then show ?thesis
    unfolding machine_reconcileNormal_def Let_def
    by (intro wp_intros wp_mono [OF wp_associate_waits]) auto
next
  case (Some ref)
  then show ?thesis
    unfolding machine_reconcileNormal_def Let_def
    by (intro wp_intros wp_mono [OF wp_machine_setProviderID_any]) (auto simp: host_up_def refKey_def)
qed

text \<open>What a run of the machine reconciler leaves to events and what to the requeue.\<close>

definition woken_later :: "'w env \<Rightarrow> objectKey \<Rightarrow> reconcileResult \<Rightarrow> elementalMachine \<Rightarrow> event list \<Rightarrow> elementalMachine \<Rightarrow> bool" where
  "woken_later E req res before body after \<longleftrightarrow>
     (notDeleted before \<and> res = (0, None) \<and> \<not> mReady after \<longrightarrow>
        (\<exists>a. awaits before body after a \<and> (\<forall>old new. brings a old new \<longrightarrow>
           wp (deliver (Machine_SetupWithManager E) (UpdateEvent old new)) (\<lambda>rs l. points_at req l new \<longrightarrow> req \<in> set rs))))"

lemma ex_awaited:
  "(\<exists>a. P a) \<longleftrightarrow> P AwaitsOwner \<or> (\<exists>c. P (AwaitsInfrastructure c)) \<or> (\<exists>m. P (AwaitsBootstrapData m)) \<or>
     (\<exists>h. P (AwaitsHost h)) \<or> P JustLinked"
  by (metis awaited.exhaust)

lemma wp_owner_looked_up:
  "wp (GetOwnerMachine E obj) (\<lambda>r l. (r = Inr None \<longrightarrow> find_owner_machine (oOwnerReferences obj) = Inr None) \<and>
     (\<forall>m. r = Inr (Some m) \<longrightarrow> (\<exists>k. EvGetCapiMachine k (Inr m) \<in> set l)))"
  unfolding GetOwnerMachine_def by (intro wp_intros) auto

lemma wp_cluster_looked_up:
  "wp (GetClusterFromMetadata E obj) (\<lambda>r l. r \<noteq> Inr None \<and> (\<forall>c. r = Inr (Some c) \<longrightarrow> (\<exists>k. EvGetCapiCluster k (Inr c) \<in> set l)))"
  unfolding GetClusterFromMetadata_def GetClusterByName_def by (intro wp_intros) auto

lemma wp_machine_reconcileDelete_any: "wp (machine_reconcileDelete E em) (\<lambda>_ _. True)"
  unfolding machine_reconcileDelete_def by (intro wp_intros) simp_all

lemma wp_machine_body_waits:
  assumes "rp \<noteq> 0"
  shows "wp (machine_body E now rp em) (\<lambda>out l. notDeleted em \<and> fst out = (0, None) \<and> \<not> mReady (snd out) \<longrightarrow>
     (\<exists>a. awaits em l (snd out) a))"
  unfolding machine_body_def Let_def
  apply (intro wp_intros wp_mono [OF wp_owner_looked_up] wp_mono [OF wp_cluster_looked_up]
      wp_mono [OF wp_normal_waits] wp_mono [OF wp_machine_reconcileDelete_any])
                      apply (simp_all add: ex_awaited assms)
    apply (blast, blast)
  apply (auto split: option.splits simp: assms)
  done


text \<open>What no update brings, because the predicates drop it: an initialized control plane. The run asks for a requeue then.\<close>

lemma control_plane_dropped:
  "ccPaused c = ccPaused c' \<Longrightarrow> ccInfrastructureReady c = ccInfrastructureReady c' \<Longrightarrow>
     deliver (Machine_SetupWithManager E) (UpdateEvent (ObjCapiCluster c) (ObjCapiCluster c')) = ret []"
  by (simp only: deliver_machine event_kind_def event_object.simps kind_of.simps objectKind.case accepts_cluster_update) simp

section \<open>Clusters that are managed elsewhere\<close>

lemma deliver_cluster:
  "deliver (Cluster_SetupWithManager E) ev = (case event_kind ev of
     KElementalCluster \<Rightarrow> if accepts ResourceIsNotExternallyManaged ev then ret (EnqueueRequestForObject ev) else ret []
   | KCapiCluster \<Rightarrow> (if accepts ResourceIsNotExternallyManaged ev \<and> accepts ClusterUnpaused ev
       then EnqueueRequestsFromMapFunc (ClusterToInfrastructureMapFunc E InfraGroup ''ElementalCluster'') ev else ret [])
   | _ \<Rightarrow> ret [])"
  by (simp add: Cluster_SetupWithManager_def builder_defs split: objectKind.split)

text \<open>A request for a cluster that is not managed elsewhere, as the event shows it or as it was read for the event.\<close>

definition ours :: "watchEvent \<Rightarrow> event list \<Rightarrow> objectKey \<Rightarrow> bool" where
  "ours ev l k \<longleftrightarrow>
     (\<exists>c. event_object ev = ObjElementalCluster c \<and> k = ObjectKeyFromObject c \<and> \<not> IsExternallyManaged c) \<or>
     (\<exists>c. EvGetElementalCluster k (Inr c) \<in> set l \<and> \<not> IsExternallyManaged c)"

lemma accepts_managed: "accepts ResourceIsNotExternallyManaged ev \<longleftrightarrow> \<not> IsExternallyManaged (object_meta (event_object ev))"
  by (cases ev) (simp_all add: ResourceIsNotExternallyManaged_def)

lemma EnqueueRequestForObject_object: "EnqueueRequestForObject ev = [object_key (event_object ev)]"
  by (cases ev) simp_all

lemma IsExternallyManaged_meta [simp]: "IsExternallyManaged (meta_of x) = IsExternallyManaged x"
  by (simp add: IsExternallyManaged_def meta_of_def objectMeta.defs)

text \<open>An event handler enqueues what the map function answers for the objects of the event.\<close>

lemma wp_EnqueueRequestsFromMapFunc:
  assumes "\<And>x. wp (fn x) (\<lambda>rs l. \<forall>k \<in> set rs. P l k)" and "\<And>l1 l2 k. P l1 k \<Longrightarrow> P (l1 @ l2) k" and "\<And>l1 l2 k. P l2 k \<Longrightarrow> P (l1 @ l2) k"
  shows "wp (EnqueueRequestsFromMapFunc fn ev) (\<lambda>rs l. \<forall>k \<in> set rs. P l k)"
  by (cases ev; simp; intro wp_intros wp_mono [OF assms(1)]) (auto intro: assms(2,3))

lemma wp_ClusterToInfrastructureMapFunc:
  "wp (ClusterToInfrastructureMapFunc E g n x) (\<lambda>rs l. \<forall>k \<in> set rs. \<exists>c. EvGetElementalCluster k (Inr c) \<in> set l \<and> \<not> IsExternallyManaged c)"
  unfolding ClusterToInfrastructureMapFunc_def
  by (cases x; simp; intro wp_intros) auto

text \<open>
  C13. Clusters managed elsewhere are left alone. Whatever event reaches the watches of the cluster reconciler, it enqueues a request for
  an ElementalCluster only if that cluster, as the event shows it or as it was read for the event, does not carry the
  managed-by annotation.
\<close>

theorem Externally_managed_left_alone:
  "wp (deliver (Cluster_SetupWithManager E) ev) (\<lambda>rs l. list_all (ours ev l) rs)"
proof (cases "event_object ev")
  case (ObjElementalCluster c)
  then show ?thesis
    by (auto simp: deliver_cluster event_kind_def wp_ret_iff accepts_managed EnqueueRequestForObject_object ours_def)
next
  case (ObjCapiCluster c)
  have "wp (EnqueueRequestsFromMapFunc (ClusterToInfrastructureMapFunc E g n) ev) (\<lambda>rs l. \<forall>k \<in> set rs. ours ev l k)" for g n
    by (rule wp_mono [OF wp_EnqueueRequestsFromMapFunc [OF wp_ClusterToInfrastructureMapFunc]]) (auto simp: ours_def)
  with ObjCapiCluster show ?thesis
    by (simp add: deliver_cluster event_kind_def wp_ret_iff list_all_iff)
qed (simp_all add: deliver_cluster event_kind_def wp_ret_iff)

end
