(* ===== verification/Manager_Setup.thy ===== *)
theory Manager_Setup
  imports Registration_Controller
begin

text \<open>
  What \<^verbatim>\<open>cmd/manager/main.go\<close> reads from its environment: the URL of the API, the default CA
  certificate and the TLS settings of the API server. The process environment, the file system and
  \<^verbatim>\<open>url.Parse\<close> are parameters; every error ends the process.
\<close>

record managerEnv =
  meGetenv :: "string \<Rightarrow> string" \<comment> \<open>the empty string where it is not set\<close>
  meReadFile :: "string \<Rightarrow> goerr + string"
  meParseURL :: "string \<Rightarrow> goerr + string"

definition envEnableDefaultCA :: string where "envEnableDefaultCA = ''ELEMENTAL_ENABLE_DEFAULT_CA''"
definition envAPIEndpoint :: string where "envAPIEndpoint = ''ELEMENTAL_API_ENDPOINT''"
definition envAPIProtocol :: string where "envAPIProtocol = ''ELEMENTAL_API_PROTOCOL''"
definition envAPITLSEnable :: string where "envAPITLSEnable = ''ELEMENTAL_API_ENABLE_TLS''"
definition envAPITLSCA :: string where "envAPITLSCA = ''ELEMENTAL_API_TLS_CA''"
definition envAPITLSPrivateKey :: string where "envAPITLSPrivateKey = ''ELEMENTAL_API_TLS_PRIVATE_KEY''"
definition envAPITLSCertificate :: string where "envAPITLSCertificate = ''ELEMENTAL_API_TLS_CERTIFICATE''"

lemmas manager_envs = envEnableDefaultCA_def envAPIEndpoint_def envAPIProtocol_def envAPITLSEnable_def envAPITLSCA_def
  envAPITLSPrivateKey_def envAPITLSCertificate_def

definition eEndpointNotSet :: goerr where
  "eEndpointNotSet = new_err ErrElementalAPIEndpointNotSet ''ELEMENTAL_API_ENDPOINT environment variable is not set''"
definition eProtocolNotSet :: goerr where
  "eProtocolNotSet = new_err ErrElementalAPIProtocolNotSet ''ELEMENTAL_API_PROTOCOL environment variable is not set''"
definition eProtocolUnsupported :: goerr where
  "eProtocolUnsupported = new_err ErrElementalAPIProtocolUnsupported
     ''ELEMENTAL_API_PROTOCOL environment variable defines an unsupported protocol''"

text \<open>The first test is on the name of the variable, as in the code.\<close>

definition formatAPIURL :: "managerEnv \<Rightarrow> goerr + string" where
  "formatAPIURL V =
     (let endpoint = meGetenv V envAPIEndpoint in
      if envAPIEndpoint = [] then Inl eEndpointNotSet
      else
        (let protocol = meGetenv V envAPIProtocol in
         if protocol = [] then Inl eProtocolNotSet
         else if protocol \<noteq> ''http'' \<and> protocol \<noteq> ''https''
         then Inl (wrapf (''parsing protocol '' @ sq protocol) eProtocolUnsupported)
         else (case meParseURL V (protocol @ ''://'' @ endpoint) of
             Inl e \<Rightarrow> Inl (wrapf ''formatting Elemental API URL'' e) | Inr url \<Rightarrow> Inr url)))"

definition default_ca :: "managerEnv \<Rightarrow> goerr + string" where
  "default_ca V =
     (if meGetenv V envEnableDefaultCA = ''true''
      then (case meReadFile V (meGetenv V envAPITLSCA) of Inl e \<Rightarrow> Inl e | Inr bytes \<Rightarrow> Inr bytes)
      else Inr [])"

text \<open>The set-up of the registration controller; an error ends the process.\<close>

definition registration_setup :: "managerEnv \<Rightarrow> goerr + registrationReconciler" where
  "registration_setup V = (case formatAPIURL V of
     Inl e \<Rightarrow> Inl e
   | Inr url \<Rightarrow> (case default_ca V of
       Inl e \<Rightarrow> Inl e | Inr ca \<Rightarrow> Inr \<lparr>rrAPIUrl = Some url, rrDefaultCACert = ca\<rparr>))"

text \<open>The settings of the API server: whether it uses TLS, its key and its certificate.\<close>

definition api_server_settings :: "managerEnv \<Rightarrow> bool \<times> string \<times> string" where
  "api_server_settings V = (meGetenv V envAPITLSEnable = ''true'', meGetenv V envAPITLSPrivateKey,
     meGetenv V envAPITLSCertificate)"

lemma registration_setup_Inr_iff:
  "registration_setup V = Inr R \<longleftrightarrow>
     (meGetenv V envAPIProtocol = ''http'' \<or> meGetenv V envAPIProtocol = ''https'') \<and>
     (\<exists>url ca. meParseURL V (meGetenv V envAPIProtocol @ ''://'' @ meGetenv V envAPIEndpoint) = Inr url \<and>
        default_ca V = Inr ca \<and> R = \<lparr>rrAPIUrl = Some url, rrDefaultCACert = ca\<rparr>)"
  by (auto simp: registration_setup_def formatAPIURL_def envAPIEndpoint_def Let_def split: sum.splits if_splits)

text \<open>An endpoint that is not set is not noticed.\<close>

lemma formatAPIURL_no_endpoint:
  "meGetenv V envAPIEndpoint = [] \<Longrightarrow> meGetenv V envAPIProtocol = ''https'' \<Longrightarrow> meParseURL V ''https://'' = Inr url \<Longrightarrow>
     formatAPIURL V = Inr url"
  by (simp add: formatAPIURL_def envAPIEndpoint_def)

end
