(* ===== verification/Manager_Start.thy ===== *)
theory Manager_Start
  imports Manager_Setup Api_Server "HOL-Library.Sublist"
begin

text \<open>
  The start of the manager: \<^verbatim>\<open>main\<close> of \<^verbatim>\<open>cmd/manager/main.go\<close> after the flags are parsed, and the
  life of the API server, \<^verbatim>\<open>internal/api/server.go\<close>. The calls of controller-runtime, of the cluster cache
  tracker and of \<^verbatim>\<open>net/http\<close> are the environment: each may answer any error.
\<close>

section \<open>Calls\<close>

record managerFlags =
  mfMetricsAddr :: string
  mfProbeAddr :: string
  mfLeaderElect :: bool

text \<open>The defaults of the flags.\<close>

definition default_flags :: managerFlags where
  "default_flags = \<lparr>mfMetricsAddr = '':8080'', mfProbeAddr = '':8081'', mfLeaderElect = False\<rparr>"

record managerOptions =
  moMetricsBindAddress :: string
  moHealthProbeBindAddress :: string
  moLeaderElection :: bool
  moLeaderElectionID :: string

record apiServer =
  asPort :: nat
  asUseTLS :: bool
  asPrivKey :: string
  asCertificate :: string

text \<open>The controllers, with the settings main gives them besides the client and the scheme of the manager.\<close>

datatype controllerSetup =
    ElementalHostController
  | ClusterCacheController
  | ElementalMachineController int
  | ElementalMachineTemplateController
  | ElementalClusterController
  | ElementalClusterTemplateController
  | ElementalRegistrationController registrationReconciler

datatype startCall =
    NewManager managerOptions
  | SetupController controllerSetup
  | NewClusterCacheTracker string
  | AddHealthzCheck string
  | AddReadyzCheck string
  | GoServer apiServer \<comment> \<open>the goroutine that runs the API server\<close>
  | StartManager

type_synonym startEvent = "startCall \<times> goerr option"

text \<open>What the process has to answer, and how it ends: \<^verbatim>\<open>os.Exit\<close> after an error was logged, or the return of main.\<close>

type_synonym 'w process = "startCall \<Rightarrow> 'w \<Rightarrow> goerr option \<times> 'w"

datatype processEnd = Exit int string goerr | Returned

definition start_call :: "'w process \<Rightarrow> startCall \<Rightarrow> ('w, startEvent, goerr option) prog" where
  "start_call P c = ask (P c) (\<lambda>r. (c, r))"

section \<open>The logger\<close>

definition envEnableDebug :: string where "envEnableDebug = ''ELEMENTAL_ENABLE_DEBUG''"

record zapOptions =
  zoDevelopment :: bool
  zoDebugLevel :: bool

definition logger_options :: "managerEnv \<Rightarrow> zapOptions" where
  "logger_options V =
     (let debug = (meGetenv V envEnableDebug = ''true'')
      in if debug then \<lparr>zoDevelopment = True, zoDebugLevel = True\<rparr> else \<lparr>zoDevelopment = False, zoDebugLevel = False\<rparr>)"

section \<open>main\<close>

definition defaultAPIPort :: nat where "defaultAPIPort = 9090"

definition manager_options :: "managerFlags \<Rightarrow> managerOptions" where
  "manager_options F = \<lparr>moMetricsBindAddress = mfMetricsAddr F, moHealthProbeBindAddress = mfProbeAddr F,
     moLeaderElection = mfLeaderElect F, moLeaderElectionID = ''a422e8b5.cluster.x-k8s.io''\<rparr>"

definition NewServer :: "nat \<Rightarrow> bool \<Rightarrow> string \<Rightarrow> string \<Rightarrow> apiServer" where
  "NewServer port useTLS privKey certificate =
     \<lparr>asPort = port, asUseTLS = useTLS, asPrivKey = privKey, asCertificate = certificate\<rparr>"

text \<open>A step of main: an error is logged and ends the process.\<close>

definition or_exit ::
  "'w process \<Rightarrow> startCall \<Rightarrow> string \<Rightarrow> ('w, startEvent, processEnd) prog \<Rightarrow> ('w, startEvent, processEnd) prog"
where
  "or_exit P c msg rest = do {
     r \<leftarrow> start_call P c;
     (case r of Some e \<Rightarrow> ret (Exit 1 msg e) | None \<Rightarrow> rest)
   }"

definition start_server_and_manager :: "'w process \<Rightarrow> managerEnv \<Rightarrow> ('w, startEvent, processEnd) prog" where
  "start_server_and_manager P V =
     (case api_server_settings V of (useTLS, privateKey, certificate) \<Rightarrow> do {
        started \<leftarrow> start_call P (GoServer (NewServer defaultAPIPort useTLS privateKey certificate));
        or_exit P StartManager ''problem running manager'' (ret Returned)
      })"

definition start_registration :: "'w process \<Rightarrow> managerEnv \<Rightarrow> ('w, startEvent, processEnd) prog" where
  "start_registration P V = (case formatAPIURL V of
     Inl e \<Rightarrow> ret (Exit 1 ''formatting Elemental API URL'' e)
   | Inr url \<Rightarrow> (case default_ca V of
       Inl e \<Rightarrow> ret (Exit 1 ''reading Elemental API TLS CA certificate'' e)
     | Inr ca \<Rightarrow>
         or_exit P (SetupController (ElementalRegistrationController \<lparr>rrAPIUrl = Some url, rrDefaultCACert = ca\<rparr>))
           ''unable to create controller'' (
         or_exit P (AddHealthzCheck ''healthz'') ''unable to set up health check'' (
         or_exit P (AddReadyzCheck ''readyz'') ''unable to set up ready check'' (
         start_server_and_manager P V)))))"

definition manager_main :: "'w process \<Rightarrow> managerEnv \<Rightarrow> managerFlags \<Rightarrow> ('w, startEvent, processEnd) prog" where
  "manager_main P V F =
     or_exit P (NewManager (manager_options F)) ''unable to start manager'' (
     or_exit P (SetupController ElementalHostController) ''unable to create controller'' (
     or_exit P (NewClusterCacheTracker ''elemental-controller-manager'') ''unable to setup ClusterCacheTracker'' (
     or_exit P (SetupController ClusterCacheController) ''unable to create controller'' (
     or_exit P (SetupController (ElementalMachineController DefaultRequeuePeriod)) ''unable to create controller'' (
     or_exit P (SetupController ElementalMachineTemplateController) ''unable to create controller'' (
     or_exit P (SetupController ElementalClusterController) ''unable to create controller'' (
     or_exit P (SetupController ElementalClusterTemplateController) ''unable to create controller'' (
     start_registration P V))))))))"

section \<open>The API server\<close>

fun decimal :: "nat \<Rightarrow> string" where
  "decimal n = (if n < 10 then [char_of (48 + n)] else decimal (n div 10) @ [char_of (48 + n mod 10)])"

declare decimal.simps [simp del]

definition eServerClosed :: goerr where
  "eServerClosed = new_err ErrServerClosed ''http: Server closed''"

record httpServer =
  hsHandler :: "route list"
  hsAddr :: string
  hsWriteTimeout :: int
  hsReadTimeout :: int

datatype serverCall =
    GoListen httpServer \<comment> \<open>the goroutine that listens\<close>
  | ListenAndServe httpServer
  | ListenAndServeTLS httpServer string string
  | AwaitDone \<comment> \<open>the receive from \<open>ctx.Done()\<close>\<close>
  | Shutdown int

type_synonym 'w serverProcess = "serverCall \<Rightarrow> 'w \<Rightarrow> goerr option \<times> 'w"

definition server_call :: "'w serverProcess \<Rightarrow> serverCall \<Rightarrow> ('w, serverCall \<times> goerr option, goerr option) prog" where
  "server_call P c = ask (P c) (\<lambda>r. (c, r))"

definition http_server :: "apiServer \<Rightarrow> httpServer" where
  "http_server s = \<lparr>hsHandler = NewRouter, hsAddr = '':'' @ decimal (asPort s), hsWriteTimeout = 30 * 1000000000,
     hsReadTimeout = 30 * 1000000000\<rparr>"

text \<open>The goroutine of \<^verbatim>\<open>Start\<close>; the error of a server that was shut down is not one.\<close>

definition server_listen :: "'w serverProcess \<Rightarrow> apiServer \<Rightarrow> ('w, serverCall \<times> goerr option, processEnd) prog" where
  "server_listen P s = do {
     r \<leftarrow> (if asUseTLS s then server_call P (ListenAndServeTLS (http_server s) (asCertificate s) (asPrivKey s))
          else server_call P (ListenAndServe (http_server s)));
     (case r of
        Some e \<Rightarrow> if e \<noteq> eServerClosed then ret (Exit 1 ''FATAL: listening for TCP incoming connections'' e) else ret Returned
      | None \<Rightarrow> ret Returned)
   }"

definition server_Start :: "'w serverProcess \<Rightarrow> apiServer \<Rightarrow> ('w, serverCall \<times> goerr option, goerr option) prog" where
  "server_Start P s = do {
     started \<leftarrow> server_call P (GoListen (http_server s));
     waited \<leftarrow> server_call P AwaitDone;
     stopped \<leftarrow> server_call P (Shutdown (5 * 1000000000));
     ret None
   }"

text \<open>The goroutine of main that runs the server.\<close>

definition run_api_server :: "'w serverProcess \<Rightarrow> apiServer \<Rightarrow> ('w, serverCall \<times> goerr option, processEnd) prog" where
  "run_api_server P s = do {
     r \<leftarrow> server_Start P s;
     (case r of Some e \<Rightarrow> ret (Exit 1 ''running Elemental API server'' e) | None \<Rightarrow> ret Returned)
   }"

lemma wp_server_call [wp_intros]: "(\<And>r. Q r [(c, r)]) \<Longrightarrow> wp (server_call P c) Q"
  unfolding server_call_def by (rule wp_ask)

text \<open>The server listens until the context is done and is then shut down, whether or not that fails; main is never told of an error.\<close>

lemma run_api_server_ends:
  "wp (run_api_server P s) (\<lambda>res l. res = Returned \<and> map fst l = [GoListen (http_server s), AwaitDone, Shutdown 5000000000])"
  unfolding run_api_server_def server_Start_def by (intro wp_intros) simp_all

text \<open>Only a server that cannot listen ends the process; TLS is used exactly when it is enabled.\<close>

lemma server_listen_ends:
  "wp (server_listen P s) (\<lambda>res l. \<exists>r. l = [(if asUseTLS s
      then ListenAndServeTLS (http_server s) (asCertificate s) (asPrivKey s) else ListenAndServe (http_server s), r)] \<and>
     (res = Returned \<longleftrightarrow> r = None \<or> r = Some eServerClosed) \<and> (\<forall>n msg e. res = Exit n msg e \<longrightarrow> n = 1 \<and> r = Some e))"
  unfolding server_listen_def by (intro wp_intros) simp_all

section \<open>The order of the start\<close>

text \<open>The calls of a start that goes well, in their order.\<close>

definition startup_plan :: "managerEnv \<Rightarrow> managerFlags \<Rightarrow> startCall list" where
  "startup_plan V F =
     [NewManager (manager_options F), SetupController ElementalHostController,
      NewClusterCacheTracker ''elemental-controller-manager'', SetupController ClusterCacheController,
      SetupController (ElementalMachineController DefaultRequeuePeriod), SetupController ElementalMachineTemplateController,
      SetupController ElementalClusterController, SetupController ElementalClusterTemplateController] @
     (case registration_setup V of Inl _ \<Rightarrow> [] | Inr R \<Rightarrow>
       [SetupController (ElementalRegistrationController R), AddHealthzCheck ''healthz'', AddReadyzCheck ''readyz'',
        GoServer \<lparr>asPort = 9090, asUseTLS = (meGetenv V envAPITLSEnable = ''true''),
          asPrivKey = meGetenv V envAPITLSPrivateKey, asCertificate = meGetenv V envAPITLSCertificate\<rparr>,
        StartManager])"

fun is_go :: "startCall \<Rightarrow> bool" where
  "is_go (GoServer _) = True"
| "is_go _ = False"

definition went_well :: "startEvent \<Rightarrow> bool" where
  "went_well ev \<longleftrightarrow> is_go (fst ev) \<or> snd ev = None"

definition start_outcome :: "managerEnv \<Rightarrow> managerFlags \<Rightarrow> processEnd \<Rightarrow> startEvent list \<Rightarrow> bool" where
  "start_outcome V F res l \<longleftrightarrow>
     prefix (map fst l) (startup_plan V F) \<and> list_all went_well (butlast l) \<and>
     (case res of
        Returned \<Rightarrow> (\<exists>R. registration_setup V = Inr R) \<and> map fst l = startup_plan V F \<and> list_all went_well l
      | Exit n msg e \<Rightarrow> n = 1 \<and>
          (if map fst l = startup_plan V F \<and> list_all went_well l then registration_setup V = Inl e
           else l \<noteq> [] \<and> snd (last l) = Some e))"

text \<open>The rule of a step: a call that fails ends the trace, one that goes well is followed by the rest.\<close>

lemma wp_or_exit:
  assumes "\<And>e. Q (Exit 1 msg e) [(c, Some e)]" and "wp rest (\<lambda>a l. Q a ((c, None) # l))"
  shows "wp (or_exit P c msg rest) Q"
  unfolding or_exit_def start_call_def
  by (intro wp_intros) (auto simp: assms intro: wp_mono [OF assms(2)])

lemma start_plan_simps:
  "api_server_settings V = (t, k, c) \<Longrightarrow>
    \<lparr>asPort = 9090, asUseTLS = (meGetenv V envAPITLSEnable = ''true''), asPrivKey = meGetenv V envAPITLSPrivateKey,
     asCertificate = meGetenv V envAPITLSCertificate\<rparr> = NewServer defaultAPIPort t k c"
  "registration_setup V = (case formatAPIURL V of Inl e \<Rightarrow> Inl e | Inr url \<Rightarrow> (case default_ca V of
     Inl e \<Rightarrow> Inl e | Inr ca \<Rightarrow> Inr \<lparr>rrAPIUrl = Some url, rrDefaultCACert = ca\<rparr>))"
  by (auto simp: api_server_settings_def NewServer_def defaultAPIPort_def registration_setup_def)

text \<open>
  C17. The manager starts in order. Whatever the process answers, main makes the calls of the plan in their order and stops at the
  first that fails, with exit code 1 and its error; it also exits with 1 where the environment gives no API URL or an unreadable
  CA. So the API server accepts requests only once all reconcilers and both health checks are registered, and main returns only when the
  manager was started and stopped without an error.
\<close>

theorem manager_main_in_order: "wp (manager_main P V F) (start_outcome V F)"
  unfolding manager_main_def start_registration_def start_server_and_manager_def start_call_def
  by (intro wp_or_exit wp_intros)
    (auto simp: start_outcome_def startup_plan_def start_plan_simps went_well_def)

end
