(* ===== verification/Agent_Calls.thy ===== *)
theory Agent_Calls
  imports Api_Requests
begin

text \<open>
  The environment of the agent's phases: the interfaces \<^verbatim>\<open>client.Client\<close>
  (\<^verbatim>\<open>internal/agent/client\<close>) and \<^verbatim>\<open>osplugin.Plugin\<close>
  (\<^verbatim>\<open>pkg/agent/osplugin\<close>), the file system where a phase looks at it itself, random
  identifiers and the clock it sleeps on. The phases are written against these interfaces, so they are a record of
  functions on a world of any type; \<open>Agent_Client\<close>, \<open>Elemental_Plugin\<close> and
  \<open>Dummy_Plugin\<close> model the implementations in the repository. Every call is an event of the trace.
\<close>

record 'w agent =
  ag_GetRegistration :: "'w \<Rightarrow> (goerr + registrationResponse) \<times> 'w"
  ag_CreateHost :: "hostCreateRequest \<Rightarrow> 'w \<Rightarrow> (goerr option) \<times> 'w"
  ag_DeleteHost :: "string \<Rightarrow> 'w \<Rightarrow> (goerr option) \<times> 'w"
  ag_PatchHost :: "hostPatchRequest \<Rightarrow> string \<Rightarrow> 'w \<Rightarrow> (goerr + hostResponse) \<times> 'w"
  ag_GetBootstrap :: "string \<Rightarrow> 'w \<Rightarrow> (goerr + bootstrapResponse) \<times> 'w"
  ag_GetHostname :: "'w \<Rightarrow> (goerr + string) \<times> 'w"
  ag_InstallCloudInit :: "string \<Rightarrow> 'w \<Rightarrow> (goerr option) \<times> 'w"
  ag_InstallHostname :: "string \<Rightarrow> 'w \<Rightarrow> (goerr option) \<times> 'w"
  ag_InstallFile :: "string \<Rightarrow> string \<Rightarrow> nat \<Rightarrow> int \<Rightarrow> int \<Rightarrow> 'w \<Rightarrow> (goerr option) \<times> 'w"
  ag_Install :: "string \<Rightarrow> 'w \<Rightarrow> (goerr option) \<times> 'w"
  ag_Bootstrap :: "string \<Rightarrow> string \<Rightarrow> 'w \<Rightarrow> (goerr option) \<times> 'w"
  ag_ReconcileOSVersion :: "string \<Rightarrow> 'w \<Rightarrow> (goerr + bool) \<times> 'w"
  ag_TriggerReset :: "'w \<Rightarrow> (goerr option) \<times> 'w"
  ag_Reset :: "string \<Rightarrow> 'w \<Rightarrow> (goerr option) \<times> 'w"
  ag_PowerOff :: "'w \<Rightarrow> (goerr option) \<times> 'w"
  ag_Reboot :: "'w \<Rightarrow> (goerr option) \<times> 'w"
  ag_Stat :: "string \<Rightarrow> 'w \<Rightarrow> (goerr option) \<times> 'w"
  ag_NewRandom :: "'w \<Rightarrow> (goerr + string) \<times> 'w"
  ag_Sleep :: "int \<Rightarrow> 'w \<Rightarrow> (unit) \<times> 'w"

datatype call =
    CallGetRegistration "goerr + registrationResponse"
  | CallCreateHost "hostCreateRequest" "goerr option"
  | CallDeleteHost "string" "goerr option"
  | CallPatchHost "hostPatchRequest" "string" "goerr + hostResponse"
  | CallGetBootstrap "string" "goerr + bootstrapResponse"
  | CallGetHostname "goerr + string"
  | CallInstallCloudInit "string" "goerr option"
  | CallInstallHostname "string" "goerr option"
  | CallInstallFile "string" "string" "nat" "int" "int" "goerr option"
  | CallInstall "string" "goerr option"
  | CallBootstrap "string" "string" "goerr option"
  | CallReconcileOSVersion "string" "goerr + bool"
  | CallTriggerReset "goerr option"
  | CallReset "string" "goerr option"
  | CallPowerOff "goerr option"
  | CallReboot "goerr option"
  | CallStat "string" "goerr option"
  | CallNewRandom "goerr + string"
  | CallSleep "int" "unit"

text \<open>The error a call answered, if any.\<close>

primrec call_error :: "call \<Rightarrow> goerr option" where
  "call_error (CallGetRegistration r) = (case r of Inl e \<Rightarrow> Some e | Inr _ \<Rightarrow> None)"
| "call_error (CallCreateHost x0 r) = r"
| "call_error (CallDeleteHost x0 r) = r"
| "call_error (CallPatchHost x0 x1 r) = (case r of Inl e \<Rightarrow> Some e | Inr _ \<Rightarrow> None)"
| "call_error (CallGetBootstrap x0 r) = (case r of Inl e \<Rightarrow> Some e | Inr _ \<Rightarrow> None)"
| "call_error (CallGetHostname r) = (case r of Inl e \<Rightarrow> Some e | Inr _ \<Rightarrow> None)"
| "call_error (CallInstallCloudInit x0 r) = r"
| "call_error (CallInstallHostname x0 r) = r"
| "call_error (CallInstallFile x0 x1 x2 x3 x4 r) = r"
| "call_error (CallInstall x0 r) = r"
| "call_error (CallBootstrap x0 x1 r) = r"
| "call_error (CallReconcileOSVersion x0 r) = (case r of Inl e \<Rightarrow> Some e | Inr _ \<Rightarrow> None)"
| "call_error (CallTriggerReset r) = r"
| "call_error (CallReset x0 r) = r"
| "call_error (CallPowerOff r) = r"
| "call_error (CallReboot r) = r"
| "call_error (CallStat x0 r) = r"
| "call_error (CallNewRandom r) = (case r of Inl e \<Rightarrow> Some e | Inr _ \<Rightarrow> None)"
| "call_error (CallSleep x0 r) = None"

definition failed :: "call \<Rightarrow> bool" where
  "failed c \<longleftrightarrow> call_error c \<noteq> None"

section \<open>The calls\<close>

definition cGetRegistration :: "'w agent \<Rightarrow> ('w, call, goerr + registrationResponse) prog" where
  "cGetRegistration G = ask (ag_GetRegistration G) CallGetRegistration"

definition cCreateHost :: "'w agent \<Rightarrow> hostCreateRequest \<Rightarrow> ('w, call, goerr option) prog" where
  "cCreateHost G x0 = ask (ag_CreateHost G x0) (CallCreateHost x0)"

definition cDeleteHost :: "'w agent \<Rightarrow> string \<Rightarrow> ('w, call, goerr option) prog" where
  "cDeleteHost G x0 = ask (ag_DeleteHost G x0) (CallDeleteHost x0)"

definition cPatchHost :: "'w agent \<Rightarrow> hostPatchRequest \<Rightarrow> string \<Rightarrow> ('w, call, goerr + hostResponse) prog" where
  "cPatchHost G x0 x1 = ask (ag_PatchHost G x0 x1) (CallPatchHost x0 x1)"

definition cGetBootstrap :: "'w agent \<Rightarrow> string \<Rightarrow> ('w, call, goerr + bootstrapResponse) prog" where
  "cGetBootstrap G x0 = ask (ag_GetBootstrap G x0) (CallGetBootstrap x0)"

definition cGetHostname :: "'w agent \<Rightarrow> ('w, call, goerr + string) prog" where
  "cGetHostname G = ask (ag_GetHostname G) CallGetHostname"

definition cInstallCloudInit :: "'w agent \<Rightarrow> string \<Rightarrow> ('w, call, goerr option) prog" where
  "cInstallCloudInit G x0 = ask (ag_InstallCloudInit G x0) (CallInstallCloudInit x0)"

definition cInstallHostname :: "'w agent \<Rightarrow> string \<Rightarrow> ('w, call, goerr option) prog" where
  "cInstallHostname G x0 = ask (ag_InstallHostname G x0) (CallInstallHostname x0)"

definition cInstallFile :: "'w agent \<Rightarrow> string \<Rightarrow> string \<Rightarrow> nat \<Rightarrow> int \<Rightarrow> int \<Rightarrow> ('w, call, goerr option) prog" where
  "cInstallFile G x0 x1 x2 x3 x4 = ask (ag_InstallFile G x0 x1 x2 x3 x4) (CallInstallFile x0 x1 x2 x3 x4)"

definition cInstall :: "'w agent \<Rightarrow> string \<Rightarrow> ('w, call, goerr option) prog" where
  "cInstall G x0 = ask (ag_Install G x0) (CallInstall x0)"

definition cBootstrap :: "'w agent \<Rightarrow> string \<Rightarrow> string \<Rightarrow> ('w, call, goerr option) prog" where
  "cBootstrap G x0 x1 = ask (ag_Bootstrap G x0 x1) (CallBootstrap x0 x1)"

definition cReconcileOSVersion :: "'w agent \<Rightarrow> string \<Rightarrow> ('w, call, goerr + bool) prog" where
  "cReconcileOSVersion G x0 = ask (ag_ReconcileOSVersion G x0) (CallReconcileOSVersion x0)"

definition cTriggerReset :: "'w agent \<Rightarrow> ('w, call, goerr option) prog" where
  "cTriggerReset G = ask (ag_TriggerReset G) CallTriggerReset"

definition cReset :: "'w agent \<Rightarrow> string \<Rightarrow> ('w, call, goerr option) prog" where
  "cReset G x0 = ask (ag_Reset G x0) (CallReset x0)"

definition cPowerOff :: "'w agent \<Rightarrow> ('w, call, goerr option) prog" where
  "cPowerOff G = ask (ag_PowerOff G) CallPowerOff"

definition cReboot :: "'w agent \<Rightarrow> ('w, call, goerr option) prog" where
  "cReboot G = ask (ag_Reboot G) CallReboot"

definition cStat :: "'w agent \<Rightarrow> string \<Rightarrow> ('w, call, goerr option) prog" where
  "cStat G x0 = ask (ag_Stat G x0) (CallStat x0)"

definition cNewRandom :: "'w agent \<Rightarrow> ('w, call, goerr + string) prog" where
  "cNewRandom G = ask (ag_NewRandom G) CallNewRandom"

definition cSleep :: "'w agent \<Rightarrow> int \<Rightarrow> ('w, call, unit) prog" where
  "cSleep G x0 = ask (ag_Sleep G x0) (CallSleep x0)"

section \<open>Their rules\<close>

lemma wp_cGetRegistration [wp_intros]: "(\<And>r. Q r [CallGetRegistration r]) \<Longrightarrow> wp (cGetRegistration G) Q"
  by (simp add: cGetRegistration_def wp_ask_any)

lemma wp_cCreateHost [wp_intros]: "(\<And>r. Q r [CallCreateHost x0 r]) \<Longrightarrow> wp (cCreateHost G x0) Q"
  by (simp add: cCreateHost_def wp_ask_any)

lemma wp_cDeleteHost [wp_intros]: "(\<And>r. Q r [CallDeleteHost x0 r]) \<Longrightarrow> wp (cDeleteHost G x0) Q"
  by (simp add: cDeleteHost_def wp_ask_any)

lemma wp_cPatchHost [wp_intros]: "(\<And>r. Q r [CallPatchHost x0 x1 r]) \<Longrightarrow> wp (cPatchHost G x0 x1) Q"
  by (simp add: cPatchHost_def wp_ask_any)

lemma wp_cGetBootstrap [wp_intros]: "(\<And>r. Q r [CallGetBootstrap x0 r]) \<Longrightarrow> wp (cGetBootstrap G x0) Q"
  by (simp add: cGetBootstrap_def wp_ask_any)

lemma wp_cGetHostname [wp_intros]: "(\<And>r. Q r [CallGetHostname r]) \<Longrightarrow> wp (cGetHostname G) Q"
  by (simp add: cGetHostname_def wp_ask_any)

lemma wp_cInstallCloudInit [wp_intros]: "(\<And>r. Q r [CallInstallCloudInit x0 r]) \<Longrightarrow> wp (cInstallCloudInit G x0) Q"
  by (simp add: cInstallCloudInit_def wp_ask_any)

lemma wp_cInstallHostname [wp_intros]: "(\<And>r. Q r [CallInstallHostname x0 r]) \<Longrightarrow> wp (cInstallHostname G x0) Q"
  by (simp add: cInstallHostname_def wp_ask_any)

lemma wp_cInstallFile [wp_intros]: "(\<And>r. Q r [CallInstallFile x0 x1 x2 x3 x4 r]) \<Longrightarrow> wp (cInstallFile G x0 x1 x2 x3 x4) Q"
  by (simp add: cInstallFile_def wp_ask_any)

lemma wp_cInstall [wp_intros]: "(\<And>r. Q r [CallInstall x0 r]) \<Longrightarrow> wp (cInstall G x0) Q"
  by (simp add: cInstall_def wp_ask_any)

lemma wp_cBootstrap [wp_intros]: "(\<And>r. Q r [CallBootstrap x0 x1 r]) \<Longrightarrow> wp (cBootstrap G x0 x1) Q"
  by (simp add: cBootstrap_def wp_ask_any)

lemma wp_cReconcileOSVersion [wp_intros]: "(\<And>r. Q r [CallReconcileOSVersion x0 r]) \<Longrightarrow> wp (cReconcileOSVersion G x0) Q"
  by (simp add: cReconcileOSVersion_def wp_ask_any)

lemma wp_cTriggerReset [wp_intros]: "(\<And>r. Q r [CallTriggerReset r]) \<Longrightarrow> wp (cTriggerReset G) Q"
  by (simp add: cTriggerReset_def wp_ask_any)

lemma wp_cReset [wp_intros]: "(\<And>r. Q r [CallReset x0 r]) \<Longrightarrow> wp (cReset G x0) Q"
  by (simp add: cReset_def wp_ask_any)

lemma wp_cPowerOff [wp_intros]: "(\<And>r. Q r [CallPowerOff r]) \<Longrightarrow> wp (cPowerOff G) Q"
  by (simp add: cPowerOff_def wp_ask_any)

lemma wp_cReboot [wp_intros]: "(\<And>r. Q r [CallReboot r]) \<Longrightarrow> wp (cReboot G) Q"
  by (simp add: cReboot_def wp_ask_any)

lemma wp_cStat [wp_intros]: "(\<And>r. Q r [CallStat x0 r]) \<Longrightarrow> wp (cStat G x0) Q"
  by (simp add: cStat_def wp_ask_any)

lemma wp_cNewRandom [wp_intros]: "(\<And>r. Q r [CallNewRandom r]) \<Longrightarrow> wp (cNewRandom G) Q"
  by (simp add: cNewRandom_def wp_ask_any)

lemma wp_cSleep [wp_intros]: "(\<And>r. Q r [CallSleep x0 r]) \<Longrightarrow> wp (cSleep G x0) Q"
  by (simp add: cSleep_def wp_ask_any)

end
