(* ===== verification/Agent_Common.thy ===== *)
theory Agent_Common
  imports Agent_Calls
begin

text \<open>
  What the phases of the agent share: \<^verbatim>\<open>internal/agent/config\<close>,
  \<^verbatim>\<open>internal/agent/hostname\<close>, \<^verbatim>\<open>internal/agent/context\<close> and
  \<^verbatim>\<open>internal/agent/phase/common.go\<close>, and the loops that retry \<^emph>\<open>indefinitely\<close>: a loop is its
  round, run at most as often as its fuel says. The locale \<open>retrying\<close> is the contract of a round and
  gives, for every fuel, what holds of a run so far, and that a loop only goes on after a round was blocked.
\<close>

section \<open>Configuration\<close>

record agentConf =
  acRegistration :: registrationConfig
  acAgent :: agentConfig

definition FromInfrastructure :: "config \<Rightarrow> agentConf" where
  "FromInfrastructure conf = \<lparr>acRegistration = elRegistration (cfElemental conf), acAgent = elAgent (cfElemental conf)\<rparr>"

definition FromAPI :: "registrationResponse \<Rightarrow> agentConf" where
  "FromAPI conf = \<lparr>acRegistration = elRegistration (cfElemental (rrConfig conf)),
     acAgent = elAgent (cfElemental (rrConfig conf))\<rparr>"

definition no_post :: postAction where
  "no_post = \<lparr>postPowerOff = False, postReboot = False\<rparr>"

definition DefaultConfig :: agentConf where
  "DefaultConfig = \<lparr>acRegistration = \<lparr>rgURI = [], rgCACert = [], rgTokenDuration = 0, rgToken = []\<rparr>,
     acAgent = \<lparr>agWorkDir = ''/var/lib/elemental/agent'', agHostname = \<lparr>hnUseExisting = False, hnPrefix = []\<rparr>,
       agNoSMBIOS = False, agDebug = False, agOSPlugin = ''/usr/lib/elemental/plugins/elemental.so'',
       agReconciliation = 10 * 1000000000, agInsecureAllowHTTP = False, agInsecureSkipTLSVerify = False,
       agUseSystemCertPool = False, agPostInstall = no_post, agPostReset = no_post\<rparr>\<rparr>"

text \<open>The context of a command; its plugin and its client are the environment, its identity a private key.\<close>

record agentContext =
  cxIdentity :: string
  cxConfig :: agentConf
  cxConfigPath :: string
  cxHostname :: string

definition reconciliation :: "agentContext \<Rightarrow> int" where
  "reconciliation X = agReconciliation (acAgent (cxConfig X))"

text \<open>The encoders of the standard library and of yaml.v3 that the phases call.\<close>

record agentCodec =
  ay_json_raw :: "rawMap \<Rightarrow> goerr + string" \<comment> \<open>\<^verbatim>\<open>json.Marshal\<close> of a map of raw extensions\<close>
  ay_yaml_config :: "agentConf \<Rightarrow> goerr + string"

section \<open>Host names\<close>

definition formatRandom :: "'w agent \<Rightarrow> string \<Rightarrow> ('w, call, goerr + string) prog" where
  "formatRandom G prefix = do {
     r \<leftarrow> cNewRandom G;
     (case r of
        Inl e \<Rightarrow> ret (Inl (wrapf ''generating new random UUID'' e))
      | Inr uuid \<Rightarrow> ret (Inr (prefix @ uuid)))
   }"

definition formatCurrent :: "'w agent \<Rightarrow> string \<Rightarrow> ('w, call, goerr + string) prog" where
  "formatCurrent G prefix = do {
     r \<leftarrow> cGetHostname G;
     (case r of
        Inl e \<Rightarrow> ret (Inl (wrapf ''getting current hostname'' e))
      | Inr currentHostname \<Rightarrow> ret (Inr (prefix @ currentHostname)))
   }"

definition FormatHostname :: "'w agent \<Rightarrow> hostnameConfig \<Rightarrow> ('w, call, goerr + string) prog" where
  "FormatHostname G conf =
     (if hnUseExisting conf
      then do {
        r \<leftarrow> formatCurrent G (hnPrefix conf);
        (case r of Inl e \<Rightarrow> ret (Inl (wrapf ''setting current hostname'' e)) | Inr h \<Rightarrow> ret (Inr h))
      }
      else do {
        r \<leftarrow> formatRandom G (hnPrefix conf);
        (case r of Inl e \<Rightarrow> ret (Inl (wrapf ''setting random hostname'' e)) | Inr h \<Rightarrow> ret (Inr h))
      })"

section \<open>Reports\<close>

definition empty_patch :: hostPatchRequest where
  "empty_patch = \<lparr>hpAnnotations = None, hpLabels = None, hpBootstrapped = None, hpInstalled = None,
     hpReset = None, hpInPlaceUpdate = None, hpCondition = None, hpPhase = None\<rparr>"

definition updateCondition :: "'w agent \<Rightarrow> string \<Rightarrow> condition \<Rightarrow> ('w, call, unit) prog" where
  "updateCondition G hostname condition = do {
     r \<leftarrow> cPatchHost G (empty_patch\<lparr>hpCondition := Some condition\<rparr>) hostname;
     ret ()
   }"

definition updateConditionOrFail :: "'w agent \<Rightarrow> string \<Rightarrow> condition \<Rightarrow> ('w, call, goerr option) prog" where
  "updateConditionOrFail G hostname condition = do {
     r \<leftarrow> cPatchHost G (empty_patch\<lparr>hpCondition := Some condition\<rparr>) hostname;
     (case r of Inl e \<Rightarrow> ret (Some (wrapf ''reporting condition'' e)) | Inr _ \<Rightarrow> ret None)
   }"

definition setPhase :: "'w agent \<Rightarrow> string \<Rightarrow> string \<Rightarrow> ('w, call, unit) prog" where
  "setPhase G hostname phase = do {
     r \<leftarrow> cPatchHost G (empty_patch\<lparr>hpPhase := Some phase\<rparr>) hostname;
     ret ()
   }"

lemma empty_patch_simps [simp]:
  "hpBootstrapped empty_patch = None" "hpInstalled empty_patch = None" "hpReset empty_patch = None"
  "hpInPlaceUpdate empty_patch = None" "hpCondition empty_patch = None" "hpPhase empty_patch = None"
  "hpLabels empty_patch = None" "hpAnnotations empty_patch = None"
  by (simp_all add: empty_patch_def)

lemma SetCondition_simps [simp]:
  "hpBootstrapped (SetCondition t st sev r m h) = hpBootstrapped h"
  "hpInstalled (SetCondition t st sev r m h) = hpInstalled h" "hpReset (SetCondition t st sev r m h) = hpReset h"
  "hpInPlaceUpdate (SetCondition t st sev r m h) = hpInPlaceUpdate h" "hpPhase (SetCondition t st sev r m h) = hpPhase h"
  "hpLabels (SetCondition t st sev r m h) = hpLabels h"
  by (simp_all add: SetCondition_def)

section \<open>Loops\<close>

text \<open>A round says how the loop goes on: with a new state, or with its result.\<close>

fun rounds :: "('s \<Rightarrow> ('w, 'e, 's + 'r) prog) \<Rightarrow> nat \<Rightarrow> 's \<Rightarrow> ('w, 'e, 'r option) prog" where
  "rounds round 0 s = ret None"
| "rounds round (Suc n) s = do {
     r \<leftarrow> round s;
     (case r of Inl s' \<Rightarrow> rounds round n s' | Inr x \<Rightarrow> ret (Some x))
   }"

text \<open>
  \<open>sofar\<close> is the invariant of the loop: it relates its state to the calls made so far. \<open>blocked\<close>
  marks the calls that make a round fail.
\<close>

locale retrying =
  fixes round :: "'s \<Rightarrow> ('w, 'e, 's + 'r) prog"
    and sofar :: "'s \<Rightarrow> 'e list \<Rightarrow> bool"
    and finished :: "'r \<Rightarrow> 'e list \<Rightarrow> bool"
    and blocked :: "'e \<Rightarrow> bool"
  assumes round_ok: "sofar s l \<Longrightarrow> wp (round s) (\<lambda>r l'. case r of
      Inl s' \<Rightarrow> sofar s' (l @ l') \<and> list_ex blocked l' | Inr x \<Rightarrow> finished x (l @ l'))"
begin

lemma wp_rounds:
  "sofar s l \<Longrightarrow> wp (rounds round n s) (\<lambda>r l'. case r of
      None \<Rightarrow> (\<exists>s'. sofar s' (l @ l')) \<and> n \<le> length (filter blocked l')
    | Some x \<Rightarrow> finished x (l @ l'))"
proof (induction n arbitrary: s l)
  case 0
  then show ?case by (auto intro!: wp_ret)
next
  case (Suc n)
  have one: "list_ex blocked l1 \<Longrightarrow> n \<le> length (filter blocked l2) \<Longrightarrow>
      Suc n \<le> length (filter blocked (l1 @ l2))" for l1 l2
    by (cases "filter blocked l1") (auto simp: filter_empty_conv list_ex_iff)
  show ?case
    unfolding rounds.simps
  proof (rule wp_bind, rule wp_mono [OF round_ok [OF Suc.prems]])
    fix r l1
    assume r: "case r of Inl s' \<Rightarrow> sofar s' (l @ l1) \<and> list_ex blocked l1 | Inr x \<Rightarrow> finished x (l @ l1)"
    show "wp (case r of Inl s' \<Rightarrow> rounds round n s' | Inr x \<Rightarrow> ret (Some x))
      (\<lambda>b l2. case b of None \<Rightarrow> (\<exists>s'. sofar s' (l @ l1 @ l2)) \<and> Suc n \<le> length (filter blocked (l1 @ l2))
        | Some x \<Rightarrow> finished x (l @ l1 @ l2))"
    proof (cases r)
      case (Inl s')
      with r have s': "sofar s' (l @ l1)" and b: "list_ex blocked l1" by simp_all
      from Inl show ?thesis
        by simp (rule wp_mono [OF Suc.IH [OF s']], use one [OF b] in \<open>auto split: option.splits\<close>)
    next
      case (Inr x)
      with r show ?thesis by (auto intro: wp_ret)
    qed
  qed
qed

end

section \<open>The order of calls\<close>

text \<open>Every call of the second kind comes after one of the first; \<open>seen\<close> says that there was one before.\<close>

fun comes_after :: "('e \<Rightarrow> bool) \<Rightarrow> ('e \<Rightarrow> bool) \<Rightarrow> bool \<Rightarrow> 'e list \<Rightarrow> bool" where
  "comes_after P Q seen [] \<longleftrightarrow> True"
| "comes_after P Q seen (x # l) \<longleftrightarrow> (Q x \<longrightarrow> seen) \<and> comes_after P Q (seen \<or> P x) l"

lemma comes_after_append [simp]:
  "comes_after P Q seen (l @ l') \<longleftrightarrow> comes_after P Q seen l \<and> comes_after P Q (seen \<or> list_ex P l) l'"
  by (induction l arbitrary: seen) auto

lemma comes_after_nth:
  "comes_after P Q False l \<Longrightarrow> i < length l \<Longrightarrow> Q (l ! i) \<Longrightarrow> \<exists>j < i. P (l ! j)"
proof -
  assume *: "comes_after P Q False l" "i < length l" "Q (l ! i)"
  then have "comes_after P Q False (take i l @ l ! i # drop (Suc i) l)"
    by (simp add: id_take_nth_drop [symmetric])
  with *(3) have "list_ex P (take i l)" by simp
  then show ?thesis using *(2) by (auto simp: list_ex_length)
qed

text \<open>No call of the second kind comes after one of the first.\<close>

fun never_after :: "('e \<Rightarrow> bool) \<Rightarrow> ('e \<Rightarrow> bool) \<Rightarrow> bool \<Rightarrow> 'e list \<Rightarrow> bool" where
  "never_after P Q seen [] \<longleftrightarrow> True"
| "never_after P Q seen (x # l) \<longleftrightarrow> (Q x \<longrightarrow> \<not> seen) \<and> never_after P Q (seen \<or> P x) l"

lemma never_after_append [simp]:
  "never_after P Q seen (l @ l') \<longleftrightarrow> never_after P Q seen l \<and> never_after P Q (seen \<or> list_ex P l) l'"
  by (induction l arbitrary: seen) auto

section \<open>Kinds of calls\<close>

fun installs_cloudInit :: "call \<Rightarrow> bool" where
  "installs_cloudInit (CallInstallCloudInit _ _) = True" | "installs_cloudInit _ = False"

fun installs_host :: "call \<Rightarrow> bool" where
  "installs_host (CallInstall _ _) = True" | "installs_host _ = False"

fun resets_host :: "call \<Rightarrow> bool" where
  "resets_host (CallReset _ _) = True" | "resets_host _ = False"

fun marks_deleted :: "call \<Rightarrow> bool" where
  "marks_deleted (CallDeleteHost _ _) = True" | "marks_deleted _ = False"

fun applies_bootstrap :: "call \<Rightarrow> bool" where
  "applies_bootstrap (CallBootstrap _ _ _) = True" | "applies_bootstrap _ = False"

definition succeeded :: "(call \<Rightarrow> bool) \<Rightarrow> call \<Rightarrow> bool" where
  "succeeded P c \<longleftrightarrow> P c \<and> \<not> failed c"

fun reports :: "(hostPatchRequest \<Rightarrow> bool) \<Rightarrow> call \<Rightarrow> bool" where
  "reports P (CallPatchHost r _ _) = P r" | "reports P _ = False"

text \<open>What a patch claims of the host: the labels the server sets for it.\<close>

definition claims_installed :: "hostPatchRequest \<Rightarrow> bool" where "claims_installed r \<longleftrightarrow> hpInstalled r \<noteq> None"
definition claims_bootstrapped :: "hostPatchRequest \<Rightarrow> bool" where "claims_bootstrapped r \<longleftrightarrow> hpBootstrapped r \<noteq> None"
definition claims_reset :: "hostPatchRequest \<Rightarrow> bool" where "claims_reset r \<longleftrightarrow> hpReset r \<noteq> None"

lemmas claims_defs = claims_installed_def claims_bootstrapped_def claims_reset_def

end
