(* ===== verification/Agent_Phases.thy ===== *)
theory Agent_Phases
  imports Agent_Common Jwt
begin

text \<open>
  \<^verbatim>\<open>internal/agent/phase\<close>: registration, installation, bootstrap, OS version reconciliation and
  reset of a host, as the agent runs them. Every loop of the code is a round with its state (the variables that
  live across iterations) and \<open>rounds\<close>. Logging is left out.
\<close>

section \<open>Registration\<close>

text \<open>One iteration of \<^verbatim>\<open>registrationLoop\<close>; the state is \<^verbatim>\<open>registrationError\<close>.\<close>

definition registration_round ::
  "'w agent \<Rightarrow> agentContext \<Rightarrow> string \<Rightarrow> bool \<Rightarrow> ('w, call, bool + string \<times> agentConf) prog"
where
  "registration_round G X pubKey registrationError = do {
     _ \<leftarrow> (if registrationError then cSleep G (reconciliation X) else ret ());
     r \<leftarrow> cGetRegistration G;
     (case r of
        Inl e \<Rightarrow> ret (Inl True)
      | Inr registration \<Rightarrow> do {
          h \<leftarrow> FormatHostname G (agHostname (elAgent (cfElemental (rrConfig registration))));
          (case h of
             Inl e \<Rightarrow> ret (Inl True)
           | Inr newHostname \<Rightarrow> do {
               p \<leftarrow> cPatchHost G empty_patch newHostname;
               (case p of
                  Inr _ \<Rightarrow> ret (Inr (newHostname, FromAPI registration))
                | Inl _ \<Rightarrow> do {
                    c \<leftarrow> cCreateHost G \<lparr>hcName = newHostname, hcAnnotations = rrHostAnnotations registration,
                      hcLabels = rrHostLabels registration, hcPubKey = pubKey\<rparr>;
                    (case c of
                       Some e \<Rightarrow> ret (Inl True)
                     | None \<Rightarrow> ret (Inr (newHostname, FromAPI registration)))
                  })
             })
        })
   }"

definition registrationLoop ::
  "'w agent \<Rightarrow> agentContext \<Rightarrow> string \<Rightarrow> nat \<Rightarrow> ('w, call, (string \<times> agentConf) option) prog"
where
  "registrationLoop G X pubKey fuel = rounds (registration_round G X pubKey) fuel False"

text \<open>\<^verbatim>\<open>Register\<close> updates the context, which it shares with the command; out of fuel it is still running.\<close>

definition Register ::
  "'w agent \<Rightarrow> codec \<Rightarrow> nat \<Rightarrow> agentContext \<Rightarrow> ('w, call, (goerr option \<times> agentContext) option) prog"
where
  "Register G C fuel X = (case identity_MarshalPublic C (cxIdentity X) of
     Inl e \<Rightarrow> ret (Some (Some (wrapf ''marshalling host public key'' e), X))
   | Inr pubKey \<Rightarrow> do {
       r \<leftarrow> registrationLoop G X pubKey fuel;
       (case r of
          None \<Rightarrow> ret None
        | Some (hostname, config) \<Rightarrow> do {
            _ \<leftarrow> setPhase G hostname PhaseRegistering;
            ret (Some (None, X\<lparr>cxHostname := hostname, cxConfig := config\<rparr>))
          })
     })"

definition PrivateKeyFile :: string where "PrivateKeyFile = ''private.key''"

definition finalize ::
  "'w agent \<Rightarrow> codec \<Rightarrow> agentCodec \<Rightarrow> agentContext \<Rightarrow> ('w, call, goerr option) prog"
where
  "finalize G C Y X = do {
     r \<leftarrow> cInstallHostname G (cxHostname X);
     (case r of
        Some e \<Rightarrow> ret (Some (wrapf (''persisting hostname '' @ sq (cxHostname X)) e))
      | None \<Rightarrow>
     (case ay_yaml_config Y (cxConfig X) of
        Inl e \<Rightarrow> ret (Some (wrapf ''marshalling agent config'' e))
      | Inr agentConfigBytes \<Rightarrow> do {
          r \<leftarrow> cInstallFile G agentConfigBytes (cxConfigPath X) 416 0 0;
          (case r of
             Some e \<Rightarrow> ret (Some (wrapf (''persisting agent config file '' @ sq (cxConfigPath X)) e))
           | None \<Rightarrow>
          (case identity_Marshal C (cxIdentity X) of
             Inl e \<Rightarrow> ret (Some (wrapf ''marshalling identity'' e))
           | Inr identityBytes \<Rightarrow>
               (let privateKeyPath = agWorkDir (acAgent (cxConfig X)) @ ''/'' @ PrivateKeyFile
                in do {
                  r \<leftarrow> cInstallFile G identityBytes privateKeyPath 416 0 0;
                  (case r of
                     Some e \<Rightarrow> ret (Some (wrapf (''persisting private key file '' @ sq privateKeyPath) e))
                   | None \<Rightarrow> ret None)
                })))
        }))
   }"

text \<open>One iteration of the loop that reports the registration.\<close>

definition registered_round :: "'w agent \<Rightarrow> agentContext \<Rightarrow> unit \<Rightarrow> ('w, call, unit + unit) prog" where
  "registered_round G X s = do {
     r \<leftarrow> updateConditionOrFail G (cxHostname X)
       (mk_condition RegistrationReady ConditionTrue SeverityInfo [] []);
     (case r of
        Some e \<Rightarrow> do { _ \<leftarrow> cSleep G (reconciliation X); ret (Inl ()) }
      | None \<Rightarrow> ret (Inr ()))
   }"

definition FinalizeRegistration ::
  "'w agent \<Rightarrow> codec \<Rightarrow> agentCodec \<Rightarrow> nat \<Rightarrow> agentContext \<Rightarrow> ('w, call, goerr option option) prog"
where
  "FinalizeRegistration G C Y fuel X = do {
     _ \<leftarrow> setPhase G (cxHostname X) PhaseFinalizingRegistration;
     err \<leftarrow> finalize G C Y X;
     (case err of
        Some e \<Rightarrow> do {
          _ \<leftarrow> updateCondition G (cxHostname X)
            (mk_condition RegistrationReady ConditionFalse SeverityError RegistrationFailedReason (err_msg e));
          ret (Some (Some (wrapf ''finalizing registration'' e)))
        }
      | None \<Rightarrow> do {
          r \<leftarrow> rounds (registered_round G X) fuel ();
          (case r of
             None \<Rightarrow> ret None
           | Some _ \<Rightarrow> do {
               _ \<leftarrow> updateCondition G (cxHostname X) (mk_condition InstallationReady ConditionFalse
                 WaitingForInstallationReasonSeverity WaitingForInstallationReason
                 ''Host is registered successfully. Waiting for installation.'');
               ret (Some None)
             })
        })
   }"

section \<open>Installation\<close>

record installState =
  inCloudConfigAlreadyApplied :: bool
  inAlreadyInstalled :: bool
  inError :: "goerr option"
  inErrorReason :: string

definition install_start :: installState where
  "install_start = \<lparr>inCloudConfigAlreadyApplied = False, inAlreadyInstalled = False, inError = None,
     inErrorReason = InstallationFailedReason\<rparr>"

definition install_recover :: "'w agent \<Rightarrow> agentContext \<Rightarrow> installState \<Rightarrow> ('w, call, installState) prog" where
  "install_recover G X s = (case inError s of
     None \<Rightarrow> ret s
   | Some e \<Rightarrow> do {
       _ \<leftarrow> updateCondition G (cxHostname X)
         (mk_condition InstallationReady ConditionFalse SeverityError (inErrorReason s) (err_msg e));
       _ \<leftarrow> cSleep G (reconciliation X);
       ret (s\<lparr>inError := None, inErrorReason := InstallationFailedReason\<rparr>)
     })"

definition install_cloudConfig ::
  "'w agent \<Rightarrow> agentCodec \<Rightarrow> registrationResponse \<Rightarrow> installState \<Rightarrow> ('w, call, installState) prog"
where
  "install_cloudConfig G Y registration s =
     (if inCloudConfigAlreadyApplied s then ret s
      else (case ay_json_raw Y (cfCloudConfig (rrConfig registration)) of
        Inl e \<Rightarrow> ret (s\<lparr>inError := Some (wrapf ''marshalling cloud config'' e),
          inErrorReason := CloudConfigInstallationFailedReason\<rparr>)
      | Inr cloudConfigBytes \<Rightarrow> do {
          r \<leftarrow> cInstallCloudInit G cloudConfigBytes;
          (case r of
             Some e \<Rightarrow> ret (s\<lparr>inError := Some (wrapf ''installing cloud config'' e),
               inErrorReason := CloudConfigInstallationFailedReason\<rparr>)
           | None \<Rightarrow> ret (s\<lparr>inCloudConfigAlreadyApplied := True\<rparr>))
        }))"

definition install_host ::
  "'w agent \<Rightarrow> agentCodec \<Rightarrow> registrationResponse \<Rightarrow> installState \<Rightarrow> ('w, call, installState) prog"
where
  "install_host G Y registration s =
     (if inAlreadyInstalled s then ret s
      else (case ay_json_raw Y (elInstall (cfElemental (rrConfig registration))) of
        Inl e \<Rightarrow> ret (s\<lparr>inError := Some (wrapf ''marshalling install config'' e)\<rparr>)
      | Inr installBytes \<Rightarrow> do {
          r \<leftarrow> cInstall G installBytes;
          (case r of
             Some e \<Rightarrow> ret (s\<lparr>inError := Some (wrapf ''installing host'' e)\<rparr>)
           | None \<Rightarrow> ret (s\<lparr>inAlreadyInstalled := True\<rparr>))
        }))"

text \<open>The instructions are fetched only while something is left to do with them.\<close>

definition install_steps ::
  "'w agent \<Rightarrow> agentCodec \<Rightarrow> installState \<Rightarrow> ('w, call, installState) prog"
where
  "install_steps G Y s =
     (if inCloudConfigAlreadyApplied s \<and> inAlreadyInstalled s then ret s
      else do {
        r \<leftarrow> cGetRegistration G;
        (case r of
           Inl e \<Rightarrow> ret (s\<lparr>inError := Some (wrapf ''getting remote Registration'' e)\<rparr>)
         | Inr registration \<Rightarrow> do {
             s \<leftarrow> install_cloudConfig G Y registration s;
             (if inError s \<noteq> None then ret s else install_host G Y registration s)
           })
      })"

definition install_report :: "'w agent \<Rightarrow> agentContext \<Rightarrow> installState \<Rightarrow> ('w, call, installState + unit) prog" where
  "install_report G X s = do {
     r \<leftarrow> cPatchHost G (SetCondition InstallationReady ConditionTrue SeverityInfo [] []
       (empty_patch\<lparr>hpInstalled := Some True\<rparr>)) (cxHostname X);
     (case r of
        Inl e \<Rightarrow> ret (Inl (s\<lparr>inError := Some (wrapf ''patching host with installation successful'' e)\<rparr>))
      | Inr _ \<Rightarrow> ret (Inr ()))
   }"

definition install_round ::
  "'w agent \<Rightarrow> agentCodec \<Rightarrow> agentContext \<Rightarrow> installState \<Rightarrow> ('w, call, installState + unit) prog"
where
  "install_round G Y X s = do {
     s \<leftarrow> install_recover G X s;
     s \<leftarrow> install_steps G Y s;
     (if inError s \<noteq> None then ret (Inl s) else install_report G X s)
   }"

definition Install :: "'w agent \<Rightarrow> agentCodec \<Rightarrow> nat \<Rightarrow> agentContext \<Rightarrow> ('w, call, unit option) prog" where
  "Install G Y fuel X = do {
     _ \<leftarrow> setPhase G (cxHostname X) PhaseInstalling;
     rounds (install_round G Y X) fuel install_start
   }"

section \<open>Bootstrap\<close>

definition bootstrapSentinelFile :: string where
  "bootstrapSentinelFile = ''/run/cluster-api/bootstrap-success.complete''"

definition reboot_post :: postAction where
  "reboot_post = \<lparr>postPowerOff = False, postReboot = True\<rparr>"

definition updateBoostrappedStatus :: "'w agent \<Rightarrow> string \<Rightarrow> ('w, call, goerr option) prog" where
  "updateBoostrappedStatus G hostname = do {
     r \<leftarrow> cPatchHost G (SetCondition BootstrapReady ConditionTrue SeverityInfo [] []
       (empty_patch\<lparr>hpBootstrapped := Some True\<rparr>)) hostname;
     (case r of Inl e \<Rightarrow> ret (Some (wrapf ''patching bootstrapped status'' e)) | Inr _ \<Rightarrow> ret None)
   }"

definition bootstrap_inner :: "'w agent \<Rightarrow> string \<Rightarrow> ('w, call, postAction \<times> goerr option) prog" where
  "bootstrap_inner G hostname = do {
     st \<leftarrow> cStat G bootstrapSentinelFile;
     (case st of
        None \<Rightarrow> do {
          r \<leftarrow> updateBoostrappedStatus G hostname;
          (case r of
             Some e \<Rightarrow> ret (no_post, Some (wrapf ''updating bootstrapped status'' e))
           | None \<Rightarrow> ret (no_post, None))
        }
      | Some e0 \<Rightarrow>
          if err_is e0 FsNotExist
          then do {
            b \<leftarrow> cGetBootstrap G hostname;
            (case b of
               Inl e \<Rightarrow> ret (no_post, Some (wrapf ''fetching bootstrap config'' e))
             | Inr bootstrap \<Rightarrow> do {
                 p \<leftarrow> cBootstrap G (brFormat bootstrap) (brConfig bootstrap);
                 (case p of
                    Some e \<Rightarrow> ret (no_post, Some (wrapf ''applying bootstrap config'' e))
                  | None \<Rightarrow> do {
                      _ \<leftarrow> updateCondition G hostname (mk_condition BootstrapReady ConditionFalse
                        WaitingForBootstrapReasonSeverity WaitingForBootstrapReason
                        ''Waiting for bootstrap to be executed'');
                      ret (reboot_post, None)
                    })
               })
          }
          else ret (no_post, Some (wrapf (''reading file '' @ sq bootstrapSentinelFile) e0)))
   }"

definition Bootstrap :: "'w agent \<Rightarrow> agentContext \<Rightarrow> ('w, call, postAction \<times> goerr option) prog" where
  "Bootstrap G X = do {
     _ \<leftarrow> setPhase G (cxHostname X) PhaseBootstrapping;
     (post, err) \<leftarrow> bootstrap_inner G (cxHostname X);
     _ \<leftarrow> (case err of
        None \<Rightarrow> ret ()
      | Some e \<Rightarrow> updateCondition G (cxHostname X)
          (mk_condition BootstrapReady ConditionFalse SeverityError BootstrapFailedReason (err_msg e)));
     ret (post, err)
   }"

section \<open>OS version\<close>

definition osVersion_failed :: "'w agent \<Rightarrow> agentContext \<Rightarrow> goerr \<Rightarrow> ('w, call, postAction \<times> goerr option) prog" where
  "osVersion_failed G X e = do {
     _ \<leftarrow> updateCondition G (cxHostname X) (mk_condition OSVersionReady ConditionFalse SeverityError
       OSVersionReconciliationFailedReason (err_msg e));
     ret (no_post, Some e)
   }"

definition OSVersion_Reconcile ::
  "'w agent \<Rightarrow> agentCodec \<Rightarrow> agentContext \<Rightarrow> rawMap \<Rightarrow> bool \<Rightarrow> ('w, call, postAction \<times> goerr option) prog"
where
  "OSVersion_Reconcile G Y X osVersionManagement needsInplaceUpdate =
     (case ay_json_raw Y osVersionManagement of
        Inl e \<Rightarrow> osVersion_failed G X (wrapf ''marshalling Host osVersionManagement to JSON'' e)
      | Inr bytes \<Rightarrow> do {
          r \<leftarrow> cReconcileOSVersion G bytes;
          (case r of
             Inl e \<Rightarrow> osVersion_failed G X (wrapf ''reconciling osVersion'' e)
           | Inr reboot \<Rightarrow>
               if reboot
               then do {
                 _ \<leftarrow> setPhase G (cxHostname X) PhaseOSVersionReconcile;
                 _ \<leftarrow> updateCondition G (cxHostname X) (mk_condition OSVersionReady ConditionFalse
                   WaitingForPostReconcileRebootReasonSeverity WaitingForPostReconcileRebootReason
                   ''Waiting for Host to reboot after OS Version has been reconciled.'');
                 ret (no_post\<lparr>postReboot := reboot\<rparr>, None)
               }
               else do {
                 u \<leftarrow> updateConditionOrFail G (cxHostname X)
                   (mk_condition OSVersionReady ConditionTrue SeverityInfo [] []);
                 (case u of
                    Some e \<Rightarrow> ret (no_post, Some (wrapf ''updating OSVersionReady=true condition'' e))
                  | None \<Rightarrow>
                      if needsInplaceUpdate
                      then do {
                        p \<leftarrow> cPatchHost G (empty_patch\<lparr>hpInPlaceUpdate := Some InPlaceUpdateDone\<rparr>) (cxHostname X);
                        (case p of
                           Inl e \<Rightarrow> ret (no_post, Some (wrapf ''updating InPlaceUpgrade done label'' e))
                         | Inr _ \<Rightarrow> ret (no_post, None))
                      }
                      else ret (no_post, None))
               })
        })"

section \<open>Reset\<close>

definition Handler_TriggerReset :: "'w agent \<Rightarrow> agentContext \<Rightarrow> ('w, call, goerr option) prog" where
  "Handler_TriggerReset G X = do {
     _ \<leftarrow> setPhase G (cxHostname X) PhaseTriggeringReset;
     r \<leftarrow> cTriggerReset G;
     (case r of
        Some e0 \<Rightarrow>
          (let e = wrapf ''triggering reset'' e0
           in do {
             _ \<leftarrow> updateCondition G (cxHostname X)
               (mk_condition ResetReady ConditionFalse SeverityError ResetFailedReason (err_msg e));
             ret (Some e)
           })
      | None \<Rightarrow> do {
          _ \<leftarrow> updateCondition G (cxHostname X) (mk_condition ResetReady ConditionFalse
            WaitingForResetReasonSeverity WaitingForResetReason
            ''Reset was triggered successfully. Waiting for host to reset.'');
          ret None
        })
   }"

record resetState =
  reError :: "goerr option"
  reAlreadyReset :: bool

definition reset_recover :: "'w agent \<Rightarrow> agentContext \<Rightarrow> resetState \<Rightarrow> ('w, call, resetState) prog" where
  "reset_recover G X s = (case reError s of
     None \<Rightarrow> ret s
   | Some e \<Rightarrow> do {
       _ \<leftarrow> updateCondition G (cxHostname X)
         (mk_condition ResetReady ConditionFalse SeverityError ResetFailedReason (err_msg e));
       _ \<leftarrow> cSleep G (reconciliation X);
       ret (s\<lparr>reError := None\<rparr>)
     })"

definition reset_host :: "'w agent \<Rightarrow> agentCodec \<Rightarrow> resetState \<Rightarrow> ('w, call, resetState) prog" where
  "reset_host G Y s =
     (if reAlreadyReset s then ret s
      else do {
        r \<leftarrow> cGetRegistration G;
        (case r of
           Inl e \<Rightarrow> ret (s\<lparr>reError := Some (wrapf ''getting remote Registration'' e)\<rparr>)
         | Inr registration \<Rightarrow>
             (case ay_json_raw Y (elReset (cfElemental (rrConfig registration))) of
                Inl e \<Rightarrow> ret (s\<lparr>reError := Some (wrapf ''marshalling reset config'' e)\<rparr>)
              | Inr resetBytes \<Rightarrow> do {
                  r \<leftarrow> cReset G resetBytes;
                  (case r of
                     Some e \<Rightarrow> ret (s\<lparr>reError := Some (wrapf ''resetting host'' e)\<rparr>)
                   | None \<Rightarrow> ret (s\<lparr>reAlreadyReset := True\<rparr>))
                }))
      })"

definition reset_report :: "'w agent \<Rightarrow> agentContext \<Rightarrow> resetState \<Rightarrow> ('w, call, resetState + unit) prog" where
  "reset_report G X s = do {
     r \<leftarrow> cPatchHost G (SetCondition ResetReady ConditionTrue SeverityInfo [] []
       (empty_patch\<lparr>hpReset := Some True\<rparr>)) (cxHostname X);
     (case r of
        Inl e \<Rightarrow> ret (Inl (s\<lparr>reError := Some (wrapf ''patching host with reset successful'' e)\<rparr>))
      | Inr _ \<Rightarrow> ret (Inr ()))
   }"

definition reset_round ::
  "'w agent \<Rightarrow> agentCodec \<Rightarrow> agentContext \<Rightarrow> resetState \<Rightarrow> ('w, call, resetState + unit) prog"
where
  "reset_round G Y X s = do {
     s \<leftarrow> reset_recover G X s;
     d \<leftarrow> cDeleteHost G (cxHostname X);
     (case d of
        Some e \<Rightarrow> ret (Inl (s\<lparr>reError := Some (wrapf ''marking host for deletion'' e)\<rparr>))
      | None \<Rightarrow> do {
          s \<leftarrow> reset_host G Y s;
          (if reError s \<noteq> None then ret (Inl s) else reset_report G X s)
        })
   }"

definition Handler_Reset :: "'w agent \<Rightarrow> agentCodec \<Rightarrow> nat \<Rightarrow> agentContext \<Rightarrow> ('w, call, unit option) prog" where
  "Handler_Reset G Y fuel X = do {
     _ \<leftarrow> setPhase G (cxHostname X) PhaseResetting;
     rounds (reset_round G Y X) fuel \<lparr>reError = None, reAlreadyReset = False\<rparr>
   }"

end
