(* ===== verification/Agent_Laws.thy ===== *)
theory Agent_Laws
  imports Agent_Phases
begin

text \<open>
  What the phases of the agent guarantee, whatever the server, the plugin and the host answer: the order in which
  they act and report, for every number of rounds of their loops, and that a loop only goes on because
  a call of the last round failed. The loops interpret the locale \<open>retrying\<close>.
\<close>

lemma failed_simps [simp]:
  "failed (CallPatchHost q n (Inl e))" "\<not> failed (CallPatchHost q n (Inr h))"
  "failed (CallInstall b (Some e))" "\<not> failed (CallInstall b None)"
  "failed (CallInstallCloudInit b (Some e))" "\<not> failed (CallInstallCloudInit b None)"
  "failed (CallReset b (Some e))" "\<not> failed (CallReset b None)"
  "failed (CallDeleteHost n (Some e))" "\<not> failed (CallDeleteHost n None)"
  "failed (CallGetRegistration (Inl e))" "\<not> failed (CallGetRegistration (Inr r))"
  "failed (CallCreateHost k (Some e))" "\<not> failed (CallCreateHost k None)"
  "failed (CallGetHostname (Inl e))" "\<not> failed (CallGetHostname (Inr u))"
  "failed (CallNewRandom (Inl e))" "\<not> failed (CallNewRandom (Inr u))" "\<not> failed (CallSleep d v)"
  by (simp_all add: failed_def)



section \<open>Installation\<close>

text \<open>A failed call, or instructions that cannot be encoded.\<close>

definition blocks_install :: "agentCodec \<Rightarrow> call \<Rightarrow> bool" where
  "blocks_install Y c \<longleftrightarrow> failed c \<or> (\<exists>r. c = CallGetRegistration (Inr r) \<and>
     ((\<exists>e. ay_json_raw Y (cfCloudConfig (rrConfig r)) = Inl e) \<or>
      (\<exists>e. ay_json_raw Y (elInstall (cfElemental (rrConfig r))) = Inl e)))"

definition install_ordered :: "call list \<Rightarrow> bool" where
  "install_ordered l \<longleftrightarrow>
     comes_after (succeeded installs_cloudInit) installs_host False l \<and>
     comes_after (succeeded installs_host) (reports claims_installed) False l \<and>
     never_after (succeeded installs_cloudInit) installs_cloudInit False l \<and>
     never_after (succeeded installs_host) installs_host False l \<and>
     never_after (succeeded (reports claims_installed)) (\<lambda>_. True) False l"

definition install_sofar :: "installState \<Rightarrow> call list \<Rightarrow> bool" where
  "install_sofar s l \<longleftrightarrow> install_ordered l \<and>
     (inCloudConfigAlreadyApplied s \<longleftrightarrow> list_ex (succeeded installs_cloudInit) l) \<and>
     (inAlreadyInstalled s \<longleftrightarrow> list_ex (succeeded installs_host) l) \<and>
     (inAlreadyInstalled s \<longrightarrow> inCloudConfigAlreadyApplied s) \<and>
     \<not> list_ex (succeeded (reports claims_installed)) l"

text \<open>The report that ends an installation.\<close>

definition installed_report :: hostPatchRequest where
  "installed_report = SetCondition InstallationReady ConditionTrue SeverityInfo [] []
     (empty_patch\<lparr>hpInstalled := Some True\<rparr>)"

lemma installed_report_simps [simp]: "hpInstalled installed_report = Some True"
  by (simp add: installed_report_def)

definition install_finished :: "agentContext \<Rightarrow> call list \<Rightarrow> bool" where
  "install_finished X l \<longleftrightarrow> install_ordered l \<and> l \<noteq> [] \<and>
     (\<exists>h. last l = CallPatchHost installed_report (cxHostname X) (Inr h))"

lemmas install_defs = installed_report_def install_ordered_def blocks_install_def succeeded_def claims_defs

interpretation installing: retrying "install_round G Y X" install_sofar "\<lambda>_. install_finished X" "blocks_install Y"
proof
  fix s l
  assume "install_sofar s l"
  then show "wp (install_round G Y X s) (\<lambda>r l'. case r of
      Inl s' \<Rightarrow> install_sofar s' (l @ l') \<and> list_ex (blocks_install Y) l' | Inr x \<Rightarrow> install_finished X (l @ l'))"
    unfolding install_round_def install_recover_def install_steps_def install_cloudConfig_def install_host_def
      install_report_def updateCondition_def
    apply (intro wp_intros)
    apply (simp_all only: append_Nil append_Nil2 append_Cons)
    by (auto simp: install_sofar_def install_finished_def install_defs)
qed

text \<open>The runs of the installation.\<close>

definition install_outcome ::
  "agentCodec \<Rightarrow> agentContext \<Rightarrow> nat \<Rightarrow> unit option \<Rightarrow> call list \<Rightarrow> bool"
where
  "install_outcome Y X fuel r l \<longleftrightarrow> install_ordered l \<and>
     (case r of
        None \<Rightarrow> fuel \<le> length (filter (blocks_install Y) l)
      | Some _ \<Rightarrow> install_finished X l)"

lemma wp_Install: "wp (Install G Y fuel X) (install_outcome Y X fuel)"
proof -
  have start: "install_sofar install_start [CallPatchHost (empty_patch\<lparr>hpPhase := Some PhaseInstalling\<rparr>) (cxHostname X) p]" for p
    by (cases p) (auto simp: install_sofar_def install_start_def install_defs)
  show ?thesis
    unfolding Install_def setPhase_def
    by (intro wp_intros wp_mono [OF installing.wp_rounds [OF start]])
      (auto simp: install_outcome_def install_sofar_def install_finished_def split: option.splits)
qed

text \<open>
  A host is reported installed only once it is. In every run of the installation, of any length and whatever the
  calls answer, the plugin installs the host only after it installed the cloud configuration, neither is
  repeated once it succeeded, and the server is told only after both. A run has as many rounds as blocked calls and one more: then
  it has ended, with the server told.
\<close>

theorem Install_in_order: "wp (Install G Y fuel X) (install_outcome Y X fuel)"
  by (rule wp_Install)

section \<open>Reset\<close>

definition blocks_reset :: "agentCodec \<Rightarrow> call \<Rightarrow> bool" where
  "blocks_reset Y c \<longleftrightarrow> failed c \<or> (\<exists>r e. c = CallGetRegistration (Inr r) \<and>
     ay_json_raw Y (elReset (cfElemental (rrConfig r))) = Inl e)"

definition reset_ordered :: "call list \<Rightarrow> bool" where
  "reset_ordered l \<longleftrightarrow>
     comes_after (succeeded marks_deleted) resets_host False l \<and>
     comes_after (succeeded resets_host) (reports claims_reset) False l \<and>
     never_after (succeeded resets_host) resets_host False l \<and>
     never_after (succeeded (reports claims_reset)) (\<lambda>_. True) False l"

definition reset_sofar :: "resetState \<Rightarrow> call list \<Rightarrow> bool" where
  "reset_sofar s l \<longleftrightarrow> reset_ordered l \<and>
     (reAlreadyReset s \<longleftrightarrow> list_ex (succeeded resets_host) l) \<and>
     \<not> list_ex (succeeded (reports claims_reset)) l"

text \<open>The report that ends a reset.\<close>

definition reset_done_report :: hostPatchRequest where
  "reset_done_report = SetCondition ResetReady ConditionTrue SeverityInfo [] []
     (empty_patch\<lparr>hpReset := Some True\<rparr>)"

lemma reset_done_report_simps [simp]: "hpReset reset_done_report = Some True"
  by (simp add: reset_done_report_def)

definition reset_finished :: "agentContext \<Rightarrow> call list \<Rightarrow> bool" where
  "reset_finished X l \<longleftrightarrow> reset_ordered l \<and> l \<noteq> [] \<and>
     (\<exists>h. last l = CallPatchHost reset_done_report (cxHostname X) (Inr h))"

lemmas reset_defs = reset_done_report_def reset_ordered_def blocks_reset_def succeeded_def claims_defs

interpretation resetting: retrying "reset_round G Y X" reset_sofar "\<lambda>_. reset_finished X" "blocks_reset Y"
proof
  fix s l
  assume "reset_sofar s l"
  then show "wp (reset_round G Y X s) (\<lambda>r l'. case r of
      Inl s' \<Rightarrow> reset_sofar s' (l @ l') \<and> list_ex (blocks_reset Y) l' | Inr x \<Rightarrow> reset_finished X (l @ l'))"
    unfolding reset_round_def reset_recover_def reset_host_def reset_report_def updateCondition_def
    apply (intro wp_intros)
    apply (simp_all only: append_Nil append_Nil2 append_Cons)
    by (auto simp: reset_sofar_def reset_finished_def reset_defs)
qed

definition reset_outcome ::
  "agentCodec \<Rightarrow> agentContext \<Rightarrow> nat \<Rightarrow> unit option \<Rightarrow> call list \<Rightarrow> bool"
where
  "reset_outcome Y X fuel r l \<longleftrightarrow> reset_ordered l \<and>
     (case r of
        None \<Rightarrow> fuel \<le> length (filter (blocks_reset Y) l)
      | Some _ \<Rightarrow> reset_finished X l)"

lemma wp_Reset: "wp (Handler_Reset G Y fuel X) (reset_outcome Y X fuel)"
proof -
  have start: "reset_sofar \<lparr>reError = None, reAlreadyReset = False\<rparr>
      [CallPatchHost (empty_patch\<lparr>hpPhase := Some PhaseResetting\<rparr>) (cxHostname X) p]" for p
    by (cases p) (auto simp: reset_sofar_def reset_defs)
  show ?thesis
    unfolding Handler_Reset_def setPhase_def
    by (intro wp_intros wp_mono [OF resetting.wp_rounds [OF start]])
      (auto simp: reset_outcome_def reset_sofar_def reset_finished_def split: option.splits)
qed

text \<open>
  A reset is announced, done and reported in this order. In every run of the reset, the plugin resets the host only after
  the server marked it for deletion, at most once successfully, and the server is told only
  after that; the run ends with the server told once a round has no blocked call.
\<close>

theorem Reset_in_order: "wp (Handler_Reset G Y fuel X) (reset_outcome Y X fuel)"
  by (rule wp_Reset)

section \<open>Registration\<close>

fun creates_host :: "call \<Rightarrow> bool" where
  "creates_host (CallCreateHost _ _) = True" | "creates_host _ = False"

definition creates_with :: "string \<Rightarrow> call list \<Rightarrow> bool" where
  "creates_with pubKey l \<longleftrightarrow> (\<forall>q a. CallCreateHost q a \<in> set l \<longrightarrow> hcPubKey q = pubKey)"

definition registration_sofar :: "string \<Rightarrow> bool \<Rightarrow> call list \<Rightarrow> bool" where
  "registration_sofar pubKey s l \<longleftrightarrow> creates_with pubKey l \<and> filter (succeeded creates_host) l = []"

text \<open>The host exists under that name, found or created as the registration asks.\<close>

definition registered_as :: "string \<Rightarrow> string \<Rightarrow> registrationResponse \<Rightarrow> call list \<Rightarrow> bool" where
  "registered_as pubKey hostname reg l \<longleftrightarrow> CallGetRegistration (Inr reg) \<in> set l \<and>
     ((\<exists>h. CallPatchHost empty_patch hostname (Inr h) \<in> set l \<and> filter (succeeded creates_host) l = []) \<or>
      (\<exists>q. filter (succeeded creates_host) l = [CallCreateHost q None] \<and> hcName q = hostname \<and> hcPubKey q = pubKey \<and>
         hcLabels q = rrHostLabels reg \<and> hcAnnotations q = rrHostAnnotations reg))"

definition registration_finished :: "string \<Rightarrow> string \<times> agentConf \<Rightarrow> call list \<Rightarrow> bool" where
  "registration_finished pubKey out l \<longleftrightarrow> creates_with pubKey l \<and>
     (\<exists>reg. registered_as pubKey (fst out) reg l \<and> snd out = FromAPI reg)"

interpretation registering: retrying "registration_round G X pubKey" "registration_sofar pubKey"
  "registration_finished pubKey" failed
proof
  fix s l
  assume "registration_sofar pubKey s l"
  then show "wp (registration_round G X pubKey s) (\<lambda>r l'. case r of
      Inl s' \<Rightarrow> registration_sofar pubKey s' (l @ l') \<and> list_ex failed l'
    | Inr x \<Rightarrow> registration_finished pubKey x (l @ l'))"
    unfolding registration_round_def FormatHostname_def formatRandom_def formatCurrent_def
    apply (intro wp_intros)
    apply (simp_all only: append_Nil append_Nil2 append_Cons)
    by (auto simp: registration_sofar_def registration_finished_def creates_with_def registered_as_def succeeded_def)
qed

definition register_outcome ::
  "codec \<Rightarrow> nat \<Rightarrow> agentContext \<Rightarrow> (goerr option \<times> agentContext) option \<Rightarrow> call list \<Rightarrow> bool"
where
  "register_outcome C fuel X r l \<longleftrightarrow> (case identity_MarshalPublic C (cxIdentity X) of
     Inl e \<Rightarrow> l = [] \<and> (\<exists>e. r = Some (Some e, X))
   | Inr pubKey \<Rightarrow> creates_with pubKey l \<and>
       (case r of
          None \<Rightarrow> fuel \<le> length (filter failed l) \<and> filter (succeeded creates_host) l = []
        | Some (err, X') \<Rightarrow> err = None \<and>
            (\<exists>reg. registered_as pubKey (cxHostname X') reg l \<and>
               X' = X\<lparr>cxHostname := cxHostname X', cxConfig := FromAPI reg\<rparr>)))"

lemma wp_Register: "wp (Register G C fuel X) (register_outcome C fuel X)"
proof -
  have start: "registration_sofar pubKey False []" for pubKey
    by (simp add: registration_sofar_def creates_with_def)
  have phase: "registered_as pubKey hn reg l \<Longrightarrow> registered_as pubKey hn reg (l @ [CallPatchHost q n p])" for pubKey hn reg l q n p
    by (auto simp: registered_as_def succeeded_def)
  show ?thesis
    unfolding Register_def registrationLoop_def setPhase_def
    by (intro wp_intros wp_mono [OF registering.wp_rounds [OF start]])
      (auto simp: register_outcome_def registration_finished_def registration_sofar_def creates_with_def
        intro: phase split: option.splits)
qed

text \<open>
  C34. Registration. Every host the agent asks for carries its own public key; at most one is created; when
  registration ends, the host exists under the name the agent took on, found there or created with the labels
  and annotations of the registration it read, whose configuration the agent took over; and it goes on only while calls fail.
\<close>

theorem Register_registers: "wp (Register G C fuel X) (register_outcome C fuel X)"
  by (rule wp_Register)

section \<open>Finalizing the registration\<close>

definition claims_registered :: "hostPatchRequest \<Rightarrow> bool" where
  "claims_registered q \<longleftrightarrow> (\<exists>c. hpCondition q = Some c \<and> cType c = RegistrationReady \<and> cStatus c = ConditionTrue)"

text \<open>Everything the installed host needs to come back as this host was handed to the plugin.\<close>

definition persisted :: "codec \<Rightarrow> agentCodec \<Rightarrow> agentContext \<Rightarrow> call list \<Rightarrow> bool" where
  "persisted C Y X l \<longleftrightarrow> CallInstallHostname (cxHostname X) None \<in> set l \<and>
     (\<exists>conf. ay_yaml_config Y (cxConfig X) = Inr conf \<and>
        CallInstallFile conf (cxConfigPath X) 416 0 0 None \<in> set l) \<and>
     (\<exists>pem. identity_Marshal C (cxIdentity X) = Inr pem \<and>
        CallInstallFile pem (agWorkDir (acAgent (cxConfig X)) @ ''/'' @ PrivateKeyFile) 416 0 0 None \<in> set l)"

definition quiet :: "call \<Rightarrow> bool" where
  "quiet c \<longleftrightarrow> \<not> reports claims_registered c"

lemma wp_finalize:
  "wp (finalize G C Y X) (\<lambda>err l. list_all quiet l \<and> (err = None \<longrightarrow> persisted C Y X l))"
  unfolding finalize_def Let_def
  by (intro wp_intros) (simp_all add: persisted_def quiet_def)

definition finalizing_sofar :: "unit \<Rightarrow> call list \<Rightarrow> bool" where
  "finalizing_sofar s l \<longleftrightarrow> True"

definition reported_registered :: "agentContext \<Rightarrow> call list \<Rightarrow> bool" where
  "reported_registered X l \<longleftrightarrow> (\<exists>q h. CallPatchHost q (cxHostname X) (Inr h) \<in> set l \<and> claims_registered q)"

interpretation finalizing: retrying "registered_round G X" finalizing_sofar "\<lambda>_. reported_registered X" failed
proof
  fix s l
  show "wp (registered_round G X s) (\<lambda>r l'. case r of
      Inl s' \<Rightarrow> finalizing_sofar s' (l @ l') \<and> list_ex failed l' | Inr x \<Rightarrow> reported_registered X (l @ l'))"
    unfolding registered_round_def updateConditionOrFail_def
    by (intro wp_intros)
      (auto simp: finalizing_sofar_def reported_registered_def claims_registered_def)
qed

definition finalize_outcome ::
  "codec \<Rightarrow> agentCodec \<Rightarrow> nat \<Rightarrow> agentContext \<Rightarrow> goerr option option \<Rightarrow> call list \<Rightarrow> bool"
where
  "finalize_outcome C Y fuel X r l \<longleftrightarrow>
     (list_ex (reports claims_registered) l \<longrightarrow> persisted C Y X (takeWhile quiet l)) \<and>
     (case r of
        None \<Rightarrow> fuel \<le> length (filter failed l)
      | Some None \<Rightarrow> persisted C Y X l \<and> reported_registered X l
      | Some (Some e) \<Rightarrow> \<not> list_ex (reports claims_registered) l)"

lemma persisted_mono: "persisted C Y X l \<Longrightarrow> set l \<subseteq> set l' \<Longrightarrow> persisted C Y X l'"
  unfolding persisted_def by blast

lemma takeWhile_quiet: "list_all quiet l \<Longrightarrow> takeWhile quiet (l @ l') = l @ takeWhile quiet l'"
  by (induction l) auto

lemma claims_registered_simps [simp]:
  "\<not> claims_registered (empty_patch\<lparr>hpPhase := Some p\<rparr>)"
  "claims_registered (empty_patch\<lparr>hpCondition := Some c\<rparr>) \<longleftrightarrow> cType c = RegistrationReady \<and> cStatus c = ConditionTrue"
  "quiet (CallPatchHost q n r) \<longleftrightarrow> \<not> claims_registered q"
  by (auto simp: quiet_def claims_registered_def)

lemma quiet_reports: "list_all quiet l \<Longrightarrow> \<not> list_ex (reports claims_registered) l"
  by (auto simp: list_all_iff list_ex_iff quiet_def)

lemma reported_registered_mono: "reported_registered X l \<Longrightarrow> set l \<subseteq> set l' \<Longrightarrow> reported_registered X l'"
  unfolding reported_registered_def by blast

text \<open>
  Finalizing a registration. The registration is reported ready only after the plugin persisted the host name,
  the configuration and the private key, under the paths the configuration gives them; it goes on only
  while calls fail, and an error means that nothing was reported ready.
\<close>

theorem FinalizeRegistration_persists: "wp (FinalizeRegistration G C Y fuel X) (finalize_outcome C Y fuel X)"
proof -
  have start: "finalizing_sofar () []" by (simp add: finalizing_sofar_def)
  have keep: "list_all quiet l1 \<Longrightarrow> persisted C Y X l1 \<Longrightarrow> persisted C Y X (takeWhile quiet (l1 @ l2))" for l1 l2
    by (simp add: takeWhile_quiet) (erule persisted_mono, simp)
  have later: "persisted C Y X l1 \<Longrightarrow> persisted C Y X (c # l1 @ l2)" for c l1 l2
    by (erule persisted_mono) auto
  have first: "persisted C Y X (takeWhile quiet l) \<Longrightarrow> persisted C Y X (c # takeWhile quiet l)" for c l
    by (erule persisted_mono) auto
  show ?thesis
    unfolding FinalizeRegistration_def setPhase_def updateCondition_def
    apply (intro wp_intros wp_mono [OF wp_finalize] wp_mono [OF finalizing.wp_rounds [OF start]])
    apply (simp_all only: append_Nil append_Nil2 append_Cons)
    by (auto simp: finalize_outcome_def dest: quiet_reports intro!: first keep later intro: reported_registered_mono split: option.splits)
qed

section \<open>Bootstrap\<close>

definition bootstrap_outcome :: "agentContext \<Rightarrow> postAction \<times> goerr option \<Rightarrow> call list \<Rightarrow> bool" where
  "bootstrap_outcome X out l \<longleftrightarrow>
     comes_after (\<lambda>c. c = CallStat bootstrapSentinelFile None) (reports claims_bootstrapped) False l \<and>
     (\<forall>f c a. CallBootstrap f c a \<in> set l \<longrightarrow>
        (\<exists>e. CallStat bootstrapSentinelFile (Some e) \<in> set l \<and> err_is e FsNotExist) \<and>
        CallGetBootstrap (cxHostname X) (Inr \<lparr>brFormat = f, brConfig = c\<rparr>) \<in> set l) \<and>
     (case out of (post, err) \<Rightarrow>
        post = (if list_ex (succeeded applies_bootstrap) l then reboot_post else no_post) \<and>
        (err = None \<longrightarrow> list_ex (succeeded applies_bootstrap) l \<or> list_ex (succeeded (reports claims_bootstrapped)) l) \<and>
        (\<forall>e. err = Some e \<longrightarrow> \<not> list_ex (succeeded applies_bootstrap) l \<and>
           \<not> list_ex (succeeded (reports claims_bootstrapped)) l \<and>
           (\<exists>q a. last l = CallPatchHost q (cxHostname X) a \<and> hpCondition q =
              Some (mk_condition BootstrapReady ConditionFalse SeverityError BootstrapFailedReason (err_msg e)))))"

text \<open>
  Bootstrap. The server is told that a host is bootstrapped only after the sentinel file was seen; the plugin
  applies the bootstrap instructions of the server only where the file does not exist; the host is to be rebooted exactly when that
  succeeded; every error is reported in the condition.
\<close>

theorem Bootstrap_follows_sentinel: "wp (Bootstrap G X) (bootstrap_outcome X)"
proof -
  have eta: "\<lparr>brFormat = brFormat b, brConfig = brConfig b\<rparr> = b" for b :: bootstrapResponse by simp
  show ?thesis
    unfolding Bootstrap_def bootstrap_inner_def updateBoostrappedStatus_def setPhase_def updateCondition_def
    apply (intro wp_intros)
    apply (simp_all only: append_Nil append_Nil2 append_Cons)
    by (auto simp: bootstrap_outcome_def succeeded_def claims_defs eta failed_def no_post_def reboot_post_def)
qed

section \<open>OS version\<close>

definition claims_updated :: "hostPatchRequest \<Rightarrow> bool" where
  "claims_updated q \<longleftrightarrow> hpInPlaceUpdate q = Some InPlaceUpdateDone"

definition osVersion_outcome ::
  "agentCodec \<Rightarrow> agentContext \<Rightarrow> rawMap \<Rightarrow> bool \<Rightarrow> postAction \<times> goerr option \<Rightarrow> call list \<Rightarrow> bool"
where
  "osVersion_outcome Y X osv needs out l \<longleftrightarrow>
     (\<forall>b r. CallReconcileOSVersion b r \<in> set l \<longrightarrow> ay_json_raw Y osv = Inr b) \<and>
     comes_after (\<lambda>c. \<exists>b. c = CallReconcileOSVersion b (Inr False)) (reports claims_updated) False l \<and>
     (case out of (post, err) \<Rightarrow>
        post = (if \<exists>b. CallReconcileOSVersion b (Inr True) \<in> set l then reboot_post else no_post) \<and>
        (err = None \<and> post = no_post \<longrightarrow>
           (\<exists>b. CallReconcileOSVersion b (Inr False) \<in> set l) \<and>
           (needs \<longrightarrow> list_ex (succeeded (reports claims_updated)) l)) \<and>
        (err \<noteq> None \<longrightarrow> post = no_post \<and> \<not> list_ex (succeeded (reports claims_updated)) l) \<and>
        (\<not> needs \<longrightarrow> \<not> list_ex (reports claims_updated) l))"

text \<open>
  OS version. The plugin is given the desired versions as they are; the host is to be rebooted exactly when the plugin
  asked for it; an in-place update is reported done only after the plugin said that there is nothing left to do,
  and only if one was pending; without an error and without a reboot it has been reported.
\<close>

theorem OSVersion_Reconcile_follows_plugin:
  "wp (OSVersion_Reconcile G Y X osv needs) (osVersion_outcome Y X osv needs)"
  unfolding OSVersion_Reconcile_def osVersion_failed_def updateConditionOrFail_def setPhase_def updateCondition_def
  apply (intro wp_intros)
  apply (simp_all only: append_Nil append_Nil2 append_Cons)
  by (auto simp: osVersion_outcome_def succeeded_def claims_updated_def failed_def no_post_def reboot_post_def)

section \<open>Triggering a reset\<close>

definition trigger_outcome :: "agentContext \<Rightarrow> goerr option \<Rightarrow> call list \<Rightarrow> bool" where
  "trigger_outcome X err l \<longleftrightarrow>
     (\<exists>q p r u c. l = [CallPatchHost q (cxHostname X) p, CallTriggerReset r, CallPatchHost u (cxHostname X) c] \<and>
        (err = None \<longleftrightarrow> r = None) \<and> hpReset q = None \<and> hpReset u = None)"

lemma wp_TriggerReset: "wp (Handler_TriggerReset G X) (trigger_outcome X)"
  unfolding Handler_TriggerReset_def Let_def setPhase_def updateCondition_def
  by (intro wp_intros) (auto simp: trigger_outcome_def)

end
