(* ===== verification/Agent_Commands.thy ===== *)
theory Agent_Commands
  imports Agent_Laws
begin

text \<open>
  \<^verbatim>\<open>cmd/agent\<close>: the commands of the agent on a context that was initialized, composed of the
  phases. \<^verbatim>\<open>run\<close> is the loop in which the agent follows the remote host for the rest of its life.
\<close>

section \<open>The commands\<close>

definition handlePost :: "'w agent \<Rightarrow> postAction \<Rightarrow> ('w, call, bool) prog" where
  "handlePost G post =
     (if postPowerOff post then do { _ \<leftarrow> cPowerOff G; ret True }
      else if postReboot post then do { _ \<leftarrow> cReboot G; ret True }
      else ret False)"

text \<open>\<^verbatim>\<open>install\<close> and \<^verbatim>\<open>reset\<close>.\<close>

definition install_command :: "'w agent \<Rightarrow> agentCodec \<Rightarrow> nat \<Rightarrow> agentContext \<Rightarrow> ('w, call, unit option) prog" where
  "install_command G Y fuel X = do {
     r \<leftarrow> Install G Y fuel X;
     (case r of
        None \<Rightarrow> ret None
      | Some _ \<Rightarrow> do { _ \<leftarrow> handlePost G (agPostInstall (acAgent (cxConfig X))); ret (Some ()) })
   }"

definition reset_command :: "'w agent \<Rightarrow> agentCodec \<Rightarrow> nat \<Rightarrow> agentContext \<Rightarrow> ('w, call, unit option) prog" where
  "reset_command G Y fuel X = do {
     r \<leftarrow> Handler_Reset G Y fuel X;
     (case r of
        None \<Rightarrow> ret None
      | Some _ \<Rightarrow> do { _ \<leftarrow> handlePost G (agPostReset (acAgent (cxConfig X))); ret (Some ()) })
   }"

text \<open>\<^verbatim>\<open>register\<close>; the result is the error it dies with, and the context that registration changed.\<close>

definition register_command ::
  "'w agent \<Rightarrow> codec \<Rightarrow> agentCodec \<Rightarrow> nat \<Rightarrow> bool \<Rightarrow> agentContext \<Rightarrow>
    ('w, call, (goerr option \<times> agentContext) option) prog"
where
  "register_command G C Y fuel installFlag X = do {
     r \<leftarrow> Register G C fuel X;
     (case r of
        None \<Rightarrow> ret None
      | Some (Some e, X) \<Rightarrow> ret (Some (Some e, X))
      | Some (None, X) \<Rightarrow> do {
          f \<leftarrow> FinalizeRegistration G C Y fuel X;
          (case f of
             None \<Rightarrow> ret None
           | Some (Some e) \<Rightarrow> ret (Some (Some e, X))
           | Some None \<Rightarrow>
               if installFlag
               then do {
                 i \<leftarrow> install_command G Y fuel X;
                 (case i of None \<Rightarrow> ret None | Some _ \<Rightarrow> ret (Some (None, X)))
               }
               else ret (Some (None, X)))
        })
   }"

text \<open>One iteration of \<^verbatim>\<open>run\<close>; the program ends with \<open>Inr\<close>.\<close>

definition run_wait :: "'w agent \<Rightarrow> agentContext \<Rightarrow> ('w, call, unit + unit) prog" where
  "run_wait G X = do { _ \<leftarrow> cSleep G (reconciliation X); ret (Inl ()) }"

definition run_bootstrap :: "'w agent \<Rightarrow> agentContext \<Rightarrow> hostResponse \<Rightarrow> ('w, call, unit + unit) prog" where
  "run_bootstrap G X host =
     (if hrBootstrapReady host \<and> \<not> hrBootstrapped host
      then do {
        (post, err) \<leftarrow> Bootstrap G X;
        (case err of
           Some e \<Rightarrow> run_wait G X
         | None \<Rightarrow> do {
             stop \<leftarrow> handlePost G post;
             (if stop then ret (Inr ()) else run_wait G X)
           })
      }
      else run_wait G X)"

definition run_round :: "'w agent \<Rightarrow> agentCodec \<Rightarrow> agentContext \<Rightarrow> unit \<Rightarrow> ('w, call, unit + unit) prog" where
  "run_round G Y X s = do {
     p \<leftarrow> cPatchHost G (empty_patch\<lparr>hpPhase := Some PhaseRunning\<rparr>) (cxHostname X);
     (case p of
        Inl e \<Rightarrow> run_wait G X
      | Inr host \<Rightarrow>
          if hrNeedsReset host
          then do {
            t \<leftarrow> Handler_TriggerReset G X;
            (case t of Some e \<Rightarrow> run_wait G X | None \<Rightarrow> ret (Inr ()))
          }
          else
            (let needsInplaceUpdate = (hrInPlaceUpgrade host = InPlaceUpdatePending)
             in if \<not> hrBootstrapped host \<or> needsInplaceUpdate
                then do {
                  (post, err) \<leftarrow> OSVersion_Reconcile G Y X (hrOSVersionManagement host) needsInplaceUpdate;
                  (case err of
                     Some e \<Rightarrow> run_wait G X
                   | None \<Rightarrow> do {
                       stop \<leftarrow> handlePost G post;
                       (if stop then ret (Inr ()) else run_bootstrap G X host)
                     })
                }
                else run_bootstrap G X host))
   }"

definition run_command :: "'w agent \<Rightarrow> agentCodec \<Rightarrow> nat \<Rightarrow> agentContext \<Rightarrow> ('w, call, unit option) prog" where
  "run_command G Y fuel X = rounds (run_round G Y X) fuel ()"

section \<open>What they guarantee\<close>

fun powers_off :: "call \<Rightarrow> bool" where "powers_off (CallPowerOff _) = True" | "powers_off _ = False"
fun reboots :: "call \<Rightarrow> bool" where "reboots (CallReboot _) = True" | "reboots _ = False"
fun triggers_reset :: "call \<Rightarrow> bool" where "triggers_reset (CallTriggerReset _) = True" | "triggers_reset _ = False"
fun reconciles_os :: "call \<Rightarrow> bool" where "reconciles_os (CallReconcileOSVersion _ _) = True" | "reconciles_os _ = False"
fun looks_for_sentinel :: "call \<Rightarrow> bool" where "looks_for_sentinel (CallStat _ _) = True" | "looks_for_sentinel _ = False"
fun sleeps :: "call \<Rightarrow> bool" where "sleeps (CallSleep _ _) = True" | "sleeps _ = False"

lemma wp_handlePost:
  assumes "\<And>r. postPowerOff post \<Longrightarrow> Q True [CallPowerOff r]"
    and "\<And>r. \<not> postPowerOff post \<Longrightarrow> postReboot post \<Longrightarrow> Q True [CallReboot r]"
    and "\<not> postPowerOff post \<Longrightarrow> \<not> postReboot post \<Longrightarrow> Q False []"
  shows "wp (handlePost G post) Q"
  unfolding handlePost_def by (intro wp_intros) (auto intro: assms)

text \<open>
  One iteration of \<^verbatim>\<open>run\<close>: it follows the host the server answered with. A reset comes before everything else.
\<close>

definition followed :: "hostResponse \<Rightarrow> call list \<Rightarrow> bool \<Rightarrow> bool" where
  "followed host l stopped \<longleftrightarrow>
     (if hrNeedsReset host
      then list_ex triggers_reset l \<and> \<not> list_ex reboots l \<and> \<not> list_ex reconciles_os l \<and> \<not> list_ex looks_for_sentinel l \<and>
        (stopped \<longleftrightarrow> list_ex (succeeded triggers_reset) l)
      else \<not> list_ex triggers_reset l \<and>
        (list_ex reconciles_os l \<longrightarrow> \<not> hrBootstrapped host \<or> hrInPlaceUpgrade host = InPlaceUpdatePending) \<and>
        (list_ex looks_for_sentinel l \<longrightarrow> hrBootstrapReady host \<and> \<not> hrBootstrapped host \<and> list_ex reconciles_os l) \<and>
        (stopped \<longleftrightarrow> list_ex reboots l))"

definition run_round_ok :: "agentContext \<Rightarrow> unit + unit \<Rightarrow> call list \<Rightarrow> bool" where
  "run_round_ok X r l \<longleftrightarrow> (\<exists>p rest. l = CallPatchHost (empty_patch\<lparr>hpPhase := Some PhaseRunning\<rparr>) (cxHostname X) p # rest \<and>
     \<not> list_ex powers_off rest \<and> (r = Inl () \<longleftrightarrow> list_ex sleeps rest) \<and>
     comes_after (\<lambda>c. c = CallStat bootstrapSentinelFile None) (reports claims_bootstrapped) False rest \<and>
     (case p of
        Inl e \<Rightarrow> r = Inl () \<and> (\<exists>u. rest = [CallSleep (reconciliation X) u])
      | Inr host \<Rightarrow> followed host rest (r = Inr ())))"


lemma post_simps [simp]:
  "\<not> postPowerOff no_post" "\<not> postReboot no_post" "\<not> postPowerOff reboot_post" "postReboot reboot_post"
  by (simp_all add: no_post_def reboot_post_def)

definition phase_calls :: "call list \<Rightarrow> bool" where
  "phase_calls l \<longleftrightarrow> \<not> list_ex powers_off l \<and> \<not> list_ex reboots l \<and> \<not> list_ex sleeps l"

lemma wp_TriggerReset_calls:
  "wp (Handler_TriggerReset G X) (\<lambda>err l. phase_calls l \<and> list_ex triggers_reset l \<and>
     \<not> list_ex reconciles_os l \<and> \<not> list_ex looks_for_sentinel l \<and>
     comes_after (\<lambda>c. c = CallStat bootstrapSentinelFile None) (reports claims_bootstrapped) False l \<and>
     (err = None \<longleftrightarrow> list_ex (succeeded triggers_reset) l))"
  unfolding Handler_TriggerReset_def Let_def setPhase_def updateCondition_def
  by (intro wp_intros) (auto simp: phase_calls_def succeeded_def failed_def claims_defs)

lemma wp_OSVersion_calls:
  "wp (OSVersion_Reconcile G Y X osv needs) (\<lambda>(post, err) l. phase_calls l \<and> \<not> list_ex triggers_reset l \<and>
     \<not> list_ex looks_for_sentinel l \<and> \<not> list_ex (reports claims_bootstrapped) l \<and> \<not> postPowerOff post \<and>
     (err = None \<longrightarrow> list_ex reconciles_os l))"
  unfolding OSVersion_Reconcile_def osVersion_failed_def updateConditionOrFail_def setPhase_def updateCondition_def
  apply (intro wp_intros)
  apply (simp_all only: append_Nil append_Nil2 append_Cons)
  by (auto simp: phase_calls_def claims_defs no_post_def)

lemma wp_Bootstrap_calls:
  "wp (Bootstrap G X) (\<lambda>(post, err) l. phase_calls l \<and> \<not> list_ex triggers_reset l \<and> \<not> list_ex reconciles_os l \<and>
     \<not> postPowerOff post \<and>
     comes_after (\<lambda>c. c = CallStat bootstrapSentinelFile None) (reports claims_bootstrapped) False l)"
  unfolding Bootstrap_def bootstrap_inner_def updateBoostrappedStatus_def setPhase_def updateCondition_def
  apply (intro wp_intros)
  apply (simp_all only: append_Nil append_Nil2 append_Cons)
  by (auto simp: phase_calls_def claims_defs)

lemma comes_after_none: "\<not> list_ex Q l \<Longrightarrow> comes_after P Q seen l"
  by (induction l arbitrary: seen) auto

lemma comes_after_mono: "comes_after P Q s l \<Longrightarrow> (s \<longrightarrow> s') \<Longrightarrow> comes_after P Q s' l"
proof (induction l arbitrary: s s')
  case (Cons a l)
  from Cons.IH [of "s \<or> P a" "s' \<or> P a"] Cons.prems show ?case by simp
qed simp

lemma comes_after_seen: "comes_after P Q False l \<Longrightarrow> comes_after P Q seen l"
  by (erule comes_after_mono) simp

lemma no_trigger [simp]: "\<not> succeeded triggers_reset (CallSleep d u)"
  by (simp add: succeeded_def)

lemma wp_run_bootstrap:
  "wp (run_bootstrap G X host) (\<lambda>r l. \<not> list_ex powers_off l \<and> \<not> list_ex triggers_reset l \<and> \<not> list_ex reconciles_os l \<and>
     (r = Inl () \<longleftrightarrow> list_ex sleeps l) \<and> (r = Inr () \<longleftrightarrow> list_ex reboots l) \<and>
     (list_ex looks_for_sentinel l \<longrightarrow> hrBootstrapReady host \<and> \<not> hrBootstrapped host) \<and>
     comes_after (\<lambda>c. c = CallStat bootstrapSentinelFile None) (reports claims_bootstrapped) False l)"
  unfolding run_bootstrap_def run_wait_def
  by (intro wp_intros wp_mono [OF wp_Bootstrap_calls] wp_handlePost)
    (auto simp: phase_calls_def comes_after_none)

lemma wp_run_round: "wp (run_round G Y X s) (run_round_ok X)"
  unfolding run_round_def Let_def run_wait_def
  apply (intro wp_intros wp_mono [OF wp_OSVersion_calls] wp_mono [OF wp_TriggerReset_calls]
      wp_mono [OF wp_run_bootstrap] wp_handlePost)
  apply (simp_all only: append_Nil append_Nil2 append_Cons)
  by (auto simp: run_round_ok_def followed_def phase_calls_def comes_after_none comes_after_seen)


text \<open>
  The agent follows its host. In every iteration of \<^verbatim>\<open>run\<close> it first asks for the host; if that needs a reset, the
  reset is triggered and nothing else is done, and the program ends exactly when that succeeded; otherwise the OS
  version is reconciled only while the host is not bootstrapped or an update is pending, the bootstrap only
  after that and only where it is ready and not done; the program ends exactly when it asked for
  a reboot; and it never powers the host off.
\<close>

theorem run_round_follows_host: "wp (run_round G Y X s) (run_round_ok X)"
  by (rule wp_run_round)

section \<open>The whole run\<close>

definition stops :: "call \<Rightarrow> bool" where
  "stops c \<longleftrightarrow> reboots c \<or> succeeded triggers_reset c"

definition run_safe :: "call list \<Rightarrow> bool" where
  "run_safe l \<longleftrightarrow> comes_after (\<lambda>c. c = CallStat bootstrapSentinelFile None) (reports claims_bootstrapped) False l \<and>
     \<not> list_ex powers_off l"

definition run_sofar :: "unit \<Rightarrow> call list \<Rightarrow> bool" where
  "run_sofar s l \<longleftrightarrow> run_safe l \<and> \<not> list_ex stops l"

definition run_finished :: "call list \<Rightarrow> bool" where
  "run_finished l \<longleftrightarrow> run_safe l \<and> list_ex stops l"

lemma list_ex_stops: "list_ex stops l \<longleftrightarrow> list_ex reboots l \<or> list_ex (succeeded triggers_reset) l"
  by (induction l) (auto simp: stops_def)

lemma trigger_succeeded: "list_ex (succeeded P) l \<Longrightarrow> list_ex P l"
  by (auto simp: list_ex_iff succeeded_def)

lemma run_round_ok_stops:
  assumes "run_round_ok X r l"
  shows "list_ex stops l \<longleftrightarrow> r = Inr ()" "list_ex sleeps l \<longleftrightarrow> r = Inl ()" "run_safe l"
proof -
  from assms obtain p rest where l: "l = CallPatchHost (empty_patch\<lparr>hpPhase := Some PhaseRunning\<rparr>) (cxHostname X) p # rest"
    and ok: "\<not> list_ex powers_off rest" "r = Inl () \<longleftrightarrow> list_ex sleeps rest"
      "comes_after (\<lambda>c. c = CallStat bootstrapSentinelFile None) (reports claims_bootstrapped) False rest"
    and p: "case p of Inl e \<Rightarrow> r = Inl () \<and> (\<exists>u. rest = [CallSleep (reconciliation X) u])
      | Inr host \<Rightarrow> followed host rest (r = Inr ())"
    unfolding run_round_ok_def by (elim exE conjE)
  show "list_ex sleeps l \<longleftrightarrow> r = Inl ()" "run_safe l"
    using ok by (simp_all add: l run_safe_def claims_defs)
  have "list_ex stops rest \<longleftrightarrow> r = Inr ()"
  proof (cases p)
    case (Inl e)
    with p show ?thesis by (auto simp: stops_def)
  next
    case (Inr host)
    with p have "followed host rest (r = Inr ())" by simp
    then show ?thesis
      unfolding followed_def list_ex_stops using trigger_succeeded [of triggers_reset rest] by (metis (full_types))
  qed
  then show "list_ex stops l \<longleftrightarrow> r = Inr ()" by (simp add: l stops_def succeeded_def)
qed

lemma run_safe_append: "run_safe l \<Longrightarrow> run_safe l' \<Longrightarrow> run_safe (l @ l')"
  by (simp add: run_safe_def comes_after_seen)

interpretation running: retrying "run_round G Y X" run_sofar "\<lambda>_. run_finished" sleeps
proof
  fix s l
  assume s: "run_sofar s l"
  show "wp (run_round G Y X s) (\<lambda>r l'. case r of
      Inl s' \<Rightarrow> run_sofar s' (l @ l') \<and> list_ex sleeps l' | Inr x \<Rightarrow> run_finished (l @ l'))"
  proof (rule wp_mono [OF wp_run_round])
    fix r :: "unit + unit" and l'
    assume "run_round_ok X r l'"
    from run_round_ok_stops [OF this] s show "case r of
        Inl s' \<Rightarrow> run_sofar s' (l @ l') \<and> list_ex sleeps l' | Inr x \<Rightarrow> run_finished (l @ l')"
      by (cases r) (auto simp: run_sofar_def run_finished_def run_safe_append)
  qed
qed

definition run_outcome :: "nat \<Rightarrow> unit option \<Rightarrow> call list \<Rightarrow> bool" where
  "run_outcome fuel r l \<longleftrightarrow> run_safe l \<and>
     (r \<noteq> None \<longleftrightarrow> list_ex stops l) \<and> (r = None \<longrightarrow> fuel \<le> length (filter sleeps l))"

lemma wp_run_command: "wp (run_command G Y fuel X) (run_outcome fuel)"
proof -
  have start: "run_sofar () []" by (simp add: run_sofar_def run_safe_def)
  show ?thesis
    unfolding run_command_def
    by (rule wp_mono [OF running.wp_rounds [OF start]])
      (auto simp: run_outcome_def run_sofar_def run_finished_def split: option.splits)
qed

text \<open>
  The agent runs until it has to stop. Over any number of iterations, the server is told that the host is bootstrapped
  only after the sentinel file was seen; the program has ended if and only if a reset was triggered or a
  reboot was asked for; until then it has slept once in every iteration.
\<close>

theorem run_command_runs: "wp (run_command G Y fuel X) (run_outcome fuel)"
  by (rule wp_run_command)

end
