(* ===== verification/Agent_Client.thy ===== *)
theory Agent_Client
  imports Api_Server Agent_Common
begin

text \<open>
  \<^verbatim>\<open>internal/agent/client\<close> and \<^verbatim>\<open>internal/agent/tls\<close>: the client the agent
  uses the API with. The network and the clock are a parameter, a record of functions on a world of any type
  whose calls are events; so are JSON, the parser of URLs and the certificate pool. With it, what connects the
  client to the server: its tokens are accepted and its requests are routed.
\<close>

section \<open>The network\<close>

record httpRequest =
  qMethod :: string
  qURL :: string
  qHeaders :: "(string \<times> string) list"
  qBody :: string

text \<open>A reply is its status and what reading its body gives.\<close>

type_synonym httpReply = "nat \<times> (goerr + string)"

record 'w net =
  nt_Do :: "httpRequest \<Rightarrow> 'w \<Rightarrow> (goerr + httpReply) \<times> 'w"
  nt_Now :: "'w \<Rightarrow> int \<times> 'w"

datatype netEvent = NetDo httpRequest "goerr + httpReply" | NetNow int

definition http_Do :: "'w net \<Rightarrow> httpRequest \<Rightarrow> ('w, netEvent, goerr + httpReply) prog" where
  "http_Do N q = ask (nt_Do N q) (NetDo q)"

definition time_Now :: "'w net \<Rightarrow> ('w, netEvent, int) prog" where
  "time_Now N = ask (nt_Now N) NetNow"

lemma wp_http_Do [wp_intros]: "(\<And>r. Q r [NetDo q r]) \<Longrightarrow> wp (http_Do N q) Q"
  by (simp add: http_Do_def wp_ask_any)

lemma wp_time_Now [wp_intros]: "(\<And>t. Q t [NetNow t]) \<Longrightarrow> wp (time_Now N) Q"
  by (simp add: time_Now_def wp_ask_any)

text \<open>JSON, and \<^verbatim>\<open>url.Parse\<close> as far as it is used: whether it fails, and the scheme.\<close>

record clientCodec =
  cc_encode_create :: "hostCreateRequest \<Rightarrow> goerr + string"
  cc_encode_patch :: "hostPatchRequest \<Rightarrow> goerr + string"
  cc_decode_registration :: "string \<Rightarrow> goerr + registrationResponse"
  cc_decode_host :: "string \<Rightarrow> goerr + hostResponse"
  cc_decode_bootstrap :: "string \<Rightarrow> goerr + bootstrapResponse"
  cc_url_scheme :: "string \<Rightarrow> goerr + string"

section \<open>TLS\<close>

text \<open>The file system and the certificate library, as the agent starts.\<close>

record tlsHost =
  th_Stat :: "string \<Rightarrow> goerr option"
  th_ReadFile :: "string \<Rightarrow> goerr + string"
  th_SystemCertPool :: "goerr option"
  th_has_certs :: "string \<Rightarrow> bool" \<comment> \<open>\<^verbatim>\<open>AppendCertsFromPEM\<close> found one\<close>

record tlsConfig =
  tlSystemPool :: bool
  tlExtraCerts :: "string option"
  tlInsecureSkipVerify :: bool

definition eUnparsableCert :: goerr where
  "eUnparsableCert = new_err ErrUnparsableCert ''could not parse certificate''"

definition GetCACert :: "tlsHost \<Rightarrow> string \<Rightarrow> goerr + string" where
  "GetCACert T caCert = (case th_Stat T caCert of
     None \<Rightarrow> (case th_ReadFile T caCert of Inl e \<Rightarrow> Inl (wrapf ''reading CACert file'' e) | Inr b \<Rightarrow> Inr b)
   | Some _ \<Rightarrow> Inr caCert)"

definition GetTLSClientConfig :: "tlsHost \<Rightarrow> string \<Rightarrow> bool \<Rightarrow> bool \<Rightarrow> goerr + tlsConfig" where
  "GetTLSClientConfig T caCertPem useSystemCertPool insecureSkipVerify =
     (case (if useSystemCertPool then th_SystemCertPool T else None) of
        Some e \<Rightarrow> Inl (wrapf ''copying system cert pool'' e)
      | None \<Rightarrow>
          if caCertPem \<noteq> [] \<and> \<not> th_has_certs T caCertPem then Inl eUnparsableCert
          else Inr \<lparr>tlSystemPool = useSystemCertPool,
            tlExtraCerts = (if caCertPem = [] then None else Some caCertPem),
            tlInsecureSkipVerify = insecureSkipVerify\<rparr>)"

section \<open>The client\<close>

record client =
  clUserAgent :: string
  clRegistrationURI :: string
  clRegistrationToken :: string
  clTLS :: "tlsConfig option"
  clIdentity :: string

definition NewClient :: "string \<Rightarrow> client" where
  "NewClient version = \<lparr>clUserAgent = ''elemental-agent/'' @ version, clRegistrationURI = [],
     clRegistrationToken = [], clTLS = None, clIdentity = []\<rparr>"

text \<open>\<^verbatim>\<open>strings.ToLower\<close> on the characters a scheme can have.\<close>

definition to_lower :: "string \<Rightarrow> string" where
  "to_lower s = map (\<lambda>c. if CHR ''A'' \<le> c \<and> c \<le> CHR ''Z'' then char_of (of_char c + (32 :: nat)) else c) s"

definition eInvalidScheme :: goerr where
  "eInvalidScheme = new_err ErrInvalidScheme ''invalid scheme, use 'https' instead''"

definition client_Init ::
  "tlsHost \<Rightarrow> clientCodec \<Rightarrow> string \<Rightarrow> agentConf \<Rightarrow> client \<Rightarrow> goerr option \<times> client"
where
  "client_Init T K identity conf c0 =
     (let c = c0\<lparr>clIdentity := identity\<rparr> in
      (case cc_url_scheme K (rgURI (acRegistration conf)) of
         Inl e \<Rightarrow> (Some (wrapf ''parsing registration URI'' e), c)
       | Inr url_scheme \<Rightarrow>
           (let scheme = to_lower url_scheme in
            if scheme \<noteq> ''http'' \<and> scheme \<noteq> ''https''
            then (Some (wrapf (''unknown scheme '' @ sq url_scheme) eInvalidScheme), c)
            else if \<not> agInsecureAllowHTTP (acAgent conf) \<and> scheme \<noteq> ''https''
            then (Some (wrapf (''using '' @ sq url_scheme @ '' scheme'') eInvalidScheme), c)
            else
              (case GetCACert T (rgCACert (acRegistration conf)) of
                 Inl e \<Rightarrow> (Some (wrapf ''reading CA Cert from configuration'' e), c)
               | Inr caCert \<Rightarrow>
                   (case GetTLSClientConfig T caCert (agUseSystemCertPool (acAgent conf))
                      (agInsecureSkipTLSVerify (acAgent conf)) of
                      Inl e \<Rightarrow> (Some (wrapf ''configuring TLS client'' e), c)
                    | Inr tlsConfig \<Rightarrow> (None, c\<lparr>clRegistrationURI := rgURI (acRegistration conf),
                        clRegistrationToken := rgToken (acRegistration conf), clTLS := Some tlsConfig\<rparr>))))))"

section \<open>Requests\<close>

text \<open>\<^verbatim>\<open>Header.Add\<close>.\<close>

definition add_header :: "string \<Rightarrow> string \<Rightarrow> httpRequest \<Rightarrow> httpRequest" where
  "add_header k v q = q\<lparr>qHeaders := qHeaders q @ [(k, v)]\<rparr>"

definition newRequest :: "clientCodec \<Rightarrow> client \<Rightarrow> string \<Rightarrow> string \<Rightarrow> string \<Rightarrow> goerr + httpRequest" where
  "newRequest K c meth url body = (case cc_url_scheme K url of
     Inl e \<Rightarrow> Inl (wrapf ''preparing request'' e)
   | Inr _ \<Rightarrow> Inr (add_header ''User-Agent'' (clUserAgent c)
       \<lparr>qMethod = meth, qURL = url, qHeaders = [], qBody = body\<rparr>))"

definition host_claims :: "client \<Rightarrow> int \<Rightarrow> string \<Rightarrow> claims" where
  "host_claims c now hostname = \<lparr>rcIssuer = clUserAgent c, rcSubject = hostname,
     rcAudience = [clRegistrationURI c], rcExpiresAt = Some (NewNumericDate (now + 60 * 1000000000)),
     rcNotBefore = Some (NewNumericDate (now - 2 * 1000000000)), rcIssuedAt = Some (NewNumericDate now),
     rcID = []\<rparr>"

definition newToken :: "'w net \<Rightarrow> codec \<Rightarrow> client \<Rightarrow> string \<Rightarrow> ('w, netEvent, goerr + string) prog" where
  "newToken N C c hostname = do {
     now \<leftarrow> time_Now N;
     (case identity_Sign C (clIdentity c) (host_claims c now hostname) of
        Inl e \<Rightarrow> ret (Inl (wrapf ''signing JWT claims'' e))
      | Inr token \<Rightarrow> ret (Inr token))
   }"

definition addAuthHeader ::
  "'w net \<Rightarrow> codec \<Rightarrow> client \<Rightarrow> httpRequest \<Rightarrow> string \<Rightarrow> ('w, netEvent, goerr + httpRequest) prog"
where
  "addAuthHeader N C c q hostname = do {
     t \<leftarrow> newToken N C c hostname;
     (case t of
        Inl e \<Rightarrow> ret (Inl (wrapf ''generating new token'' e))
      | Inr token \<Rightarrow> ret (Inr (add_header ''Authorization'' (''Bearer '' @ token) q)))
   }"

definition newAuthenticatedRequest ::
  "'w net \<Rightarrow> codec \<Rightarrow> clientCodec \<Rightarrow> client \<Rightarrow> string \<Rightarrow> string \<Rightarrow> string \<Rightarrow> string \<Rightarrow>
    ('w, netEvent, goerr + httpRequest) prog"
where
  "newAuthenticatedRequest N C K c forHostname meth url body = (case newRequest K c meth url body of
     Inl e \<Rightarrow> ret (Inl (wrapf ''creating new request'' e))
   | Inr request \<Rightarrow> do {
       a \<leftarrow> addAuthHeader N C c request forHostname;
       (case a of
          Inl e \<Rightarrow> ret (Inl (wrapf ''setting Authorization header'' e))
        | Inr request \<Rightarrow> ret (Inr request))
     })"

definition addRegistrationHeader :: "client \<Rightarrow> httpRequest \<Rightarrow> httpRequest" where
  "addRegistrationHeader c q = add_header ''Registration-Authorization'' (''Bearer '' @ clRegistrationToken c) q"

text \<open>\<^verbatim>\<open>%d\<close>.\<close>

fun show_nat :: "nat \<Rightarrow> string" where
  "show_nat n = (if n < 10 then [char_of (48 + n)] else show_nat (n div 10) @ [char_of (48 + n mod 10)])"

declare show_nat.simps [simp del]

definition eUnexpectedCode :: "string \<Rightarrow> nat \<Rightarrow> goerr" where
  "eUnexpectedCode what code = wrapf (what @ '' returned code '' @ sq (show_nat code))
     (new_err ErrUnexpectedCode ''unexpected return code'')"


section \<open>The calls of the interface\<close>

text \<open>The body of a reply with the expected status, decoded.\<close>

definition read_reply ::
  "string \<Rightarrow> string \<Rightarrow> string \<Rightarrow> (string \<Rightarrow> goerr + 'a) \<Rightarrow> httpReply \<Rightarrow> goerr + 'a"
where
  "read_reply doing what body decode reply =
     (if fst reply \<noteq> StatusOK then Inl (eUnexpectedCode doing (fst reply))
      else (case snd reply of
        Inl e \<Rightarrow> Inl (wrapf (''reading '' @ what @ '' response body'') e)
      | Inr responseBody \<Rightarrow> (case decode responseBody of
          Inl e \<Rightarrow> Inl (wrapf (''unmarshalling '' @ body @ '' response'') e)
        | Inr x \<Rightarrow> Inr x)))"

definition client_GetRegistration ::
  "'w net \<Rightarrow> clientCodec \<Rightarrow> client \<Rightarrow> ('w, netEvent, goerr + registrationResponse) prog"
where
  "client_GetRegistration N K c = (case newRequest K c ''GET'' (clRegistrationURI c) [] of
     Inl e \<Rightarrow> ret (Inl (wrapf ''preparing GET registration request'' e))
   | Inr request \<Rightarrow> do {
       r \<leftarrow> http_Do N (addRegistrationHeader c request);
       (case r of
          Inl e \<Rightarrow> ret (Inl (wrapf ''getting registration'' e))
        | Inr response \<Rightarrow> ret (read_reply ''getting registration'' ''registration'' ''registration''
            (cc_decode_registration K) response))
     })"

definition client_CreateHost ::
  "'w net \<Rightarrow> codec \<Rightarrow> clientCodec \<Rightarrow> client \<Rightarrow> hostCreateRequest \<Rightarrow> ('w, netEvent, goerr option) prog"
where
  "client_CreateHost N C K c newHost = (case cc_encode_create K newHost of
     Inl e \<Rightarrow> ret (Some (wrapf ''marshalling new host request body'' e))
   | Inr requestBody \<Rightarrow> do {
       q \<leftarrow> newAuthenticatedRequest N C K c (hcName newHost) ''POST'' (clRegistrationURI c @ ''/hosts'') requestBody;
       (case q of
          Inl e \<Rightarrow> ret (Some (wrapf ''preparing POST host request'' e))
        | Inr request \<Rightarrow> do {
            r \<leftarrow> http_Do N (addRegistrationHeader c (add_header ''Content-Type'' ''application/json'' request));
            (case r of
               Inl e \<Rightarrow> ret (Some (wrapf ''creating new host'' e))
             | Inr response \<Rightarrow>
                 if fst response \<noteq> StatusCreated
                 then ret (Some (eUnexpectedCode ''creating new host'' (fst response)))
                 else ret None)
          })
     })"

definition host_url :: "client \<Rightarrow> string \<Rightarrow> string" where
  "host_url c hostname = clRegistrationURI c @ ''/hosts/'' @ hostname"

definition client_DeleteHost ::
  "'w net \<Rightarrow> codec \<Rightarrow> clientCodec \<Rightarrow> client \<Rightarrow> string \<Rightarrow> ('w, netEvent, goerr option) prog"
where
  "client_DeleteHost N C K c hostname = do {
     q \<leftarrow> newAuthenticatedRequest N C K c hostname ''DELETE'' (host_url c hostname) [];
     (case q of
        Inl e \<Rightarrow> ret (Some (wrapf ''preparing DELETE host request'' e))
      | Inr request \<Rightarrow> do {
          r \<leftarrow> http_Do N request;
          (case r of
             Inl e \<Rightarrow> ret (Some (wrapf ''deleting host'' e))
           | Inr response \<Rightarrow>
               if fst response \<noteq> StatusAccepted
               then ret (Some (eUnexpectedCode ''deleting host'' (fst response)))
               else ret None)
        })
   }"

definition client_PatchHost ::
  "'w net \<Rightarrow> codec \<Rightarrow> clientCodec \<Rightarrow> client \<Rightarrow> hostPatchRequest \<Rightarrow> string \<Rightarrow>
    ('w, netEvent, goerr + hostResponse) prog"
where
  "client_PatchHost N C K c patch hostname = (case cc_encode_patch K patch of
     Inl e \<Rightarrow> ret (Inl (wrapf ''marshalling patch host request body'' e))
   | Inr requestBody \<Rightarrow> do {
       q \<leftarrow> newAuthenticatedRequest N C K c hostname ''PATCH'' (host_url c hostname) requestBody;
       (case q of
          Inl e \<Rightarrow> ret (Inl (wrapf ''preparing PATCH host request'' e))
        | Inr request \<Rightarrow> do {
            r \<leftarrow> http_Do N (add_header ''Content-Type'' ''application/json'' request);
            (case r of
               Inl e \<Rightarrow> ret (Inl (wrapf ''patching host'' e))
             | Inr response \<Rightarrow> ret (read_reply ''patching host'' ''host'' ''host'' (cc_decode_host K) response))
          })
     })"

definition client_GetBootstrap ::
  "'w net \<Rightarrow> codec \<Rightarrow> clientCodec \<Rightarrow> client \<Rightarrow> string \<Rightarrow> ('w, netEvent, goerr + bootstrapResponse) prog"
where
  "client_GetBootstrap N C K c hostname = do {
     q \<leftarrow> newAuthenticatedRequest N C K c hostname ''GET'' (host_url c hostname @ ''/bootstrap'') [];
     (case q of
        Inl e \<Rightarrow> ret (Inl (wrapf ''preparing get bootstrap request'' e))
      | Inr request \<Rightarrow> do {
          r \<leftarrow> http_Do N request;
          (case r of
             Inl e \<Rightarrow> ret (Inl (wrapf ''getting bootstrap'' e))
           | Inr response \<Rightarrow> ret (read_reply ''getting bootstrap'' ''bootstrap'' ''bootstrap''
               (cc_decode_bootstrap K) response))
        })
   }"

section \<open>What a call sends and how it understands the reply\<close>

text \<open>
  A request the client sends for a host: to the host's URL, once, with a token signed with its identity
  over the claims of the moment.
\<close>

definition header :: "string \<Rightarrow> httpRequest \<Rightarrow> string option" where
  "header k q = map_of (qHeaders q) k"

definition signed_for :: "codec \<Rightarrow> client \<Rightarrow> string \<Rightarrow> int \<Rightarrow> httpRequest \<Rightarrow> bool" where
  "signed_for C c hostname now q \<longleftrightarrow> (\<exists>token. identity_Sign C (clIdentity c) (host_claims c now hostname) = Inr token \<and>
     header ''Authorization'' q = Some (''Bearer '' @ token))"

definition sends :: "codec \<Rightarrow> client \<Rightarrow> string \<Rightarrow> string \<Rightarrow> string \<Rightarrow> string \<Rightarrow> netEvent list \<Rightarrow> (goerr + httpReply) option \<Rightarrow> bool" where
  "sends C c hostname meth url body l reply \<longleftrightarrow> (case reply of
     None \<Rightarrow> (\<forall>ev \<in> set l. \<exists>t. ev = NetNow t)
   | Some r \<Rightarrow> (\<exists>now q. l = [NetNow now, NetDo q r] \<and> qMethod q = meth \<and> qURL q = url \<and> qBody q = body \<and>
       signed_for C c hostname now q))"

lemma add_header_simps [simp]:
  "qMethod (add_header k v q) = qMethod q" "qURL (add_header k v q) = qURL q" "qBody (add_header k v q) = qBody q"
  "header j (add_header k v q) = (case header j q of Some x \<Rightarrow> Some x | None \<Rightarrow> if j = k then Some v else None)"
  "header j \<lparr>qMethod = m, qURL = u, qHeaders = [], qBody = b\<rparr> = None"
  by (simp_all add: add_header_def header_def map_add_def split: option.splits)

lemma newRequest_Inr:
  "newRequest K c meth url body = Inr q \<Longrightarrow>
   qMethod q = meth \<and> qURL q = url \<and> qBody q = body \<and> header ''Registration-Authorization'' q = None \<and>
   header ''Authorization'' q = None"
  by (auto simp: newRequest_def split: sum.splits)

lemma wp_newAuthenticatedRequest:
  "wp (newAuthenticatedRequest N C K c hostname meth url body) (\<lambda>r l. case r of
     Inl e \<Rightarrow> \<forall>ev \<in> set l. \<exists>t. ev = NetNow t
   | Inr q \<Rightarrow> \<exists>now. l = [NetNow now] \<and> qMethod q = meth \<and> qURL q = url \<and> qBody q = body \<and>
       header ''Registration-Authorization'' q = None \<and> signed_for C c hostname now q)"
  unfolding newAuthenticatedRequest_def addAuthHeader_def newToken_def
  by (intro wp_intros) (auto simp: signed_for_def dest!: newRequest_Inr)


definition answers :: "nat \<Rightarrow> (goerr + httpReply) option \<Rightarrow> string + unit \<Rightarrow> bool" where
  "answers code reply body \<longleftrightarrow> (case body of
     Inl b \<Rightarrow> reply = Some (Inr (code, Inr b)) | Inr _ \<Rightarrow> (\<exists>b. reply = Some (Inr (code, b))))"

lemma read_reply_Inr_iff:
  "read_reply d w b dec (code, body) = Inr x \<longleftrightarrow> code = StatusOK \<and> (\<exists>s. body = Inr s \<and> dec s = Inr x)"
  by (auto simp: read_reply_def split: sum.splits)

text \<open>The calls, as their callers see them.\<close>

definition patch_call :: "codec \<Rightarrow> clientCodec \<Rightarrow> client \<Rightarrow> hostPatchRequest \<Rightarrow> string \<Rightarrow>
    goerr + hostResponse \<Rightarrow> netEvent list \<Rightarrow> bool"
where
  "patch_call C K c patch hostname out l \<longleftrightarrow>
     (\<exists>body reply. (reply \<noteq> None \<longrightarrow> cc_encode_patch K patch = Inr body) \<and>
        sends C c hostname ''PATCH'' (host_url c hostname) body l reply \<and>
        (\<forall>h. out = Inr h \<longleftrightarrow> (\<exists>b. reply = Some (Inr (StatusOK, Inr b)) \<and> cc_decode_host K b = Inr h)))"

definition bootstrap_call :: "codec \<Rightarrow> clientCodec \<Rightarrow> client \<Rightarrow> string \<Rightarrow>
    goerr + bootstrapResponse \<Rightarrow> netEvent list \<Rightarrow> bool"
where
  "bootstrap_call C K c hostname out l \<longleftrightarrow>
     (\<exists>reply. sends C c hostname ''GET'' (host_url c hostname @ ''/bootstrap'') [] l reply \<and>
        (\<forall>b. out = Inr b \<longleftrightarrow> (\<exists>s. reply = Some (Inr (StatusOK, Inr s)) \<and> cc_decode_bootstrap K s = Inr b)))"

definition delete_call :: "codec \<Rightarrow> client \<Rightarrow> string \<Rightarrow> goerr option \<Rightarrow> netEvent list \<Rightarrow> bool" where
  "delete_call C c hostname out l \<longleftrightarrow>
     (\<exists>reply. sends C c hostname ''DELETE'' (host_url c hostname) [] l reply \<and>
        (out = None \<longleftrightarrow> (\<exists>b. reply = Some (Inr (StatusAccepted, b)))))"

definition create_call :: "codec \<Rightarrow> clientCodec \<Rightarrow> client \<Rightarrow> hostCreateRequest \<Rightarrow> goerr option \<Rightarrow> netEvent list \<Rightarrow> bool" where
  "create_call C K c newHost out l \<longleftrightarrow>
     (\<exists>body reply. (reply \<noteq> None \<longrightarrow> cc_encode_create K newHost = Inr body) \<and>
        sends C c (hcName newHost) ''POST'' (clRegistrationURI c @ ''/hosts'') body l reply \<and>
        (\<forall>q r. NetDo q r \<in> set l \<longrightarrow> header ''Registration-Authorization'' q = Some (''Bearer '' @ clRegistrationToken c)) \<and>
        (out = None \<longleftrightarrow> (\<exists>b. reply = Some (Inr (StatusCreated, b)))))"

definition registration_call :: "clientCodec \<Rightarrow> client \<Rightarrow> goerr + registrationResponse \<Rightarrow> netEvent list \<Rightarrow> bool" where
  "registration_call K c out l \<longleftrightarrow>
     (l = [] \<and> (\<exists>e. out = Inl e) \<or>
      (\<exists>q r. l = [NetDo q r] \<and> qMethod q = ''GET'' \<and> qURL q = clRegistrationURI c \<and>
         header ''Registration-Authorization'' q = Some (''Bearer '' @ clRegistrationToken c) \<and>
         (\<forall>g. out = Inr g \<longleftrightarrow> (\<exists>s. r = Inr (StatusOK, Inr s) \<and> cc_decode_registration K s = Inr g))))"

lemma sends_none: "\<forall>ev \<in> set l. \<exists>t. ev = NetNow t \<Longrightarrow> sends C c h m u b l None"
  by (simp add: sends_def)

lemma sends_one:
  "signed_for C c h now q \<Longrightarrow> sends C c h (qMethod q) (qURL q) (qBody q) [NetNow now, NetDo q r] (Some r)"
  by (auto simp: sends_def)

lemma signed_for_add [simp]: "k \<noteq> ''Authorization'' \<Longrightarrow> signed_for C c h now (add_header k v q) = signed_for C c h now q"
  by (auto simp: signed_for_def split: option.splits)

lemma patch_call_failed: "\<forall>ev \<in> set l. \<exists>t. ev = NetNow t \<Longrightarrow> patch_call C K c p h (Inl e) l"
  unfolding patch_call_def by (rule exI [of _ "[]"], rule exI [of _ None]) (simp add: sends_none)

lemma wp_client_PatchHost: "wp (client_PatchHost N C K c patch hostname) (patch_call C K c patch hostname)"
proof -
  have sent: "patch_call C K c patch hostname out [NetNow now, NetDo q r]"
    if "cc_encode_patch K patch = Inr body" "qMethod q = ''PATCH''" "qURL q = host_url c hostname" "qBody q = body"
      "signed_for C c hostname now q"
      "\<forall>h. out = Inr h \<longleftrightarrow> (\<exists>b. r = Inr (StatusOK, Inr b) \<and> cc_decode_host K b = Inr h)"
    for body q r now out
    unfolding patch_call_def using that sends_one [OF that(5), of r]
    by (intro exI [of _ body] exI [of _ "Some r"]) simp
  show ?thesis
    unfolding client_PatchHost_def
    by (intro wp_intros wp_mono [OF wp_newAuthenticatedRequest])
      (auto simp: read_reply_Inr_iff intro!: sent intro: patch_call_failed)
qed


lemma wp_client_GetBootstrap: "wp (client_GetBootstrap N C K c hostname) (bootstrap_call C K c hostname)"
proof -
  have failed: "bootstrap_call C K c hostname (Inl e) l" if "\<forall>ev \<in> set l. \<exists>t. ev = NetNow t" for e l
    unfolding bootstrap_call_def by (rule exI [of _ None]) (simp add: sends_none that)
  have sent: "bootstrap_call C K c hostname out [NetNow now, NetDo q r]"
    if "qMethod q = ''GET''" "qURL q = host_url c hostname @ ''/bootstrap''" "qBody q = []" "signed_for C c hostname now q"
      "\<forall>b. out = Inr b \<longleftrightarrow> (\<exists>s. r = Inr (StatusOK, Inr s) \<and> cc_decode_bootstrap K s = Inr b)"
    for q r now out
    unfolding bootstrap_call_def using that sends_one [OF that(4), of r]
    by (intro exI [of _ "Some r"]) simp
  show ?thesis
    unfolding client_GetBootstrap_def
    by (intro wp_intros wp_mono [OF wp_newAuthenticatedRequest])
      (auto simp: read_reply_Inr_iff intro!: sent intro: failed)
qed

lemma wp_client_DeleteHost: "wp (client_DeleteHost N C K c hostname) (delete_call C c hostname)"
proof -
  have failed: "delete_call C c hostname (Some e) l" if "\<forall>ev \<in> set l. \<exists>t. ev = NetNow t" for e l
    unfolding delete_call_def by (rule exI [of _ None]) (simp add: sends_none that)
  have sent: "delete_call C c hostname out [NetNow now, NetDo q r]"
    if "qMethod q = ''DELETE''" "qURL q = host_url c hostname" "qBody q = []" "signed_for C c hostname now q"
      "out = None \<longleftrightarrow> (\<exists>b. r = Inr (StatusAccepted, b))"
    for q r now out
    unfolding delete_call_def using that sends_one [OF that(4), of r]
    by (intro exI [of _ "Some r"]) simp
  show ?thesis
    unfolding client_DeleteHost_def
    by (intro wp_intros wp_mono [OF wp_newAuthenticatedRequest]) (auto intro!: sent intro: failed)
qed

lemma wp_client_CreateHost: "wp (client_CreateHost N C K c newHost) (create_call C K c newHost)"
proof -
  have failed: "create_call C K c newHost (Some e) l" if "\<forall>ev \<in> set l. \<exists>t. ev = NetNow t" for e l
    unfolding create_call_def using that by (intro exI [of _ "[]"] exI [of _ None]) (auto simp: sends_none)
  have sent: "create_call C K c newHost out [NetNow now, NetDo q r]"
    if "cc_encode_create K newHost = Inr body" "qMethod q = ''POST''" "qURL q = clRegistrationURI c @ ''/hosts''"
      "qBody q = body" "signed_for C c (hcName newHost) now q"
      "header ''Registration-Authorization'' q = Some (''Bearer '' @ clRegistrationToken c)"
      "out = None \<longleftrightarrow> (\<exists>b. r = Inr (StatusCreated, b))"
    for body q r now out
    unfolding create_call_def using that sends_one [OF that(5), of r]
    by (intro exI [of _ body] exI [of _ "Some r"]) simp
  show ?thesis
    unfolding client_CreateHost_def addRegistrationHeader_def
    by (intro wp_intros wp_mono [OF wp_newAuthenticatedRequest]) (auto intro!: sent intro: failed)
qed

lemma wp_client_GetRegistration: "wp (client_GetRegistration N K c) (registration_call K c)"
  unfolding client_GetRegistration_def addRegistrationHeader_def
  by (intro wp_intros) (auto simp: registration_call_def read_reply_Inr_iff dest: newRequest_Inr)

text \<open>
  C35. The calls of the client are exact. Each call for a host sends at most one request, to the URL of that host, signed
  for it with the agent's identity, and none if that cannot be done; it succeeds if and only if the
  reply has the one status the API documents for success (200, 201 or 202) and its body decodes, to the value
  returned; a registration is read, and a host created, with the registration token.
\<close>

theorem client_calls_exact:
  "wp (client_GetRegistration N K c) (registration_call K c) \<and>
   wp (client_CreateHost N C K c newHost) (create_call C K c newHost) \<and>
   wp (client_PatchHost N C K c patch hostname) (patch_call C K c patch hostname) \<and>
   wp (client_GetBootstrap N C K c hostname) (bootstrap_call C K c hostname) \<and>
   wp (client_DeleteHost N C K c hostname) (delete_call C c hostname)"
  by (intro conjI wp_client_GetRegistration wp_client_CreateHost wp_client_PatchHost wp_client_GetBootstrap
      wp_client_DeleteHost)

section \<open>Initialization\<close>

text \<open>A client that was initialized talks to the registration's URI over HTTPS, unless HTTP is allowed.\<close>

definition transport_ok :: "clientCodec \<Rightarrow> agentConf \<Rightarrow> bool" where
  "transport_ok K conf \<longleftrightarrow> (\<exists>scheme. cc_url_scheme K (rgURI (acRegistration conf)) = Inr scheme \<and>
     (to_lower scheme = ''https'' \<or> to_lower scheme = ''http'' \<and> agInsecureAllowHTTP (acAgent conf)))"

definition certificates_ok :: "tlsHost \<Rightarrow> agentConf \<Rightarrow> bool" where
  "certificates_ok T conf \<longleftrightarrow> (\<exists>pem. GetCACert T (rgCACert (acRegistration conf)) = Inr pem \<and>
     (agUseSystemCertPool (acAgent conf) \<longrightarrow> th_SystemCertPool T = None) \<and> (pem \<noteq> [] \<longrightarrow> th_has_certs T pem))"

definition initialized :: "tlsHost \<Rightarrow> string \<Rightarrow> agentConf \<Rightarrow> client \<Rightarrow> client \<Rightarrow> bool" where
  "initialized T identity conf c0 c \<longleftrightarrow> clUserAgent c = clUserAgent c0 \<and> clIdentity c = identity \<and>
     clRegistrationURI c = rgURI (acRegistration conf) \<and> clRegistrationToken c = rgToken (acRegistration conf) \<and>
     (\<exists>tls pem. clTLS c = Some tls \<and> GetCACert T (rgCACert (acRegistration conf)) = Inr pem \<and>
        tlExtraCerts tls = (if pem = [] then None else Some pem) \<and>
        tlSystemPool tls = agUseSystemCertPool (acAgent conf) \<and>
        tlInsecureSkipVerify tls = agInsecureSkipTLSVerify (acAgent conf))"

text \<open>
  Initialization is strict. The client is initialized if and only if the URI has scheme https, or http where the configuration allows
  it, and the certificates can be read and parsed; then it uses exactly the URI, token, identity and trust of the
  configuration; otherwise the error is returned and the client has no transport configuration of its own.
\<close>

theorem client_Init_exact:
  "case client_Init T K identity conf c0 of
     (None, c) \<Rightarrow> transport_ok K conf \<and> certificates_ok T conf \<and> initialized T identity conf c0 c
   | (Some e, c) \<Rightarrow> \<not> (transport_ok K conf \<and> certificates_ok T conf) \<and> c = c0\<lparr>clIdentity := identity\<rparr>"
  by (auto simp: client_Init_def Let_def transport_ok_def certificates_ok_def initialized_def GetTLSClientConfig_def
      split: sum.splits if_splits option.splits)

end
