(* ===== verification/Machine_Host.thy ===== *)
theory Machine_Host
  imports Api_Types
begin

text \<open>
  The machine the agent and its plugins run on: the file system (\<^verbatim>\<open>vfs.FS\<close>), shells and
  processes, and the host name. It is a parameter, a record of functions on a world of any type whose calls are
  events. With it the helpers of \<^verbatim>\<open>internal/agent/utils\<close>, \<^verbatim>\<open>internal/agent/host\<close> and
  \<^verbatim>\<open>internal/agent/elementalcli\<close>, and the paths of \<^verbatim>\<open>path/filepath\<close>.
  File modes are left out.
\<close>

section \<open>The machine\<close>

text \<open>\<^verbatim>\<open>Stat\<close> answers whether the path is a directory.\<close>

record 'w machine =
  mh_Stat :: "string \<Rightarrow> 'w \<Rightarrow> (goerr + bool) \<times> 'w"
  mh_ReadFile :: "string \<Rightarrow> 'w \<Rightarrow> (goerr + string) \<times> 'w"
  mh_WriteFile :: "string \<Rightarrow> string \<Rightarrow> 'w \<Rightarrow> (goerr option) \<times> 'w"
  mh_MkdirAll :: "string \<Rightarrow> 'w \<Rightarrow> (goerr option) \<times> 'w"
  mh_Create :: "string \<Rightarrow> 'w \<Rightarrow> (goerr option) \<times> 'w"
  mh_Write :: "string \<Rightarrow> string \<Rightarrow> 'w \<Rightarrow> (goerr option) \<times> 'w"
  mh_Close :: "string \<Rightarrow> 'w \<Rightarrow> (goerr option) \<times> 'w"
  mh_Bash :: "string \<Rightarrow> 'w \<Rightarrow> (goerr option) \<times> 'w"
  mh_Exec :: "(string list) \<Rightarrow> (string list) \<Rightarrow> 'w \<Rightarrow> (goerr option) \<times> 'w"
  mh_Output :: "(string list) \<Rightarrow> 'w \<Rightarrow> (goerr + string) \<times> 'w"
  mh_Hostname :: "'w \<Rightarrow> (goerr + string) \<times> 'w"

datatype hostEvent =
    HostStat "string" "goerr + bool"
  | HostReadFile "string" "goerr + string"
  | HostWriteFile "string" "string" "goerr option"
  | HostMkdirAll "string" "goerr option"
  | HostCreate "string" "goerr option"
  | HostWrite "string" "string" "goerr option"
  | HostClose "string" "goerr option"
  | HostBash "string" "goerr option"
  | HostExec "string list" "string list" "goerr option"
  | HostOutput "string list" "goerr + string"
  | HostHostname "goerr + string"

primrec host_error :: "hostEvent \<Rightarrow> goerr option" where
  "host_error (HostStat x0 r) = (case r of Inl e \<Rightarrow> Some e | Inr _ \<Rightarrow> None)"
| "host_error (HostReadFile x0 r) = (case r of Inl e \<Rightarrow> Some e | Inr _ \<Rightarrow> None)"
| "host_error (HostWriteFile x0 x1 r) = r"
| "host_error (HostMkdirAll x0 r) = r"
| "host_error (HostCreate x0 r) = r"
| "host_error (HostWrite x0 x1 r) = r"
| "host_error (HostClose x0 r) = r"
| "host_error (HostBash x0 r) = r"
| "host_error (HostExec x0 x1 r) = r"
| "host_error (HostOutput x0 r) = (case r of Inl e \<Rightarrow> Some e | Inr _ \<Rightarrow> None)"
| "host_error (HostHostname r) = (case r of Inl e \<Rightarrow> Some e | Inr _ \<Rightarrow> None)"

definition hStat :: "'w machine \<Rightarrow> string \<Rightarrow> ('w, hostEvent, goerr + bool) prog" where
  "hStat M x0 = ask (mh_Stat M x0) (HostStat x0)"

definition hReadFile :: "'w machine \<Rightarrow> string \<Rightarrow> ('w, hostEvent, goerr + string) prog" where
  "hReadFile M x0 = ask (mh_ReadFile M x0) (HostReadFile x0)"

definition hWriteFile :: "'w machine \<Rightarrow> string \<Rightarrow> string \<Rightarrow> ('w, hostEvent, goerr option) prog" where
  "hWriteFile M x0 x1 = ask (mh_WriteFile M x0 x1) (HostWriteFile x0 x1)"

definition hMkdirAll :: "'w machine \<Rightarrow> string \<Rightarrow> ('w, hostEvent, goerr option) prog" where
  "hMkdirAll M x0 = ask (mh_MkdirAll M x0) (HostMkdirAll x0)"

definition hCreate :: "'w machine \<Rightarrow> string \<Rightarrow> ('w, hostEvent, goerr option) prog" where
  "hCreate M x0 = ask (mh_Create M x0) (HostCreate x0)"

definition hWrite :: "'w machine \<Rightarrow> string \<Rightarrow> string \<Rightarrow> ('w, hostEvent, goerr option) prog" where
  "hWrite M x0 x1 = ask (mh_Write M x0 x1) (HostWrite x0 x1)"

definition hClose :: "'w machine \<Rightarrow> string \<Rightarrow> ('w, hostEvent, goerr option) prog" where
  "hClose M x0 = ask (mh_Close M x0) (HostClose x0)"

definition hBash :: "'w machine \<Rightarrow> string \<Rightarrow> ('w, hostEvent, goerr option) prog" where
  "hBash M x0 = ask (mh_Bash M x0) (HostBash x0)"

definition hExec :: "'w machine \<Rightarrow> (string list) \<Rightarrow> (string list) \<Rightarrow> ('w, hostEvent, goerr option) prog" where
  "hExec M x0 x1 = ask (mh_Exec M x0 x1) (HostExec x0 x1)"

definition hOutput :: "'w machine \<Rightarrow> (string list) \<Rightarrow> ('w, hostEvent, goerr + string) prog" where
  "hOutput M x0 = ask (mh_Output M x0) (HostOutput x0)"

definition hHostname :: "'w machine \<Rightarrow> ('w, hostEvent, goerr + string) prog" where
  "hHostname M = ask (mh_Hostname M) HostHostname"

lemma wp_hStat [wp_intros]: "(\<And>r. Q r [HostStat x0 r]) \<Longrightarrow> wp (hStat M x0) Q"
  by (simp add: hStat_def wp_ask_any)

lemma wp_hReadFile [wp_intros]: "(\<And>r. Q r [HostReadFile x0 r]) \<Longrightarrow> wp (hReadFile M x0) Q"
  by (simp add: hReadFile_def wp_ask_any)

lemma wp_hWriteFile [wp_intros]: "(\<And>r. Q r [HostWriteFile x0 x1 r]) \<Longrightarrow> wp (hWriteFile M x0 x1) Q"
  by (simp add: hWriteFile_def wp_ask_any)

lemma wp_hMkdirAll [wp_intros]: "(\<And>r. Q r [HostMkdirAll x0 r]) \<Longrightarrow> wp (hMkdirAll M x0) Q"
  by (simp add: hMkdirAll_def wp_ask_any)

lemma wp_hCreate [wp_intros]: "(\<And>r. Q r [HostCreate x0 r]) \<Longrightarrow> wp (hCreate M x0) Q"
  by (simp add: hCreate_def wp_ask_any)

lemma wp_hWrite [wp_intros]: "(\<And>r. Q r [HostWrite x0 x1 r]) \<Longrightarrow> wp (hWrite M x0 x1) Q"
  by (simp add: hWrite_def wp_ask_any)

lemma wp_hClose [wp_intros]: "(\<And>r. Q r [HostClose x0 r]) \<Longrightarrow> wp (hClose M x0) Q"
  by (simp add: hClose_def wp_ask_any)

lemma wp_hBash [wp_intros]: "(\<And>r. Q r [HostBash x0 r]) \<Longrightarrow> wp (hBash M x0) Q"
  by (simp add: hBash_def wp_ask_any)

lemma wp_hExec [wp_intros]: "(\<And>r. Q r [HostExec x0 x1 r]) \<Longrightarrow> wp (hExec M x0 x1) Q"
  by (simp add: hExec_def wp_ask_any)

lemma wp_hOutput [wp_intros]: "(\<And>r. Q r [HostOutput x0 r]) \<Longrightarrow> wp (hOutput M x0) Q"
  by (simp add: hOutput_def wp_ask_any)

lemma wp_hHostname [wp_intros]: "(\<And>r. Q r [HostHostname r]) \<Longrightarrow> wp (hHostname M) Q"
  by (simp add: hHostname_def wp_ask_any)

section \<open>Paths\<close>

text \<open>\<^verbatim>\<open>filepath.Clean\<close>, \<^verbatim>\<open>Base\<close>, \<^verbatim>\<open>Dir\<close> and \<^verbatim>\<open>Ext\<close> on Unix.\<close>

fun clean_path_segments :: "bool \<Rightarrow> string list \<Rightarrow> string list \<Rightarrow> string list" where
  "clean_path_segments rooted [] acc = rev acc"
| "clean_path_segments rooted (s # ss) acc =
     (if s = [] \<or> s = ''.'' then clean_path_segments rooted ss acc
      else if s = ''..''
      then (case acc of
          a # acc' \<Rightarrow> if a = ''..'' then clean_path_segments rooted ss (s # acc) else clean_path_segments rooted ss acc'
        | [] \<Rightarrow> if rooted then clean_path_segments rooted ss [] else clean_path_segments rooted ss [s])
      else clean_path_segments rooted ss (s # acc))"

definition filepath_Clean :: "string \<Rightarrow> string" where
  "filepath_Clean p =
     (let rooted = (p \<noteq> [] \<and> hd p = CHR ''/'');
          q = join_with ''/'' (clean_path_segments rooted (split_on (CHR ''/'') p) [])
      in if rooted then CHR ''/'' # q else if q = [] then ''.'' else q)"

definition filepath_Base :: "string \<Rightarrow> string" where
  "filepath_Base p =
     (if p = [] then ''.''
      else (let ss = filter (\<lambda>s. s \<noteq> []) (split_on (CHR ''/'') p) in if ss = [] then ''/'' else last ss))"

definition filepath_Dir :: "string \<Rightarrow> string" where
  "filepath_Dir p = filepath_Clean (join_with ''/'' (butlast (split_on (CHR ''/'') p) @ [[]]))"

definition filepath_Ext :: "string \<Rightarrow> string" where
  "filepath_Ext p =
     (let s = last (split_on (CHR ''/'') p)
      in if CHR ''.'' \<in> set s then CHR ''.'' # last (split_on (CHR ''.'') s) else [])"

section \<open>Directories and files\<close>

definition eNotADirectory :: goerr where
  "eNotADirectory = new_err ErrNotADirectory ''path exists but it's not a directory''"

definition CreateDirectory :: "'w machine \<Rightarrow> string \<Rightarrow> ('w, hostEvent, goerr option) prog" where
  "CreateDirectory M path = do {
     st \<leftarrow> hStat M path;
     (case st of
        Inl e \<Rightarrow>
          if err_is e FsNotExist
          then do {
            r \<leftarrow> hMkdirAll M path;
            (case r of
               Some e \<Rightarrow> ret (Some (wrapf (''creating directory '' @ sq path) e)) | None \<Rightarrow> ret None)
          }
          else ret (Some (wrapf (''reading path '' @ sq path) e))
      | Inr isDir \<Rightarrow> if \<not> isDir then ret (Some eNotADirectory) else ret None)
   }"

definition WriteFile_open :: "'w machine \<Rightarrow> string \<Rightarrow> string \<Rightarrow> ('w, hostEvent, goerr option) prog" where
  "WriteFile_open M path content = do {
     r \<leftarrow> hCreate M path;
     (case r of
        Some e \<Rightarrow> ret (Some (wrapf ''creating file'' e))
      | None \<Rightarrow> do {
          r \<leftarrow> hWrite M path content;
          (case r of
             Some e \<Rightarrow> ret (Some (wrapf ''writing file'' e))
           | None \<Rightarrow> do {
               r \<leftarrow> hClose M path;
               (case r of Some e \<Rightarrow> ret (Some (wrapf ''closing file'' e)) | None \<Rightarrow> ret None)
             })
        })
   }"

definition WriteFile :: "'w machine \<Rightarrow> string \<Rightarrow> string \<Rightarrow> ('w, hostEvent, goerr option) prog" where
  "WriteFile M path content =
     (let dir = filepath_Dir path in do {
        st \<leftarrow> hStat M dir;
        (case st of
           Inl e \<Rightarrow>
             if err_is e FsNotExist
             then do {
               r \<leftarrow> hMkdirAll M dir;
               (case r of
                  Some e \<Rightarrow> ret (Some (wrapf ''creating file directory'' e)) | None \<Rightarrow> WriteFile_open M path content)
             }
             else WriteFile_open M path content
         | Inr _ \<Rightarrow> WriteFile_open M path content)
      })"

section \<open>Commands\<close>

definition RunCommand :: "'w machine \<Rightarrow> string \<Rightarrow> ('w, hostEvent, goerr option) prog" where
  "RunCommand M command = do {
     r \<leftarrow> hBash M command;
     (case r of Some e \<Rightarrow> ret (Some (wrapf ''running command'' e)) | None \<Rightarrow> ret None)
   }"

definition manager_PowerOff :: "'w machine \<Rightarrow> ('w, hostEvent, goerr option) prog" where
  "manager_PowerOff M = do {
     r \<leftarrow> RunCommand M ''poweroff -f'';
     (case r of Some e \<Rightarrow> ret (Some (wrapf (''calling '' @ sq ''poweroff -f'') e)) | None \<Rightarrow> ret None)
   }"

definition manager_Reboot :: "'w machine \<Rightarrow> ('w, hostEvent, goerr option) prog" where
  "manager_Reboot M = do {
     r \<leftarrow> RunCommand M ''reboot -f'';
     (case r of Some e \<Rightarrow> ret (Some (wrapf (''calling '' @ sq ''reboot -f'' @ [CHR 0x27]) e)) | None \<Rightarrow> ret None)
   }"

definition manager_SetHostname :: "'w machine \<Rightarrow> string \<Rightarrow> ('w, hostEvent, goerr option) prog" where
  "manager_SetHostname M hostname = do {
     r \<leftarrow> RunCommand M (''hostnamectl set-hostname '' @ hostname);
     (case r of Some e \<Rightarrow> ret (Some (wrapf ''running hostnamectl'' e)) | None \<Rightarrow> ret None)
   }"

definition manager_GetCurrentHostname :: "'w machine \<Rightarrow> ('w, hostEvent, goerr + string) prog" where
  "manager_GetCurrentHostname M = do {
     r \<leftarrow> hHostname M;
     (case r of Inl e \<Rightarrow> ret (Inl (wrapf ''getting current hostname'' e)) | Inr h \<Rightarrow> ret (Inr h))
   }"

section \<open>The elemental command\<close>

record cliInstall =
  ciFirmware :: string
  ciDevice :: string
  ciNoFormat :: bool
  ciConfigURLs :: "string list"
  ciISO :: string
  ciSystemURI :: string
  ciDebug :: bool
  ciTTY :: string
  ciEjectCD :: bool
  ciDisableBootEntry :: bool
  ciConfigDir :: string
  ciSnapshotterType :: string

record cliReset =
  crEnabled :: bool
  crResetPersistent :: bool
  crResetOEM :: bool
  crConfigURLs :: "string list"
  crSystemURI :: string
  crDebug :: bool

record cliUpgrade =
  cuImageURI :: string
  cuUpgradeRecovery :: bool
  cuDebug :: bool

text \<open>The state: the snapshots by number, in the order a range over the map takes.\<close>

record snapshot =
  snActive :: bool
  snLabels :: "string gomap"

record elementalState =
  esSnapshots :: "(int \<times> snapshot) list option"

definition FormatBool :: "bool \<Rightarrow> string" where
  "FormatBool b = (if b then ''true'' else ''false'')"

definition formatEV :: "string \<Rightarrow> string \<Rightarrow> string" where
  "formatEV key v = key @ ''='' @ v"

definition CorrelationIDLabelKey :: string where "CorrelationIDLabelKey = ''correlationID''"

definition mapToInstallEnv :: "cliInstall \<Rightarrow> string list" where
  "mapToInstallEnv conf = [
     formatEV ''ELEMENTAL_INSTALL_CLOUD_INIT'' (join_with '','' (ciConfigURLs conf)),
     formatEV ''ELEMENTAL_INSTALL_TARGET'' (ciDevice conf),
     formatEV ''ELEMENTAL_INSTALL_SYSTEM'' (ciSystemURI conf),
     formatEV ''ELEMENTAL_INSTALL_FIRMWARE'' (ciFirmware conf),
     formatEV ''ELEMENTAL_INSTALL_ISO'' (ciISO conf),
     formatEV ''ELEMENTAL_INSTALL_TTY'' (ciTTY conf),
     formatEV ''ELEMENTAL_INSTALL_DISABLE_BOOT_ENTRY'' (FormatBool (ciDisableBootEntry conf)),
     formatEV ''ELEMENTAL_INSTALL_NO_FORMAT'' (FormatBool (ciNoFormat conf)),
     formatEV ''ELEMENTAL_EJECT_CD'' (FormatBool (ciEjectCD conf)),
     formatEV ''ELEMENTAL_SNAPSHOTTER_TYPE'' (ciSnapshotterType conf)]"

definition mapToResetEnv :: "cliReset \<Rightarrow> string list" where
  "mapToResetEnv conf = [
     formatEV ''ELEMENTAL_RESET_CLOUD_INIT'' (join_with '','' (crConfigURLs conf)),
     formatEV ''ELEMENTAL_RESET_SYSTEM'' (crSystemURI conf),
     formatEV ''ELEMENTAL_RESET_PERSISTENT'' (FormatBool (crResetPersistent conf)),
     formatEV ''ELEMENTAL_RESET_OEM'' (FormatBool (crResetOEM conf))]"

definition mapToUpgradeEnv :: "cliUpgrade \<Rightarrow> string \<Rightarrow> string list" where
  "mapToUpgradeEnv conf correlationID = [
     formatEV ''ELEMENTAL_UPGRADE_RECOVERY'' (FormatBool (cuUpgradeRecovery conf)),
     formatEV ''ELEMENTAL_UPGRADE_SYSTEM'' (cuImageURI conf),
     formatEV ''ELEMENTAL_UPGRADE_SNAPSHOT_LABELS'' (CorrelationIDLabelKey @ ''='' @ correlationID)]"

definition runner_Install :: "'w machine \<Rightarrow> cliInstall \<Rightarrow> ('w, hostEvent, goerr option) prog" where
  "runner_Install M conf =
     (let installerOpts = [''elemental''] @ (if ciDebug conf then [''--debug''] else []) @
            (if ciConfigDir conf \<noteq> [] then [''--config-dir'', ciConfigDir conf] else []) @ [''install'']
      in do {
        r \<leftarrow> hExec M installerOpts (mapToInstallEnv conf);
        (case r of Some e \<Rightarrow> ret (Some (wrapf ''running elemental install'' e)) | None \<Rightarrow> ret None)
      })"

definition runner_Reset :: "'w machine \<Rightarrow> cliReset \<Rightarrow> ('w, hostEvent, goerr option) prog" where
  "runner_Reset M conf =
     (let installerOpts = [''elemental''] @ (if crDebug conf then [''--debug''] else []) @ [''reset'']
      in do {
        r \<leftarrow> hExec M installerOpts (mapToResetEnv conf);
        (case r of Some e \<Rightarrow> ret (Some (wrapf ''running elemental reset'' e)) | None \<Rightarrow> ret None)
      })"

definition runner_Upgrade :: "'w machine \<Rightarrow> cliUpgrade \<Rightarrow> string \<Rightarrow> ('w, hostEvent, goerr option) prog" where
  "runner_Upgrade M conf correlationID =
     (let installerOpts = [''elemental''] @ (if cuDebug conf then [''--debug''] else []) @ [''upgrade'']
      in do {
        r \<leftarrow> hExec M installerOpts (mapToUpgradeEnv conf correlationID);
        (case r of Some e \<Rightarrow> ret (Some (wrapf ''running elemental upgrade'' e)) | None \<Rightarrow> ret None)
      })"

text \<open>\<open>decode\<close> is the YAML decoder of the state.\<close>

definition runner_GetState ::
  "(string \<Rightarrow> goerr + elementalState) \<Rightarrow> 'w machine \<Rightarrow> ('w, hostEvent, goerr + elementalState) prog"
where
  "runner_GetState decode M = do {
     r \<leftarrow> hOutput M [''elemental'', ''state''];
     (case r of
        Inl e \<Rightarrow> ret (Inl (wrapf ''running elemental state'' e))
      | Inr commandOutput \<Rightarrow>
          (case decode commandOutput of
             Inl e \<Rightarrow> ret (Inl (wrapf ''unmarshalling elemental state'' e))
           | Inr state \<Rightarrow> ret (Inr state)))
   }"

end
