(* ===== verification/Plugin_Common.thy ===== *)
theory Plugin_Common
  imports Machine_Host
begin

text \<open>
  What the two OS plugins share: the encodings they use, which are a parameter, the conversion of raw JSON to YAML
  (\<^verbatim>\<open>internal/agent/plugin\<close>), steps whose errors are wrapped, and the contract of a bootstrap that is
  applied at most once.
\<close>

section \<open>Data\<close>

text \<open>
  A stage of a yip configuration: what the plugin reads and writes of it, and the rest as it is. The value of a stage name may
  be a nil slice.
\<close>

record yipFile =
  yfPath :: string
  yfPermissions :: nat
  yfOwner :: int
  yfGroup :: int
  yfContent :: string

record yipStage =
  stIf :: string
  stName :: string
  stCommands :: "string list"
  stFiles :: "yipFile list"
  stOther :: string

record yipConfig =
  ycName :: string
  ycStages :: "yipStage list option gomap"

definition empty_stage :: yipStage where
  "empty_stage = \<lparr>stIf = [], stName = [], stCommands = [], stFiles = [], stOther = []\<rparr>"

text \<open>Their encodings; a decoded JSON value of any kind is of type \<open>'j\<close>.\<close>

record 'j pluginCodec =
  pc_json_any :: "string \<Rightarrow> goerr + 'j"
  pc_yaml_any :: "'j \<Rightarrow> goerr + string"
  pc_json_install :: "string \<Rightarrow> goerr + cliInstall"
  pc_json_reset :: "string \<Rightarrow> goerr + cliReset"
  pc_json_osVersion :: "string \<Rightarrow> goerr + cliUpgrade"
  pc_yaml_state :: "string \<Rightarrow> goerr + elementalState"
  pc_yaml_yip :: "yipConfig \<Rightarrow> goerr + string"
  pc_yip_load :: "string \<Rightarrow> goerr + yipConfig"
  pc_sha256_hex :: "string \<Rightarrow> string"

definition UnmarshalRawJSONToYaml :: "'j pluginCodec \<Rightarrow> string \<Rightarrow> goerr + string" where
  "UnmarshalRawJSONToYaml D input =
     (if input = [] then Inr []
      else (case pc_json_any D input of
        Inl e \<Rightarrow> Inl (wrapf ''unmarshalling raw json'' e)
      | Inr jsonData \<Rightarrow>
          (case pc_yaml_any D jsonData of
             Inl e \<Rightarrow> Inl (wrapf ''marshalling raw json to yaml'' e) | Inr y \<Rightarrow> Inr y)))"

section \<open>Steps\<close>

text \<open>A step whose error is wrapped, before the next.\<close>

definition step :: "string \<Rightarrow> ('w, 'e, goerr option) prog \<Rightarrow> ('w, 'e, goerr option) prog \<Rightarrow> ('w, 'e, goerr option) prog" where
  "step msg first rest = do {
     r \<leftarrow> first;
     (case r of Some e \<Rightarrow> ret (Some (wrapf msg e)) | None \<Rightarrow> rest)
   }"

definition finish :: "('w, 'e, goerr option) prog" where "finish = ret None"

lemmas plugin_steps = step_def finish_def

section \<open>Errors\<close>

text \<open>Each plugin has variables of its own for the first two, with the same texts; no one compares them.\<close>

definition eBootstrapAlreadyApplied :: goerr where
  "eBootstrapAlreadyApplied = new_err ErrBootstrapAlreadyApplied ''bootstrap already applied''"
definition eUnsupportedBootstrapFormat :: goerr where
  "eUnsupportedBootstrapFormat = new_err ErrUnsupportedBootstrapFormat ''unsupported bootstrap format''"
definition eUnmanagedOSNotReset :: goerr where
  "eUnmanagedOSNotReset = new_err ErrUnmanagedOSNotReset ''unmanaged OS reset sentinel file still exists''"

section \<open>Events\<close>

text \<open>What an event does to the machine.\<close>

fun changes :: "hostEvent \<Rightarrow> bool" where
  "changes (HostStat _ _) = False" | "changes (HostReadFile _ _) = False" | "changes (HostHostname _) = False"
| "changes (HostOutput _ _) = False" | "changes _ = True"

text \<open>The files a machine was given are there.\<close>

definition keeps_files :: "'w machine \<Rightarrow> bool" where
  "keeps_files M \<longleftrightarrow> (\<forall>p c w w'. mh_WriteFile M p c w = (None, w') \<longrightarrow> (\<exists>d. fst (mh_Stat M p w') = Inr d))"

section \<open>A bootstrap applied at most once\<close>

text \<open>
  The contract of a bootstrap that guards itself by the file it writes: \<open>target\<close> is that file, for the formats that are
  supported.
\<close>

locale guarded_bootstrap =
  fixes M :: "'w machine"
    and boot :: "string \<Rightarrow> string \<Rightarrow> ('w, hostEvent, goerr option) prog"
    and target :: "string \<Rightarrow> string option"
  assumes refuses: "target f = Some p \<Longrightarrow> mh_Stat M p w = (Inr d, w1) \<Longrightarrow>
      \<exists>e. run_state (boot f i) (w, l) = (Some e, (w1, l @ [HostStat p (Inr d)])) \<and> err_is e ErrBootstrapAlreadyApplied"
    and writes: "target f = Some p \<Longrightarrow> run_state (boot f i) (w, l) = (None, (w', l')) \<Longrightarrow>
      \<exists>c w1. mh_WriteFile M p c w1 = (None, w')"
    and unsupported: "target f = None \<Longrightarrow> \<exists>e. boot f i = ret (Some e) \<and> err_is e ErrUnsupportedBootstrapFormat"
begin

lemma supported: "run_state (boot f i) (w, l) = (None, (w', l')) \<Longrightarrow> target f \<noteq> None"
  using unsupported [of f i] by (cases "target f") auto

lemma at_most_once:
  assumes "keeps_files M" and run: "run_state (boot f i) (w, l) = (None, (w', l'))"
  shows "\<exists>e p d w1. run_state (boot f j) (w', m) = (Some e, (w1, m @ [HostStat p (Inr d)])) \<and>
    err_is e ErrBootstrapAlreadyApplied"
proof -
  from supported [OF run] obtain p where p: "target f = Some p" by blast
  from writes [OF p run] assms(1) obtain d where "fst (mh_Stat M p w') = Inr d"
    unfolding keeps_files_def by blast
  then have "mh_Stat M p w' = (Inr d, snd (mh_Stat M p w'))" by (simp add: prod_eq_iff)
  from refuses [OF p this] show ?thesis by blast
qed

end

section \<open>A machine in memory\<close>

text \<open>A machine that holds its files in a map: directories need not be made, commands succeed and do nothing.\<close>

definition memory_machine :: "(string \<Rightarrow> string option) machine" where
  "memory_machine = \<lparr>
     mh_Stat = (\<lambda>p w. (case w p of None \<Rightarrow> Inl (new_err FsNotExist ''not found'') | Some _ \<Rightarrow> Inr False, w)),
     mh_ReadFile = (\<lambda>p w. (case w p of None \<Rightarrow> Inl (new_err FsNotExist ''not found'') | Some c \<Rightarrow> Inr c, w)),
     mh_WriteFile = (\<lambda>p c w. (None, w(p \<mapsto> c))),
     mh_MkdirAll = (\<lambda>_ w. (None, w)), mh_Create = (\<lambda>p w. (None, w(p \<mapsto> []))),
     mh_Write = (\<lambda>p c w. (None, w(p \<mapsto> c))), mh_Close = (\<lambda>_ w. (None, w)), mh_Bash = (\<lambda>_ w. (None, w)),
     mh_Exec = (\<lambda>_ _ w. (None, w)), mh_Output = (\<lambda>_ w. (Inr [], w)), mh_Hostname = (\<lambda>w. (Inr ''host'', w))\<rparr>"

lemma memory_keeps_files: "keeps_files memory_machine"
  unfolding keeps_files_def memory_machine_def by (auto split: option.splits)

definition sample_plugin_codec :: "string pluginCodec" where
  "sample_plugin_codec = \<lparr>
     pc_json_any = Inr, pc_yaml_any = Inr,
     pc_json_install = (\<lambda>_. Inl (plain_err ''unused'')), pc_json_reset = (\<lambda>_. Inl (plain_err ''unused'')),
     pc_json_osVersion = (\<lambda>s. Inr \<lparr>cuImageURI = s, cuUpgradeRecovery = False, cuDebug = False\<rparr>),
     pc_yaml_state = (\<lambda>_. Inr \<lparr>esSnapshots = None\<rparr>),
     pc_yaml_yip = (\<lambda>c. Inr (ycName c)),
     pc_yip_load = (\<lambda>s. Inr \<lparr>ycName = s, ycStages = Some [(''boot'', Some [empty_stage])]\<rparr>),
     pc_sha256_hex = (\<lambda>s. s)\<rparr>"

end
