(* ===== verification/Elemental_Plugin.thy ===== *)
theory Elemental_Plugin
  imports Plugin_Common
begin

text \<open>
  \<^verbatim>\<open>internal/agent/plugin/elemental\<close>: the OS plugin for Elemental, over the machine it runs on. JSON, YAML, the
  loader of \<^verbatim>\<open>yip\<close> configurations and SHA-256 are a parameter (theory \<open>Plugin_Common\<close>).
\<close>

section \<open>Paths\<close>

definition cloudConfigDir :: string where "cloudConfigDir = ''/oem''"
definition hostnameInitPath :: string where "hostnameInitPath = ''/oem/set-hostname.yaml''"
definition identityInitPath :: string where "identityInitPath = ''/oem/set-private-key.yaml''"
definition cloudConfigInitPath :: string where "cloudConfigInitPath = ''/oem/set-cloud-config.yaml''"
definition agentConfigInitPath :: string where "agentConfigInitPath = ''/oem/set-config-yaml.yaml''"
definition agentConfigTempPath :: string where "agentConfigTempPath = ''/tmp/elemental-agent-config.yaml''"
definition resetCloudConfigPath :: string where "resetCloudConfigPath = ''/oem/reset-cloud-config.yaml''"
definition bootstrapPath :: string where "bootstrapPath = ''/oem/bootstrap-cloud-config.yaml''"
definition liveModeFile :: string where "liveModeFile = ''/run/elemental/live_mode''"
definition bootstrapSentinelPath :: string where
  "bootstrapSentinelPath = ''/run/cluster-api/bootstrap-success.complete''"

lemmas plugin_paths = cloudConfigDir_def hostnameInitPath_def identityInitPath_def cloudConfigInitPath_def
  agentConfigInitPath_def agentConfigTempPath_def resetCloudConfigPath_def bootstrapPath_def liveModeFile_def
  bootstrapSentinelPath_def

text \<open>\<^verbatim>\<open>strings.CutSuffix\<close>, when only the text is used.\<close>

definition cut_suffix :: "string \<Rightarrow> string \<Rightarrow> string" where
  "cut_suffix s suf = (if length suf \<le> length s \<and> drop (length s - length suf) s = suf
     then take (length s - length suf) s else s)"

definition formatSetFileName :: "string \<Rightarrow> string" where
  "formatSetFileName path =
     (let filenameNoExtension = cut_suffix (filepath_Base path) (filepath_Ext path);
          extensionNoDot = (case cut_prefix (filepath_Ext path) ''.'' of Some r \<Rightarrow> r | None \<Rightarrow> filepath_Ext path)
      in ''set-'' @ filenameNoExtension @ ''-'' @ extensionNoDot @ ''.yaml'')"

section \<open>The plugin\<close>

record elementalPlugin =
  epWorkDir :: string
  epConfigPath :: string

definition EP_Init :: "'w machine \<Rightarrow> string \<Rightarrow> string \<Rightarrow> ('w, hostEvent, goerr option \<times> elementalPlugin) prog" where
  "EP_Init M workDir configPath =
     (let p = \<lparr>epWorkDir = workDir, epConfigPath = configPath\<rparr> in do {
        r \<leftarrow> step (''creating cloud config directory '' @ sq cloudConfigDir) (CreateDirectory M cloudConfigDir)
          (step (''creating config directory '' @ sq (filepath_Dir configPath))
             (CreateDirectory M (filepath_Dir configPath))
             (step (''creating work directory '' @ sq workDir) (CreateDirectory M workDir) finish));
        ret (r, p)
      })"

definition EP_InstallCloudInit :: "'w machine \<Rightarrow> 'j pluginCodec \<Rightarrow> string \<Rightarrow> ('w, hostEvent, goerr option) prog" where
  "EP_InstallCloudInit M D input = (case UnmarshalRawJSONToYaml D input of
     Inl e \<Rightarrow> ret (Some (wrapf ''unmarshalling cloud init config'' e))
   | Inr content \<Rightarrow> step ''writing cloud init config''
       (hWriteFile M cloudConfigInitPath (''#cloud-config'' @ [CHR 0x0A] @ content)) finish)"

definition EP_GetHostname :: "'w machine \<Rightarrow> ('w, hostEvent, goerr + string) prog" where
  "EP_GetHostname M = do {
     r \<leftarrow> manager_GetCurrentHostname M;
     (case r of Inl e \<Rightarrow> ret (Inl (wrapf ''getting current hostname'' e)) | Inr h \<Rightarrow> ret (Inr h))
   }"

definition hostname_config :: "string \<Rightarrow> yipConfig" where
  "hostname_config hostname = \<lparr>ycName = ''Configure host'', ycStages = Some [(''boot'', Some [
     empty_stage\<lparr>stCommands := [''echo '' @ hostname @ '' > /etc/hostname'']\<rparr>])]\<rparr>"

definition EP_InstallHostname :: "'w machine \<Rightarrow> 'j pluginCodec \<Rightarrow> string \<Rightarrow> ('w, hostEvent, goerr option) prog" where
  "EP_InstallHostname M D hostname = (case pc_yaml_yip D (hostname_config hostname) of
     Inl e \<Rightarrow> ret (Some (wrapf ''marshalling hostname config'' e))
   | Inr bytes \<Rightarrow> step (''writing hostname config in '' @ sq hostnameInitPath)
       (hWriteFile M hostnameInitPath bytes) finish)"

definition file_config :: "string \<Rightarrow> string \<Rightarrow> nat \<Rightarrow> int \<Rightarrow> int \<Rightarrow> yipConfig" where
  "file_config content path permission own grp = \<lparr>ycName = ''Write File'', ycStages = Some [(''boot'', Some [
     empty_stage\<lparr>stFiles := [\<lparr>yfPath = path, yfPermissions = permission, yfOwner = own, yfGroup = grp,
       yfContent = content\<rparr>]\<rparr>])]\<rparr>"

definition EP_InstallFile ::
  "'w machine \<Rightarrow> 'j pluginCodec \<Rightarrow> string \<Rightarrow> string \<Rightarrow> nat \<Rightarrow> int \<Rightarrow> int \<Rightarrow> ('w, hostEvent, goerr option) prog"
where
  "EP_InstallFile M D content path permission own grp =
     (let cloudConfigFilePath = cloudConfigDir @ ''/'' @ formatSetFileName path
      in (case pc_yaml_yip D (file_config content path permission own grp) of
            Inl e \<Rightarrow> ret (Some (wrapf ''marshalling write file config'' e))
          | Inr bytes \<Rightarrow> step (''writing hostname config in '' @ sq cloudConfigFilePath)
              (hWriteFile M cloudConfigFilePath bytes) finish))"

definition isRunningInLiveMode :: "'w machine \<Rightarrow> ('w, hostEvent, goerr + bool) prog" where
  "isRunningInLiveMode M = do {
     st \<leftarrow> hStat M liveModeFile;
     (case st of
        Inr _ \<Rightarrow> ret (Inr True)
      | Inl e \<Rightarrow>
          if \<not> err_is e FsNotExist then ret (Inl (wrapf (''getting info for file '' @ sq liveModeFile) e))
          else ret (Inr False))
   }"

text \<open>The error of the live mode check is replaced, not wrapped.\<close>

definition EP_Install :: "'w machine \<Rightarrow> 'j pluginCodec \<Rightarrow> string \<Rightarrow> ('w, hostEvent, goerr option) prog" where
  "EP_Install M D input = do {
     liveMode \<leftarrow> isRunningInLiveMode M;
     (case liveMode of
        Inl e \<Rightarrow> ret (Some (plain_err ''checking if running in live mode''))
      | Inr live \<Rightarrow>
          if \<not> live then ret None
          else (case pc_json_install D input of
            Inl e \<Rightarrow> ret (Some (wrapf ''unmarshalling json'' e))
          | Inr install \<Rightarrow> step ''invoking elemental install''
              (runner_Install M (install\<lparr>ciConfigURLs := ciConfigURLs install @
                 [hostnameInitPath, identityInitPath, agentConfigInitPath, cloudConfigInitPath]\<rparr>)) finish))
   }"

section \<open>Bootstrap\<close>

text \<open>\<^verbatim>\<open>strings.Contains\<close>, and the text from the first occurrence on (\<^verbatim>\<open>strings.Index\<close>).\<close>

fun from_first :: "string \<Rightarrow> string \<Rightarrow> string option" where
  "from_first pat [] = (if pat = [] then Some [] else None)"
| "from_first pat (c # s) = (if cut_prefix (c # s) pat \<noteq> None then Some (c # s) else from_first pat s)"

definition strings_Contains :: "string \<Rightarrow> string \<Rightarrow> bool" where
  "strings_Contains s pat \<longleftrightarrow> from_first pat s \<noteq> None"

definition cloud_config_text :: "string \<Rightarrow> string" where
  "cloud_config_text input = (case from_first ''#cloud-config'' input of
     None \<Rightarrow> ''#cloud-config'' @ [CHR 0x0A, CHR 0x0A] @ input | Some s \<Rightarrow> s)"

definition eUnsupportedCloudInitSchema :: goerr where
  "eUnsupportedCloudInitSchema = new_err ErrUnsupportedCloudInitSchema ''unsupported cloud-init schema''"
definition creates_sentinel :: "yipStage list \<Rightarrow> bool" where
  "creates_sentinel stages \<longleftrightarrow>
     list_ex (\<lambda>st. list_ex (\<lambda>command. strings_Contains command bootstrapSentinelPath) (stCommands st)) stages"

definition sentinel_command :: string where
  "sentinel_command = ''mkdir -p /run/cluster-api && echo success > /run/cluster-api/bootstrap-success.complete''"

definition with_sentinel :: "yipStage list \<Rightarrow> yipStage list" where
  "with_sentinel stages =
     (if \<not> creates_sentinel stages
      then (case stages of [] \<Rightarrow> [] | s # ss \<Rightarrow> s\<lparr>stCommands := stCommands s @ [sentinel_command]\<rparr> # ss)
      else stages)"

definition cleanup_stage :: yipStage where
  "cleanup_stage = empty_stage\<lparr>stIf := ''[ -f '' @ [CHR 0x22] @ bootstrapSentinelPath @ [CHR 0x22] @ '' ]'',
     stCommands := [''rm '' @ bootstrapPath]\<rparr>"

text \<open>The new stages: \<^verbatim>\<open>boot\<close> moved to \<^verbatim>\<open>network\<close>, and the clean-up after it.\<close>

definition moved_stages ::
  "yipStage list \<Rightarrow> (string \<times> yipStage list option) list \<Rightarrow> (string \<times> yipStage list option) list"
where
  "moved_stages boot stages =
     AList.update ''network.after'' (Some [cleanup_stage])
       (AList.update ''network'' (Some (with_sentinel boot))
         (AList.delete ''boot'' (AList.update ''network'' (Some boot) stages)))"

definition convertBootstrapToYip :: "'j pluginCodec \<Rightarrow> string \<Rightarrow> goerr + string" where
  "convertBootstrapToYip D input = (case pc_yip_load D (cloud_config_text input) of
     Inl e \<Rightarrow> Inl (wrapf ''loading #cloud-config input'' e)
   | Inr config \<Rightarrow>
       (case ycStages config of
          None \<Rightarrow> Inl (wrapf ''validating yip stages'' eUnsupportedCloudInitSchema)
        | Some stages \<Rightarrow>
            (case map_of stages ''boot'' of
               Some (Some boot) \<Rightarrow>
                 (case pc_yaml_yip D (config\<lparr>ycStages := Some (moved_stages boot stages)\<rparr>) of
                    Inl e \<Rightarrow> Inl (wrapf ''marshalling bootstrap config'' e)
                  | Inr configBytes \<Rightarrow> Inr configBytes)
             | _ \<Rightarrow> Inl (wrapf ''validating yip stages'' eUnsupportedCloudInitSchema))))"

definition EP_Bootstrap ::
  "'w machine \<Rightarrow> 'j pluginCodec \<Rightarrow> string \<Rightarrow> string \<Rightarrow> ('w, hostEvent, goerr option) prog"
where
  "EP_Bootstrap M D format input =
     (if format = ''cloud-config''
      then do {
        st \<leftarrow> hStat M bootstrapPath;
        (case st of
           Inr _ \<Rightarrow> ret (Some eBootstrapAlreadyApplied)
         | Inl _ \<Rightarrow>
             (case convertBootstrapToYip D input of
                Inl e \<Rightarrow> ret (Some (wrapf ''converting bootstrap config to yip schema'' e))
              | Inr yip \<Rightarrow> step ''writing bootstrap config'' (hWriteFile M bootstrapPath yip) finish))
      }
      else ret (Some (wrapf (''using bootstrapping format '' @ sq format) eUnsupportedBootstrapFormat)))"

section \<open>Reset\<close>

definition reset_cloud_config :: yipConfig where
  "reset_cloud_config = \<lparr>ycName = ''Elemental Reset'', ycStages = Some [(''network'', Some [
     empty_stage\<lparr>stIf := ''[ -f /run/elemental/recovery_mode ]'',
       stName := ''Runs elemental reset and re-register the system'',
       stCommands := [
         ''elemental-agent reset --debug --config /oem/elemental/agent/config.yaml'',
         ''elemental-agent register --debug --install --config /oem/elemental/agent/config.yaml'',
         ''reboot -f'']\<rparr>])]\<rparr>"

definition EP_TriggerReset :: "'w machine \<Rightarrow> 'j pluginCodec \<Rightarrow> ('w, hostEvent, goerr option) prog" where
  "EP_TriggerReset M D = step ''creating oem dir'' (CreateDirectory M ''/oem'')
     (case pc_yaml_yip D reset_cloud_config of
        Inl e \<Rightarrow> ret (Some (wrapf ''marshalling reset cloud config'' e))
      | Inr bytes \<Rightarrow> step (''writing reset cloud config file '' @ sq resetCloudConfigPath)
          (hWriteFile M resetCloudConfigPath bytes)
          (step ''setting next default grub entry to recovery''
             (RunCommand M ''grub2-editenv /oem/grubenv set next_entry=recovery'')
             (step ''scheduling reboot'' (RunCommand M ''shutdown -r +1'') finish)))"

definition EP_Reset :: "'w machine \<Rightarrow> 'j pluginCodec \<Rightarrow> elementalPlugin \<Rightarrow> string \<Rightarrow> ('w, hostEvent, goerr option) prog" where
  "EP_Reset M D p input = (case pc_json_reset D input of
     Inl e \<Rightarrow> ret (Some (wrapf ''unmarshalling reset config'' e))
   | Inr reset \<Rightarrow>
       (let copy = ''cp '' @ epConfigPath p @ '' '' @ agentConfigTempPath;
            mount = ''mount '' @ cloudConfigDir;
            move = ''mv '' @ agentConfigTempPath @ '' '' @ epConfigPath p
        in step (''running command '' @ sq copy) (RunCommand M copy)
             (step ''invoking elemental reset'' (runner_Reset M reset)
               (step (''running command '' @ sq mount) (RunCommand M mount)
                 (step (''creating agent config dir '' @ sq (filepath_Dir (epConfigPath p)))
                    (CreateDirectory M (filepath_Dir (epConfigPath p)))
                    (step (''running command '' @ sq move) (RunCommand M move) finish))))))"

section \<open>OS version\<close>

text \<open>The first snapshot with the label, in the order of the range.\<close>

fun find_correlation :: "string \<Rightarrow> (int \<times> snapshot) list \<Rightarrow> snapshot option" where
  "find_correlation correlationID [] = None"
| "find_correlation correlationID ((n, s) # ss) =
     (if (case gget (snLabels s) CorrelationIDLabelKey of None \<Rightarrow> [] | Some v \<Rightarrow> v) = correlationID then Some s
      else find_correlation correlationID ss)"

definition isCorrelationIDFound ::
  "'w machine \<Rightarrow> 'j pluginCodec \<Rightarrow> string \<Rightarrow> ('w, hostEvent, goerr + bool) prog"
where
  "isCorrelationIDFound M D correlationID = do {
     st \<leftarrow> runner_GetState (pc_yaml_state D) M;
     (case st of
        Inl e \<Rightarrow> ret (Inl (wrapf ''getting elemental state'' e))
      | Inr elementalState \<Rightarrow>
          (case esSnapshots elementalState of
             None \<Rightarrow> ret (Inr False)
           | Some snapshots \<Rightarrow>
               (let snapshot = find_correlation correlationID snapshots;
                    correlationIDFound = (snapshot \<noteq> None);
                    correlationIDFoundInActiveSnapshot = (case snapshot of None \<Rightarrow> False | Some s \<Rightarrow> snActive s)
                in if correlationIDFound \<and> \<not> correlationIDFoundInActiveSnapshot then ret (Inr True)
                   else if correlationIDFound \<and> correlationIDFoundInActiveSnapshot then ret (Inr True)
                   else ret (Inr False))))
   }"

text \<open>Writing to the hash never fails.\<close>

definition osVersionHash :: "'j pluginCodec \<Rightarrow> string \<Rightarrow> string" where
  "osVersionHash D osVersion = pc_sha256_hex D osVersion"

definition EP_ReconcileOSVersion ::
  "'w machine \<Rightarrow> 'j pluginCodec \<Rightarrow> string \<Rightarrow> ('w, hostEvent, goerr + bool) prog"
where
  "EP_ReconcileOSVersion M D input = (case pc_json_osVersion D input of
     Inl e \<Rightarrow> ret (Inl (wrapf ''unmarshalling oSVersionManagement config'' e))
   | Inr osVersion \<Rightarrow>
       if cuImageURI osVersion = [] then ret (Inr False)
       else
         (let correlationID = osVersionHash D input in do {
            osReconciled \<leftarrow> isCorrelationIDFound M D correlationID;
            (case osReconciled of
               Inl e \<Rightarrow> ret (Inl (wrapf ''verifying correlation_id'' e))
             | Inr reconciled \<Rightarrow>
                 if reconciled then ret (Inr False)
                 else do {
                   r \<leftarrow> runner_Upgrade M osVersion correlationID;
                   (case r of
                      Some e \<Rightarrow> ret (Inl (wrapf ''invoking elemental upgrade'' e)) | None \<Rightarrow> ret (Inr True))
                 })
          }))"

definition EP_PowerOff :: "'w machine \<Rightarrow> ('w, hostEvent, goerr option) prog" where
  "EP_PowerOff M = step ''powering off system'' (manager_PowerOff M) finish"

definition EP_Reboot :: "'w machine \<Rightarrow> ('w, hostEvent, goerr option) prog" where
  "EP_Reboot M = step ''rebooting system'' (manager_Reboot M) finish"

end
