(* ===== verification/Dummy_Plugin.thy ===== *)
theory Dummy_Plugin
  imports Plugin_Common
begin

text \<open>
  \<^verbatim>\<open>internal/agent/plugin/dummy\<close>: the OS plugin for hosts that Elemental does not manage. It leaves the
  instructions in files for whoever manages the host.
\<close>

section \<open>Paths\<close>

definition cloudInitFile :: string where "cloudInitFile = ''cloud-init.yaml''"
definition installFile :: string where "installFile = ''install.yaml''"
definition osVersionFile :: string where "osVersionFile = ''os-version.yaml''"
definition resetFile :: string where "resetFile = ''reset.yaml''"
definition sentinelFileResetNeeded :: string where "sentinelFileResetNeeded = ''reset.needed''"
definition bootstrapCloudInitPath :: string where
  "bootstrapCloudInitPath = ''/etc/cloud/cloud.cfg.d/elemental-capi-bootstrap.cfg''"
definition bootstrapIgnitionPath :: string where
  "bootstrapIgnitionPath = ''/usr/local/bin/ignition/data/elemental-capi-bootstrap.conf''"

lemmas dummy_paths = cloudInitFile_def installFile_def osVersionFile_def resetFile_def sentinelFileResetNeeded_def
  bootstrapCloudInitPath_def bootstrapIgnitionPath_def

section \<open>The plugin\<close>

record dummyPlugin =
  dpWorkDir :: string
  dpConfigPath :: string

definition DP_Init :: "'w machine \<Rightarrow> string \<Rightarrow> string \<Rightarrow> ('w, hostEvent, goerr option \<times> dummyPlugin) prog" where
  "DP_Init M workDir configPath =
     (let p = \<lparr>dpWorkDir = workDir, dpConfigPath = configPath\<rparr> in do {
        r \<leftarrow> step (''creating config directory '' @ sq (filepath_Dir configPath))
          (CreateDirectory M (filepath_Dir configPath))
          (step (''creating work directory '' @ sq workDir) (CreateDirectory M workDir) finish);
        ret (r, p)
      })"

definition resetSentinelFilePath :: "dummyPlugin \<Rightarrow> string" where
  "resetSentinelFilePath p = dpWorkDir p @ ''/'' @ sentinelFileResetNeeded"

definition DP_InstallCloudInit ::
  "'w machine \<Rightarrow> 'j pluginCodec \<Rightarrow> dummyPlugin \<Rightarrow> string \<Rightarrow> ('w, hostEvent, goerr option) prog"
where
  "DP_InstallCloudInit M D p input =
     (let path = dpWorkDir p @ ''/'' @ cloudInitFile
      in (case UnmarshalRawJSONToYaml D input of
            Inl e \<Rightarrow> ret (Some (wrapf ''unmarshalling cloud init config'' e))
          | Inr content \<Rightarrow> step ''writing cloud init config''
              (hWriteFile M path (''#cloud-config'' @ [CHR 0x0A] @ content)) finish))"

definition DP_GetHostname :: "'w machine \<Rightarrow> ('w, hostEvent, goerr + string) prog" where
  "DP_GetHostname M = do {
     r \<leftarrow> manager_GetCurrentHostname M;
     (case r of Inl e \<Rightarrow> ret (Inl (wrapf ''getting current hostname'' e)) | Inr h \<Rightarrow> ret (Inr h))
   }"

definition DP_InstallHostname :: "'w machine \<Rightarrow> string \<Rightarrow> ('w, hostEvent, goerr option) prog" where
  "DP_InstallHostname M hostname =
     step (''setting hostname '' @ sq hostname) (manager_SetHostname M hostname) finish"

definition DP_InstallFile ::
  "'w machine \<Rightarrow> string \<Rightarrow> string \<Rightarrow> nat \<Rightarrow> int \<Rightarrow> int \<Rightarrow> ('w, hostEvent, goerr option) prog"
where
  "DP_InstallFile M content path permission own grp =
     step (''writing file '' @ sq path) (WriteFile M path content) finish"

definition DP_Install :: "'w machine \<Rightarrow> 'j pluginCodec \<Rightarrow> dummyPlugin \<Rightarrow> string \<Rightarrow> ('w, hostEvent, goerr option) prog" where
  "DP_Install M D p input =
     (let path = dpWorkDir p @ ''/'' @ installFile
      in (case UnmarshalRawJSONToYaml D input of
            Inl e \<Rightarrow> ret (Some (wrapf ''unmarshalling install config'' e))
          | Inr bytes \<Rightarrow> step ''writing install config'' (hWriteFile M path bytes) finish))"

text \<open>The two formats run the same steps, each with its file.\<close>

definition dummy_apply ::
  "'w machine \<Rightarrow> string \<Rightarrow> string \<Rightarrow> string \<Rightarrow> ('w, hostEvent, goerr option) prog"
where
  "dummy_apply M kind path input = do {
     st \<leftarrow> hStat M path;
     (case st of
        Inr _ \<Rightarrow> ret (Some (wrapf (''applying '' @ kind @ '' bootstrap'') eBootstrapAlreadyApplied))
      | Inl _ \<Rightarrow> step (''creating directory '' @ sq (filepath_Dir path)) (hMkdirAll M (filepath_Dir path))
          (step (''writing bootstrap file '' @ sq path) (hWriteFile M path input) finish))
   }"

definition DP_Bootstrap :: "'w machine \<Rightarrow> string \<Rightarrow> string \<Rightarrow> ('w, hostEvent, goerr option) prog" where
  "DP_Bootstrap M format input =
     (if format = ''cloud-config'' then dummy_apply M ''cloud-config'' bootstrapCloudInitPath input
      else if format = ''ignition'' then dummy_apply M ''ignition'' bootstrapIgnitionPath input
      else ret (Some (wrapf (''using bootstrapping format '' @ sq format) eUnsupportedBootstrapFormat)))"

definition DP_ReconcileOSVersion ::
  "'w machine \<Rightarrow> 'j pluginCodec \<Rightarrow> dummyPlugin \<Rightarrow> string \<Rightarrow> ('w, hostEvent, goerr + bool) prog"
where
  "DP_ReconcileOSVersion M D p input =
     (let path = dpWorkDir p @ ''/'' @ osVersionFile
      in (case UnmarshalRawJSONToYaml D input of
            Inl e \<Rightarrow> ret (Inl (wrapf ''unmarshalling OS Version config'' e))
          | Inr bytes \<Rightarrow> do {
              r \<leftarrow> hWriteFile M path bytes;
              (case r of Some e \<Rightarrow> ret (Inl (wrapf ''writing OS Version config'' e)) | None \<Rightarrow> ret (Inr False))
            }))"

definition DP_TriggerReset :: "'w machine \<Rightarrow> dummyPlugin \<Rightarrow> ('w, hostEvent, goerr option) prog" where
  "DP_TriggerReset M p = step ''writing install config''
     (hWriteFile M (resetSentinelFilePath p) (''1'' @ [CHR 0x0A])) finish"

definition DP_Reset :: "'w machine \<Rightarrow> 'j pluginCodec \<Rightarrow> dummyPlugin \<Rightarrow> string \<Rightarrow> ('w, hostEvent, goerr option) prog" where
  "DP_Reset M D p input =
     (let path = dpWorkDir p @ ''/'' @ resetFile; sentinelFile = resetSentinelFilePath p
      in (case UnmarshalRawJSONToYaml D input of
            Inl e \<Rightarrow> ret (Some (wrapf ''unmarshalling reset config'' e))
          | Inr bytes \<Rightarrow> step ''writing reset config'' (hWriteFile M path bytes)
              (do {
                 st \<leftarrow> hStat M sentinelFile;
                 (case st of
                    Inr _ \<Rightarrow> ret (Some eUnmanagedOSNotReset)
                  | Inl e \<Rightarrow>
                      if \<not> err_is e FsNotExist then ret (Some (wrapf (''getting info for file '' @ sq sentinelFile) e))
                      else ret None)
               })))"

definition DP_PowerOff :: "'w machine \<Rightarrow> ('w, hostEvent, goerr option) prog" where
  "DP_PowerOff M = step ''powering off system'' (manager_PowerOff M) finish"

definition DP_Reboot :: "'w machine \<Rightarrow> ('w, hostEvent, goerr option) prog" where
  "DP_Reboot M = step ''rebooting system'' (manager_Reboot M) finish"

section \<open>Properties\<close>

text \<open>When the reset of an unmanaged host ends.\<close>

definition dummy_resets ::
  "'j pluginCodec \<Rightarrow> dummyPlugin \<Rightarrow> string \<Rightarrow> goerr option \<Rightarrow> hostEvent list \<Rightarrow> bool"
where
  "dummy_resets D p input r l \<longleftrightarrow> (case UnmarshalRawJSONToYaml D input of
     Inl _ \<Rightarrow> r \<noteq> None \<and> l = []
   | Inr bytes \<Rightarrow> \<exists>x. hd l = HostWriteFile (dpWorkDir p @ ''/reset.yaml'') bytes x \<and> l \<noteq> [] \<and>
       (case x of Some _ \<Rightarrow> r \<noteq> None \<and> tl l = []
        | None \<Rightarrow> \<exists>st. tl l = [HostStat (dpWorkDir p @ ''/reset.needed'') st] \<and>
            (case st of Inr _ \<Rightarrow> r = Some eUnmanagedOSNotReset | Inl e \<Rightarrow> r = None \<longleftrightarrow> err_is e FsNotExist)))"

text \<open>
  Reset of an unmanaged host. The plugin leaves the reset instructions in a file and reports success if and only if the
  file was written and the sentinel that the trigger had left is found not to exist; while it is there, it answers that the
  host was not reset.
\<close>

theorem DP_Reset_waits: "wp (DP_Reset M D p input) (dummy_resets D p input)"
  unfolding DP_Reset_def Let_def plugin_steps
  by (intro wp_intros) (auto simp: dummy_resets_def resetSentinelFilePath_def dummy_paths)

end
