(* ===== verification/Elemental_Plugin_Laws.thy ===== *)
theory Elemental_Plugin_Laws
  imports Elemental_Plugin Dummy_Plugin Agent_Phases
begin

text \<open>
  What the Elemental plugin does to the machine it runs on: which files it writes and which commands it runs, in which
  order, and when it reports success.
\<close>


section \<open>File names\<close>

lemma split_dir: "CHR ''/'' \<notin> set f \<Longrightarrow> split_on (CHR ''/'') (dir @ CHR ''/'' # f) = split_on (CHR ''/'') dir @ [f]"
proof (induction dir)
  case (Cons x dir)
  obtain w ws where "split_on (CHR ''/'') dir = w # ws" by (cases "split_on (CHR ''/'') dir") simp_all
  with Cons show ?case by simp
qed (simp add: split_on_plain)

lemma base_append: "CHR ''/'' \<notin> set f \<Longrightarrow> f \<noteq> [] \<Longrightarrow> filepath_Base (dir @ CHR ''/'' # f) = f"
  by (simp add: filepath_Base_def Let_def split_dir)

lemma ext_append: "CHR ''/'' \<notin> set f \<Longrightarrow> filepath_Ext (dir @ CHR ''/'' # f) = filepath_Ext f"
  by (simp add: filepath_Ext_def split_dir split_on_plain Let_def)

lemma set_file_name:
  "formatSetFileName (dir @ ''/'' @ ''private.key'') = ''set-private-key.yaml''"
  "formatSetFileName (dir @ ''/'' @ ''config.yaml'') = ''set-config-yaml.yaml''"
proof -
  have "filepath_Base (dir @ ''/'' @ ''private.key'') = ''private.key''"
    "filepath_Ext (dir @ ''/'' @ ''private.key'') = filepath_Ext ''private.key''"
    "filepath_Base (dir @ ''/'' @ ''config.yaml'') = ''config.yaml''"
    "filepath_Ext (dir @ ''/'' @ ''config.yaml'') = filepath_Ext ''config.yaml''"
    using base_append [of "''private.key''" dir] base_append [of "''config.yaml''" dir]
      ext_append [of "''private.key''" dir] ext_append [of "''config.yaml''" dir] by simp_all
  moreover have "filepath_Ext ''private.key'' = ''.key''" "filepath_Ext ''config.yaml'' = ''.yaml''"
    by code_simp+
  ultimately show "formatSetFileName (dir @ ''/'' @ ''private.key'') = ''set-private-key.yaml''"
    "formatSetFileName (dir @ ''/'' @ ''config.yaml'') = ''set-config-yaml.yaml''"
    by (simp_all add: formatSetFileName_def cut_suffix_def Let_def)
qed

definition writes_to :: "string \<Rightarrow> hostEvent list \<Rightarrow> bool" where
  "writes_to path l \<longleftrightarrow> (\<forall>p c r. HostWriteFile p c r \<in> set l \<longrightarrow> p = path)"

lemma wp_EP_InstallFile:
  "wp (EP_InstallFile M D content path perm own grp) (\<lambda>r l. filter changes l = l \<and>
     writes_to (cloudConfigDir @ ''/'' @ formatSetFileName path) l \<and>
     (r = None \<longrightarrow> (\<exists>bytes. pc_yaml_yip D (file_config content path perm own grp) = Inr bytes \<and>
        l = [HostWriteFile (cloudConfigDir @ ''/'' @ formatSetFileName path) bytes None])))"
  unfolding EP_InstallFile_def Let_def
  unfolding plugin_steps by (intro wp_intros) (auto simp: writes_to_def)

definition registration_files :: "string list" where
  "registration_files = [hostnameInitPath, identityInitPath, agentConfigInitPath, cloudConfigInitPath]"

text \<open>What an installation does: nothing but on live media, and there one command.\<close>

definition plugin_installs :: "'j pluginCodec \<Rightarrow> string \<Rightarrow> goerr option \<Rightarrow> hostEvent list \<Rightarrow> bool" where
  "plugin_installs D input r l \<longleftrightarrow>
     (\<exists>st. hd l = HostStat liveModeFile st \<and> l \<noteq> [] \<and>
        (case st of
           Inl e \<Rightarrow> tl l = [] \<and> (r = None \<longleftrightarrow> err_is e FsNotExist)
         | Inr _ \<Rightarrow>
             (case pc_json_install D input of
                Inl e \<Rightarrow> tl l = [] \<and> r \<noteq> None
              | Inr conf \<Rightarrow> (\<exists>args env x. tl l = [HostExec args env x] \<and> (r = None \<longleftrightarrow> x = None) \<and>
                  hd args = ''elemental'' \<and> last args = ''install'' \<and>
                  env = mapToInstallEnv (conf\<lparr>ciConfigURLs := ciConfigURLs conf @ registration_files\<rparr>)))))"

lemma wp_EP_Install: "wp (EP_Install M D input) (plugin_installs D input)"
  unfolding EP_Install_def isRunningInLiveMode_def runner_Install_def Let_def plugin_steps
  by (intro wp_intros) (auto simp: plugin_installs_def registration_files_def split: sum.splits)


lemma InstallFile_names:
  "cloudConfigDir @ ''/'' @ formatSetFileName (workDir @ ''/'' @ PrivateKeyFile) \<in> set registration_files"
  "cloudConfigDir @ ''/'' @ formatSetFileName (configDir @ ''/'' @ ''config.yaml'') \<in> set registration_files"
  using set_file_name [of workDir] set_file_name [of configDir]
  by (simp_all add: registration_files_def plugin_paths PrivateKeyFile_def)

text \<open>A configuration under another name is persisted in a file that the installation leaves out.\<close>

lemma InstallFile_other_name:
  "cloudConfigDir @ ''/'' @ formatSetFileName ''/etc/elemental/agent/agent.yaml'' \<notin> set registration_files"
proof -
  have "formatSetFileName ''/etc/elemental/agent/agent.yaml'' = ''set-agent-yaml.yaml''" by code_simp
  then show ?thesis by (simp add: registration_files_def plugin_paths)
qed

text \<open>
  Installation. The plugin runs elemental install only on live media, once, with the files of the registration after
  those of the instructions; it succeeds if and only if that does, or if the host does not run from live media. Whatever the
  work directory, the private key was persisted in one of those files, and so was the configuration of the agent if its file is
  called config.yaml, in any directory.
\<close>

theorem EP_Install_exact:
  "wp (EP_Install M D input) (plugin_installs D input) \<and>
   cloudConfigDir @ ''/'' @ formatSetFileName (workDir @ ''/'' @ PrivateKeyFile) \<in> set registration_files \<and>
   cloudConfigDir @ ''/'' @ formatSetFileName (configDir @ ''/'' @ ''config.yaml'') \<in> set registration_files"
  by (intro conjI wp_EP_Install InstallFile_names)

section \<open>Bootstrap\<close>

lemma from_first_append: "from_first pat (a @ pat @ b) \<noteq> None"
proof (induction a)
  case Nil
  have "cut_prefix (pat @ b) pat = Some b" by simp
  then show ?case by (cases "pat @ b") (auto simp del: cut_prefix_append)
next
  case (Cons c a)
  then show ?case by simp
qed

lemma sentinel_command_contains: "strings_Contains sentinel_command bootstrapSentinelPath"
  unfolding strings_Contains_def sentinel_command_def bootstrapSentinelPath_def
  using from_first_append [of "''/run/cluster-api/bootstrap-success.complete''"
      "''mkdir -p /run/cluster-api && echo success > ''" "[]"] by simp

lemma with_sentinel_creates: "boot \<noteq> [] \<Longrightarrow> creates_sentinel (with_sentinel boot)"
  using sentinel_command_contains
  by (cases boot) (auto simp: with_sentinel_def creates_sentinel_def)

text \<open>The stages of a converted bootstrap configuration.\<close>

definition converted_stages ::
  "(string \<times> yipStage list option) list \<Rightarrow> (string \<times> yipStage list option) list \<Rightarrow> yipStage list \<Rightarrow> bool"
where
  "converted_stages out stages boot \<longleftrightarrow>
     map_of out ''boot'' = None \<and> map_of out ''network'' = Some (Some (with_sentinel boot)) \<and>
     map_of out ''network.after'' = Some (Some [cleanup_stage]) \<and>
     (\<forall>k. k \<notin> {''boot'', ''network'', ''network.after''} \<longrightarrow> map_of out k = map_of stages k) \<and>
     (boot \<noteq> [] \<longrightarrow> creates_sentinel (with_sentinel boot)) \<and>
     map stOther (with_sentinel boot) = map stOther boot \<and> map stFiles (with_sentinel boot) = map stFiles boot"

lemma moved_stages_converted: "converted_stages (moved_stages boot stages) stages boot"
  using with_sentinel_creates [of boot]
  by (auto simp: converted_stages_def moved_stages_def update_conv' delete_conv' with_sentinel_def split: list.splits)

definition conversion :: "'j pluginCodec \<Rightarrow> string \<Rightarrow> goerr + string \<Rightarrow> bool" where
  "conversion D input r \<longleftrightarrow> (case pc_yip_load D (cloud_config_text input) of
     Inl e \<Rightarrow> (\<exists>e. r = Inl e)
   | Inr config \<Rightarrow>
       (case gget (ycStages config) ''boot'' of
          Some (Some boot) \<Rightarrow> (\<exists>out stages. ycStages config = Some stages \<and> converted_stages out stages boot \<and>
            (case pc_yaml_yip D (config\<lparr>ycStages := Some out\<rparr>) of
               Inr bytes \<Rightarrow> r = Inr bytes | Inl _ \<Rightarrow> (\<exists>e. r = Inl e)))
        | _ \<Rightarrow> (\<exists>e. r = Inl e \<and> err_is e ErrUnsupportedCloudInitSchema)))"

text \<open>
  Conversion of bootstrap data. The instructions are read as a cloud-config; the result has the stages of boot under
  network, with a command that creates the sentinel file if none of them did, nothing under boot, a clean-up that removes the file
  once the sentinel exists, and every other stage as it was, but for network: what the instructions had there is lost.
\<close>

theorem convertBootstrapToYip_converts: "conversion D input (convertBootstrapToYip D input)"
proof (cases "pc_yip_load D (cloud_config_text input)")
  case (Inl e)
  then show ?thesis by (simp add: conversion_def convertBootstrapToYip_def)
next
  case (Inr config)
  show ?thesis
  proof (cases "\<exists>stages boot. ycStages config = Some stages \<and> map_of stages ''boot'' = Some (Some boot)")
    case True
    then obtain stages boot where st: "ycStages config = Some stages" "map_of stages ''boot'' = Some (Some boot)"
      by blast
    from Inr st show ?thesis
      by (cases "pc_yaml_yip D (config\<lparr>ycStages := Some (moved_stages boot stages)\<rparr>)")
        (auto simp: conversion_def convertBootstrapToYip_def gget_def intro!: exI [of _ "moved_stages boot stages"]
          moved_stages_converted)
  next
    case False
    with Inr show ?thesis
      by (auto simp: conversion_def convertBootstrapToYip_def gget_def eUnsupportedCloudInitSchema_def
          split: option.splits)
  qed
qed

section \<open>OS version\<close>

lemma find_correlation_iff:
  "correlationID \<noteq> [] \<Longrightarrow> (\<exists>s. find_correlation correlationID ss = Some s) \<longleftrightarrow>
     (\<exists>(n, s) \<in> set ss. gget (snLabels s) CorrelationIDLabelKey = Some correlationID)"
  by (induction ss) (auto split: option.splits)

definition labelled_snapshot :: "string \<Rightarrow> elementalState \<Rightarrow> bool" where
  "labelled_snapshot correlationID st \<longleftrightarrow> (case esSnapshots st of None \<Rightarrow> False | Some ss \<Rightarrow>
     (\<exists>(n, s) \<in> set ss. gget (snLabels s) CorrelationIDLabelKey = Some correlationID))"

definition correlation_in_state ::
  "'j pluginCodec \<Rightarrow> string \<Rightarrow> goerr + bool \<Rightarrow> hostEvent list \<Rightarrow> bool"
where
  "correlation_in_state D correlationID r l \<longleftrightarrow>
     (\<exists>out. l = [HostOutput [''elemental'', ''state''] out] \<and>
        (case out of Inl _ \<Rightarrow> (\<exists>e. r = Inl e) | Inr text \<Rightarrow>
          (case pc_yaml_state D text of Inl _ \<Rightarrow> (\<exists>e. r = Inl e)
           | Inr st \<Rightarrow> r = Inr (labelled_snapshot correlationID st))))"

lemma wp_isCorrelationIDFound:
  assumes "correlationID \<noteq> []"
  shows "wp (isCorrelationIDFound M D correlationID) (correlation_in_state D correlationID)"
proof -
  have iff: "(case find_correlation correlationID ss of None \<Rightarrow> False | Some _ \<Rightarrow> True) =
      (\<exists>(n, s) \<in> set ss. gget (snLabels s) CorrelationIDLabelKey = Some correlationID)" for ss
    using find_correlation_iff [OF assms, of ss] by (cases "find_correlation correlationID ss") auto
  show ?thesis
    unfolding isCorrelationIDFound_def runner_GetState_def Let_def
    by (intro wp_intros)
      (simp_all add: correlation_in_state_def labelled_snapshot_def iff [symmetric] split: option.splits sum.splits)
qed


text \<open>What the reconciliation of the version does: at most one upgrade.\<close>

definition reconciles ::
  "'j pluginCodec \<Rightarrow> string \<Rightarrow> goerr + bool \<Rightarrow> hostEvent list \<Rightarrow> bool"
where
  "reconciles D input r l \<longleftrightarrow> (case pc_json_osVersion D input of
     Inl _ \<Rightarrow> l = [] \<and> (\<exists>e. r = Inl e)
   | Inr v \<Rightarrow>
       if cuImageURI v = [] then l = [] \<and> r = Inr False
       else \<exists>found s. correlation_in_state D (pc_sha256_hex D input) found s \<and>
         (case found of
            Inl _ \<Rightarrow> l = s \<and> (\<exists>e. r = Inl e)
          | Inr True \<Rightarrow> l = s \<and> r = Inr False
          | Inr False \<Rightarrow> \<exists>args x. l = s @ [HostExec args (mapToUpgradeEnv v (pc_sha256_hex D input)) x] \<and>
              hd args = ''elemental'' \<and> last args = ''upgrade'' \<and>
              (case x of None \<Rightarrow> r = Inr True | Some _ \<Rightarrow> \<exists>e. r = Inl e)))"

lemma wp_EP_ReconcileOSVersion:
  assumes "pc_sha256_hex D input \<noteq> []"
  shows "wp (EP_ReconcileOSVersion M D input) (reconciles D input)"
  unfolding EP_ReconcileOSVersion_def runner_Upgrade_def osVersionHash_def Let_def
  apply (intro wp_intros wp_mono [OF wp_isCorrelationIDFound [OF assms]])
  apply (simp_all add: reconciles_def)
  apply (fastforce split: bool.splits)+
  done

section \<open>Bootstrap and reset\<close>

definition elemental_target :: "string \<Rightarrow> string option" where
  "elemental_target format = (if format = ''cloud-config'' then Some bootstrapPath else None)"

definition dummy_target :: "string \<Rightarrow> string option" where
  "dummy_target format =
     (if format = ''cloud-config'' then Some bootstrapCloudInitPath
      else if format = ''ignition'' then Some bootstrapIgnitionPath else None)"

interpretation elemental: guarded_bootstrap M "EP_Bootstrap M D" elemental_target for M D
proof
  show "elemental_target f = Some p \<Longrightarrow> mh_Stat M p w = (Inr d, w1) \<Longrightarrow>
      \<exists>e. run_state (EP_Bootstrap M D f i) (w, l) = (Some e, (w1, l @ [HostStat p (Inr d)])) \<and>
        err_is e ErrBootstrapAlreadyApplied" for f p w d w1 i l
    by (simp add: elemental_target_def EP_Bootstrap_def hStat_def eBootstrapAlreadyApplied_def split: if_splits)
  show "elemental_target f = Some p \<Longrightarrow> run_state (EP_Bootstrap M D f i) (w, l) = (None, (w', l')) \<Longrightarrow>
      \<exists>c w1. mh_WriteFile M p c w1 = (None, w')" for f p i w l w' l'
    by (auto simp: elemental_target_def EP_Bootstrap_def hStat_def hWriteFile_def plugin_steps prod_eq_iff
        split: if_splits sum.splits option.splits prod.splits)
  show "elemental_target f = None \<Longrightarrow> \<exists>e. EP_Bootstrap M D f i = ret (Some e) \<and>
      err_is e ErrUnsupportedBootstrapFormat" for f i
    by (auto simp: elemental_target_def EP_Bootstrap_def eUnsupportedBootstrapFormat_def split: if_splits)
qed

interpretation dummy: guarded_bootstrap M "DP_Bootstrap M" dummy_target for M
proof
  show "dummy_target f = Some p \<Longrightarrow> mh_Stat M p w = (Inr d, w1) \<Longrightarrow>
      \<exists>e. run_state (DP_Bootstrap M f i) (w, l) = (Some e, (w1, l @ [HostStat p (Inr d)])) \<and>
        err_is e ErrBootstrapAlreadyApplied" for f p w d w1 i l
    by (auto simp: dummy_target_def DP_Bootstrap_def dummy_apply_def hStat_def eBootstrapAlreadyApplied_def
        split: if_splits)
  show "dummy_target f = Some p \<Longrightarrow> run_state (DP_Bootstrap M f i) (w, l) = (None, (w', l')) \<Longrightarrow>
      \<exists>c w1. mh_WriteFile M p c w1 = (None, w')" for f p i w l w' l'
    by (auto simp: dummy_target_def DP_Bootstrap_def dummy_apply_def hStat_def hMkdirAll_def hWriteFile_def plugin_steps
        prod_eq_iff split: if_splits sum.splits option.splits prod.splits)
  show "dummy_target f = None \<Longrightarrow> \<exists>e. DP_Bootstrap M f i = ret (Some e) \<and>
      err_is e ErrUnsupportedBootstrapFormat" for f i
    by (auto simp: dummy_target_def DP_Bootstrap_def eUnsupportedBootstrapFormat_def split: if_splits)
qed

text \<open>The rerun is refused, and all it did was to look at the file.\<close>

definition refused_by_file :: "(goerr option \<times> 'w \<times> hostEvent list) \<Rightarrow> bool" where
  "refused_by_file x \<longleftrightarrow> (\<exists>e p d w. x = (Some e, (w, [HostStat p (Inr d)])) \<and> err_is e ErrBootstrapAlreadyApplied)"

text \<open>
  C38. Bootstrap is applied at most once. On a machine that keeps the files written to it, once either plugin has
  applied bootstrap data, it refuses any other data of that format as already applied, and changes nothing.
\<close>

theorem Bootstrap_at_most_once:
  assumes "keeps_files M"
    and "run_state (EP_Bootstrap M D f i) (w, l) = (None, (w', l'))"
    and "run_state (DP_Bootstrap M g j) (v, m) = (None, (v', m'))"
  shows "refused_by_file (run_state (EP_Bootstrap M D f i2) (w', [])) \<and>
    refused_by_file (run_state (DP_Bootstrap M g j2) (v', []))"
proof
  show "refused_by_file (run_state (EP_Bootstrap M D f i2) (w', []))"
    using elemental.at_most_once [OF assms(1,2), of i2 "[]"] unfolding refused_by_file_def by fastforce
  show "refused_by_file (run_state (DP_Bootstrap M g j2) (v', []))"
    using dummy.at_most_once [OF assms(1,3), of j2 "[]"] unfolding refused_by_file_def by fastforce
qed

lemma Bootstrap_at_most_once_witness:
  "refused_by_file (run_state (EP_Bootstrap memory_machine sample_plugin_codec ''cloud-config'' ''other'')
     ([bootstrapPath \<mapsto> cloud_config_text ''data''], [])) \<and>
   refused_by_file (run_state (DP_Bootstrap memory_machine ''ignition'' ''other'')
     ([bootstrapIgnitionPath \<mapsto> ''data''], []))"
proof (rule Bootstrap_at_most_once [OF memory_keeps_files])
  show "run_state (EP_Bootstrap memory_machine sample_plugin_codec ''cloud-config'' ''data'') (Map.empty, []) =
      (None, ([bootstrapPath \<mapsto> cloud_config_text ''data''], [HostStat bootstrapPath (Inl (new_err FsNotExist ''not found'')),
        HostWriteFile bootstrapPath (cloud_config_text ''data'') None]))"
    by (simp add: EP_Bootstrap_def hStat_def hWriteFile_def plugin_steps memory_machine_def sample_plugin_codec_def
        convertBootstrapToYip_def)
  show "run_state (DP_Bootstrap memory_machine ''ignition'' ''data'') (Map.empty, []) =
      (None, ([bootstrapIgnitionPath \<mapsto> ''data''], [HostStat bootstrapIgnitionPath (Inl (new_err FsNotExist ''not found'')),
        HostMkdirAll (filepath_Dir bootstrapIgnitionPath) None, HostWriteFile bootstrapIgnitionPath ''data'' None]))"
    by (simp add: DP_Bootstrap_def dummy_apply_def hStat_def hWriteFile_def hMkdirAll_def plugin_steps memory_machine_def)
qed

text \<open>
  C39. OS version of an Elemental host. Only instructions that name an image may upgrade the host, at most once, and only if
  the state lists no snapshot labelled with their hash, whatever order the snapshots are visited in; the upgrade labels its
  snapshot with that hash, and a reboot is asked for if and only if it succeeded. A failure to read the state is reported.
\<close>

theorem EP_ReconcileOSVersion_exact:
  assumes "pc_sha256_hex D input \<noteq> []"
  shows "wp (EP_ReconcileOSVersion M D input) (reconciles D input)"
  using assms by (rule wp_EP_ReconcileOSVersion)

lemma EP_ReconcileOSVersion_exact_witness:
  "wp (EP_ReconcileOSVersion memory_machine sample_plugin_codec ''image'') (reconciles sample_plugin_codec ''image'')"
  by (rule EP_ReconcileOSVersion_exact) (simp add: sample_plugin_codec_def)

text \<open>Steps of a reset.\<close>

fun runs_bash :: "string \<Rightarrow> hostEvent \<Rightarrow> bool" where
  "runs_bash c (HostBash c' r) \<longleftrightarrow> c' = c" | "runs_bash c _ \<longleftrightarrow> False"
fun ran_bash :: "string \<Rightarrow> hostEvent \<Rightarrow> bool" where
  "ran_bash c (HostBash c' r) \<longleftrightarrow> c' = c \<and> r = None" | "ran_bash c _ \<longleftrightarrow> False"
fun wrote :: "string \<Rightarrow> string \<Rightarrow> hostEvent \<Rightarrow> bool" where
  "wrote p c (HostWriteFile p' c' r) \<longleftrightarrow> p' = p \<and> c' = c \<and> r = None" | "wrote p c _ \<longleftrightarrow> False"
fun runs_elemental :: "hostEvent \<Rightarrow> bool" where
  "runs_elemental (HostExec args env r) \<longleftrightarrow> True" | "runs_elemental _ \<longleftrightarrow> False"
fun ran_elemental :: "string list \<Rightarrow> hostEvent \<Rightarrow> bool" where
  "ran_elemental env (HostExec args env' r) \<longleftrightarrow> hd args = ''elemental'' \<and> last args = ''reset'' \<and> env' = env \<and> r = None"
| "ran_elemental env _ \<longleftrightarrow> False"

definition set_recovery :: string where "set_recovery = ''grub2-editenv /oem/grubenv set next_entry=recovery''"
definition reboot_soon :: string where "reboot_soon = ''shutdown -r +1''"

text \<open>
  The reset is triggered in order: the reboot is scheduled only after the next boot was set to recovery, that only after
  the configuration of the reset was written, and success means that all of it was done.
\<close>

definition triggers :: "'j pluginCodec \<Rightarrow> goerr option \<Rightarrow> hostEvent list \<Rightarrow> bool" where
  "triggers D r l \<longleftrightarrow> (case pc_yaml_yip D reset_cloud_config of
     Inl _ \<Rightarrow> r \<noteq> None \<and> \<not> list_ex (runs_bash reboot_soon) l \<and> \<not> list_ex (runs_bash set_recovery) l
   | Inr bytes \<Rightarrow>
       comes_after (wrote resetCloudConfigPath bytes) (runs_bash set_recovery) False l \<and>
       comes_after (ran_bash set_recovery) (runs_bash reboot_soon) False l \<and>
       (r = None \<longleftrightarrow> list_ex (ran_bash reboot_soon) l))"

lemma wp_EP_TriggerReset: "wp (EP_TriggerReset M D) (triggers D)"
  unfolding EP_TriggerReset_def CreateDirectory_def RunCommand_def plugin_steps
  by (intro wp_intros) (auto simp: triggers_def set_recovery_def reboot_soon_def split: sum.splits)

text \<open>The configuration of the agent is saved before the reset and put back after it.\<close>

definition resets :: "'j pluginCodec \<Rightarrow> string \<Rightarrow> string \<Rightarrow> goerr option \<Rightarrow> hostEvent list \<Rightarrow> bool" where
  "resets D configPath input r l \<longleftrightarrow> (case pc_json_reset D input of
     Inl _ \<Rightarrow> l = [] \<and> r \<noteq> None
   | Inr reset \<Rightarrow>
       comes_after (ran_bash (''cp '' @ configPath @ '' '' @ agentConfigTempPath)) runs_elemental False l \<and>
       comes_after (ran_elemental (mapToResetEnv reset)) (runs_bash (''mv '' @ agentConfigTempPath @ '' '' @ configPath)) False l \<and>
       (r = None \<longleftrightarrow> list_ex (ran_bash (''mv '' @ agentConfigTempPath @ '' '' @ configPath)) l))"

lemma wp_EP_Reset: "wp (EP_Reset M D p input) (resets D (epConfigPath p) input)"
  unfolding EP_Reset_def CreateDirectory_def RunCommand_def runner_Reset_def plugin_steps Let_def
  by (intro wp_intros) (auto simp: resets_def plugin_paths)

text \<open>
  Reset of an Elemental host. The trigger schedules a reboot only after the next boot was set to recovery, and that
  only after the configuration that runs the reset was written; the reset runs elemental only after the configuration of the agent
  was saved, puts it back only after elemental succeeded, with the options of the instructions, and each reports success if and only
  if its last step was done.
\<close>

theorem EP_Reset_in_order:
  "wp (EP_TriggerReset M D) (triggers D) \<and> wp (EP_Reset M D p input) (resets D (epConfigPath p) input)"
  by (simp add: wp_EP_TriggerReset wp_EP_Reset)

end
