(* ===== verification/Agent_System.thy ===== *)
theory Agent_System
  imports Agent_Commands Agent_Client Elemental_Plugin_Laws
begin

text \<open>
  The agent put together: its phases and commands, whose environment is the interfaces of the client and of the plugin, over
  the client and a plugin of the repository, which talk to the network and to the machine. Every call of a phase is then a
  piece of the trace of the network and the machine that the implementation of that call caused. The locale
  \<open>agent_implementation\<close> is that contract; it is interpreted for the agent with any plugin that is made of
  programs, in particular the two of the repository.
\<close>

section \<open>Programs over an implemented environment\<close>

text \<open>
  The world of such a program carries the events of the implementation. \<open>linked I m\<close>: the calls of every run of
  \<open>m\<close> cut those events into pieces, one for each call and related to it by \<open>I\<close>.
\<close>

definition linked :: "('c \<Rightarrow> 'e list \<Rightarrow> bool) \<Rightarrow> ('w \<times> 'e list, 'c, 'a) prog \<Rightarrow> bool" where
  "linked I m \<longleftrightarrow> (\<forall>w es l. \<exists>a w' segs cs. run_state m ((w, es), l) = (a, ((w', es @ concat segs), l @ cs)) \<and>
     list_all2 I cs segs)"

named_theorems linked_intros

lemma linked_ret [linked_intros]: "linked I (ret a)"
  unfolding linked_def by (intro allI exI [of _ "[]"] exI) auto

lemma linked_bind [linked_intros]:
  assumes "linked I m" and "\<And>a. linked I (f a)"
  shows "linked I (State_Monad.bind m f)"
  unfolding linked_def
proof (intro allI)
  fix w es l
  from assms(1) obtain a w1 s1 c1 where 1: "run_state m ((w, es), l) = (a, ((w1, es @ concat s1), l @ c1))" "list_all2 I c1 s1"
    unfolding linked_def by blast
  from assms(2) obtain b w2 s2 c2 where
    2: "run_state (f a) ((w1, es @ concat s1), l @ c1) = (b, ((w2, (es @ concat s1) @ concat s2), (l @ c1) @ c2))"
      "list_all2 I c2 s2"
    unfolding linked_def by blast
  from 1 2 have "run_state (State_Monad.bind m f) ((w, es), l) = (b, ((w2, es @ concat (s1 @ s2)), l @ (c1 @ c2)))" by simp
  moreover from 1 2 have "list_all2 I (c1 @ c2) (s1 @ s2)" by (simp add: list_all2_appendI)
  ultimately show "\<exists>b w' segs cs. run_state (State_Monad.bind m f) ((w, es), l) = (b, ((w', es @ concat segs), l @ cs)) \<and>
      list_all2 I cs segs" by blast
qed

lemma linked_if [linked_intros]: "linked I m \<Longrightarrow> linked I n \<Longrightarrow> linked I (if b then m else n)"
  by simp

lemma linked_option [linked_intros]:
  "linked I m \<Longrightarrow> (\<And>y. linked I (f y)) \<Longrightarrow> linked I (case x of None \<Rightarrow> m | Some y \<Rightarrow> f y)"
  by (cases x) auto

lemma linked_sum [linked_intros]:
  "(\<And>y. linked I (f y)) \<Longrightarrow> (\<And>z. linked I (g z)) \<Longrightarrow> linked I (case x of Inl y \<Rightarrow> f y | Inr z \<Rightarrow> g z)"
  by (cases x) auto

lemma linked_prod [linked_intros]: "(\<And>a b. linked I (f a b)) \<Longrightarrow> linked I (case x of (a, b) \<Rightarrow> f a b)"
  by (cases x) auto

lemma linked_rounds [linked_intros]: "(\<And>s. linked I (round s)) \<Longrightarrow> linked I (rounds round n s)"
  by (induction n arbitrary: s) (auto intro!: linked_intros)

text \<open>What is proved of the calls of a program holds of the calls that cut its events.\<close>

lemma linked_wp:
  assumes "linked I m" and "wp m Q"
  shows "\<exists>a w' segs cs. run_state m ((w, es), l) = (a, ((w', es @ concat segs), l @ cs)) \<and>
    list_all2 I cs segs \<and> Q a cs"
proof -
  from assms(1) obtain a w' segs cs where run: "run_state m ((w, es), l) = (a, ((w', es @ concat segs), l @ cs))"
    and "list_all2 I cs segs"
    unfolding linked_def by blast
  moreover from wp_runD [OF assms(2) run] have "Q a cs" by auto
  ultimately show ?thesis by blast
qed

section \<open>The contract of an implementation\<close>

locale agent_implementation =
  fixes G :: "('w \<times> 'e list) agent" and I :: "call \<Rightarrow> 'e list \<Rightarrow> bool"
  assumes calls: "linked I (cGetRegistration G)"
    "\<And>x. linked I (cCreateHost G x)" "\<And>x. linked I (cDeleteHost G x)" "\<And>x y. linked I (cPatchHost G x y)"
    "\<And>x. linked I (cGetBootstrap G x)" "linked I (cGetHostname G)" "\<And>x. linked I (cInstallCloudInit G x)"
    "\<And>x. linked I (cInstallHostname G x)" "\<And>x y z u v. linked I (cInstallFile G x y z u v)" "\<And>x. linked I (cInstall G x)"
    "\<And>x y. linked I (cBootstrap G x y)" "\<And>x. linked I (cReconcileOSVersion G x)" "linked I (cTriggerReset G)"
    "\<And>x. linked I (cReset G x)" "linked I (cPowerOff G)" "linked I (cReboot G)" "\<And>x. linked I (cStat G x)"
    "linked I (cNewRandom G)" "\<And>x. linked I (cSleep G x)"
begin

lemmas linked_calls = calls linked_intros

lemma linked_Install: "linked I (Install G Y fuel X)"
  unfolding Install_def setPhase_def install_round_def install_recover_def install_steps_def install_cloudConfig_def
    install_host_def install_report_def updateCondition_def
  by (intro linked_calls)

lemma linked_Reset: "linked I (Handler_Reset G Y fuel X)"
  unfolding Handler_Reset_def setPhase_def reset_round_def reset_recover_def reset_host_def reset_report_def
    updateCondition_def
  by (intro linked_calls)

lemma linked_Register: "linked I (Register G C fuel X)"
  unfolding Register_def registrationLoop_def registration_round_def FormatHostname_def formatRandom_def formatCurrent_def
    setPhase_def
  by (intro linked_calls)

lemma linked_FinalizeRegistration: "linked I (FinalizeRegistration G C Y fuel X)"
  unfolding FinalizeRegistration_def finalize_def registered_round_def updateConditionOrFail_def updateCondition_def
    setPhase_def Let_def
  by (intro linked_calls)

lemma linked_Bootstrap: "linked I (Bootstrap G X)"
  unfolding Bootstrap_def bootstrap_inner_def updateBoostrappedStatus_def updateCondition_def setPhase_def
  by (intro linked_calls)

lemma linked_OSVersion: "linked I (OSVersion_Reconcile G Y X osv needs)"
  unfolding OSVersion_Reconcile_def osVersion_failed_def updateConditionOrFail_def updateCondition_def setPhase_def
  by (intro linked_calls)

lemma linked_TriggerReset: "linked I (Handler_TriggerReset G X)"
  unfolding Handler_TriggerReset_def updateCondition_def setPhase_def Let_def
  by (intro linked_calls)

lemma linked_handlePost: "linked I (handlePost G post)"
  unfolding handlePost_def by (intro linked_calls)

lemma linked_run: "linked I (run_command G Y fuel X)"
  unfolding run_command_def run_round_def run_wait_def run_bootstrap_def Let_def
  by (intro linked_calls linked_TriggerReset linked_OSVersion linked_Bootstrap linked_handlePost)

lemma linked_register: "linked I (register_command G C Y fuel b X)"
  unfolding register_command_def install_command_def
  by (intro linked_calls linked_Register linked_FinalizeRegistration linked_Install linked_handlePost)

end

section \<open>The agent over its client and its plugin\<close>

datatype sysEvent = SysNet netEvent | SysHost hostEvent

text \<open>A plugin as programs of the machine: the interface \<^verbatim>\<open>osplugin.Plugin\<close>.\<close>

record 'w plugin =
  pl_GetHostname :: "('w, hostEvent, goerr + string) prog"
  pl_InstallCloudInit :: "string \<Rightarrow> ('w, hostEvent, goerr option) prog"
  pl_InstallHostname :: "string \<Rightarrow> ('w, hostEvent, goerr option) prog"
  pl_InstallFile :: "string \<Rightarrow> string \<Rightarrow> nat \<Rightarrow> int \<Rightarrow> int \<Rightarrow> ('w, hostEvent, goerr option) prog"
  pl_Install :: "string \<Rightarrow> ('w, hostEvent, goerr option) prog"
  pl_Bootstrap :: "string \<Rightarrow> string \<Rightarrow> ('w, hostEvent, goerr option) prog"
  pl_ReconcileOSVersion :: "string \<Rightarrow> ('w, hostEvent, goerr + bool) prog"
  pl_TriggerReset :: "('w, hostEvent, goerr option) prog"
  pl_Reset :: "string \<Rightarrow> ('w, hostEvent, goerr option) prog"
  pl_PowerOff :: "('w, hostEvent, goerr option) prog"
  pl_Reboot :: "('w, hostEvent, goerr option) prog"

definition elemental_plugin :: "'w machine \<Rightarrow> 'j pluginCodec \<Rightarrow> elementalPlugin \<Rightarrow> 'w plugin" where
  "elemental_plugin M D p = \<lparr>pl_GetHostname = EP_GetHostname M, pl_InstallCloudInit = EP_InstallCloudInit M D,
     pl_InstallHostname = EP_InstallHostname M D, pl_InstallFile = EP_InstallFile M D, pl_Install = EP_Install M D,
     pl_Bootstrap = EP_Bootstrap M D, pl_ReconcileOSVersion = EP_ReconcileOSVersion M D,
     pl_TriggerReset = EP_TriggerReset M D, pl_Reset = EP_Reset M D p, pl_PowerOff = EP_PowerOff M, pl_Reboot = EP_Reboot M\<rparr>"

definition dummy_plugin :: "'w machine \<Rightarrow> 'j pluginCodec \<Rightarrow> dummyPlugin \<Rightarrow> 'w plugin" where
  "dummy_plugin M D p = \<lparr>pl_GetHostname = DP_GetHostname M, pl_InstallCloudInit = DP_InstallCloudInit M D p,
     pl_InstallHostname = DP_InstallHostname M, pl_InstallFile = DP_InstallFile M, pl_Install = DP_Install M D p,
     pl_Bootstrap = DP_Bootstrap M, pl_ReconcileOSVersion = DP_ReconcileOSVersion M D p,
     pl_TriggerReset = DP_TriggerReset M p, pl_Reset = DP_Reset M D p, pl_PowerOff = DP_PowerOff M, pl_Reboot = DP_Reboot M\<rparr>"

text \<open>A call runs its program and adds the events of the run to those of the system.\<close>

definition run_on :: "('e \<Rightarrow> sysEvent) \<Rightarrow> ('w, 'e, 'a) prog \<Rightarrow> 'w \<times> sysEvent list \<Rightarrow> 'a \<times> ('w \<times> sysEvent list)" where
  "run_on f p = (\<lambda>(w, es). let (a, (w', l)) = run_state p (w, []) in (a, (w', es @ map f l)))"

text \<open>What the agent's system is made of; random identifiers and sleep are the environment's.\<close>

record 'w system =
  sy_net :: "'w net"
  sy_machine :: "'w machine"
  sy_plugin :: "'w plugin"
  sy_NewRandom :: "'w \<Rightarrow> (goerr + string) \<times> 'w"
  sy_Sleep :: "int \<Rightarrow> 'w \<Rightarrow> unit \<times> 'w"

definition stat_error :: "goerr + bool \<Rightarrow> goerr option" where
  "stat_error r = (case r of Inl e \<Rightarrow> Some e | Inr _ \<Rightarrow> None)"

definition system_agent :: "'w system \<Rightarrow> codec \<Rightarrow> clientCodec \<Rightarrow> client \<Rightarrow> ('w \<times> sysEvent list) agent" where
  "system_agent S C K c = (let N = sy_net S; P = sy_plugin S in \<lparr>
     ag_GetRegistration = run_on SysNet (client_GetRegistration N K c),
     ag_CreateHost = (\<lambda>h. run_on SysNet (client_CreateHost N C K c h)),
     ag_DeleteHost = (\<lambda>n. run_on SysNet (client_DeleteHost N C K c n)),
     ag_PatchHost = (\<lambda>q n. run_on SysNet (client_PatchHost N C K c q n)),
     ag_GetBootstrap = (\<lambda>n. run_on SysNet (client_GetBootstrap N C K c n)),
     ag_GetHostname = run_on SysHost (pl_GetHostname P),
     ag_InstallCloudInit = (\<lambda>x. run_on SysHost (pl_InstallCloudInit P x)),
     ag_InstallHostname = (\<lambda>x. run_on SysHost (pl_InstallHostname P x)),
     ag_InstallFile = (\<lambda>x y z u v. run_on SysHost (pl_InstallFile P x y z u v)),
     ag_Install = (\<lambda>x. run_on SysHost (pl_Install P x)),
     ag_Bootstrap = (\<lambda>x y. run_on SysHost (pl_Bootstrap P x y)),
     ag_ReconcileOSVersion = (\<lambda>x. run_on SysHost (pl_ReconcileOSVersion P x)),
     ag_TriggerReset = run_on SysHost (pl_TriggerReset P),
     ag_Reset = (\<lambda>x. run_on SysHost (pl_Reset P x)),
     ag_PowerOff = run_on SysHost (pl_PowerOff P),
     ag_Reboot = run_on SysHost (pl_Reboot P),
     ag_Stat = (\<lambda>x. run_on SysHost (do { r \<leftarrow> hStat (sy_machine S) x; ret (stat_error r) })),
     ag_NewRandom = (\<lambda>(w, es). let (r, w') = sy_NewRandom S w in (r, (w', es))),
     ag_Sleep = (\<lambda>d (w, es). let (r, w') = sy_Sleep S d w in (r, (w', es)))\<rparr>)"

text \<open>A piece of the trace is a run of the program behind the call, with its result.\<close>

definition net_piece :: "('w, netEvent, 'a) prog \<Rightarrow> 'a \<Rightarrow> sysEvent list \<Rightarrow> bool" where
  "net_piece p r seg \<longleftrightarrow> (\<exists>l. seg = map SysNet l \<and> runs_as p r l)"

definition host_piece :: "('w, hostEvent, 'a) prog \<Rightarrow> 'a \<Rightarrow> sysEvent list \<Rightarrow> bool" where
  "host_piece p r seg \<longleftrightarrow> (\<exists>l. seg = map SysHost l \<and> runs_as p r l)"

fun pieces :: "'w system \<Rightarrow> codec \<Rightarrow> clientCodec \<Rightarrow> client \<Rightarrow> call \<Rightarrow> sysEvent list \<Rightarrow> bool" where
  "pieces S C K c (CallGetRegistration r) seg = net_piece (client_GetRegistration (sy_net S) K c) r seg"
| "pieces S C K c (CallCreateHost h r) seg = net_piece (client_CreateHost (sy_net S) C K c h) r seg"
| "pieces S C K c (CallDeleteHost n r) seg = net_piece (client_DeleteHost (sy_net S) C K c n) r seg"
| "pieces S C K c (CallPatchHost q n r) seg = net_piece (client_PatchHost (sy_net S) C K c q n) r seg"
| "pieces S C K c (CallGetBootstrap n r) seg = net_piece (client_GetBootstrap (sy_net S) C K c n) r seg"
| "pieces S C K c (CallGetHostname r) seg = host_piece (pl_GetHostname (sy_plugin S)) r seg"
| "pieces S C K c (CallInstallCloudInit x r) seg = host_piece (pl_InstallCloudInit (sy_plugin S) x) r seg"
| "pieces S C K c (CallInstallHostname x r) seg = host_piece (pl_InstallHostname (sy_plugin S) x) r seg"
| "pieces S C K c (CallInstallFile x y z u v r) seg = host_piece (pl_InstallFile (sy_plugin S) x y z u v) r seg"
| "pieces S C K c (CallInstall x r) seg = host_piece (pl_Install (sy_plugin S) x) r seg"
| "pieces S C K c (CallBootstrap x y r) seg = host_piece (pl_Bootstrap (sy_plugin S) x y) r seg"
| "pieces S C K c (CallReconcileOSVersion x r) seg = host_piece (pl_ReconcileOSVersion (sy_plugin S) x) r seg"
| "pieces S C K c (CallTriggerReset r) seg = host_piece (pl_TriggerReset (sy_plugin S)) r seg"
| "pieces S C K c (CallReset x r) seg = host_piece (pl_Reset (sy_plugin S) x) r seg"
| "pieces S C K c (CallPowerOff r) seg = host_piece (pl_PowerOff (sy_plugin S)) r seg"
| "pieces S C K c (CallReboot r) seg = host_piece (pl_Reboot (sy_plugin S)) r seg"
| "pieces S C K c (CallStat x r) seg \<longleftrightarrow> (\<exists>st. r = stat_error st \<and> seg = [SysHost (HostStat x st)])"
| "pieces S C K c (CallNewRandom r) seg \<longleftrightarrow> seg = []"
| "pieces S C K c (CallSleep d r) seg \<longleftrightarrow> seg = []"

lemma linked_ask:
  assumes "\<And>w es. \<exists>r w' seg. g (w, es) = (r, (w', es @ seg)) \<and> I (ev r) seg"
  shows "linked I (ask g ev)"
  unfolding linked_def
proof (intro allI)
  fix w es l
  from assms obtain r w' seg where "g (w, es) = (r, (w', es @ seg))" "I (ev r) seg" by blast
  then show "\<exists>a w' segs cs. run_state (ask g ev) ((w, es), l) = (a, ((w', es @ concat segs), l @ cs)) \<and> list_all2 I cs segs"
    by (intro exI [of _ r] exI [of _ w'] exI [of _ "[seg]"] exI [of _ "[ev r]"]) simp
qed

lemma linked_run_on:
  assumes "\<And>r l. runs_as p r l \<Longrightarrow> I (ev r) (map f l)"
  shows "linked I (ask (run_on f p) ev)"
proof (rule linked_ask)
  fix w es
  obtain r w' l where run: "run_state p (w, []) = (r, (w', l))" by (metis prod.exhaust)
  then have "runs_as p r l" by (auto simp: runs_as_def)
  from assms [OF this] run show "\<exists>r w' seg. run_on f p (w, es) = (r, (w', es @ seg)) \<and> I (ev r) seg"
    by (auto simp: run_on_def)
qed

lemma linked_net: "(\<And>r seg. net_piece p r seg \<Longrightarrow> I (ev r) seg) \<Longrightarrow> linked I (ask (run_on SysNet p) ev)"
  by (rule linked_run_on) (auto simp: net_piece_def)

lemma linked_host: "(\<And>r seg. host_piece p r seg \<Longrightarrow> I (ev r) seg) \<Longrightarrow> linked I (ask (run_on SysHost p) ev)"
  by (rule linked_run_on) (auto simp: host_piece_def)

lemmas agent_call_defs = cGetRegistration_def cCreateHost_def cDeleteHost_def cPatchHost_def cGetBootstrap_def cGetHostname_def
  cInstallCloudInit_def cInstallHostname_def cInstallFile_def cInstall_def cBootstrap_def cReconcileOSVersion_def
  cTriggerReset_def cReset_def cPowerOff_def cReboot_def cStat_def cNewRandom_def cSleep_def

interpretation system: agent_implementation "system_agent S C K c" "pieces S C K c" for S C K c
proof
  have quiet: "linked (pieces S C K c) (cNewRandom (system_agent S C K c))"
    "linked (pieces S C K c) (cSleep (system_agent S C K c) x)" for x
    unfolding system_agent_def agent_call_defs Let_def agent.simps
    by (rule linked_ask, auto split: prod.splits)+
  have stat: "linked (pieces S C K c) (cStat (system_agent S C K c) x)" for x
    unfolding system_agent_def agent_call_defs Let_def agent.simps
    by (rule linked_run_on) (auto simp: runs_as_def hStat_def)
  note defs = system_agent_def agent_call_defs Let_def agent.simps
  show "linked (pieces S C K c) (cNewRandom (system_agent S C K c))" by (rule quiet)
  show "linked (pieces S C K c) (cSleep (system_agent S C K c) x)" for x by (rule quiet)
  show "linked (pieces S C K c) (cStat (system_agent S C K c) x)" for x by (rule stat)
qed (unfold system_agent_def agent_call_defs Let_def agent.simps, (rule linked_net linked_host, simp)+)

section \<open>Installation and reset of a host\<close>

lemma concat_split:
  assumes "i < length xs"
  shows "concat xs = concat (take i xs) @ xs ! i @ concat (drop (Suc i) xs)"
proof -
  have "concat (take i xs @ xs ! i # drop (Suc i) xs) = concat (take i xs) @ xs ! i @ concat (drop (Suc i) xs)" by simp
  then show ?thesis unfolding id_take_nth_drop [OF assms, symmetric] .
qed

lemma pieces_in_order:
  assumes "list_all2 I cs segs" and "i < k" and "k < length cs"
  shows "\<exists>a b d s t. concat segs = a @ s @ b @ t @ d \<and> I (cs ! i) s \<and> I (cs ! k) t"
proof -
  from assms have len: "i < length segs" "k < length segs" and I: "I (cs ! i) (segs ! i)" "I (cs ! k) (segs ! k)"
    by (auto simp: list_all2_conv_all_nth)
  let ?r = "drop (Suc i) segs"
  have "k - Suc i < length ?r" and at: "?r ! (k - Suc i) = segs ! k" using assms(2) len by simp_all
  from concat_split [OF this(1)] at
  have "concat ?r = concat (take (k - Suc i) ?r) @ segs ! k @ concat (drop (Suc (k - Suc i)) ?r)" by simp
  with concat_split [OF len(1)] have "concat segs = concat (take i segs) @ segs ! i @
      concat (take (k - Suc i) ?r) @ segs ! k @ concat (drop (Suc (k - Suc i)) ?r)" by simp
  with I show ?thesis by (intro exI conjI) assumption+
qed

lemma succeeded_install: "succeeded installs_host c \<Longrightarrow> \<exists>x. c = CallInstall x None"
  by (cases c) (auto simp: succeeded_def failed_def)

lemma succeeded_reset: "succeeded resets_host c \<Longrightarrow> \<exists>x. c = CallReset x None"
  by (cases c) (auto simp: succeeded_def failed_def)

lemma succeeded_delete: "succeeded marks_deleted c \<Longrightarrow> \<exists>n. c = CallDeleteHost n None"
  by (cases c) (auto simp: succeeded_def failed_def)

lemma host_piece_wp:
  assumes "host_piece p r seg" and "wp p Q"
  obtains l where "seg = map SysHost l" "Q r l"
  using assms(1) runs_as_wp [OF _ assms(2), of r] unfolding host_piece_def by blast

lemma net_piece_wp:
  assumes "net_piece p r seg" and "wp p Q"
  obtains l where "seg = map SysNet l" "Q r l"
  using assms(1) runs_as_wp [OF _ assms(2), of r] unfolding net_piece_def by blast

definition elemental_system :: "'w system \<Rightarrow> 'j pluginCodec \<Rightarrow> elementalPlugin \<Rightarrow> 'w system" where
  "elemental_system S D p = S\<lparr>sy_plugin := elemental_plugin (sy_machine S) D p\<rparr>"

text \<open>The trace of a finished installation: the installation of the plugin, and after it the report.\<close>

definition installs_then_reports ::
  "codec \<Rightarrow> clientCodec \<Rightarrow> client \<Rightarrow> 'j pluginCodec \<Rightarrow> string \<Rightarrow> sysEvent list \<Rightarrow> bool"
where
  "installs_then_reports C K c D hostname es \<longleftrightarrow>
     (\<exists>a b d input inst h report. es = a @ map SysHost inst @ b @ map SysNet report @ d \<and>
        plugin_installs D input None inst \<and>
        patch_call C K c installed_report hostname (Inr h) report)"

lemma installed_pieces:
  assumes cs: "install_finished X cs" and segs: "list_all2 (pieces (elemental_system S D p) C K c) cs segs"
  shows "installs_then_reports C K c D (cxHostname X) (concat segs)"
proof -
  from cs obtain h where ne: "cs \<noteq> []" and last: "last cs = CallPatchHost installed_report (cxHostname X) (Inr h)"
    and ord: "comes_after (succeeded installs_host) (reports claims_installed) False cs"
    unfolding install_finished_def install_ordered_def by blast
  from ne last obtain k where k: "k < length cs" "cs ! k = CallPatchHost installed_report (cxHostname X) (Inr h)"
    by (metis last_conv_nth length_greater_0_conv diff_less zero_less_one)
  then have "reports claims_installed (cs ! k)" by (simp add: claims_defs)
  from comes_after_nth [OF ord k(1) this] obtain j where "j < k" and "succeeded installs_host (cs ! j)" by blast
  then obtain x where j: "j < k" "cs ! j = CallInstall x None" using succeeded_install by blast
  from pieces_in_order [OF segs j(1) k(1)] obtain a b d s t where es: "concat segs = a @ s @ b @ t @ d"
    and s: "host_piece (EP_Install (sy_machine S) D x) None s"
    and t: "net_piece (client_PatchHost (sy_net S) C K c installed_report (cxHostname X)) (Inr h) t"
    by (auto simp: j k elemental_system_def elemental_plugin_def)
  from host_piece_wp [OF s wp_EP_Install] obtain inst where inst: "s = map SysHost inst" "plugin_installs D x None inst" .
  from net_piece_wp [OF t wp_client_PatchHost] obtain report where
    report: "t = map SysNet report" "patch_call C K c installed_report (cxHostname X) (Inr h) report" .
  from es have "concat segs = a @ map SysHost inst @ b @ map SysNet report @ d" by (simp add: inst report)
  with inst report show ?thesis
    unfolding installs_then_reports_def by (intro exI conjI) assumption+
qed


lemma pieces_in_order3:
  assumes "list_all2 I cs segs" and "i < j" and "j < k" and "k < length cs"
  shows "\<exists>a b c d s t u. concat segs = a @ s @ b @ t @ c @ u @ d \<and> I (cs ! i) s \<and> I (cs ! j) t \<and> I (cs ! k) u"
proof -
  let ?cs = "drop (Suc i) cs" and ?segs = "drop (Suc i) segs"
  from assms have rest: "list_all2 I ?cs ?segs" by (simp add: list_all2_dropI)
  have at: "?cs ! (j - Suc i) = cs ! j" "?cs ! (k - Suc i) = cs ! k" using assms by simp_all
  have "j - Suc i < k - Suc i" "k - Suc i < length ?cs" using assms by simp_all
  from pieces_in_order [OF rest this] obtain b c d t u where
    r: "concat ?segs = b @ t @ c @ u @ d" "I (cs ! j) t" "I (cs ! k) u" unfolding at by blast
  have i: "i < length segs" "I (cs ! i) (segs ! i)" using assms by (auto simp: list_all2_conv_all_nth)
  from concat_split [OF i(1)] r(1)
  have "concat segs = concat (take i segs) @ segs ! i @ b @ t @ c @ u @ d" by simp
  with i(2) r(2,3) show ?thesis by (intro exI conjI) assumption+
qed

text \<open>The trace of a finished reset: the deletion, the reset of the plugin, the report.\<close>

definition deletes_resets_reports ::
  "codec \<Rightarrow> clientCodec \<Rightarrow> client \<Rightarrow> 'j pluginCodec \<Rightarrow> string \<Rightarrow> string \<Rightarrow> sysEvent list \<Rightarrow> bool"
where
  "deletes_resets_reports C K c D configPath hostname es \<longleftrightarrow>
     (\<exists>a b d e marked deletion input reset h report.
        es = a @ map SysNet deletion @ b @ map SysHost reset @ d @ map SysNet report @ e \<and>
        delete_call C c marked None deletion \<and> resets D configPath input None reset \<and>
        patch_call C K c reset_done_report hostname (Inr h) report)"

lemma reset_pieces:
  assumes cs: "reset_finished X cs" and segs: "list_all2 (pieces (elemental_system S D p) C K c) cs segs"
  shows "deletes_resets_reports C K c D (epConfigPath p) (cxHostname X) (concat segs)"
proof -
  from cs obtain h where ne: "cs \<noteq> []" and last: "last cs = CallPatchHost reset_done_report (cxHostname X) (Inr h)"
    and ord: "comes_after (succeeded resets_host) (reports claims_reset) False cs"
      "comes_after (succeeded marks_deleted) resets_host False cs"
    unfolding reset_finished_def reset_ordered_def by blast
  from ne last obtain k where k: "k < length cs" "cs ! k = CallPatchHost reset_done_report (cxHostname X) (Inr h)"
    by (metis last_conv_nth length_greater_0_conv diff_less zero_less_one)
  then have "reports claims_reset (cs ! k)" by (simp add: claims_defs)
  from comes_after_nth [OF ord(1) k(1) this] obtain j where "j < k" and "succeeded resets_host (cs ! j)" by blast
  then obtain x where j: "j < k" "cs ! j = CallReset x None" using succeeded_reset by blast
  then have "j < length cs" "resets_host (cs ! j)" using k by simp_all
  from comes_after_nth [OF ord(2) this] obtain i where "i < j" and "succeeded marks_deleted (cs ! i)" by blast
  then obtain n where i: "i < j" "cs ! i = CallDeleteHost n None" using succeeded_delete by blast
  from pieces_in_order3 [OF segs i(1) j(1) k(1)] obtain a b d e s t u where es: "concat segs = a @ s @ b @ t @ d @ u @ e"
    and s: "net_piece (client_DeleteHost (sy_net S) C K c n) None s"
    and t: "host_piece (EP_Reset (sy_machine S) D p x) None t"
    and u: "net_piece (client_PatchHost (sy_net S) C K c reset_done_report (cxHostname X)) (Inr h) u"
    by (auto simp: i j k elemental_system_def elemental_plugin_def)
  from net_piece_wp [OF s wp_client_DeleteHost] obtain deletion where
    deletion: "s = map SysNet deletion" "delete_call C c n None deletion" .
  from host_piece_wp [OF t wp_EP_Reset] obtain reset where reset: "t = map SysHost reset" "resets D (epConfigPath p) x None reset" .
  from net_piece_wp [OF u wp_client_PatchHost] obtain report where
    report: "u = map SysNet report" "patch_call C K c reset_done_report (cxHostname X) (Inr h) report" .
  from es have "concat segs = a @ map SysNet deletion @ b @ map SysHost reset @ d @ map SysNet report @ e"
    by (simp add: deletion reset report)
  with deletion reset report show ?thesis
    unfolding deletes_resets_reports_def by (intro exI conjI) assumption+
qed


section \<open>The life of a host\<close>

text \<open>A PATCH that claims the host bootstrapped comes after a look at the machine that found the sentinel.\<close>

definition claims_after_sentinel ::
  "codec \<Rightarrow> clientCodec \<Rightarrow> client \<Rightarrow> call list \<Rightarrow> sysEvent list list \<Rightarrow> bool"
where
  "claims_after_sentinel C K c cs segs \<longleftrightarrow>
     (\<forall>k < length cs. \<forall>req n r. cs ! k = CallPatchHost req n r \<and> hpBootstrapped req \<noteq> None \<longrightarrow>
        (\<exists>report. segs ! k = map SysNet report \<and> patch_call C K c req n r report) \<and>
        (\<exists>j < k. \<exists>d. segs ! j = [SysHost (HostStat bootstrapSentinelFile (Inr d))]))"

lemma run_safe_claims:
  assumes "run_safe cs" and segs: "list_all2 (pieces S C K c) cs segs"
  shows "claims_after_sentinel C K c cs segs"
  unfolding claims_after_sentinel_def
proof (intro allI impI, elim conjE)
  fix k req n r
  assume k: "k < length cs" "cs ! k = CallPatchHost req n r" and req: "hpBootstrapped req \<noteq> None"
  from segs have I: "i < length cs \<Longrightarrow> pieces S C K c (cs ! i) (segs ! i)" for i
    by (simp add: list_all2_conv_all_nth)
  from I [OF k(1)] k(2) have "net_piece (client_PatchHost (sy_net S) C K c req n) r (segs ! k)" by simp
  from net_piece_wp [OF this wp_client_PatchHost]
  obtain report where "segs ! k = map SysNet report" "patch_call C K c req n r report" .
  moreover
  from k req have "reports claims_bootstrapped (cs ! k)" by (simp add: claims_defs)
  with comes_after_nth [of "\<lambda>c. c = CallStat bootstrapSentinelFile None" "reports claims_bootstrapped" cs k] assms(1) k(1)
  obtain j where j: "j < k" "cs ! j = CallStat bootstrapSentinelFile None" unfolding run_safe_def by blast
  with I [of j] k(1) obtain st where "None = stat_error st" "segs ! j = [SysHost (HostStat bootstrapSentinelFile st)]"
    by auto
  then have "\<exists>d. segs ! j = [SysHost (HostStat bootstrapSentinelFile (Inr d))]"
    by (cases st) (simp_all add: stat_error_def)
  ultimately show "(\<exists>report. segs ! k = map SysNet report \<and> patch_call C K c req n r report) \<and>
      (\<exists>j < k. \<exists>d. segs ! j = [SysHost (HostStat bootstrapSentinelFile (Inr d))])" using j(1) by blast
qed

text \<open>
  C31. A running host, end to end. Over any number of iterations of \<^verbatim>\<open>run\<close>, with any plugin, the events of the network and the
  machine are the pieces of the calls it made; every PATCH that claims the host bootstrapped comes after the machine answered that
  the sentinel file exists.
\<close>

theorem System_run_claims:
  "case run_state (run_command (system_agent S C K c) Y fuel X) ((w, es), []) of
     (r, ((w', es'), calls)) \<Rightarrow> \<exists>segs. es' = es @ concat segs \<and> list_all2 (pieces S C K c) calls segs \<and>
       claims_after_sentinel C K c calls segs"
proof -
  from linked_wp [OF system.linked_run wp_run_command, of S C K c Y fuel X w es "[]"]
  obtain a w' segs cs where
    "run_state (run_command (system_agent S C K c) Y fuel X) ((w, es), []) = (a, ((w', es @ concat segs), cs))"
    and segs: "list_all2 (pieces S C K c) cs segs" and "run_outcome fuel a cs"
    by auto
  moreover from this have "claims_after_sentinel C K c cs segs"
    using run_safe_claims [OF _ segs] by (simp add: run_outcome_def)
  ultimately show ?thesis by (auto intro: exI [of _ segs])
qed

end
