(* ===== verification/Sample_Codec.thy ===== *)
theory Sample_Codec
  imports Jwt
begin

text \<open>
  A concrete codec and signature scheme, with the proof that they have the documented laws \<open>codec_ok\<close>: it is the instance on
  which properties that assume those laws are shown to apply. Strings are written with an escape before every character and
  an end mark, numbers in binary, a signature is the public key and the message.
\<close>

definition more_mark :: char where "more_mark = CHR ''m''"
definition end_mark :: char where "end_mark = CHR ''e''"

definition put_string :: "string \<Rightarrow> string" where
  "put_string s = concat (map (\<lambda>c. [more_mark, c]) s) @ [end_mark]"

fun get_string :: "string \<Rightarrow> (string \<times> string) option" where
  "get_string (a # c # s) =
     (if a = more_mark then map_option (\<lambda>(t, r). (c # t, r)) (get_string s)
      else if a = end_mark then Some ([], c # s) else None)"
| "get_string [a] = (if a = end_mark then Some ([], []) else None)"
| "get_string [] = None"

lemma get_put_string [simp]: "get_string (put_string s @ r) = Some (s, r)"
proof (induction s)
  case Nil
  then show ?case by (cases r) (simp_all add: put_string_def end_mark_def more_mark_def)
next
  case (Cons c s)
  then show ?case by (simp add: put_string_def)
qed

fun put_nat :: "nat \<Rightarrow> string" where
  "put_nat n = (if n = 0 then [end_mark] else (if odd n then CHR ''1'' else CHR ''0'') # put_nat (n div 2))"

declare put_nat.simps [simp del]

fun get_nat :: "string \<Rightarrow> (nat \<times> string) option" where
  "get_nat [] = None"
| "get_nat (c # s) =
     (if c = end_mark then Some (0, s)
      else map_option (\<lambda>(n, r). ((if c = CHR ''1'' then 1 else 0) + 2 * n, r)) (get_nat s))"

lemma get_put_nat [simp]: "get_nat (put_nat n @ r) = Some (n, r)"
proof (induction n rule: put_nat.induct)
  case (1 n)
  show ?case
  proof (cases "n = 0")
    case False
    have n: "(if odd n then 1 else 0) + 2 * (n div 2) = n" by presburger
    have "get_nat (put_nat n @ r) = Some ((if odd n then 1 else 0) + 2 * (n div 2), r)"
      using 1 [OF False] False by (subst put_nat.simps) (simp add: end_mark_def)
    then show ?thesis unfolding n .
  qed (simp add: put_nat.simps)
qed

definition put_time :: "int option \<Rightarrow> string" where
  "put_time t = (case t of None \<Rightarrow> ''n'' | Some i \<Rightarrow> (if i < 0 then CHR ''-'' else CHR ''+'') # put_nat (nat \<bar>i\<bar>))"

definition get_time :: "string \<Rightarrow> (int option \<times> string) option" where
  "get_time s = (case s of [] \<Rightarrow> None
     | c # s \<Rightarrow>
         if c = CHR ''n'' then Some (None, s)
         else map_option (\<lambda>(n, r). (Some (if c = CHR ''-'' then - int n else int n), r)) (get_nat s))"

lemma get_put_time [simp]: "get_time (put_time t @ r) = Some (t, r)"
  by (cases t) (simp_all add: put_time_def get_time_def)

fun put_strings :: "string list \<Rightarrow> string" where
  "put_strings [] = [end_mark]"
| "put_strings (s # ss) = more_mark # put_string s @ put_strings ss"

fun get_strings :: "nat \<Rightarrow> string \<Rightarrow> (string list \<times> string) option" where
  "get_strings 0 s = None"
| "get_strings (Suc n) [] = None"
| "get_strings (Suc n) (c # s) =
     (if c = end_mark then Some ([], s)
      else case get_string s of None \<Rightarrow> None
        | Some (t, r) \<Rightarrow> map_option (\<lambda>(ts, r). (t # ts, r)) (get_strings n r))"

lemma get_put_strings: "length ss < n \<Longrightarrow> get_strings n (put_strings ss @ r) = Some (ss, r)"
proof (induction ss arbitrary: n)
  case Nil
  then show ?case by (cases n) simp_all
next
  case (Cons s ss)
  then show ?case by (cases n) (simp_all add: more_mark_def end_mark_def)
qed

lemma length_put_strings: "length ss < length (put_strings ss)"
  by (induction ss) simp_all

definition put_claims :: "claims \<Rightarrow> string" where
  "put_claims c = put_string (rcIssuer c) @ put_string (rcSubject c) @ put_string (rcID c) @
     put_time (rcExpiresAt c) @ put_time (rcNotBefore c) @ put_time (rcIssuedAt c) @ put_strings (rcAudience c)"

definition get_claims :: "string \<Rightarrow> claims option" where
  "get_claims s = (case get_string s of None \<Rightarrow> None | Some (iss, s) \<Rightarrow>
     (case get_string s of None \<Rightarrow> None | Some (sub, s) \<Rightarrow>
     (case get_string s of None \<Rightarrow> None | Some (i, s) \<Rightarrow>
     (case get_time s of None \<Rightarrow> None | Some (e, s) \<Rightarrow>
     (case get_time s of None \<Rightarrow> None | Some (nb, s) \<Rightarrow>
     (case get_time s of None \<Rightarrow> None | Some (ia, s) \<Rightarrow>
     (case get_strings (length s) s of None \<Rightarrow> None | Some (aud, s) \<Rightarrow>
        Some \<lparr>rcIssuer = iss, rcSubject = sub, rcAudience = aud, rcExpiresAt = e, rcNotBefore = nb,
          rcIssuedAt = ia, rcID = i\<rparr>)))))))"

lemma get_put_claims: "get_claims (put_claims c) = Some c"
  using get_put_strings [OF length_put_strings, of "rcAudience c" "[]"]
  by (cases c) (simp add: get_claims_def put_claims_def)

definition sample_public :: "string \<Rightarrow> string" where
  "sample_public k = take 32 (k @ replicate 32 (CHR ''.''))"

definition sample_codec :: codec where
  "sample_codec = \<lparr>
     cd_header_alg = (\<lambda>h. Inr (Some h)),
     cd_header = (\<lambda>a. a),
     cd_claims_dec = (\<lambda>s. case get_claims s of None \<Rightarrow> Inl (plain_err ''bad claims'') | Some c \<Rightarrow> Inr (claims_json c)),
     cd_claims_enc = put_claims,
     cd_pem_decode = (\<lambda>s. map_option snd (get_string s)),
     cd_pem_encode = (\<lambda>t b. put_string t @ b),
     cd_parse_pkix = (\<lambda>d. Inr (EdKey d)),
     cd_marshal_pkix = (\<lambda>k. Inr k),
     cd_parse_pkcs8 = (\<lambda>d. Inr (EdKey d)),
     cd_marshal_pkcs8 = (\<lambda>k. Inr k),
     cd_ed_public = sample_public,
     cd_ed_sign = (\<lambda>k m. Inr (sample_public k @ m)),
     cd_ed_verify = (\<lambda>p m s. s = p @ m),
     cd_verify_other = (\<lambda>a m s k. Some (plain_err ''not supported''))\<rparr>"

lemma sample_codec_ok: "codec_ok sample_codec"
  by (simp add: codec_ok_def sample_codec_def get_put_claims sample_public_def min_def)

end
