(* ===== verification/Agent_Server_Link.thy ===== *)
theory Agent_Server_Link
  imports Agent_Client Sample_Codec
begin

text \<open>
  What connects the agent, the controller that provisions registrations, and the API server: the tokens the first
  two sign are accepted by the third, and the URLs the agent builds are routed to the handlers they are meant for.
\<close>

section \<open>Tokens\<close>

lemma identity_Sign_signed:
  assumes "codec_ok C" "json_exact c" "identity_Sign C key c = Inr token"
    and "keyFunc ''EdDSA'' = Inr (cd_ed_public C key)"
  shows "token_signed C keyFunc token (claims_json c)"
  using assms by (auto simp: identity_Sign_def intro: SignedString_signed split: sum.splits)

lemma bearer_ok_signed:
  assumes "codec_ok C" "json_exact c" "identity_Sign C key c = Inr token"
    and "\<forall>e. rcExpiresAt c = Some e \<longrightarrow> now < e" "\<forall>n. rcNotBefore c = Some n \<longrightarrow> n \<le> now"
  shows "bearer_ok C now (''Bearer '' @ token) (cd_ed_public C key)"
proof -
  have "token_timely (claims_json c) now"
    using assms(4,5) by (auto simp: token_timely_def claims_json_def)
  with identity_Sign_signed [OF assms(1-3), of "\<lambda>alg. if alg = ''EdDSA'' then Inr (cd_ed_public C key) else Inl eUnauthorized"]
  show ?thesis unfolding bearer_ok_def by auto
qed

text \<open>
  C36. The agent's tokens are accepted. A request the client signs for a host is accepted by the server for every host
  with the agent's public key, whatever its name, while the server's clock is neither before the one of the
  agent by more than two seconds nor after it by a minute.
\<close>

theorem host_token_accepted:
  assumes "codec_ok C" and "identity_MarshalPublic C (clIdentity c) = Inr (hPubKey host)"
    and "signed_for C c hostname clock q" and "json_exact (host_claims c clock hostname)"
    and "header ''Authorization'' q = Some (rqAuthorization rq)"
    and "NewNumericDate (clock - 2 * 1000000000) \<le> now" and "now < NewNumericDate (clock + 60 * 1000000000)"
  shows "ValidateHostRequest C now rq rs host registration = (None, rs)"
proof -
  from assms(3,5) obtain token where token: "identity_Sign C (clIdentity c) (host_claims c clock hostname) = Inr token"
    and rq: "rqAuthorization rq = ''Bearer '' @ token"
    by (auto simp: signed_for_def)
  have "bearer_ok C now (rqAuthorization rq) (cd_ed_public C (clIdentity c))"
    unfolding rq by (rule bearer_ok_signed [OF assms(1,4) token]) (use assms(6,7) in \<open>simp_all add: host_claims_def\<close>)
  then have "host_accepted C now rq host"
    using identity_public_roundtrip [OF assms(1,2)] by (simp add: host_accepted_def)
  with verdict_host [of C now rq rs host registration] show ?thesis
    by (auto simp: host_verdict_def split: prod.splits option.splits)
qed

definition sample_client :: client where
  "sample_client = \<lparr>clUserAgent = ''elemental-agent/v1'', clRegistrationURI = ''https://api/r'',
     clRegistrationToken = [], clTLS = None, clIdentity = ''k1''\<rparr>"

definition signed_request :: httpRequest where
  "signed_request = add_header ''Authorization''
     (case identity_Sign sample_codec ''k1'' (host_claims sample_client 5000000000 ''h'') of Inr t \<Rightarrow> ''Bearer '' @ t | Inl e \<Rightarrow> [])
     \<lparr>qMethod = ''GET'', qURL = [], qHeaders = [], qBody = []\<rparr>"

definition keyed_host :: "string \<Rightarrow> elementalHost" where
  "keyed_host pem = \<lparr>oAPIVersion = [], oKind = [], oName = ''h'', oNamespace = ''ns'', oUID = [], oLabels = None,
     oAnnotations = None, oOwnerReferences = [], oFinalizers = [], oDeletionTimestamp = None, hBootstrapSecret = None,
     hMachineRef = None, hPubKey = pem, hOSVersionManagement = None, hPhase = [], hConditions = []\<rparr>"

definition sample_pem :: string where
  "sample_pem = (case identity_MarshalPublic sample_codec ''k1'' of Inr p \<Rightarrow> p | Inl e \<Rightarrow> [])"

definition sample_request :: request where
  "sample_request = \<lparr>rqVars = None, rqAuthorization = (case header ''Authorization'' signed_request of Some v \<Rightarrow> v | None \<Rightarrow> []),
     rqRegistrationAuthorization = [], rqBody = []\<rparr>"

theorem host_token_accepted_witness:
  "\<forall>registration. ValidateHostRequest sample_codec 3500000000 sample_request new_response (keyed_host sample_pem)
     registration = (None, new_response)"
proof (rule allI, rule host_token_accepted [OF sample_codec_ok, where c = sample_client and q = signed_request and clock = 5000000000
      and hostname = "''h''"])
  show "identity_MarshalPublic sample_codec (clIdentity sample_client) = Inr (hPubKey (keyed_host sample_pem))"
    by code_simp
  show "signed_for sample_codec sample_client ''h'' 5000000000 signed_request"
  proof -
    obtain token where "identity_Sign sample_codec ''k1'' (host_claims sample_client 5000000000 ''h'') = Inr token"
      by (simp add: identity_Sign_def SignedString_def sample_codec_def)
    then show ?thesis
      by (simp add: signed_for_def signed_request_def) (simp add: sample_client_def)
  qed
  show "json_exact (host_claims sample_client 5000000000 ''h'')"
    by (simp add: json_exact_def host_claims_def sample_client_def ascii_def NewNumericDate_def)
  show "header ''Authorization'' signed_request = Some (rqAuthorization sample_request)"
    by (simp add: sample_request_def signed_request_def)
  show "NewNumericDate (5000000000 - 2 * 1000000000) \<le> 3500000000" "3500000000 < NewNumericDate (5000000000 + 60 * 1000000000)"
    by (simp_all add: NewNumericDate_def)
qed


lemma json_exact_registration:
  "json_exact (registration_claims clock g) \<longleftrightarrow> ascii (rgURI g) \<and>
     \<bar>NewNumericDate clock\<bar> < 2 ^ 53 * 1000000000 \<and>
     (rgTokenDuration g \<noteq> 0 \<longrightarrow> \<bar>NewNumericDate (clock + rgTokenDuration g)\<bar> < 2 ^ 53 * 1000000000)"
  by (auto simp: json_exact_def registration_claims_def ascii_def NewNumericDate_def)

text \<open>
  The registration token is accepted. A token the controller minted for a registration is accepted by the server for
  that registration, as long as the server finds the secret the controller signed with, from the second
  it was minted in until it expires, if it does.
\<close>

theorem registration_token_accepted:
  assumes "codec_ok C" and "token_minted C clock r l" and "json_exact (registration_claims clock (registration_of r))"
    and "rqRegistrationAuthorization rq = ''Bearer '' @ rgToken (registration_of r)"
    and "NewNumericDate clock \<le> now"
    and "rgTokenDuration (registration_of r) \<noteq> 0 \<longrightarrow> now < NewNumericDate (clock + rgTokenDuration (registration_of r))"
  shows "\<exists>secret. EvGetSecret (ObjectKeyFromObject r) (Inr secret) \<in> set l \<and>
    (\<forall>w rs. fst (env_GetSecret E (ObjectKeyFromObject r) w) = Inr secret \<longrightarrow>
       result_of (ValidateRegistrationRequest E C now rq rs r) w = (None, rs))"
proof -
  from assms(2) obtain secret pem key where secret: "EvGetSecret (ObjectKeyFromObject r) (Inr secret) \<in> set l"
    and pem: "gget (secData secret) ''privKey'' = Some pem" and key: "identity_Unmarshal C pem = Inr key"
    and token: "identity_Sign C key (registration_claims clock (registration_of r)) = Inr (rgToken (registration_of r))"
    unfolding token_minted_def by (elim exE conjE)
  from key have ed: "ParseEdPrivateKeyFromPEM C pem = Inr key"
    by (auto simp: identity_Unmarshal_def split: sum.splits)
  have "bearer_ok C now (rqRegistrationAuthorization rq) (cd_ed_public C key)"
    unfolding assms(4) by (rule bearer_ok_signed [OF assms(1,3) token])
      (use assms(5,6) in \<open>auto simp: registration_claims_def split: if_splits\<close>)
  with pem ed have ok: "registration_accepted C now rq secret"
    by (simp add: registration_accepted_def)
  have "result_of (ValidateRegistrationRequest E C now rq rs r) w = (None, rs)"
    if "fst (env_GetSecret E (ObjectKeyFromObject r) w) = Inr secret" for w rs
  proof -
    have ev: "events_of (ValidateRegistrationRequest E C now rq rs r) w = [EvGetSecret (ObjectKeyFromObject r) (Inr secret)]"
      using that assms(4)
      by (simp add: events_of_def ValidateRegistrationRequest_def bearer_token_def cut_prefix_append ObjectKeyFromObject_def Let_def
          split: option.splits sum.splits)
    have "registration_verdict C now rq rs r (result_of (ValidateRegistrationRequest E C now rq rs r) w)
        [EvGetSecret (ObjectKeyFromObject r) (Inr secret)]"
      using wp_eventsD [OF verdict_registration [where E = E and C = C and now = now and rq = rq and rs = rs and registration = r], of w]
      unfolding ev .
    with ok show ?thesis
      by (auto simp: registration_verdict_def Let_def split: prod.splits option.splits)
  qed
  with secret show ?thesis by blast
qed

definition minted_registration :: elementalRegistration where
  "minted_registration =
     (let g = \<lparr>rgURI = ''https://api/r'', rgCACert = [], rgTokenDuration = 3000000000, rgToken = []\<rparr>;
          a = \<lparr>agWorkDir = [], agHostname = \<lparr>hnUseExisting = False, hnPrefix = []\<rparr>, agNoSMBIOS = False, agDebug = False,
            agOSPlugin = [], agReconciliation = 0, agInsecureAllowHTTP = False, agInsecureSkipTLSVerify = False,
            agUseSystemCertPool = False, agPostInstall = \<lparr>postPowerOff = False, postReboot = False\<rparr>,
            agPostReset = \<lparr>postPowerOff = False, postReboot = False\<rparr>\<rparr>;
          token = (case identity_Sign sample_codec ''k2'' (registration_claims 5000000000 g) of Inr t \<Rightarrow> t | Inl e \<Rightarrow> [])
      in \<lparr>oAPIVersion = [], oKind = [], oName = ''r'', oNamespace = ''ns'', oUID = [], oLabels = None,
        oAnnotations = None, oOwnerReferences = [], oFinalizers = [], oDeletionTimestamp = None, rHostLabels = None,
        rHostAnnotations = None, rConfig = \<lparr>cfElemental = \<lparr>elInstall = None, elReset = None,
          elRegistration = g\<lparr>rgToken := token\<rparr>, elAgent = a\<rparr>, cfCloudConfig = None\<rparr>,
        rPrivateKeyRef = None, rConditions = []\<rparr>)"

definition minted_secret :: secret where
  "minted_secret = \<lparr>oAPIVersion = [], oKind = [], oName = ''r'', oNamespace = ''ns'', oUID = [], oLabels = None,
     oAnnotations = None, oOwnerReferences = [], oFinalizers = [], oDeletionTimestamp = None,
     secData = Some [(''privKey'', put_string ''PRIVATE KEY'' @ ''k2'')], secStringData = None\<rparr>"

definition minted_request :: request where
  "minted_request = \<lparr>rqVars = None, rqAuthorization = [],
     rqRegistrationAuthorization = ''Bearer '' @ rgToken (registration_of minted_registration), rqBody = []\<rparr>"

lemma minted: "token_minted sample_codec 5000000000 minted_registration
    [EvGetSecret (ObjectKeyFromObject minted_registration) (Inr minted_secret)]"
proof -
  let ?g = "\<lparr>rgURI = ''https://api/r'', rgCACert = [], rgTokenDuration = 3000000000, rgToken = []\<rparr>"
  have g: "registration_of minted_registration = ?g\<lparr>rgToken := rgToken (registration_of minted_registration)\<rparr>"
    by (simp add: minted_registration_def registration_of_def Let_def)
  obtain token where token: "identity_Sign sample_codec ''k2'' (registration_claims 5000000000 ?g) = Inr token"
    by (simp add: identity_Sign_def SignedString_def sample_codec_def)
  then have "rgToken (registration_of minted_registration) = token"
    by (simp add: minted_registration_def registration_of_def Let_def)
  then have "identity_Sign sample_codec ''k2'' (registration_claims 5000000000 (registration_of minted_registration)) =
      Inr (rgToken (registration_of minted_registration))"
    using token registration_claims_token [where clock = 5000000000 and g = ?g and t = token] by (subst g) simp
  moreover have "identity_Unmarshal sample_codec (put_string ''PRIVATE KEY'' @ ''k2'') = Inr ''k2''"
    by (simp add: identity_Unmarshal_def ParseEdPrivateKeyFromPEM_def sample_codec_def)
  ultimately show ?thesis
    unfolding token_minted_def by (simp add: minted_secret_def gget_def)
qed

theorem registration_token_accepted_witness:
  "\<forall>E :: unit env. \<exists>secret. EvGetSecret (ObjectKeyFromObject minted_registration) (Inr secret) \<in>
       set [EvGetSecret (ObjectKeyFromObject minted_registration) (Inr minted_secret)] \<and>
     (\<forall>w rs. fst (env_GetSecret E (ObjectKeyFromObject minted_registration) w) = Inr secret \<longrightarrow>
       result_of (ValidateRegistrationRequest E sample_codec 7999999999 minted_request rs minted_registration) w = (None, rs))"
proof (rule allI, rule registration_token_accepted [OF sample_codec_ok minted])
  have g: "rgURI (registration_of minted_registration) = ''https://api/r''"
    "rgTokenDuration (registration_of minted_registration) = 3000000000"
    by (simp_all add: minted_registration_def registration_of_def Let_def)
  show "json_exact (registration_claims 5000000000 (registration_of minted_registration))"
    by (simp add: json_exact_registration g ascii_def NewNumericDate_def)
  show "rqRegistrationAuthorization minted_request = ''Bearer '' @ rgToken (registration_of minted_registration)"
    by (simp add: minted_request_def)
  show "NewNumericDate 5000000000 \<le> 7999999999" by (simp add: NewNumericDate_def)
  show "rgTokenDuration (registration_of minted_registration) \<noteq> 0 \<longrightarrow>
      7999999999 < NewNumericDate (5000000000 + rgTokenDuration (registration_of minted_registration))"
    by (simp add: g NewNumericDate_def)
qed

section \<open>URLs\<close>

text \<open>The URL of a request reaches a handler of the server behind \<open>apiUrl\<close>.\<close>

definition reaches :: "string \<Rightarrow> string \<Rightarrow> string \<Rightarrow> apiHandler \<Rightarrow> (string \<times> string) list \<Rightarrow> bool" where
  "reaches apiUrl meth url h vars \<longleftrightarrow> (case cut_prefix url apiUrl of
     None \<Rightarrow> False | Some path \<Rightarrow> router_ServeHTTP meth path = Serve h vars)"

lemma registration_URI_path:
  "registration_URI apiUrl r = apiUrl @ registration_path (oNamespace r) (oName r)"
  by (simp add: registration_URI_def registration_path_def)

lemma host_location_path: "host_location ns rn hn = registration_path ns rn @ ''/hosts/'' @ hn"
  by (simp add: host_location_def registration_path_def registration_URI_def)

text \<open>
  C37. The agent's requests reach their handlers. For a registration whose URI the controller set and names that are
  path segments, the five requests the client builds from that URI are routed by the server to the five
  handlers, with the registration's namespace and name and the host's name.
\<close>

theorem client_requests_routed:
  assumes "setURI R r0 = (None, r)" and "rrAPIUrl R = Some apiUrl"
    and "clRegistrationURI c = rgURI (registration_of r)"
    and "path_safe (oNamespace r)" and "path_safe (oName r)" and "path_safe hn"
  shows "let vars = [(''namespace'', oNamespace r), (''registrationName'', oName r)]; host_vars = vars @ [(''hostName'', hn)]
    in reaches apiUrl ''GET'' (clRegistrationURI c) HGetRegistration vars \<and>
       reaches apiUrl ''POST'' (clRegistrationURI c @ ''/hosts'') HPostHost vars \<and>
       reaches apiUrl ''PATCH'' (host_url c hn) HPatchHost host_vars \<and>
       reaches apiUrl ''DELETE'' (host_url c hn) HDeleteHost host_vars \<and>
       reaches apiUrl ''GET'' (host_url c hn @ ''/bootstrap'') HGetBootstrap host_vars"
proof -
  have "clRegistrationURI c = apiUrl @ registration_path (oNamespace r) (oName r)"
    using assms(1-3) by (auto simp: setURI_def registration_URI_path)
  then show ?thesis
    using locations_route [OF assms(4-6)]
    by (simp add: reaches_def host_url_def Let_def host_location_path)
qed

definition linked_client :: "elementalRegistration \<Rightarrow> client" where
  "linked_client r = sample_client\<lparr>clRegistrationURI := rgURI (registration_of r)\<rparr>"

theorem client_requests_routed_witness:
  "let r = snd (setURI \<lparr>rrAPIUrl = Some ''https://api'', rrDefaultCACert = []\<rparr> minted_registration)
   in reaches ''https://api'' ''PATCH'' (host_url (linked_client r) ''h'') HPatchHost
        [(''namespace'', ''ns''), (''registrationName'', ''r''), (''hostName'', ''h'')]"
proof -
  let ?R = "\<lparr>rrAPIUrl = Some ''https://api'', rrDefaultCACert = []\<rparr>"
  let ?r = "snd (setURI ?R minted_registration)"
  have set: "setURI ?R minted_registration = (None, ?r)" by (simp add: setURI_def)
  have names: "oNamespace ?r = ''ns''" "oName ?r = ''r''"
    by (simp_all add: setURI_def minted_registration_def Let_def)
  show ?thesis
    using client_requests_routed [OF set, of "''https://api''" "linked_client ?r" "''h''"]
    by (simp add: names path_safe_def linked_client_def Let_def)
qed

end
