(* ===== verification/Provider_System.thy ===== *)
theory Provider_System
  imports Agent_System Agent_Server_Link
begin

text \<open>
  The agent and the API server together: the network of the agent's client delivers its requests to the server of theory
  \<open>Api_Server\<close> and the server's answers back, or loses either. What the agent reports is then what happens to the
  objects of the Kubernetes API.
\<close>

section \<open>The network that the server answers\<close>

text \<open>
  A provider: the Kubernetes API, the codecs, the URL the server listens behind, the clocks of the server (the one in nanoseconds
  checks tokens, the one in seconds dates conditions) and of the agent, and what the network does before the server sees a
  request and after it answered: it may fail, and others may act meanwhile.
\<close>

record 'k provider =
  pv_env :: "'k env"
  pv_api :: apiCodec
  pv_url :: string
  pv_now :: "'k \<Rightarrow> int"
  pv_clock :: "'k \<Rightarrow> int"
  pv_agent_now :: "'k \<Rightarrow> int \<times> 'k"
  pv_before :: "httpRequest \<Rightarrow> 'k \<Rightarrow> goerr option \<times> 'k"
  pv_after :: "httpRequest \<Rightarrow> 'k \<Rightarrow> goerr option \<times> 'k"

definition served_request :: "httpRequest \<Rightarrow> request" where
  "served_request q = \<lparr>rqVars = None,
     rqAuthorization = (case header ''Authorization'' q of None \<Rightarrow> [] | Some v \<Rightarrow> v),
     rqRegistrationAuthorization = (case header ''Registration-Authorization'' q of None \<Rightarrow> [] | Some v \<Rightarrow> v),
     rqBody = qBody q\<rparr>"

definition served_Do ::
  "'k provider \<Rightarrow> codec \<Rightarrow> httpRequest \<Rightarrow> 'k \<times> event list \<Rightarrow> (goerr + httpReply) \<times> ('k \<times> event list)"
where
  "served_Do V C q = (\<lambda>(w, es). case pv_before V q w of
     (Some e, w1) \<Rightarrow> (Inl e, (w1, es))
   | (None, w1) \<Rightarrow>
       (case cut_prefix (qURL q) (pv_url V) of
          None \<Rightarrow> (Inl (plain_err ''no such host''), (w1, es))
        | Some path \<Rightarrow>
            (case run_state (api_serve (pv_env V) C (pv_api V) (pv_now V w1) (pv_clock V w1) (qMethod q) path
                (served_request q)) (w1, []) of
               (rs, (w2, l)) \<Rightarrow>
                 (case pv_after V q w2 of
                    (Some e, w3) \<Rightarrow> (Inl e, (w3, es @ l))
                  | (None, w3) \<Rightarrow> (Inr (sent_status rs, Inr (concat (rsBody rs))), (w3, es @ l))))))"

definition served_net :: "'k provider \<Rightarrow> codec \<Rightarrow> ('k \<times> event list) net" where
  "served_net V C = \<lparr>nt_Do = served_Do V C,
     nt_Now = (\<lambda>(w, es). let (t, w') = pv_agent_now V w in (t, (w', es)))\<rparr>"

text \<open>What a request does to the Kubernetes API: nothing, or what the server does for it, whether or not the answer arrives.\<close>

fun serves :: "'k provider \<Rightarrow> codec \<Rightarrow> netEvent \<Rightarrow> event list \<Rightarrow> bool" where
  "serves V C (NetNow t) l \<longleftrightarrow> l = []"
| "serves V C (NetDo q r) l \<longleftrightarrow> l = [] \<and> (\<exists>e. r = Inl e) \<or>
     (\<exists>path rs now clock. cut_prefix (qURL q) (pv_url V) = Some path \<and>
        runs_as (api_serve (pv_env V) C (pv_api V) now clock (qMethod q) path (served_request q)) rs l \<and>
        (r = Inr (sent_status rs, Inr (concat (rsBody rs))) \<or> (\<exists>e. r = Inl e)))"

lemma linked_http_Do [linked_intros]: "linked (serves V C) (http_Do (served_net V C) q)"
proof -
  have "\<exists>r w' seg. served_Do V C q (w, es) = (r, (w', es @ seg)) \<and> serves V C (NetDo q r) seg" for w es
  proof -
    obtain e w1 where b: "pv_before V q w = (e, w1)" by fastforce
    show ?thesis
    proof (cases "e = None \<and> cut_prefix (qURL q) (pv_url V) \<noteq> None")
      case True
      then obtain path where path: "cut_prefix (qURL q) (pv_url V) = Some path" by blast
      obtain rs w2 l where run: "run_state (api_serve (pv_env V) C (pv_api V) (pv_now V w1) (pv_clock V w1) (qMethod q) path
          (served_request q)) (w1, []) = (rs, (w2, l))" by (metis prod.exhaust)
      then have "runs_as (api_serve (pv_env V) C (pv_api V) (pv_now V w1) (pv_clock V w1) (qMethod q) path
          (served_request q)) rs l" unfolding runs_as_def by blast
      moreover obtain f w3 where "pv_after V q w2 = (f, w3)" by fastforce
      ultimately show ?thesis using True b path run
        by (cases f) (auto simp: served_Do_def)
    next
      case False
      with b show ?thesis by (auto simp: served_Do_def split: option.splits)
    qed
  qed
  then show ?thesis
    unfolding http_Do_def served_net_def net.simps by (intro linked_ask)
qed

lemma linked_time_Now [linked_intros]: "linked (serves V C) (time_Now (served_net V C))"
  unfolding time_Now_def served_net_def net.simps by (rule linked_ask) (auto split: prod.splits)

lemma linked_client:
  "linked (serves V C) (client_GetRegistration (served_net V C) K c)"
  "linked (serves V C) (client_CreateHost (served_net V C) C K c h)"
  "linked (serves V C) (client_DeleteHost (served_net V C) C K c n)"
  "linked (serves V C) (client_PatchHost (served_net V C) C K c p n)"
  "linked (serves V C) (client_GetBootstrap (served_net V C) C K c n)"
  unfolding client_GetRegistration_def client_CreateHost_def client_DeleteHost_def client_PatchHost_def
    client_GetBootstrap_def newAuthenticatedRequest_def addAuthHeader_def newToken_def Let_def
  by (intro linked_intros)+

section \<open>A patch that the agent saw succeed\<close>

text \<open>Names as Kubernetes has them: one segment of a path, without characters that HTML escapes.\<close>

definition plain_name :: "string \<Rightarrow> bool" where
  "plain_name s \<longleftrightarrow> path_safe s \<and> EscapeString s = s"

text \<open>The client of a registration behind the provider's URL.\<close>

definition client_of :: "'k provider \<Rightarrow> string \<Rightarrow> string \<Rightarrow> client \<Rightarrow> bool" where
  "client_of V ns rn c \<longleftrightarrow> clRegistrationURI c = pv_url V @ registration_path ns rn \<and> plain_name ns \<and> plain_name rn"

text \<open>The two ends agree on the encoding of a request.\<close>

definition carries :: "clientCodec \<Rightarrow> apiCodec \<Rightarrow> hostPatchRequest \<Rightarrow> bool" where
  "carries K A p \<longleftrightarrow> (\<forall>b. cc_encode_patch K p = Inr b \<longrightarrow> ac_decode_patch A b = Inr p)"

definition host_patched :: "codec \<Rightarrow> string \<Rightarrow> string \<Rightarrow> hostPatchRequest \<Rightarrow> event list \<Rightarrow> bool" where
  "host_patched C ns hn p l \<longleftrightarrow> (\<exists>host now clock rq.
     EvGetElementalHost \<lparr>keyNamespace = ns, keyName = hn\<rparr> (Inr host) \<in> set l \<and> host_accepted C now rq host \<and>
     writes l = [EvPatchElementalHost host (applyToElementalHost clock p host) None])"

lemma client_url_path: "client_of V ns rn c \<Longrightarrow> host_url c hn = pv_url V @ host_location ns rn hn"
  by (simp add: client_of_def host_url_def host_location_path)

lemma api_serve_patch:
  assumes "plain_name ns" and "plain_name rn" and "plain_name hn"
  shows "wp (api_serve E C A now clock ''PATCH'' (host_location ns rn hn) rq0)
    (\<lambda>rs l. \<exists>rq. rqBody rq = rqBody rq0 \<and> path_var rq ''namespace'' = ns \<and> path_var rq ''hostName'' = hn \<and>
       patch_served (host_accepted C now) A clock rq rs l)"
proof -
  let ?vars = "[(''namespace'', ns), (''registrationName'', rn), (''hostName'', hn)]"
  let ?rq = "rq0\<lparr>rqVars := Some ?vars\<rparr>"
  have route: "router_ServeHTTP ''PATCH'' (host_location ns rn hn) = Serve HPatchHost ?vars"
    using locations_route [of ns rn hn] assms by (simp add: plain_name_def Let_def)
  have vars: "path_var ?rq ''namespace'' = ns" "path_var ?rq ''hostName'' = hn"
    using assms by (simp_all add: path_var_def plain_name_def gget_def)
  have "wp (PatchElementalHost E (NewAuthenticator E C now) A clock ?rq new_response)
      (patch_served (host_accepted C now) A clock ?rq)"
    by (rule provider_auth.wp_Patch)
  then have "wp (PatchElementalHost E (NewAuthenticator E C now) A clock ?rq new_response)
      (\<lambda>rs l. \<exists>rq. rqBody rq = rqBody rq0 \<and> path_var rq ''namespace'' = ns \<and> path_var rq ''hostName'' = hn \<and>
       patch_served (host_accepted C now) A clock rq rs l)"
    by (rule wp_mono) (rule exI [of _ ?rq], simp add: vars)
  then show ?thesis by (simp add: api_serve_def route)
qed

lemma patch_served_host_patched:
  assumes "patch_served (host_accepted C now) A clock rq rs l" and "sent_status rs = StatusOK"
    and "ac_decode_patch A (rqBody rq) = Inr p"
  shows "host_patched C (path_var rq ''namespace'') (path_var rq ''hostName'') p l"
  using assms unfolding patch_served_def host_patched_def Let_def by fastforce

lemma patch_call_success:
  assumes "patch_call C K c p hn (Inr h) nes"
  obtains b now q where "cc_encode_patch K p = Inr (qBody q)" "qMethod q = ''PATCH''" "qURL q = host_url c hn"
    "nes = [NetNow now, NetDo q (Inr (StatusOK, Inr b))]"
proof -
  from assms obtain body reply where enc: "reply \<noteq> None \<longrightarrow> cc_encode_patch K p = Inr body"
    and sent: "sends C c hn ''PATCH'' (host_url c hn) body nes reply"
    and out: "\<forall>ha. ((Inr h :: goerr + hostResponse) = Inr ha) = (\<exists>b. reply = Some (Inr (StatusOK, Inr b)) \<and> cc_decode_host K b = Inr ha)"
    unfolding patch_call_def by (elim exE conjE)
  from out [THEN spec, of h] have "\<exists>b. reply = Some (Inr (StatusOK, Inr b)) \<and> cc_decode_host K b = Inr h" by simp
  then obtain b where "reply = Some (Inr (StatusOK, Inr b))" by blast
  with enc sent that show ?thesis unfolding sends_def by auto
qed

lemma client_patch_served:
  assumes c: "client_of V ns rn c" and hn: "plain_name hn" and p: "carries K (pv_api V) p"
    and run: "run_state (client_PatchHost (served_net V C) C K c p hn) ((w, []), []) = (Inr h, ((w', kes), nes))"
  shows "host_patched C ns hn p kes"
proof -
  from linked_wp [OF linked_client(4) wp_client_PatchHost, of V C K c p hn w "[]" "[]"] run
  obtain segs where segs: "kes = concat segs" "list_all2 (serves V C) nes segs" and "patch_call C K c p hn (Inr h) nes"
    by auto
  from patch_call_success [OF this(3)] obtain b now0 q where q: "cc_encode_patch K p = Inr (qBody q)" "qMethod q = ''PATCH''"
      "qURL q = host_url c hn" and nes: "nes = [NetNow now0, NetDo q (Inr (StatusOK, Inr b))]" .
  from segs(2) obtain l where l: "segs = [[], l]" and "serves V C (NetDo q (Inr (StatusOK, Inr b))) l"
    unfolding nes list_all2_Cons1 by (auto simp del: serves.simps(2))
  then obtain path rs now clock where path: "cut_prefix (qURL q) (pv_url V) = Some path"
    and runs: "runs_as (api_serve (pv_env V) C (pv_api V) now clock ''PATCH'' path (served_request q)) rs l"
    and rs: "sent_status rs = StatusOK"
    by (auto simp: q)
  from path have path': "path = host_location ns rn hn"
    by (simp add: q client_url_path [OF c])
  from c have names: "plain_name ns" "plain_name rn" by (simp_all add: client_of_def)
  from runs_as_wp [OF runs [unfolded path'] api_serve_patch [OF names hn]]
  obtain rq where rq: "rqBody rq = qBody q" "path_var rq ''namespace'' = ns" "path_var rq ''hostName'' = hn"
    and served: "patch_served (host_accepted C now) (pv_api V) clock rq rs l"
    by (auto simp: served_request_def)
  have "ac_decode_patch (pv_api V) (rqBody rq) = Inr p"
    using p q(1) rq(1) by (simp add: carries_def)
  from patch_served_host_patched [OF served rs this] show ?thesis by (simp add: rq segs l)
qed

section \<open>The agent over the provider\<close>

datatype fullEvent = FNet netEvent | FHost hostEvent | FKube event

text \<open>A call of the client leaves the events of the server and those of the network; a call of the plugin those of the machine.\<close>

definition run_client ::
  "('k \<times> event list, netEvent, 'a) prog \<Rightarrow> 'k \<times> fullEvent list \<Rightarrow> 'a \<times> ('k \<times> fullEvent list)"
where
  "run_client p = (\<lambda>(w, es). case run_state p ((w, []), []) of
     (a, ((w', kes), nes)) \<Rightarrow> (a, (w', es @ map FKube kes @ map FNet nes)))"

definition run_plugin :: "('k, hostEvent, 'a) prog \<Rightarrow> 'k \<times> fullEvent list \<Rightarrow> 'a \<times> ('k \<times> fullEvent list)" where
  "run_plugin p = (\<lambda>(w, es). case run_state p (w, []) of (a, (w', l)) \<Rightarrow> (a, (w', es @ map FHost l)))"

definition provider_agent ::
  "'k provider \<Rightarrow> 'k system \<Rightarrow> codec \<Rightarrow> clientCodec \<Rightarrow> client \<Rightarrow> ('k \<times> fullEvent list) agent"
where
  "provider_agent V S C K c = (let N = served_net V C; P = sy_plugin S in \<lparr>
     ag_GetRegistration = run_client (client_GetRegistration N K c),
     ag_CreateHost = (\<lambda>h. run_client (client_CreateHost N C K c h)),
     ag_DeleteHost = (\<lambda>n. run_client (client_DeleteHost N C K c n)),
     ag_PatchHost = (\<lambda>q n. run_client (client_PatchHost N C K c q n)),
     ag_GetBootstrap = (\<lambda>n. run_client (client_GetBootstrap N C K c n)),
     ag_GetHostname = run_plugin (pl_GetHostname P),
     ag_InstallCloudInit = (\<lambda>x. run_plugin (pl_InstallCloudInit P x)),
     ag_InstallHostname = (\<lambda>x. run_plugin (pl_InstallHostname P x)),
     ag_InstallFile = (\<lambda>x y z u v. run_plugin (pl_InstallFile P x y z u v)),
     ag_Install = (\<lambda>x. run_plugin (pl_Install P x)),
     ag_Bootstrap = (\<lambda>x y. run_plugin (pl_Bootstrap P x y)),
     ag_ReconcileOSVersion = (\<lambda>x. run_plugin (pl_ReconcileOSVersion P x)),
     ag_TriggerReset = run_plugin (pl_TriggerReset P),
     ag_Reset = (\<lambda>x. run_plugin (pl_Reset P x)),
     ag_PowerOff = run_plugin (pl_PowerOff P),
     ag_Reboot = run_plugin (pl_Reboot P),
     ag_Stat = (\<lambda>x. run_plugin (do { r \<leftarrow> hStat (sy_machine S) x; ret (stat_error r) })),
     ag_NewRandom = (\<lambda>(w, es). let (r, w') = sy_NewRandom S w in (r, (w', es))),
     ag_Sleep = (\<lambda>d (w, es). let (r, w') = sy_Sleep S d w in (r, (w', es)))\<rparr>)"

definition client_piece :: "('k \<times> event list, netEvent, 'a) prog \<Rightarrow> 'a \<Rightarrow> fullEvent list \<Rightarrow> bool" where
  "client_piece p r seg \<longleftrightarrow> (\<exists>w w' kes nes. run_state p ((w, []), []) = (r, ((w', kes), nes)) \<and>
     seg = map FKube kes @ map FNet nes)"

definition plugin_piece :: "('k, hostEvent, 'a) prog \<Rightarrow> 'a \<Rightarrow> fullEvent list \<Rightarrow> bool" where
  "plugin_piece p r seg \<longleftrightarrow> (\<exists>l. seg = map FHost l \<and> runs_as p r l)"

text \<open>What a call leaves in the trace.\<close>

fun leaves :: "'k provider \<Rightarrow> 'k system \<Rightarrow> codec \<Rightarrow> clientCodec \<Rightarrow> client \<Rightarrow> call \<Rightarrow> fullEvent list \<Rightarrow> bool" where
  "leaves V S C K c (CallGetRegistration r) seg = client_piece (client_GetRegistration (served_net V C) K c) r seg"
| "leaves V S C K c (CallCreateHost h r) seg = client_piece (client_CreateHost (served_net V C) C K c h) r seg"
| "leaves V S C K c (CallDeleteHost n r) seg = client_piece (client_DeleteHost (served_net V C) C K c n) r seg"
| "leaves V S C K c (CallPatchHost q n r) seg = client_piece (client_PatchHost (served_net V C) C K c q n) r seg"
| "leaves V S C K c (CallGetBootstrap n r) seg = client_piece (client_GetBootstrap (served_net V C) C K c n) r seg"
| "leaves V S C K c (CallGetHostname r) seg = plugin_piece (pl_GetHostname (sy_plugin S)) r seg"
| "leaves V S C K c (CallInstallCloudInit x r) seg = plugin_piece (pl_InstallCloudInit (sy_plugin S) x) r seg"
| "leaves V S C K c (CallInstallHostname x r) seg = plugin_piece (pl_InstallHostname (sy_plugin S) x) r seg"
| "leaves V S C K c (CallInstallFile x y z u v r) seg = plugin_piece (pl_InstallFile (sy_plugin S) x y z u v) r seg"
| "leaves V S C K c (CallInstall x r) seg = plugin_piece (pl_Install (sy_plugin S) x) r seg"
| "leaves V S C K c (CallBootstrap x y r) seg = plugin_piece (pl_Bootstrap (sy_plugin S) x y) r seg"
| "leaves V S C K c (CallReconcileOSVersion x r) seg = plugin_piece (pl_ReconcileOSVersion (sy_plugin S) x) r seg"
| "leaves V S C K c (CallTriggerReset r) seg = plugin_piece (pl_TriggerReset (sy_plugin S)) r seg"
| "leaves V S C K c (CallReset x r) seg = plugin_piece (pl_Reset (sy_plugin S) x) r seg"
| "leaves V S C K c (CallPowerOff r) seg = plugin_piece (pl_PowerOff (sy_plugin S)) r seg"
| "leaves V S C K c (CallReboot r) seg = plugin_piece (pl_Reboot (sy_plugin S)) r seg"
| "leaves V S C K c (CallStat x r) seg \<longleftrightarrow> (\<exists>st. r = stat_error st \<and> seg = [FHost (HostStat x st)])"
| "leaves V S C K c (CallNewRandom r) seg \<longleftrightarrow> seg = []"
| "leaves V S C K c (CallSleep d r) seg \<longleftrightarrow> seg = []"

lemma linked_run_client:
  assumes "\<And>r seg. client_piece p r seg \<Longrightarrow> I (ev r) seg"
  shows "linked I (ask (run_client p) ev)"
proof (rule linked_ask)
  fix w es
  obtain a w' kes nes where run: "run_state p ((w, []), []) = (a, ((w', kes), nes))" by (metis prod.exhaust)
  then have "client_piece p a (map FKube kes @ map FNet nes)" unfolding client_piece_def by blast
  from assms [OF this] run show "\<exists>r w' seg. run_client p (w, es) = (r, (w', es @ seg)) \<and> I (ev r) seg"
    by (auto simp: run_client_def)
qed

lemma linked_run_plugin:
  assumes "\<And>r l. runs_as p r l \<Longrightarrow> I (ev r) (map FHost l)"
  shows "linked I (ask (run_plugin p) ev)"
proof (rule linked_ask)
  fix w es
  obtain a w' l where run: "run_state p (w, []) = (a, (w', l))" by (metis prod.exhaust)
  then have "runs_as p a l" unfolding runs_as_def by blast
  from assms [OF this] run show "\<exists>r w' seg. run_plugin p (w, es) = (r, (w', es @ seg)) \<and> I (ev r) seg"
    by (auto simp: run_plugin_def)
qed

lemma linked_plugin_piece: "(\<And>r seg. plugin_piece p r seg \<Longrightarrow> I (ev r) seg) \<Longrightarrow> linked I (ask (run_plugin p) ev)"
  by (rule linked_run_plugin) (auto simp: plugin_piece_def)

interpretation provider: agent_implementation "provider_agent V S C K c" "leaves V S C K c" for V S C K c
proof
  have quiet: "linked (leaves V S C K c) (cNewRandom (provider_agent V S C K c))"
    "linked (leaves V S C K c) (cSleep (provider_agent V S C K c) x)" for x
    unfolding provider_agent_def agent_call_defs Let_def agent.simps
    by (rule linked_ask, auto split: prod.splits)+
  have stat: "linked (leaves V S C K c) (cStat (provider_agent V S C K c) x)" for x
    unfolding provider_agent_def agent_call_defs Let_def agent.simps
    by (rule linked_run_plugin) (auto simp: runs_as_def hStat_def)
  show "linked (leaves V S C K c) (cNewRandom (provider_agent V S C K c))" by (rule quiet)
  show "linked (leaves V S C K c) (cSleep (provider_agent V S C K c) x)" for x by (rule quiet)
  show "linked (leaves V S C K c) (cStat (provider_agent V S C K c) x)" for x by (rule stat)
qed (unfold provider_agent_def agent_call_defs Let_def agent.simps,
    (rule linked_run_client linked_plugin_piece, simp)+)

lemma plugin_piece_wp:
  assumes "plugin_piece p r seg" and "wp p Q"
  obtains l where "seg = map FHost l" "Q r l"
  using assms(1) runs_as_wp [OF _ assms(2), of r] unfolding plugin_piece_def by blast

lemma patch_piece:
  assumes "client_of V ns rn c" and "plain_name hn" and "carries K (pv_api V) p"
    and "client_piece (client_PatchHost (served_net V C) C K c p hn) (Inr h) seg"
  obtains kes nes where "seg = map FKube kes @ map FNet nes" "host_patched C ns hn p kes"
  using assms(4) client_patch_served [OF assms(1-3)] unfolding client_piece_def by blast

text \<open>What the report of an installation does to the object.\<close>

lemma host_patched_labels:
  assumes "host_patched C ns hn installed_report l"
  shows "\<exists>host host'. writes l = [EvPatchElementalHost host host' None] \<and> label_is_true host' LabelElementalHostInstalled \<and>
    oName host' = oName host \<and> oFinalizers host' = oFinalizers host \<and> hMachineRef host' = hMachineRef host"
proof -
  from assms obtain host clock where w: "writes l = [EvPatchElementalHost host (applyToElementalHost clock installed_report host) None]"
    unfolding host_patched_def by blast
  have "patch_applied installed_report host (applyToElementalHost clock installed_report host)" by (rule patch_applied_lemma)
  then have "label_is_true (applyToElementalHost clock installed_report host) LabelElementalHostInstalled"
    "oName (applyToElementalHost clock installed_report host) = oName host"
    "oFinalizers (applyToElementalHost clock installed_report host) = oFinalizers host"
    "hMachineRef (applyToElementalHost clock installed_report host) = hMachineRef host"
    unfolding patch_applied_def by (auto simp: label_is_true_def patched_label_def labels_distinct labels_distinct [symmetric])
  with w show ?thesis by blast
qed

text \<open>An installation, as it ends: the plugin's work on the machine, and after it the label on the host object.\<close>

definition installed_in_api :: "codec \<Rightarrow> 'j pluginCodec \<Rightarrow> string \<Rightarrow> string \<Rightarrow> fullEvent list \<Rightarrow> bool" where
  "installed_in_api C D ns hn es \<longleftrightarrow> (\<exists>a b d input inst kes nes.
     es = a @ map FHost inst @ b @ map FKube kes @ map FNet nes @ d \<and> plugin_installs D input None inst \<and>
     host_patched C ns hn installed_report kes \<and>
     (\<exists>host host'. writes kes = [EvPatchElementalHost host host' None] \<and> label_is_true host' LabelElementalHostInstalled))"

lemma finished_install_in_api:
  assumes cs: "install_finished X cs" and segs: "list_all2 (leaves V (elemental_system S D p) C K c) cs segs"
    and c: "client_of V ns rn c" and hn: "plain_name (cxHostname X)" and k: "carries K (pv_api V) installed_report"
  shows "installed_in_api C D ns (cxHostname X) (concat segs)"
proof -
  from cs obtain h where ne: "cs \<noteq> []" and last: "last cs = CallPatchHost installed_report (cxHostname X) (Inr h)"
    and ord: "comes_after (succeeded installs_host) (reports claims_installed) False cs"
    unfolding install_finished_def install_ordered_def by blast
  from ne last obtain k where at_k: "k < length cs" "cs ! k = CallPatchHost installed_report (cxHostname X) (Inr h)"
    by (metis last_conv_nth length_greater_0_conv diff_less zero_less_one)
  then have "reports claims_installed (cs ! k)" by (simp add: claims_defs)
  from comes_after_nth [OF ord at_k(1) this] obtain j where "j < k" and "succeeded installs_host (cs ! j)" by blast
  then obtain x where j: "j < k" "cs ! j = CallInstall x None" using succeeded_install by blast
  from pieces_in_order [OF segs j(1) at_k(1)] obtain a b d s t where es: "concat segs = a @ s @ b @ t @ d"
    and s: "plugin_piece (EP_Install (sy_machine S) D x) None s"
    and t: "client_piece (client_PatchHost (served_net V C) C K c installed_report (cxHostname X)) (Inr h) t"
    by (auto simp: j at_k elemental_system_def elemental_plugin_def)
  from plugin_piece_wp [OF s wp_EP_Install] obtain inst where inst: "s = map FHost inst" "plugin_installs D x None inst" .
  from patch_piece [OF c hn k t] obtain kes nes where
    kes: "t = map FKube kes @ map FNet nes" "host_patched C ns (cxHostname X) installed_report kes" .
  from es have "concat segs = a @ map FHost inst @ b @ map FKube kes @ map FNet nes @ d" by (simp add: inst kes)
  moreover from host_patched_labels [OF kes(2)]
  have "\<exists>host host'. writes kes = [EvPatchElementalHost host host' None] \<and> label_is_true host' LabelElementalHostInstalled"
    by blast
  ultimately show ?thesis
    using inst kes unfolding installed_in_api_def by (intro exI [of _ a] exI [of _ b] exI [of _ d] exI [of _ x]
      exI [of _ inst] exI [of _ kes] exI [of _ nes] conjI) assumption+
qed

text \<open>
  C28. Installation, from the host to the cluster. For an agent whose client was configured with a registration of the provider,
  whatever the machine, the network and the other users of the cluster do: when the installation of a host ends, the plugin first
  installed the machine, and after that the server patched the ElementalHost of that name, after it found the host's key in it and the token
  of the agent signed with it, and the patch is the one that labels it installed.
\<close>

theorem Provider_Install_labels:
  assumes "client_of V ns rn c" and "plain_name (cxHostname X)" and "carries K (pv_api V) installed_report"
    and "run_state (Install (provider_agent V (elemental_system S D p) C K c) Y fuel X) ((w, []), []) = (Some (), ((w', es), calls))"
  shows "installed_in_api C D ns (cxHostname X) es"
proof -
  from linked_wp [OF provider.linked_Install wp_Install, of V "elemental_system S D p" C K c Y fuel X w "[]" "[]"] assms(4)
  obtain segs where "es = concat segs" and segs: "list_all2 (leaves V (elemental_system S D p) C K c) calls segs"
    and "install_finished X calls"
    by (auto simp: install_outcome_def)
  with finished_install_in_api [OF this(3) segs assms(1-3)] show ?thesis by simp
qed

end
