(* ===== verification/Provider_Witness.thy ===== *)
theory Provider_Witness
  imports Provider_System Sample_World
begin

text \<open>
  A whole provider on which the properties of theory \<open>Provider_System\<close> are shown to apply: the cluster of
  \<open>Sample_World\<close> with a registration, its secret and a host, the API server, the network, and an agent on live media.
\<close>

section \<open>Keys and encodings\<close>

text \<open>
  A codec with short texts, so that runs are evaluated: claims are written as their subject and read with times around the epoch, a
  signature is the private key.
\<close>

definition brief_codec :: codec where
  "brief_codec = \<lparr>
     cd_header_alg = (\<lambda>_. Inr (Some ''EdDSA'')), cd_header = (\<lambda>_. []),
     cd_claims_dec = (\<lambda>s. Inr (claims_json (host_claims sample_client 0 s))), cd_claims_enc = rcSubject,
     cd_pem_decode = Some, cd_pem_encode = (\<lambda>_ b. b), cd_parse_pkix = (\<lambda>d. Inr (EdKey d)), cd_marshal_pkix = Inr,
     cd_parse_pkcs8 = (\<lambda>d. Inr (EdKey d)), cd_marshal_pkcs8 = Inr, cd_ed_public = sample_public,
     cd_ed_sign = (\<lambda>k _. Inr k), cd_ed_verify = (\<lambda>p _ s. p = sample_public s), cd_verify_other = (\<lambda>_ _ _ _. None)\<rparr>"

definition brief_registration :: elementalRegistration where
  "brief_registration = \<lparr>oAPIVersion = [], oKind = [], oName = ''r'', oNamespace = ''n'', oUID = [], oLabels = None,
     oAnnotations = None, oOwnerReferences = [], oFinalizers = [], oDeletionTimestamp = None, rHostLabels = None,
     rHostAnnotations = None, rConfig = \<lparr>cfElemental = \<lparr>elInstall = None, elReset = None,
       elRegistration = \<lparr>rgURI = [], rgCACert = [], rgTokenDuration = 0, rgToken = []\<rparr>,
       elAgent = acAgent DefaultConfig\<rparr>, cfCloudConfig = None\<rparr>, rPrivateKeyRef = None, rConditions = []\<rparr>"

text \<open>Bodies: the report of an installation and any other patch, each as one character.\<close>

definition brief_client_codec :: clientCodec where
  "brief_client_codec = \<lparr>
     cc_encode_create = (\<lambda>_. Inr ''c''), cc_encode_patch = (\<lambda>p. Inr (if p = installed_report then ''i'' else ''p'')),
     cc_decode_registration = (\<lambda>_. Inr \<lparr>rrHostLabels = None, rrHostAnnotations = None,
       rrConfig = rConfig brief_registration\<rparr>),
     cc_decode_host = (\<lambda>_. Inr empty_hostResponse), cc_decode_bootstrap = (\<lambda>_. Inl (plain_err ''unused'')),
     cc_url_scheme = (\<lambda>_. Inr ''https'')\<rparr>"

definition brief_api_codec :: apiCodec where
  "brief_api_codec = \<lparr>
     ac_decode_create = (\<lambda>_. Inl (plain_err ''unused'')),
     ac_decode_patch = (\<lambda>b. Inr (if b = ''i'' then installed_report else empty_patch)),
     ac_encode_host = (\<lambda>_. Inr ''h''), ac_encode_registration = (\<lambda>_. Inr ''r''), ac_encode_bootstrap = (\<lambda>_. Inr ''b'')\<rparr>"

lemma brief_carries: "carries brief_client_codec brief_api_codec installed_report"
  by (simp add: carries_def brief_client_codec_def brief_api_codec_def)

definition brief_plugin_codec :: "unit pluginCodec" where
  "brief_plugin_codec = \<lparr>
     pc_json_any = (\<lambda>_. Inr ()), pc_yaml_any = (\<lambda>_. Inr []),
     pc_json_install = (\<lambda>_. Inr \<lparr>ciFirmware = [], ciDevice = ''/dev/sda'', ciNoFormat = False, ciConfigURLs = [], ciISO = [],
       ciSystemURI = [], ciDebug = False, ciTTY = [], ciEjectCD = False, ciDisableBootEntry = False, ciConfigDir = [],
       ciSnapshotterType = []\<rparr>),
     pc_json_reset = (\<lambda>_. Inl (plain_err ''unused'')), pc_json_osVersion = (\<lambda>_. Inl (plain_err ''unused'')),
     pc_yaml_state = (\<lambda>_. Inl (plain_err ''unused'')), pc_yaml_yip = (\<lambda>_. Inr []),
     pc_yip_load = (\<lambda>_. Inl (plain_err ''unused'')), pc_sha256_hex = (\<lambda>s. s)\<rparr>"

definition brief_agent_codec :: agentCodec where
  "brief_agent_codec = \<lparr>ay_json_raw = (\<lambda>_. Inr ''j''), ay_yaml_config = (\<lambda>_. Inr ''y'')\<rparr>"

section \<open>The parties\<close>

definition brief_secret :: secret where
  "brief_secret = \<lparr>oAPIVersion = [], oKind = [], oName = ''r'', oNamespace = ''n'', oUID = [], oLabels = None,
     oAnnotations = None, oOwnerReferences = [], oFinalizers = [], oDeletionTimestamp = None,
     secData = Some [(''privKey'', ''k'')], secStringData = None\<rparr>"

definition brief_host :: elementalHost where
  "brief_host = sample_host\<lparr>oNamespace := ''n'', hPubKey := sample_public ''a''\<rparr>"

definition brief_world :: world where
  "brief_world = empty_world\<lparr>wRegistrations := [brief_registration], wSecrets := [brief_secret], wHosts := [brief_host]\<rparr>"

text \<open>The server behind the URL \<^verbatim>\<open>s\<close>, a network that loses nothing, clocks at the epoch.\<close>

definition brief_provider :: "world provider" where
  "brief_provider = \<lparr>pv_env = sample_env, pv_api = brief_api_codec, pv_url = ''s'', pv_now = (\<lambda>_. 0), pv_clock = (\<lambda>_. 0),
     pv_agent_now = (\<lambda>w. (0, w)), pv_before = (\<lambda>_ w. (None, w)), pv_after = (\<lambda>_ w. (None, w))\<rparr>"

text \<open>A machine started from live media, on which every command succeeds.\<close>

definition brief_machine :: "world machine" where
  "brief_machine = \<lparr>
     mh_Stat = (\<lambda>_ w. (Inr False, w)), mh_ReadFile = (\<lambda>_ w. (Inr [], w)), mh_WriteFile = (\<lambda>_ _ w. (None, w)),
     mh_MkdirAll = (\<lambda>_ w. (None, w)), mh_Create = (\<lambda>_ w. (None, w)), mh_Write = (\<lambda>_ _ w. (None, w)),
     mh_Close = (\<lambda>_ w. (None, w)), mh_Bash = (\<lambda>_ w. (None, w)), mh_Exec = (\<lambda>_ _ w. (None, w)),
     mh_Output = (\<lambda>_ w. (Inr [], w)), mh_Hostname = (\<lambda>w. (Inr ''h'', w))\<rparr>"

definition brief_elemental :: elementalPlugin where
  "brief_elemental = \<lparr>epWorkDir = ''/w'', epConfigPath = ''/c''\<rparr>"

definition brief_client :: client where
  "brief_client = \<lparr>clUserAgent = ''e'', clRegistrationURI = ''s'' @ registration_path ''n'' ''r'',
     clRegistrationToken = (case identity_Sign brief_codec ''k'' (host_claims sample_client 0 []) of Inr t \<Rightarrow> t | Inl _ \<Rightarrow> []),
     clTLS = None, clIdentity = ''a''\<rparr>"

definition brief_context :: agentContext where
  "brief_context = \<lparr>cxIdentity = ''a'', cxConfig = DefaultConfig, cxConfigPath = ''/c'', cxHostname = ''h''\<rparr>"

definition brief_system :: "world system" where
  "brief_system = \<lparr>sy_net = \<lparr>nt_Do = (\<lambda>_ w. (Inl (plain_err ''unused''), w)), nt_Now = (\<lambda>w. (0, w))\<rparr>,
     sy_machine = brief_machine, sy_plugin = elemental_plugin brief_machine brief_plugin_codec brief_elemental,
     sy_NewRandom = (\<lambda>w. (Inr ''u'', w)), sy_Sleep = (\<lambda>_ w. ((), w))\<rparr>"

abbreviation brief_agent :: "(world \<times> fullEvent list) agent" where
  "brief_agent \<equiv> provider_agent brief_provider (elemental_system brief_system brief_plugin_codec brief_elemental) brief_codec
     brief_client_codec brief_client"

text \<open>What a run leaves in the cluster.\<close>

definition installed_hosts :: "world \<Rightarrow> string list" where
  "installed_hosts w = map oName (filter (\<lambda>h. label_is_true h LabelElementalHostInstalled) (wHosts w))"

lemma brief_names: "client_of brief_provider ''n'' ''r'' brief_client" "plain_name (cxHostname brief_context)"
  by (simp_all add: client_of_def brief_client_def brief_provider_def brief_context_def, code_simp+)

definition brief_install :: "unit option \<times> (world \<times> fullEvent list) \<times> call list" where
  "brief_install = run_state (Install brief_agent brief_agent_codec 1 brief_context) ((brief_world, []), [])"

lemma brief_install_result: "fst brief_install = Some () \<and> installed_hosts (fst (fst (snd brief_install))) = [''h'']"
  by code_simp

theorem Provider_Install_labels_witness:
  "installed_in_api brief_codec brief_plugin_codec ''n'' ''h'' (snd (fst (snd brief_install))) \<and>
   installed_hosts brief_world = [] \<and> installed_hosts (fst (fst (snd brief_install))) = [''h'']"
proof -
  obtain r w' es cs where run0: "brief_install = (r, ((w', es), cs))" by (metis prod.exhaust)
  moreover have "r = Some ()" using brief_install_result unfolding run0 by simp
  ultimately have run: "brief_install = (Some (), ((w', es), cs))" by simp
  have "carries brief_client_codec (pv_api brief_provider) installed_report"
    by (simp add: brief_provider_def brief_carries)
  from Provider_Install_labels [OF brief_names this run [unfolded brief_install_def]]
  have "installed_in_api brief_codec brief_plugin_codec ''n'' ''h'' es" by (simp add: brief_context_def)
  moreover have "installed_hosts brief_world = []" by code_simp
  ultimately show ?thesis using brief_install_result by (simp add: run)
qed

end
