(* ===== verification/Object_Store.thy ===== *)
theory Object_Store
  imports Controller_Common
begin

text \<open>
  What the controllers and the server rely on when they share objects: the Kubernetes API as a store, one step for each call,
  with the documented laws of its operations as the assumptions of a locale. A patch sends the fields that differ between
  the object read and the object handed in, so that concurrent changes of other fields survive; names and unique identifiers
  never change; a call that failed may have been carried out.
\<close>

section \<open>Merge patches\<close>

definition merges :: "('a \<Rightarrow> 'b) \<Rightarrow> 'a \<Rightarrow> 'a \<Rightarrow> 'a \<Rightarrow> 'a \<Rightarrow> bool" where
  "merges f before after cur cur' \<longleftrightarrow> f cur' = (if f after = f before then f cur else f after)"

definition host_merged :: "elementalHost \<Rightarrow> elementalHost \<Rightarrow> elementalHost \<Rightarrow> elementalHost \<Rightarrow> bool" where
  "host_merged before after cur cur' \<longleftrightarrow> ObjectKeyFromObject cur' = ObjectKeyFromObject cur \<and> oUID cur' = oUID cur \<and>
     merges hPubKey before after cur cur' \<and> (\<forall>k. merges (\<lambda>h. gget (oLabels h) k) before after cur cur')"

section \<open>Changes that leave ownership alone\<close>

text \<open>The labels by which a host belongs to a machine, and the key by which it is known.\<close>

definition same_owner :: "elementalHost \<Rightarrow> elementalHost \<Rightarrow> bool" where
  "same_owner h h' \<longleftrightarrow> oUID h' = oUID h \<and> hPubKey h' = hPubKey h \<and>
     gget (oLabels h') LabelElementalHostMachineName = gget (oLabels h) LabelElementalHostMachineName \<and>
     gget (oLabels h') LabelElementalHostElementalMachineName = gget (oLabels h) LabelElementalHostElementalMachineName"

lemma same_owner_refl [simp]: "same_owner h h"
  by (simp add: same_owner_def)

lemma same_owner_trans: "same_owner a b \<Longrightarrow> same_owner b c \<Longrightarrow> same_owner a c"
  by (simp add: same_owner_def)

fun harmless :: "event \<Rightarrow> bool" where
  "harmless (EvPatchElementalHost h h' r) \<longleftrightarrow> hPubKey h' = hPubKey h \<and>
     gget (oLabels h') LabelElementalHostMachineName = gget (oLabels h) LabelElementalHostMachineName \<and>
     gget (oLabels h') LabelElementalHostElementalMachineName = gget (oLabels h) LabelElementalHostElementalMachineName"
| "harmless (EvPatchElementalMachine m m' r) \<longleftrightarrow> mHostRef m' = mHostRef m \<or> mHostRef m' = None"
| "harmless _ \<longleftrightarrow> True"

lemma harmless_reads: "\<not> is_write e \<Longrightarrow> harmless e"
  by (cases e) auto

lemma host_merged_same_owner:
  "host_merged h h' cur g \<Longrightarrow> harmless (EvPatchElementalHost h h' r) \<Longrightarrow> same_owner cur g"
  by (simp add: host_merged_def same_owner_def merges_def)

section \<open>The store\<close>

locale object_store =
  fixes step :: "'s \<Rightarrow> event \<Rightarrow> 's \<Rightarrow> bool"
    and host_at :: "'s \<Rightarrow> objectKey \<Rightarrow> elementalHost option"
    and machine_at :: "'s \<Rightarrow> objectKey \<Rightarrow> elementalMachine option"
    and uids :: "'s \<Rightarrow> string set"
  assumes host_key: "host_at s k = Some h \<Longrightarrow> ObjectKeyFromObject h = k"
    and machine_key: "machine_at s k = Some m \<Longrightarrow> ObjectKeyFromObject m = k"
    and host_uid: "host_at s k = Some h \<Longrightarrow> oUID h \<in> uids s"
    and uids_grow: "step s e s' \<Longrightarrow> uids s \<subseteq> uids s'"
    and patch_host: "step s (EvPatchElementalHost h h' r) s' \<Longrightarrow> host_at s' k = Some g \<Longrightarrow>
      (host_at s k = Some g \<and> (r = None \<longrightarrow> k \<noteq> ObjectKeyFromObject h')) \<or>
      (k = ObjectKeyFromObject h' \<and> (\<exists>cur. host_at s k = Some cur \<and> host_merged h h' cur g))"
    and create_host: "step s (EvCreateElementalHost h r) s' \<Longrightarrow> host_at s' k = Some g \<Longrightarrow>
      host_at s k = Some g \<or> oUID g \<notin> uids s"
    and delete_host: "step s (EvDeleteElementalHost k' r) s' \<Longrightarrow> host_at s' k = Some g \<Longrightarrow>
      host_at s k = Some g \<or> (\<exists>cur t. host_at s k = Some cur \<and> g = cur\<lparr>oDeletionTimestamp := t\<rparr>)"
    and other_hosts: "step s e s' \<Longrightarrow> host_at s' k = Some g \<Longrightarrow>
      (\<forall>h h' r. e \<noteq> EvPatchElementalHost h h' r) \<Longrightarrow> (\<forall>h r. e \<noteq> EvCreateElementalHost h r) \<Longrightarrow>
      (\<forall>k r. e \<noteq> EvDeleteElementalHost k r) \<Longrightarrow> host_at s k = Some g"
    and patch_machine: "step s (EvPatchElementalMachine m m' r) s' \<Longrightarrow> machine_at s' k = Some n \<Longrightarrow>
      machine_at s k = Some n \<or>
      (k = ObjectKeyFromObject m' \<and> (\<exists>cur. machine_at s k = Some cur \<and> merges mHostRef m m' cur n))"
    and other_machines: "step s e s' \<Longrightarrow> machine_at s' k = Some n \<Longrightarrow>
      (\<forall>m m' r. e \<noteq> EvPatchElementalMachine m m' r) \<Longrightarrow> machine_at s k = Some n"
    and lists_current: "step s (EvListElementalHosts ns sel (Inr hs)) s' \<Longrightarrow> h \<in> set hs \<Longrightarrow>
      host_at s (ObjectKeyFromObject h) = Some h"

text \<open>
  A change that keeps something of the hosts: those that are left keep it, and new ones have a fresh identifier. A change that keeps
  owners keeps what shows owner and key, and gives no machine a reference.
\<close>

definition keeps_hosts ::
  "(elementalHost \<Rightarrow> elementalHost \<Rightarrow> bool) \<Rightarrow> ('s \<Rightarrow> objectKey \<Rightarrow> elementalHost option) \<Rightarrow> ('s \<Rightarrow> string set) \<Rightarrow> 's \<Rightarrow> 's \<Rightarrow> bool"
where
  "keeps_hosts same host_at uids s s' \<longleftrightarrow> uids s \<subseteq> uids s' \<and>
     (\<forall>k g. host_at s' k = Some g \<longrightarrow> (\<exists>cur. host_at s k = Some cur \<and> same cur g) \<or> oUID g \<notin> uids s)"

definition keeps_owners ::
  "('s \<Rightarrow> objectKey \<Rightarrow> elementalHost option) \<Rightarrow> ('s \<Rightarrow> objectKey \<Rightarrow> elementalMachine option) \<Rightarrow> ('s \<Rightarrow> string set) \<Rightarrow>
    's \<Rightarrow> 's \<Rightarrow> bool"
where
  "keeps_owners host_at machine_at uids s s' \<longleftrightarrow> keeps_hosts same_owner host_at uids s s' \<and>
     (\<forall>k m ref. machine_at s' k = Some m \<and> mHostRef m = Some ref \<longrightarrow>
        (\<exists>cur. machine_at s k = Some cur \<and> mHostRef cur = Some ref))"

lemmas keeps_defs = keeps_owners_def keeps_hosts_def

lemma keeps_hosts_refl: "(\<And>h. same h h) \<Longrightarrow> keeps_hosts same H U s s"
  by (auto simp: keeps_hosts_def)

lemma keeps_hosts_trans:
  assumes same: "\<And>a b c. same a b \<Longrightarrow> same b c \<Longrightarrow> same a c" "\<And>a b. same a b \<Longrightarrow> oUID b = oUID a"
    and 1: "keeps_hosts same H U s s1" and 2: "keeps_hosts same H U s1 s2"
  shows "keeps_hosts same H U s s2"
proof -
  have "(\<exists>cur. H s k = Some cur \<and> same cur g) \<or> oUID g \<notin> U s" if "H s2 k = Some g" for k g
  proof (cases "oUID g \<in> U s1")
    case True
    with 2 that obtain g1 where "H s1 k = Some g1" and g: "same g1 g"
      unfolding keeps_hosts_def by blast
    with 1 have "(\<exists>cur. H s k = Some cur \<and> same cur g1) \<or> oUID g1 \<notin> U s"
      unfolding keeps_hosts_def by blast
    with g show ?thesis using same by metis
  next
    case False
    with 1 show ?thesis unfolding keeps_hosts_def by blast
  qed
  with 1 2 show ?thesis unfolding keeps_hosts_def by blast
qed

lemma keeps_hosts_mono: "keeps_hosts same H U s s' \<Longrightarrow> (\<And>a b. same a b \<Longrightarrow> same' a b) \<Longrightarrow> keeps_hosts same' H U s s'"
  unfolding keeps_hosts_def by blast

lemma same_owner_uid: "same_owner a b \<Longrightarrow> oUID b = oUID a"
  by (simp add: same_owner_def)

lemma keeps_owners_refl [simp]: "keeps_owners H M U s s"
  by (auto simp: keeps_owners_def keeps_hosts_refl)

lemma keeps_owners_trans:
  assumes "keeps_owners H M U s s1" and "keeps_owners H M U s1 s2"
  shows "keeps_owners H M U s s2"
proof -
  have "keeps_hosts same_owner H U s s2"
    by (rule keeps_hosts_trans [where same = same_owner and ?s1.0 = s1])
      (use assms in \<open>auto simp: keeps_owners_def intro: same_owner_trans dest: same_owner_uid\<close>)
  with assms show ?thesis unfolding keeps_owners_def by blast
qed

context object_store
begin

lemma step_keeps_hosts:
  assumes step: "step s e s'" and refl: "\<And>h. same h h" and deleted: "\<And>h t. same h (h\<lparr>oDeletionTimestamp := t\<rparr>)"
    and merged: "\<And>h h' r cur g. e = EvPatchElementalHost h h' r \<Longrightarrow> host_merged h h' cur g \<Longrightarrow> same cur g"
  shows "keeps_hosts same host_at uids s s'"
proof -
  have "(\<exists>cur. host_at s k = Some cur \<and> same cur g) \<or> oUID g \<notin> uids s" if g: "host_at s' k = Some g" for k g
  proof (cases e)
    case (EvPatchElementalHost h h' r)
    with patch_host [OF _ g, of s h h' r] step merged refl show ?thesis by blast
  next
    case (EvCreateElementalHost h r)
    with create_host [OF _ g, of s h r] step refl show ?thesis by blast
  next
    case (EvDeleteElementalHost k' r)
    with delete_host [OF _ g, of s k' r] step refl deleted show ?thesis by blast
  qed (use other_hosts [OF step g] refl in auto)
  with uids_grow [OF step] show ?thesis unfolding keeps_hosts_def by blast
qed

lemma step_keeps_owners:
  assumes step: "step s e s'" and "harmless e"
  shows "keeps_owners host_at machine_at uids s s'"
proof -
  have hosts: "keeps_hosts same_owner host_at uids s s'"
    by (rule step_keeps_hosts [OF step]) (use \<open>harmless e\<close> host_merged_same_owner in \<open>auto simp: same_owner_def\<close>)
  have machines: "\<exists>cur. machine_at s k = Some cur \<and> mHostRef cur = Some ref"
    if m: "machine_at s' k = Some m" "mHostRef m = Some ref" for k m ref
  proof (cases e)
    case (EvPatchElementalMachine a b r)
    with patch_machine [OF _ m(1), of s a b r] step \<open>harmless e\<close> m(2) show ?thesis
      by (auto simp: merges_def split: if_splits)
  qed (use other_machines [OF step m(1)] m(2) in auto)
  from hosts machines show ?thesis unfolding keeps_owners_def by blast
qed

end

section \<open>Runs that others interrupt\<close>

text \<open>
  The trace of a run on the shared store: its calls are steps of the store, and between two of them, and before and after, others make
  any number of steps.
\<close>

inductive traced ::
  "('s \<Rightarrow> 's \<Rightarrow> bool) \<Rightarrow> ('s \<Rightarrow> event \<Rightarrow> 's \<Rightarrow> bool) \<Rightarrow> 's \<Rightarrow> event list \<Rightarrow> 's \<Rightarrow> bool"
  for others :: "'s \<Rightarrow> 's \<Rightarrow> bool" and step :: "'s \<Rightarrow> event \<Rightarrow> 's \<Rightarrow> bool"
where
  traced_end: "others\<^sup>*\<^sup>* s s' \<Longrightarrow> traced others step s [] s'"
| traced_call: "others\<^sup>*\<^sup>* s s1 \<Longrightarrow> step s1 e s2 \<Longrightarrow> traced others step s2 l s' \<Longrightarrow> traced others step s (e # l) s'"

inductive_simps traced_Nil: "traced others step s [] s'"
inductive_simps traced_Cons: "traced others step s (e # l) s'"

lemma traced_after_others:
  assumes "others\<^sup>*\<^sup>* s s1" and "traced others step s1 l s'"
  shows "traced others step s l s'"
  using assms(2)
proof cases
  case traced_end
  with assms(1) show ?thesis by (simp add: traced_Nil)
next
  case (traced_call t e t' l')
  from assms(1) traced_call(2) have "others\<^sup>*\<^sup>* s t" by (rule rtranclp_trans)
  from traced.traced_call [OF this traced_call(3,4)] show ?thesis by (simp add: traced_call(1))
qed

lemma traced_append: "traced others step s (l1 @ l2) s' \<longleftrightarrow> (\<exists>s1. traced others step s l1 s1 \<and> traced others step s1 l2 s')"
proof (induction l1 arbitrary: s)
  case Nil
  show ?case
    unfolding append_Nil traced_Nil using traced_after_others [of others s] by blast
next
  case (Cons e l1)
  show ?case unfolding append_Cons traced_Cons Cons by blast
qed

lemma traced_keeps:
  assumes refl: "\<And>s. K s s" and trans: "\<And>a b c. K a b \<Longrightarrow> K b c \<Longrightarrow> K a c" and others: "\<And>s s'. others s s' \<Longrightarrow> K s s'"
    and "traced others step s l s'" and "\<forall>e \<in> set l. \<forall>s s'. step s e s' \<longrightarrow> K s s'"
  shows "K s s'"
proof -
  have star: "others\<^sup>*\<^sup>* s s' \<Longrightarrow> K s s'" for s s'
    by (induction rule: rtranclp_induct) (auto intro: refl trans others)
  from assms(4,5) show ?thesis
  proof induction
    case (traced_end s s')
    then show ?case by (simp add: star)
  next
    case (traced_call s s1 e s2 l s')
    have "K s s1" by (rule star [OF traced_call(1)])
    moreover have "K s1 s2" using traced_call(2,5) by simp
    moreover have "K s2 s'" using traced_call(4,5) by simp
    ultimately show ?case by (blast intro: trans)
  qed
qed

section \<open>A store in memory\<close>

text \<open>
  Objects by key, and the identifiers that were ever given. Objects whose identifier was not given, or that are kept under another
  key, are not there.
\<close>

record objects =
  obHosts :: "objectKey \<Rightarrow> elementalHost option"
  obMachines :: "objectKey \<Rightarrow> elementalMachine option"
  obUIDs :: "string list"

definition stored_host :: "objects \<Rightarrow> objectKey \<Rightarrow> elementalHost option" where
  "stored_host s k = (case obHosts s k of None \<Rightarrow> None
     | Some h \<Rightarrow> if ObjectKeyFromObject h = k \<and> oUID h \<in> set (obUIDs s) then Some h else None)"

definition stored_machine :: "objects \<Rightarrow> objectKey \<Rightarrow> elementalMachine option" where
  "stored_machine s k = (case obMachines s k of None \<Rightarrow> None
     | Some m \<Rightarrow> if ObjectKeyFromObject m = k then Some m else None)"

definition stored_uids :: "objects \<Rightarrow> string set" where
  "stored_uids s = set (obUIDs s)"

definition fresh_uid :: "string list \<Rightarrow> string" where
  "fresh_uid us = concat us @ ''u''"

lemma fresh_uid_fresh: "fresh_uid us \<notin> set us"
proof
  assume "fresh_uid us \<in> set us"
  then obtain a b where "us = a @ fresh_uid us # b" by (meson split_list)
  then have "length (concat us) = length (concat a) + length (fresh_uid us) + length (concat b)"
    by (metis append.assoc concat.simps(2) concat_append length_append)
  then show False by (simp add: fresh_uid_def)
qed

definition changed :: "('a \<Rightarrow> 'b) \<Rightarrow> 'a \<Rightarrow> 'a \<Rightarrow> 'a \<Rightarrow> 'b" where
  "changed f before after cur = (if f after = f before then f cur else f after)"

definition merge_labels :: "'v gomap \<Rightarrow> 'v gomap \<Rightarrow> 'v gomap \<Rightarrow> 'v gomap" where
  "merge_labels before after cur =
     (let keys = map fst (case cur of None \<Rightarrow> [] | Some al \<Rightarrow> al) @ map fst (case after of None \<Rightarrow> [] | Some al \<Rightarrow> al);
          pick = (\<lambda>k. if gget after k = gget before k then gget cur k else gget after k)
      in Some (List.map_filter (\<lambda>k. map_option (Pair k) (pick k)) keys))"

lemma map_of_map_filter_keys:
  "map_of (List.map_filter (\<lambda>k. map_option (Pair k) (f k)) ks) k = (if k \<in> set ks then f k else None)"
  by (induction ks) (auto simp: map_filter_simps split: option.splits)

lemma gget_merge_labels:
  "gget (merge_labels before after cur) k = (if gget after k = gget before k then gget cur k else gget after k)"
proof -
  have absent: "gget m k = None" if "k \<notin> fst ` set (case m of None \<Rightarrow> [] | Some al \<Rightarrow> al)" for m :: "'a gomap"
    using that by (cases m) (simp_all add: gget_def map_of_eq_None_iff)
  show ?thesis
    using absent [of cur] absent [of after]
    by (auto simp: merge_labels_def Let_def gget_def [of "Some _"] map_of_map_filter_keys)
qed

definition merge_host :: "elementalHost \<Rightarrow> elementalHost \<Rightarrow> elementalHost \<Rightarrow> elementalHost" where
  "merge_host before after cur = cur\<lparr>
     oLabels := merge_labels (oLabels before) (oLabels after) (oLabels cur),
     oFinalizers := changed oFinalizers before after cur, hBootstrapSecret := changed hBootstrapSecret before after cur,
     hMachineRef := changed hMachineRef before after cur, hPubKey := changed hPubKey before after cur,
     hOSVersionManagement := changed hOSVersionManagement before after cur, hPhase := changed hPhase before after cur,
     hConditions := changed hConditions before after cur\<rparr>"

definition merge_machine :: "elementalMachine \<Rightarrow> elementalMachine \<Rightarrow> elementalMachine \<Rightarrow> elementalMachine" where
  "merge_machine before after cur = cur\<lparr>
     oFinalizers := changed oFinalizers before after cur, mProviderID := changed mProviderID before after cur,
     mHostRef := changed mHostRef before after cur, mReady := changed mReady before after cur,
     mConditions := changed mConditions before after cur\<rparr>"

text \<open>An object that is being deleted is gone with its last finalizer.\<close>

definition kept :: "'a objectMeta_scheme \<Rightarrow> 'a objectMeta_scheme option" where
  "kept x = (if notDeleted x \<or> oFinalizers x \<noteq> [] then Some x else None)"

fun store_apply :: "event \<Rightarrow> objects \<Rightarrow> objects" where
  "store_apply (EvPatchElementalHost h h' None) s =
     (case stored_host s (ObjectKeyFromObject h') of None \<Rightarrow> s
      | Some cur \<Rightarrow> s\<lparr>obHosts := (obHosts s)(ObjectKeyFromObject h' := kept (merge_host h h' cur))\<rparr>)"
| "store_apply (EvPatchElementalMachine m m' None) s =
     (case stored_machine s (ObjectKeyFromObject m') of None \<Rightarrow> s
      | Some cur \<Rightarrow> s\<lparr>obMachines := (obMachines s)(ObjectKeyFromObject m' := kept (merge_machine m m' cur))\<rparr>)"
| "store_apply (EvCreateElementalHost h None) s =
     (let u = fresh_uid (obUIDs s) in
      s\<lparr>obHosts := (obHosts s)(ObjectKeyFromObject h \<mapsto> h\<lparr>oUID := u\<rparr>), obUIDs := u # obUIDs s\<rparr>)"
| "store_apply (EvDeleteElementalHost k None) s =
     (case stored_host s k of None \<Rightarrow> s
      | Some cur \<Rightarrow> s\<lparr>obHosts := (obHosts s)(k := kept (cur\<lparr>oDeletionTimestamp := Some 1\<rparr>))\<rparr>)"
| "store_apply e s = s"

fun store_answers :: "event \<Rightarrow> objects \<Rightarrow> bool" where
  "store_answers (EvGetElementalHost k (Inr h)) s \<longleftrightarrow> stored_host s k = Some h"
| "store_answers (EvGetElementalMachine k (Inr m)) s \<longleftrightarrow> stored_machine s k = Some m"
| "store_answers (EvListElementalHosts ns sel (Inr hs)) s \<longleftrightarrow>
     list_all (\<lambda>h. stored_host s (ObjectKeyFromObject h) = Some h) hs"
| "store_answers (EvPatchElementalHost h h' None) s \<longleftrightarrow> stored_host s (ObjectKeyFromObject h') \<noteq> None"
| "store_answers (EvPatchElementalMachine m m' None) s \<longleftrightarrow> stored_machine s (ObjectKeyFromObject m') \<noteq> None"
| "store_answers (EvCreateElementalHost h None) s \<longleftrightarrow> stored_host s (ObjectKeyFromObject h) = None"
| "store_answers _ s \<longleftrightarrow> True"

definition store_step :: "objects \<Rightarrow> event \<Rightarrow> objects \<Rightarrow> bool" where
  "store_step s e s' \<longleftrightarrow> store_answers e s \<and> s' = store_apply e s"

text \<open>A run that nobody interrupts, from an answer of the store to each of its calls.\<close>

fun store_run :: "event list \<Rightarrow> objects \<Rightarrow> objects option" where
  "store_run [] s = Some s"
| "store_run (e # l) s = (if store_answers e s then store_run l (store_apply e s) else None)"

lemma store_run_traced: "store_run l s = Some s' \<Longrightarrow> traced others store_step s l s'"
  by (induction l arbitrary: s) (auto simp: traced_Nil traced_Cons store_step_def split: if_splits)

lemma key_simps [simp]:
  "ObjectKeyFromObject (merge_host h h' cur) = ObjectKeyFromObject cur"
  "ObjectKeyFromObject (merge_machine m m' g) = ObjectKeyFromObject g"
  "oUID (merge_host h h' cur) = oUID cur"
  by (simp_all add: merge_host_def merge_machine_def ObjectKeyFromObject_def)

lemma merge_host_merged: "host_merged h h' cur (merge_host h h' cur)"
  by (auto simp: host_merged_def merges_def)
    (simp_all add: merge_host_def changed_def gget_merge_labels)

lemma kept_Some [simp]: "kept x = Some y \<longleftrightarrow> y = x \<and> (notDeleted x \<or> oFinalizers x \<noteq> [])"
  by (auto simp: kept_def)

lemma stored_host_Some:
  "stored_host s k = Some h \<longleftrightarrow> obHosts s k = Some h \<and> ObjectKeyFromObject h = k \<and> oUID h \<in> set (obUIDs s)"
  by (auto simp: stored_host_def split: option.splits if_splits)

lemma stored_machine_Some:
  "stored_machine s k = Some m \<longleftrightarrow> obMachines s k = Some m \<and> ObjectKeyFromObject m = k"
  by (auto simp: stored_machine_def split: option.splits if_splits)

lemma stored_None:
  "stored_host s k = None \<longleftrightarrow> (\<forall>h. obHosts s k = Some h \<longrightarrow> ObjectKeyFromObject h = k \<longrightarrow> oUID h \<notin> set (obUIDs s))"
  "stored_machine s k = None \<longleftrightarrow> (\<forall>m. obMachines s k = Some m \<longrightarrow> ObjectKeyFromObject m \<noteq> k)"
  by (auto simp: stored_host_def stored_machine_def split: option.splits if_splits)

lemmas stored_simps = stored_None stored_host_Some stored_machine_Some store_step_def stored_uids_def

interpretation stored: object_store store_step stored_host stored_machine stored_uids
proof
  fix s s' :: objects and k k' e h h' g m m' n r ns sel hs
  show "stored_host s k = Some h \<Longrightarrow> ObjectKeyFromObject h = k" by (simp add: stored_simps)
  show "stored_machine s k = Some m \<Longrightarrow> ObjectKeyFromObject m = k" by (simp add: stored_simps)
  show "stored_host s k = Some h \<Longrightarrow> oUID h \<in> stored_uids s" by (simp add: stored_simps)
  show "store_step s e s' \<Longrightarrow> stored_uids s \<subseteq> stored_uids s'"
    by (cases "(e, s)" rule: store_apply.cases) (auto simp: stored_simps Let_def split: option.splits)
  show "store_step s (EvPatchElementalHost h h' r) s' \<Longrightarrow> stored_host s' k = Some g \<Longrightarrow>
      (stored_host s k = Some g \<and> (r = None \<longrightarrow> k \<noteq> ObjectKeyFromObject h')) \<or>
      (k = ObjectKeyFromObject h' \<and> (\<exists>cur. stored_host s k = Some cur \<and> host_merged h h' cur g))"
    by (cases r) (auto simp: stored_simps merge_host_merged split: option.splits if_splits)
  show "store_step s (EvCreateElementalHost h r) s' \<Longrightarrow> stored_host s' k = Some g \<Longrightarrow>
      stored_host s k = Some g \<or> oUID g \<notin> stored_uids s"
    by (cases r) (auto simp: stored_simps Let_def fresh_uid_fresh split: if_splits)
  show "store_step s (EvDeleteElementalHost k' r) s' \<Longrightarrow> stored_host s' k = Some g \<Longrightarrow>
      stored_host s k = Some g \<or> (\<exists>cur t. stored_host s k = Some cur \<and> g = cur\<lparr>oDeletionTimestamp := t\<rparr>)"
    by (cases r) (auto simp: stored_simps split: option.splits if_splits)
  show "store_step s e s' \<Longrightarrow> stored_host s' k = Some g \<Longrightarrow>
      (\<forall>h h' r. e \<noteq> EvPatchElementalHost h h' r) \<Longrightarrow> (\<forall>h r. e \<noteq> EvCreateElementalHost h r) \<Longrightarrow>
      (\<forall>k r. e \<noteq> EvDeleteElementalHost k r) \<Longrightarrow> stored_host s k = Some g"
    by (cases "(e, s)" rule: store_apply.cases) (auto simp: stored_simps split: option.splits)
  show "store_step s (EvPatchElementalMachine m m' r) s' \<Longrightarrow> stored_machine s' k = Some n \<Longrightarrow>
      stored_machine s k = Some n \<or>
      (k = ObjectKeyFromObject m' \<and> (\<exists>cur. stored_machine s k = Some cur \<and> merges mHostRef m m' cur n))"
    by (cases r) (auto simp: stored_simps merges_def merge_machine_def changed_def split: option.splits if_splits)
  show "store_step s e s' \<Longrightarrow> stored_machine s' k = Some n \<Longrightarrow>
      (\<forall>m m' r. e \<noteq> EvPatchElementalMachine m m' r) \<Longrightarrow> stored_machine s k = Some n"
    by (cases "(e, s)" rule: store_apply.cases) (auto simp: stored_simps Let_def split: option.splits)
  show "store_step s (EvListElementalHosts ns sel (Inr hs)) s' \<Longrightarrow> h \<in> set hs \<Longrightarrow>
      stored_host s (ObjectKeyFromObject h) = Some h"
    by (auto simp: store_step_def list_all_iff)
qed

end
