(* ===== verification/Host_Ownership.thy ===== *)
theory Host_Ownership
  imports Object_Store Host_Controller Machine_Controller Registration_Controller Cluster_Controller Api_Server
begin

text \<open>
  The controllers and the API server on one store. A step of the system is a call of some run, whose other calls may be
  anywhere in time, a change by users, or a whole reconciliation of a machine: the manager runs one of those at a time, with steps of
  the others between its calls. The invariant is that a machine which refers to a host owns it.
\<close>

section \<open>What the others do\<close>

lemma harmless_writes: "list_all harmless (writes l) \<Longrightarrow> \<forall>e \<in> set l. harmless e"
  using harmless_reads by (auto simp: list_all_iff)

lemma harmless_lookup: "lookup_event e \<Longrightarrow> harmless e"
  by (cases e) auto

lemma owner_labels_distinct:
  "LabelElementalHostMachineName \<noteq> LabelElementalHostNeedsReset" "LabelElementalHostElementalMachineName \<noteq> LabelElementalHostNeedsReset"
  "LabelElementalHostMachineName \<noteq> LabelElementalHostElementalMachineName"
  "LabelElementalHostMachineName \<notin> {LabelElementalHostInPlaceUpdate, LabelElementalHostInstalled, LabelElementalHostBootstrapped,
     LabelElementalHostReset}"
  "LabelElementalHostElementalMachineName \<notin> {LabelElementalHostInPlaceUpdate, LabelElementalHostInstalled,
     LabelElementalHostBootstrapped, LabelElementalHostReset}"
  by (simp_all add: LabelElementalHostMachineName_def LabelElementalHostElementalMachineName_def LabelElementalHostNeedsReset_def
      LabelElementalHostInPlaceUpdate_def LabelElementalHostInstalled_def LabelElementalHostBootstrapped_def
      LabelElementalHostReset_def)

lemma host_frame_harmless: "host_frame h h' \<Longrightarrow> harmless (EvPatchElementalHost h h' r)"
  using owner_labels_distinct(1,2) by (simp add: host_frame_def)

lemma Host_Reconcile_harmless: "wp (Host_Reconcile E now req) (\<lambda>_ l. \<forall>e \<in> set l. harmless e)"
proof (rule wp_mono [OF hostR.wp_reconcile [where R = "\<lambda>res before body after. writes body = [] \<and> host_frame before after"]])
  show "wp (host_body E now obj) (\<lambda>out l. writes l = [] \<and> host_frame obj (host_SetSummary now (snd out)))" for obj
    by (rule wp_host_body) (simp add: summary_lifecycle)
next
  fix a and l :: "event list"
  assume "host_reconciles_once req (\<lambda>res before body after. writes body = [] \<and> host_frame before after) a l"
  then show "\<forall>e \<in> set l. harmless e"
    unfolding reconciles_once_def
    by (intro harmless_writes) (auto simp del: harmless.simps simp: host_frame_harmless filter_empty_conv)
qed

lemma Cluster_Reconcile_harmless: "wp (Cluster_Reconcile E now req) (\<lambda>_ l. \<forall>e \<in> set l. harmless e)"
proof -
  have "wp (cluster_body E now obj) (\<lambda>_ l. list_all lookup_event l)" for obj
    unfolding cluster_body_def Let_def
    by (intro wp_intros wp_mono [OF wp_GetOwnerCluster_read]) (auto dest: looked_up_lookup)
  from clusterR.wp_reconcile [where R = "\<lambda>_ _ l _. list_all lookup_event l", OF this] show ?thesis
    by (rule wp_mono) (auto simp: reconciles_once_def list_all_iff harmless_lookup)
qed

lemma Registration_Reconcile_harmless: "wp (Registration_Reconcile E C R clock req) (\<lambda>_ l. \<forall>e \<in> set l. harmless e)"
proof -
  have "wp (registration_body E C R clock obj) (\<lambda>_ l. \<forall>e \<in> set l. harmless e)" for obj
    unfolding registration_body_def generateNewIdentity_def setNewToken_def Let_def
    by (intro wp_intros) auto
  from registrationR.wp_reconcile [where R = "\<lambda>_ _ l _. \<forall>e \<in> set l. harmless e", OF this] show ?thesis
    by (rule wp_mono) (auto simp: reconciles_once_def)
qed

text \<open>The agent's requests set no labels of their own; no host is trusted further than not to set those by which hosts are owned.\<close>

definition owner_labels_untouched :: "apiCodec \<Rightarrow> request \<Rightarrow> bool" where
  "owner_labels_untouched A rq \<longleftrightarrow> (\<forall>p. ac_decode_patch A (rqBody rq) = Inr p \<longrightarrow>
     gget (hpLabels p) LabelElementalHostMachineName = None \<and> gget (hpLabels p) LabelElementalHostElementalMachineName = None)"

lemma patched_label_untouched:
  "gget (hpLabels p) k = None \<Longrightarrow> k \<notin> {LabelElementalHostInPlaceUpdate, LabelElementalHostInstalled,
     LabelElementalHostBootstrapped, LabelElementalHostReset} \<Longrightarrow> patched_label p h k = gget (oLabels h) k"
  by (cases "hpLabels p") (auto simp: patched_label_def gget_def [of "Some _"] map_of_eq_None_iff
      split: option.splits dest!: map_of_SomeD intro: rev_image_eqI)

lemma patch_served_harmless:
  assumes "patch_served ok A now rq rs l" and "owner_labels_untouched A rq"
  shows "\<forall>e \<in> set l. harmless e"
proof (rule harmless_writes)
  have "harmless (EvPatchElementalHost h (applyToElementalHost now p h) r)" if "ac_decode_patch A (rqBody rq) = Inr p" for h p r
  proof -
    have "patch_applied p h (applyToElementalHost now p h)" by (rule patch_applied_lemma)
    with that assms(2) show ?thesis
      using owner_labels_distinct(4,5) by (simp add: patch_applied_def patched_label_untouched owner_labels_untouched_def)
  qed
  moreover from assms(1) have "writes l = [] \<or> (\<exists>h p r. ac_decode_patch A (rqBody rq) = Inr p \<and>
      writes l = [EvPatchElementalHost h (applyToElementalHost now p h) r])"
    unfolding patch_served_def Let_def by blast
  ultimately show "list_all harmless (writes l)" by (elim disjE exE) (simp_all del: harmless.simps(1))
qed

lemma served_harmless:
  "post_served ok reg A rq rs l \<Longrightarrow> \<forall>e \<in> set l. harmless e" "delete_served ok rq rs l \<Longrightarrow> \<forall>e \<in> set l. harmless e"
  "bootstrap_served ok A rq rs l \<Longrightarrow> \<forall>e \<in> set l. harmless e" "registration_served reg A rq rs l \<Longrightarrow> \<forall>e \<in> set l. harmless e"
proof -
  assume "post_served ok reg A rq rs l"
  then have "writes l = [] \<or> (\<exists>h r. writes l = [EvCreateElementalHost h r])"
    unfolding post_served_def Let_def by blast
  then show "\<forall>e \<in> set l. harmless e" by (intro harmless_writes) auto
next
  assume "delete_served ok rq rs l"
  then have "writes l = [] \<or> (\<exists>k r. writes l = [EvDeleteElementalHost k r])"
    unfolding delete_served_def Let_def by blast
  then show "\<forall>e \<in> set l. harmless e" by (intro harmless_writes) auto
next
  assume "bootstrap_served ok A rq rs l"
  then have "writes l = []" unfolding bootstrap_served_def Let_def by blast
  then show "\<forall>e \<in> set l. harmless e" by (intro harmless_writes) simp
next
  assume "registration_served reg A rq rs l"
  then have "writes l = []" unfolding registration_served_def by blast
  then show "\<forall>e \<in> set l. harmless e" by (intro harmless_writes) simp
qed

lemma api_serve_harmless:
  assumes "owner_labels_untouched A rq"
  shows "wp (api_serve E C A now clock meth path rq) (\<lambda>_ l. \<forall>e \<in> set l. harmless e)"
proof -
  have patch: "owner_labels_untouched A (rq\<lparr>rqVars := v\<rparr>)" for v using assms by (simp add: owner_labels_untouched_def)
  note handlers = wp_mono [OF provider_auth.wp_Patch patch_served_harmless [OF _ patch]]
    wp_mono [OF provider_auth.wp_Post served_harmless(1)] wp_mono [OF provider_auth.wp_Delete served_harmless(2)]
    wp_mono [OF provider_auth.wp_Bootstrap served_harmless(3)] wp_mono [OF provider_auth.wp_GetRegistration served_harmless(4)]
  show ?thesis
    unfolding api_serve_def Let_def
    by (auto intro!: wp_ret handlers split: routed.splits apiHandler.splits)
qed

section \<open>The system\<close>

text \<open>
  What the system consists of: the store (its steps, the objects in it, the identifiers it gave), the environment whose answers
  the runs get, the encodings, the registration controller's configuration, and what users do.
\<close>

record ('s, 'w) shared =
  sh_step :: "'s \<Rightarrow> event \<Rightarrow> 's \<Rightarrow> bool"
  sh_host :: "'s \<Rightarrow> objectKey \<Rightarrow> elementalHost option"
  sh_machine :: "'s \<Rightarrow> objectKey \<Rightarrow> elementalMachine option"
  sh_uids :: "'s \<Rightarrow> string set"
  sh_env :: "'w env"
  sh_codec :: codec
  sh_api :: apiCodec
  sh_registrations :: registrationReconciler
  sh_users :: "'s \<Rightarrow> 's \<Rightarrow> bool"

text \<open>A call of a run other than a machine's.\<close>

inductive other_event :: "('s, 'w) shared \<Rightarrow> event \<Rightarrow> bool" for W :: "('s, 'w) shared" where
  host_call: "runs_as (Host_Reconcile (sh_env W) now req) r l \<Longrightarrow> e \<in> set l \<Longrightarrow> other_event W e"
| registration_call: "runs_as (Registration_Reconcile (sh_env W) (sh_codec W) (sh_registrations W) now req) r l \<Longrightarrow>
    e \<in> set l \<Longrightarrow> other_event W e"
| cluster_call: "runs_as (Cluster_Reconcile (sh_env W) now req) r l \<Longrightarrow> e \<in> set l \<Longrightarrow> other_event W e"
| server_call: "runs_as (api_serve (sh_env W) (sh_codec W) (sh_api W) now clock meth path rq) r l \<Longrightarrow>
    owner_labels_untouched (sh_api W) rq \<Longrightarrow> e \<in> set l \<Longrightarrow> other_event W e"

text \<open>Users may do anything that keeps owners: create, edit and delete objects, but not hand out hosts; \<open>sh_users\<close> may restrict them further.\<close>

inductive interferes :: "('s, 'w) shared \<Rightarrow> 's \<Rightarrow> 's \<Rightarrow> bool" for W :: "('s, 'w) shared" where
  other_step: "other_event W e \<Longrightarrow> sh_step W s e s' \<Longrightarrow> interferes W s s'"
| user_step: "sh_users W s s' \<Longrightarrow> keeps_owners (sh_host W) (sh_machine W) (sh_uids W) s s' \<Longrightarrow> interferes W s s'"

inductive system_step :: "('s, 'w) shared \<Rightarrow> 's \<Rightarrow> 's \<Rightarrow> bool" for W :: "('s, 'w) shared" where
  interference: "interferes W s s' \<Longrightarrow> system_step W s s'"
| machine_reconciled: "runs_as (Machine_Reconcile (sh_env W) now rp req) r l \<Longrightarrow> traced (interferes W) (sh_step W) s l s' \<Longrightarrow>
    system_step W s s'"

definition store_laws :: "('s, 'w) shared \<Rightarrow> bool" where
  "store_laws W \<longleftrightarrow> object_store (sh_step W) (sh_host W) (sh_machine W) (sh_uids W)"

lemma other_event_harmless: "other_event W e \<Longrightarrow> harmless e"
  by (induction rule: other_event.induct)
    (blast dest: runs_as_wp [OF _ Host_Reconcile_harmless] runs_as_wp [OF _ Registration_Reconcile_harmless]
      runs_as_wp [OF _ Cluster_Reconcile_harmless] runs_as_wp [OF _ api_serve_harmless])+

lemma interferes_keeps_owners:
  assumes "store_laws W" and "interferes W s s'"
  shows "keeps_owners (sh_host W) (sh_machine W) (sh_uids W) s s'"
  using assms(2)
proof cases
  case (other_step e)
  with object_store.step_keeps_owners [OF assms(1) [unfolded store_laws_def] other_step(2)] show ?thesis
    by (blast intro: other_event_harmless)
qed

section \<open>The runs of a machine\<close>

lemma machine_key_steps [simp]:
  "ObjectKeyFromObject (m\<lparr>mReady := b\<rparr>) = ObjectKeyFromObject m"
  "ObjectKeyFromObject (m\<lparr>mHostRef := r\<rparr>) = ObjectKeyFromObject m"
  "ObjectKeyFromObject (m\<lparr>mProviderID := p\<rparr>) = ObjectKeyFromObject m"
  "ObjectKeyFromObject (AddFinalizer f m) = ObjectKeyFromObject m"
  "ObjectKeyFromObject (RemoveFinalizer f m) = ObjectKeyFromObject m"
  "ObjectKeyFromObject (machine_Set now c m) = ObjectKeyFromObject m"
  "ObjectKeyFromObject (machine_SetSummary now m) = ObjectKeyFromObject m"
  "ObjectKeyFromObject (not_associated now reason msg m) = ObjectKeyFromObject m"
  for m :: elementalMachine
  by (simp_all add: ObjectKeyFromObject_def AddFinalizer_def RemoveFinalizer_def not_associated_def)

definition same_key :: "elementalMachine \<Rightarrow> reconcileResult \<times> elementalMachine \<Rightarrow> event list \<Rightarrow> bool" where
  "same_key em out l \<longleftrightarrow> ObjectKeyFromObject (snd out) = ObjectKeyFromObject em"

lemma machine_setProviderID_key:
  "wp (machine_setProviderID E now em cluster) (\<lambda>out l. ObjectKeyFromObject (snd out) = ObjectKeyFromObject em)"
  unfolding machine_setProviderID_def Let_def
  by (intro wp_intros wp_mono [OF wp_SetProviderID]) auto

lemma findAvailableHost_ends: "wp (findAvailableHost E em) (\<lambda>_ _. True)"
  unfolding findAvailableHost_def lookUpAlreadyLinkedHost_def lookUpNewAvailableHost_def kListElementalHosts_def Let_def
  by (intro wp_intros) simp_all

lemma linkElementalHost_ends: "wp (linkElementalHostToElementalMachine E machine em h) (\<lambda>_ _. True)"
  unfolding linkElementalHostToElementalMachine_def Let_def by (intro wp_intros) simp_all

lemma associateElementalHost_key: "wp (associateElementalHost E now rp em machine) (same_key em)"
  unfolding associateElementalHost_def Let_def
  by (intro wp_intros wp_mono [OF findAvailableHost_ends] wp_mono [OF linkElementalHost_ends]) (simp_all add: same_key_def)

lemma machine_reconcileNormal_key: "wp (machine_reconcileNormal E now rp cluster em machine) (same_key em)"
  unfolding machine_reconcileNormal_def Let_def
  by (intro wp_intros wp_mono [OF associateElementalHost_key] wp_mono [OF machine_setProviderID_key]) (auto simp: same_key_def)

lemma machine_reconcileDelete_key: "wp (machine_reconcileDelete E em) (same_key em)"
  unfolding machine_reconcileDelete_def by (intro wp_intros) (auto simp: same_key_def)

lemma machine_body_key: "wp (machine_body E now rp em) (same_key em)"
  unfolding machine_body_def Let_def
  by (intro wp_intros wp_mono [OF wp_GetOwnerMachine] wp_mono [OF wp_GetClusterFromMetadata]
      wp_mono [OF machine_reconcileNormal_key] wp_mono [OF machine_reconcileDelete_key]) (auto simp: same_key_def)

text \<open>
  What the body of a reconciliation does to owners: nothing, or it hands out one listed host as its last call, and the machine
  refers to that host exactly when the call succeeded.
\<close>

definition hands_out :: "elementalMachine \<Rightarrow> elementalMachine \<Rightarrow> event list \<Rightarrow> bool" where
  "hands_out em em' body \<longleftrightarrow> (\<exists>l1 machine h h' r. body = l1 @ [EvPatchElementalHost h h' r] \<and>
     (\<forall>e \<in> set l1. \<not> is_write e) \<and> listed em h l1 \<and> candidate_ok em h \<and> linked_to machine em h h' \<and>
     mHostRef em' = (if r = None then Some (host_reference h) else None))"

definition machine_effect :: "elementalMachine \<Rightarrow> elementalMachine \<Rightarrow> event list \<Rightarrow> bool" where
  "machine_effect em em' body \<longleftrightarrow> ObjectKeyFromObject em' = ObjectKeyFromObject em \<and>
     ((\<forall>e \<in> set body. harmless e) \<and> (mHostRef em' = mHostRef em \<or> mHostRef em' = None) \<or> hands_out em em' body)"

lemma owners_read_reads: "owners_read machine c l \<Longrightarrow> \<forall>e \<in> set l. \<not> is_write e"
  by (auto simp: owners_read_def list_all_iff lookup_no_write)

lemma provider_id_set_harmless:
  assumes "provider_id_set k n p err l"
  shows "\<forall>e \<in> set l. harmless e"
proof -
  from assms have "writes l = [] \<or> (\<exists>k n n' r. writes l = [EvRemotePatchNode k n n' r])"
    unfolding provider_id_set_def by blast
  then show ?thesis by (intro harmless_writes) auto
qed

lemma tracks_host_harmless:
  "tracks_host rp c ref em res em' l \<Longrightarrow> (\<forall>e \<in> set l. harmless e) \<and> (mHostRef em' = mHostRef em \<or> mHostRef em' = None)"
  by (erule tracks_host.cases) (auto dest: provider_id_set_harmless)

lemma releases_host_harmless:
  assumes "releases_host em res em' l"
  shows "(\<forall>e \<in> set l. harmless e) \<and> mHostRef em' = mHostRef em"
proof -
  have "harmless (EvPatchElementalHost h (put_label LabelElementalHostNeedsReset ''true'' (init_labels h)) r)" for h r
    using owner_labels_distinct by (simp add: host_simps)
  with assms show ?thesis
    unfolding releases_host_def same_machine_def
    by (cases "mHostRef em") (auto simp del: harmless.simps(1) split: if_splits)
qed

lemma machine_run_effect:
  assumes "machine_run rp em res em' body"
  shows "(\<forall>e \<in> set body. harmless e) \<and> (mHostRef em' = mHostRef em \<or> mHostRef em' = None) \<or> hands_out em em' body"
proof -
  consider "list_all lookup_event body" "mHostRef em' = mHostRef em"
    | machine c l0 l where "body = l0 @ l" "owners_read machine c l0" "works_with_host rp machine c em res em' l"
    | machine c l0 l where "body = l0 @ l" "owners_read machine c l0" "releases_host em res em' l"
    using assms unfolding machine_run_def by (cases "notDeleted em") auto
  then show ?thesis
  proof cases
    case 1
    then show ?thesis by (auto simp: list_all_iff harmless_lookup)
  next
    case 2
    note l0 = owners_read_reads [OF 2(2)]
    show ?thesis
    proof (cases "mHostRef em")
      case (Some ref)
      with 2(3) have "tracks_host rp c ref em res em' l" by (simp add: works_with_host_def)
      from tracks_host_harmless [OF this] l0 show ?thesis by (auto simp: 2(1) harmless_reads)
    next
      case None
      with 2(3) have "associates machine em res em' l" by (simp add: works_with_host_def)
      then show ?thesis
        unfolding associates_def
      proof (elim conjE disjE exE)
        assume "writes l = []" "mHostRef em' = None"
        with l0 show ?thesis by (auto simp: 2(1) harmless_reads filter_empty_conv)
      next
        fix l1 h h' r
        assume l: "l = l1 @ [EvPatchElementalHost h h' r]" "writes l1 = []"
          and h: "listed em h l1" "candidate_ok em h" "linked_to machine em h h'"
            "mHostRef em' = (if r = None then Some (host_reference h) else None)"
        from l(2) l0 have "\<forall>e \<in> set (l0 @ l1). \<not> is_write e" by (auto simp: filter_empty_conv)
        with h have "hands_out em em' ((l0 @ l1) @ [EvPatchElementalHost h h' r])"
          unfolding hands_out_def by (intro exI conjI) (rule refl, simp_all)
        then show ?thesis by (simp add: 2(1) l(1))
      qed
    qed
  next
    case 3
    from owners_read_reads [OF 3(2)] releases_host_harmless [OF 3(3)] show ?thesis
      by (auto simp: 3(1) harmless_reads)
  qed
qed

lemma Machine_Reconcile_effect:
  assumes "lists_honour_selectors E"
  shows "wp (Machine_Reconcile E now rp req) (machine_reconciles_once req (\<lambda>_ before body after. machine_effect before after body))"
proof (rule machineR.wp_reconcile, rule wp_mono [OF wp_conj [OF wp_machine_body [OF assms] machine_body_key]])
  fix em out l
  assume "machine_run rp em (fst out) (snd out) l \<and> same_key em out l"
  then show "machine_effect em (machine_SetSummary now (snd out)) l"
    using machine_run_effect [of rp em "fst out" "snd out" l]
    by (simp add: machine_effect_def same_key_def hands_out_def)
qed

end
