(* ===== verification/Ownership_Invariant.thy ===== *)
theory Ownership_Invariant
  imports Host_Ownership
begin

text \<open>
  The invariant of the shared store: a machine that refers to a host owns it, by the labels of that host, as long as the host
  exists. With it, no two machines share a host. It holds because the machine controller lists hosts as they are, runs one
  reconciliation at a time, and nobody else writes those labels.
\<close>

section \<open>Owned hosts\<close>

definition claimed :: "elementalHost \<Rightarrow> objectKey \<Rightarrow> bool" where
  "claimed h k \<longleftrightarrow> oNamespace h = keyNamespace k \<and> gget (oLabels h) LabelElementalHostMachineName \<noteq> None \<and>
     gget (oLabels h) LabelElementalHostElementalMachineName = Some (keyName k)"

definition references_owned ::
  "('s \<Rightarrow> objectKey \<Rightarrow> elementalHost option) \<Rightarrow> ('s \<Rightarrow> objectKey \<Rightarrow> elementalMachine option) \<Rightarrow> ('s \<Rightarrow> string set) \<Rightarrow> 's \<Rightarrow> bool"
where
  "references_owned host_at machine_at uids s \<longleftrightarrow> (\<forall>k m ref. machine_at s k = Some m \<and> mHostRef m = Some ref \<longrightarrow>
     refUID ref \<in> uids s \<and> (\<forall>h. host_at s (refKey ref) = Some h \<and> oUID h = refUID ref \<longrightarrow> claimed h k))"

text \<open>While a machine is being given the host \<open>h\<close>: what is left of \<open>h\<close> is as it was listed, when \<open>us\<close> were the identifiers.\<close>

definition as_listed ::
  "('s \<Rightarrow> objectKey \<Rightarrow> elementalHost option) \<Rightarrow> ('s \<Rightarrow> objectKey \<Rightarrow> elementalMachine option) \<Rightarrow> ('s \<Rightarrow> string set) \<Rightarrow>
    elementalHost \<Rightarrow> string set \<Rightarrow> 's \<Rightarrow> bool"
where
  "as_listed host_at machine_at uids h us s \<longleftrightarrow> us \<subseteq> uids s \<and> oUID h \<in> us \<and>
     (\<forall>g. host_at s (ObjectKeyFromObject h) = Some g \<longrightarrow> same_owner h g \<or> oUID g \<notin> us) \<and>
     (\<forall>k m ref. machine_at s k = Some m \<and> mHostRef m = Some ref \<longrightarrow> refUID ref \<in> us)"

text \<open>After it: the host belongs to the machine \<open>k\<close>, unless it is gone.\<close>

definition awarded ::
  "('s \<Rightarrow> objectKey \<Rightarrow> elementalHost option) \<Rightarrow> ('s \<Rightarrow> string set) \<Rightarrow> elementalHost \<Rightarrow> objectKey \<Rightarrow> string set \<Rightarrow> 's \<Rightarrow> bool"
where
  "awarded host_at uids h k us s \<longleftrightarrow> us \<subseteq> uids s \<and> oUID h \<in> us \<and>
     (\<forall>g. host_at s (ObjectKeyFromObject h) = Some g \<longrightarrow> claimed g k \<or> oUID g \<notin> us)"

lemma refKey_reference [simp]: "refKey (host_reference h) = ObjectKeyFromObject h" "refUID (host_reference h) = oUID h"
  by (simp_all add: refKey_def host_reference_def ObjectKeyFromObject_def)

lemma key_namespace: "ObjectKeyFromObject h = k \<Longrightarrow> keyNamespace k = oNamespace h" "ObjectKeyFromObject h = k \<Longrightarrow> keyName k = oName h"
  by (auto simp: ObjectKeyFromObject_def)

lemma same_owner_claimed: "same_owner h g \<Longrightarrow> oNamespace g = oNamespace h \<Longrightarrow> claimed h k \<Longrightarrow> claimed g k"
  by (simp add: same_owner_def claimed_def)

context object_store
begin

abbreviation "keeps \<equiv> keeps_owners host_at machine_at uids"
abbreviation "owned \<equiv> references_owned host_at machine_at uids"

lemma same_namespace: "host_at s k = Some h \<Longrightarrow> host_at s' k = Some g \<Longrightarrow> oNamespace g = oNamespace h"
  using host_key [of s k h] host_key [of s' k g] key_namespace(1) by metis

lemma keeps_claimed:
  assumes "keeps s s'" and "host_at s' k = Some g" and "oUID g \<in> uids s"
  obtains h where "host_at s k = Some h" "same_owner h g" "\<And>k'. claimed h k' \<Longrightarrow> claimed g k'"
proof -
  from assms obtain h where "host_at s k = Some h" "same_owner h g" unfolding keeps_defs by blast
  with that show ?thesis using same_owner_claimed same_namespace [OF _ assms(2)] by blast
qed

lemma keeps_owned:
  assumes keeps: "keeps s s'" and owned: "owned s"
  shows "owned s'"
  unfolding references_owned_def
proof (intro allI impI)
  fix k m ref
  assume "machine_at s' k = Some m \<and> mHostRef m = Some ref"
  with keeps obtain m0 where m0: "machine_at s k = Some m0" "mHostRef m0 = Some ref"
    unfolding keeps_defs by blast
  with owned have ref: "refUID ref \<in> uids s" unfolding references_owned_def by blast
  have "claimed g k" if g: "host_at s' (refKey ref) = Some g" "oUID g = refUID ref" for g
  proof -
    from ref g(2) have "oUID g \<in> uids s" by simp
    from keeps_claimed [OF keeps g(1) this] obtain h where h: "host_at s (refKey ref) = Some h" "same_owner h g"
      "\<And>k'. claimed h k' \<Longrightarrow> claimed g k'" by blast
    from h(2) g(2) have "oUID h = refUID ref" by (simp add: same_owner_def)
    with h(1) m0 owned have "claimed h k" unfolding references_owned_def by blast
    then show ?thesis by (rule h(3))
  qed
  with keeps ref show "refUID ref \<in> uids s' \<and> (\<forall>h. host_at s' (refKey ref) = Some h \<and> oUID h = refUID ref \<longrightarrow> claimed h k)"
    unfolding keeps_defs by blast
qed

lemma listed_now:
  assumes "owned s" and "host_at s (ObjectKeyFromObject h) = Some h"
  shows "as_listed host_at machine_at uids h (uids s) s"
  using assms host_uid [OF assms(2)] unfolding as_listed_def references_owned_def by auto

lemma keeps_listed:
  assumes keeps: "keeps s s'" and "as_listed host_at machine_at uids h us s"
  shows "as_listed host_at machine_at uids h us s'"
proof -
  from assms have us: "us \<subseteq> uids s" "us \<subseteq> uids s'" "oUID h \<in> us"
    unfolding as_listed_def keeps_defs by auto
  have "same_owner h g \<or> oUID g \<notin> us" if g: "host_at s' (ObjectKeyFromObject h) = Some g" for g
  proof (cases "oUID g \<in> uids s")
    case True
    from keeps_claimed [OF keeps g True] obtain h0 where h0: "host_at s (ObjectKeyFromObject h) = Some h0" "same_owner h0 g"
      by blast
    with assms(2) have "same_owner h h0 \<or> oUID h0 \<notin> us" unfolding as_listed_def by blast
    with h0(2) show ?thesis using same_owner_trans by (metis same_owner_def)
  next
    case False
    with us show ?thesis by blast
  qed
  moreover have "refUID ref \<in> us" if "machine_at s' k = Some m" "mHostRef m = Some ref" for k m ref
    using assms that unfolding as_listed_def keeps_defs by blast
  ultimately show ?thesis using us unfolding as_listed_def by blast
qed

lemma keeps_awarded:
  assumes keeps: "keeps s s'" and "awarded host_at uids h k us s"
  shows "awarded host_at uids h k us s'"
proof -
  from assms have us: "us \<subseteq> uids s" "us \<subseteq> uids s'" "oUID h \<in> us"
    unfolding awarded_def keeps_defs by auto
  have "claimed g k \<or> oUID g \<notin> us" if g: "host_at s' (ObjectKeyFromObject h) = Some g" for g
  proof (cases "oUID g \<in> uids s")
    case True
    from keeps_claimed [OF keeps g True] obtain h0 where h0: "host_at s (ObjectKeyFromObject h) = Some h0" "same_owner h0 g"
      "\<And>k'. claimed h0 k' \<Longrightarrow> claimed g k'" by blast
    with assms(2) have "claimed h0 k \<or> oUID h0 \<notin> us" unfolding awarded_def by blast
    with h0 show ?thesis by (metis same_owner_def)
  next
    case False
    with us show ?thesis by blast
  qed
  with us show ?thesis unfolding awarded_def by blast
qed

text \<open>The call that hands the host out.\<close>

lemma merged_claims:
  assumes "candidate_ok em h" and linked: "linked_to machine em h h'" and "same_owner h cur" and merged: "host_merged h h' cur g"
    and ns: "oNamespace g = oNamespace em"
  shows "claimed g (ObjectKeyFromObject em)"
proof -
  have h': "gget (oLabels h') LabelElementalHostMachineName = Some (oName machine)"
    "gget (oLabels h') LabelElementalHostElementalMachineName = Some (oName em)"
    using linked by (simp_all add: linked_to_def)
  have g: "gget (oLabels g) l = (if gget (oLabels h') l = gget (oLabels h) l then gget (oLabels cur) l else gget (oLabels h') l)" for l
    using merged by (simp add: host_merged_def merges_def)
  have "gget (oLabels g) l = Some v"
    if "gget (oLabels h') l = Some v" "gget (oLabels cur) l = gget (oLabels h) l" for l v
    using that g [of l] by (cases "gget (oLabels h) l = Some v") simp_all
  with assms(3) h' ns show ?thesis
    by (simp add: claimed_def same_owner_def ObjectKeyFromObject_def)
qed

lemma claimed_candidate:
  assumes "candidate_ok em h" and "same_owner h cur" and "oNamespace cur = oNamespace h" and "claimed cur k"
  shows "k = ObjectKeyFromObject em"
  using assms by (cases k) (auto simp: candidate_ok_def claimed_def same_owner_def ObjectKeyFromObject_def)

lemma merged_key: "host_merged h h' cur g \<Longrightarrow> oNamespace g = oNamespace cur \<and> oUID g = oUID cur"
  by (simp add: host_merged_def ObjectKeyFromObject_def)

lemma hand_out_step:
  assumes step: "step s (EvPatchElementalHost h h' r) s'" and owned: "owned s"
    and listed: "as_listed host_at machine_at uids h us s" and ok: "candidate_ok em h" "linked_to machine em h h'"
  shows "owned s'" "r = None \<Longrightarrow> awarded host_at uids h (ObjectKeyFromObject em) us s'"
proof -
  have h': "ObjectKeyFromObject h' = ObjectKeyFromObject h"
    using ok(2) by (simp add: linked_to_def host_reference_def ObjectKeyFromObject_def)
  from listed have us: "us \<subseteq> uids s" "oUID h \<in> us" unfolding as_listed_def by auto
  from us(1) uids_grow [OF step] have us': "us \<subseteq> uids s'" by blast
  have given: "claimed g (ObjectKeyFromObject em) \<and> (\<forall>k. claimed cur k \<longrightarrow> k = ObjectKeyFromObject em)"
    if cur: "host_at s (ObjectKeyFromObject h) = Some cur" and g: "host_merged h h' cur g" "oUID g \<in> us" for cur g
  proof -
    from g merged_key [OF g(1)] listed cur have same: "same_owner h cur" unfolding as_listed_def by auto
    have "oNamespace cur = oNamespace h" using host_key [OF cur] by (simp add: ObjectKeyFromObject_def)
    with same g(1) merged_key [OF g(1)] ok show ?thesis
      using merged_claims [OF ok same g(1)] claimed_candidate [OF ok(1) same] by (simp add: candidate_ok_def)
  qed
  show "owned s'"
    unfolding references_owned_def
  proof (intro allI impI)
    fix k m ref
    assume "machine_at s' k = Some m \<and> mHostRef m = Some ref"
    with other_machines [OF step] have m: "machine_at s k = Some m" "mHostRef m = Some ref" by auto
    with owned listed have ref: "refUID ref \<in> uids s" "refUID ref \<in> us"
      and claimed: "\<And>g. host_at s (refKey ref) = Some g \<Longrightarrow> oUID g = refUID ref \<Longrightarrow> claimed g k"
      unfolding references_owned_def as_listed_def by blast+
    have "claimed g k" if g: "host_at s' (refKey ref) = Some g" "oUID g = refUID ref" for g
    proof (cases "host_at s (refKey ref) = Some g")
      case True
      with claimed g(2) show ?thesis by blast
    next
      case False
      with patch_host [OF step g(1)] h' obtain cur where k: "refKey ref = ObjectKeyFromObject h"
        and cur: "host_at s (ObjectKeyFromObject h) = Some cur" and merged: "host_merged h h' cur g" by auto
      from given [OF cur merged] g(2) ref have g': "claimed g (ObjectKeyFromObject em)"
        "\<And>k. claimed cur k \<Longrightarrow> k = ObjectKeyFromObject em" by auto
      have "claimed cur k" using claimed cur k g(2) merged_key [OF merged] by simp
      with g' show ?thesis by blast
    qed
    with ref uids_grow [OF step]
    show "refUID ref \<in> uids s' \<and> (\<forall>h. host_at s' (refKey ref) = Some h \<and> oUID h = refUID ref \<longrightarrow> claimed h k)" by blast
  qed
  show "awarded host_at uids h (ObjectKeyFromObject em) us s'" if "r = None"
  proof -
    have "claimed g (ObjectKeyFromObject em) \<or> oUID g \<notin> us" if g: "host_at s' (ObjectKeyFromObject h) = Some g" for g
      using patch_host [OF step g] h' \<open>r = None\<close> given by auto
    with us' us(2) show ?thesis unfolding awarded_def by blast
  qed
qed

text \<open>The call that makes the machine refer to it.\<close>

lemma refer_step:
  assumes step: "step s (EvPatchElementalMachine m m' r) s'" and owned: "owned s"
    and awarded: "awarded host_at uids h (ObjectKeyFromObject m') us s" and ref: "mHostRef m' = Some (host_reference h)"
  shows "owned s'"
  unfolding references_owned_def
proof (intro allI impI)
  fix k n ref'
  assume n: "machine_at s' k = Some n \<and> mHostRef n = Some ref'"
  have hosts: "host_at s' k = Some g \<Longrightarrow> host_at s k = Some g" for k g by (rule other_hosts [OF step]) auto
  from patch_machine [OF step, of k n] n ref
  consider n0 where "machine_at s k = Some n0" "mHostRef n0 = Some ref'" | "k = ObjectKeyFromObject m'" "ref' = host_reference h"
    by (auto simp: merges_def split: if_splits)
  then show "refUID ref' \<in> uids s' \<and> (\<forall>h. host_at s' (refKey ref') = Some h \<and> oUID h = refUID ref' \<longrightarrow> claimed h k)"
  proof cases
    case (1 n0)
    with owned hosts uids_grow [OF step] show ?thesis unfolding references_owned_def by blast
  next
    case 2
    with awarded hosts uids_grow [OF step] show ?thesis unfolding awarded_def by auto
  qed
qed

text \<open>A whole run, with others between its calls.\<close>

lemma step_keeps: "step s e s' \<Longrightarrow> harmless e \<Longrightarrow> keeps s s'"
  by (rule step_keeps_owners)

lemma traced_keeps_all:
  assumes "\<And>s s'. others s s' \<Longrightarrow> keeps s s'" and "traced others step s l s'" and "\<forall>e \<in> set l. harmless e"
  shows "keeps s s'"
  by (rule traced_keeps [OF _ _ _ assms(2)]) (use assms(1,3) in \<open>auto intro: keeps_owners_trans step_keeps\<close>)

lemma others_keep: "(\<And>s s'. others s s' \<Longrightarrow> keeps s s') \<Longrightarrow> others\<^sup>*\<^sup>* s s' \<Longrightarrow> keeps s s'"
  using traced_keeps_all [of others s "[]" s'] by (simp add: traced_Nil)

lemma hand_out_traced:
  assumes others: "\<And>s s'. others s s' \<Longrightarrow> keeps s s'" and owned: "owned s"
    and run: "traced others step s (l1 @ [EvPatchElementalHost h h' r, EvPatchElementalMachine m m' r']) s'"
    and reads: "\<forall>e \<in> set l1. \<not> is_write e" and listed: "listed m h l1" and ok: "candidate_ok m h" "linked_to machine m h h'"
    and ref: "mHostRef m' = (if r = None then Some (host_reference h) else None)"
    and key: "ObjectKeyFromObject m' = ObjectKeyFromObject m"
  shows "owned s'"
proof -
  have keep: "keeps s s'" if "others\<^sup>*\<^sup>* s s'" for s s' by (rule others_keep [OF _ that]) (rule others)
  have reads_keep: "keeps s s'" if "traced others step s l s'" "\<forall>e \<in> set l. harmless e" for s l s'
    by (rule traced_keeps_all [OF _ that]) (rule others)
  from listed obtain sel hs where "EvListElementalHosts (oNamespace m) sel (Inr hs) \<in> set l1" and hs: "h \<in> set hs"
    unfolding listed_def by blast
  then obtain a b where l1: "l1 = a @ EvListElementalHosts (oNamespace m) sel (Inr hs) # b" by (meson split_list)
  from run obtain t0 t1 t2 t3 t4 t5 t6 t7 where a: "traced others step s a t0" "others\<^sup>*\<^sup>* t0 t1"
    and list: "step t1 (EvListElementalHosts (oNamespace m) sel (Inr hs)) t2"
    and b: "traced others step t2 b t3" "others\<^sup>*\<^sup>* t3 t4" and give: "step t4 (EvPatchElementalHost h h' r) t5"
    and "others\<^sup>*\<^sup>* t5 t6" and refer: "step t6 (EvPatchElementalMachine m m' r') t7" and "others\<^sup>*\<^sup>* t7 s'"
    unfolding l1 append_assoc append_Cons append_Nil traced_append traced_Cons traced_Nil by blast
  have ab: "\<forall>e \<in> set a. harmless e" "\<forall>e \<in> set b. harmless e" using reads by (auto simp: l1 harmless_reads)
  have "owned t1"
    using owned reads_keep [OF a(1) ab(1)] keep [OF a(2)] by (blast intro: keeps_owned)
  moreover have "keeps t1 t4"
    using step_keeps [OF list] reads_keep [OF b(1) ab(2)] keep [OF b(2)]
    by (auto intro: keeps_owners_trans)
  ultimately have t4: "owned t4" "as_listed host_at machine_at uids h (uids t1) t4"
    using keeps_listed listed_now [OF _ lists_current [OF list hs]] keeps_owned by blast+
  note given = hand_out_step [OF give t4 ok]
  have "owned t6" using keeps_owned [OF keep [OF \<open>others\<^sup>*\<^sup>* t5 t6\<close>] given(1)] .
  have "owned t7"
  proof (cases "r = None")
    case True
    with ref refer_step [OF refer \<open>owned t6\<close>] keeps_awarded [OF keep [OF \<open>others\<^sup>*\<^sup>* t5 t6\<close>] given(2)] key show ?thesis by simp
  next
    case False
    with ref step_keeps [OF refer] show ?thesis by (simp add: keeps_owned [OF _ \<open>owned t6\<close>])
  qed
  then show ?thesis by (rule keeps_owned [OF keep [OF \<open>others\<^sup>*\<^sup>* t7 s'\<close>]])
qed

lemma machine_run_owned:
  assumes others: "\<And>s s'. others s s' \<Longrightarrow> keeps s s'" and owned: "owned s" and run: "traced others step s l s'"
    and shape: "machine_reconciles_once req (\<lambda>_ before body after. machine_effect before after body) res l"
  shows "owned s'"
proof (cases "\<forall>e \<in> set l. harmless e")
  case True
  have "keeps s s'" by (rule traced_keeps_all [OF _ run True]) (rule others)
  then show ?thesis using owned by (rule keeps_owned)
next
  case False
  with shape obtain before body after r where l: "l = EvGetElementalMachine req (Inr before) #
      EvNewPatchHelper ''ElementalMachine'' (ObjectKeyFromObject before) None # body @ [EvPatchElementalMachine before after r]"
    and effect: "machine_effect before after body"
    unfolding reconciles_once_def by auto
  with False have "hands_out before after body" by (auto simp: machine_effect_def)
  then obtain l1 machine h h' r0 where body: "body = l1 @ [EvPatchElementalHost h h' r0]" and l1: "\<forall>e \<in> set l1. \<not> is_write e"
    and h: "listed before h l1" "candidate_ok before h" "linked_to machine before h h'"
    and ref: "mHostRef after = (if r0 = None then Some (host_reference h) else None)"
    unfolding hands_out_def by blast
  let ?l1 = "EvGetElementalMachine req (Inr before) #
    EvNewPatchHelper ''ElementalMachine'' (ObjectKeyFromObject before) None # l1"
  from h(1) have "listed before h ?l1" by (auto simp: listed_def)
  moreover from effect have "ObjectKeyFromObject after = ObjectKeyFromObject before" by (simp add: machine_effect_def)
  ultimately show ?thesis
    by (intro hand_out_traced [where ?l1.0 = ?l1 and others = others and m = before and m' = after and h' = h' and r' = r, OF _ owned])
      (use others run l1 h ref in \<open>simp_all add: l body\<close>)
qed

end

section \<open>The system keeps it\<close>

lemma system_step_owned:
  assumes laws: "store_laws W" and E: "lists_honour_selectors (sh_env W)" and step: "system_step W s s'"
    and owned: "references_owned (sh_host W) (sh_machine W) (sh_uids W) s"
  shows "references_owned (sh_host W) (sh_machine W) (sh_uids W) s'"
proof -
  note store = laws [unfolded store_laws_def]
  from step show ?thesis
  proof cases
    case interference
    show ?thesis by (rule object_store.keeps_owned [OF store interferes_keeps_owners [OF laws interference] owned])
  next
    case (machine_reconciled now rp req r l)
    show ?thesis
      by (rule object_store.machine_run_owned [OF store _ owned machine_reconciled(2)
        runs_as_wp [OF machine_reconciled(1) Machine_Reconcile_effect [OF E]]]) (rule interferes_keeps_owners [OF laws])
  qed
qed

lemma system_owned:
  assumes "store_laws W" and "lists_honour_selectors (sh_env W)" and "(system_step W)\<^sup>*\<^sup>* s s'"
    and "references_owned (sh_host W) (sh_machine W) (sh_uids W) s"
  shows "references_owned (sh_host W) (sh_machine W) (sh_uids W) s'"
  using assms(3,4) by (induction rule: rtranclp_induct) (auto intro: system_step_owned [OF assms(1,2)])

definition refers :: "('s, 'w) shared \<Rightarrow> 's \<Rightarrow> objectKey \<Rightarrow> elementalHost \<Rightarrow> bool" where
  "refers W s k h \<longleftrightarrow> (\<exists>m ref. sh_machine W s k = Some m \<and> mHostRef m = Some ref \<and> sh_host W s (refKey ref) = Some h \<and>
     refUID ref = oUID h)"


section \<open>The identity of a host\<close>

definition same_identity :: "elementalHost \<Rightarrow> elementalHost \<Rightarrow> bool" where
  "same_identity h h' \<longleftrightarrow> oUID h' = oUID h \<and> hPubKey h' = hPubKey h"

fun keeps_key :: "event \<Rightarrow> bool" where
  "keeps_key (EvPatchElementalHost h h' r) \<longleftrightarrow> hPubKey h' = hPubKey h"
| "keeps_key _ \<longleftrightarrow> True"

lemma harmless_keeps_key: "harmless e \<Longrightarrow> keeps_key e"
  by (cases e) auto

lemma machine_keeps_key:
  assumes "machine_reconciles_once req (\<lambda>_ before body after. machine_effect before after body) res l"
  shows "\<forall>e \<in> set l. keeps_key e"
  using assms unfolding reconciles_once_def machine_effect_def hands_out_def linked_to_def
  by (auto simp: harmless_keeps_key harmless_reads)

lemma identity_trans: "same_identity a b \<Longrightarrow> same_identity b c \<Longrightarrow> same_identity a c"
  by (simp add: same_identity_def)

context object_store
begin

abbreviation "keeps_identities \<equiv> keeps_hosts same_identity host_at uids"

lemma identities_trans: "keeps_identities a b \<Longrightarrow> keeps_identities b c \<Longrightarrow> keeps_identities a c"
  by (rule keeps_hosts_trans) (auto intro: identity_trans simp: same_identity_def)

lemma identities_refl: "keeps_identities s s"
  by (rule keeps_hosts_refl) (simp add: same_identity_def)

lemma step_keeps_identities: "step s e s' \<Longrightarrow> keeps_key e \<Longrightarrow> keeps_identities s s'"
  by (erule step_keeps_hosts) (auto simp: same_identity_def host_merged_def merges_def)

lemma owners_identities: "keeps s s' \<Longrightarrow> keeps_identities s s'"
  unfolding keeps_owners_def by (auto intro: keeps_hosts_mono simp: same_identity_def same_owner_def)

lemma traced_keeps_identities:
  "(\<And>s s'. others s s' \<Longrightarrow> keeps s s') \<Longrightarrow> traced others step s l s' \<Longrightarrow> \<forall>e \<in> set l. keeps_key e \<Longrightarrow> keeps_identities s s'"
  by (erule traced_keeps [rotated 3]) (auto intro: identities_trans identities_refl step_keeps_identities owners_identities)

end

lemma system_keeps_identities:
  assumes laws: "store_laws W" and E: "lists_honour_selectors (sh_env W)" and run: "(system_step W)\<^sup>*\<^sup>* s s'"
  shows "keeps_hosts same_identity (sh_host W) (sh_uids W) s s'"
proof -
  note store = laws [unfolded store_laws_def]
  have one: "keeps_hosts same_identity (sh_host W) (sh_uids W) s s'" if "system_step W s s'" for s s'
    using that
  proof cases
    case interference
    show ?thesis by (rule object_store.owners_identities [OF store interferes_keeps_owners [OF laws interference]])
  next
    case (machine_reconciled now rp req r l)
    have keys: "\<forall>e \<in> set l. keeps_key e"
      by (rule machine_keeps_key [OF runs_as_wp [OF machine_reconciled(1) Machine_Reconcile_effect [OF E]]])
    show ?thesis
      by (rule object_store.traced_keeps_identities [OF store _ machine_reconciled(2) keys]) (rule interferes_keeps_owners [OF laws])
  qed
  from run show ?thesis
  proof (induction rule: rtranclp_induct)
    case base
    show ?case by (rule object_store.identities_refl [OF store])
  next
    case (step s1 s2)
    show ?case by (rule object_store.identities_trans [OF store step.IH one [OF step.hyps(2)]])
  qed
qed


end
