(* ===== verification/Reset_Marks.thy ===== *)
theory Reset_Marks
  imports Ownership_Invariant
begin

text \<open>
  A host that served a machine must be reset before it serves another one. The mark for it is the label the machine controller sets
  when it releases a host: no controller and no request takes it away, and no machine is given a host that has it.
\<close>

section \<open>Marks\<close>

definition marked :: "elementalHost \<Rightarrow> bool" where
  "marked h \<longleftrightarrow> gget (oLabels h) LabelElementalHostNeedsReset \<noteq> None"

definition same_mark :: "elementalHost \<Rightarrow> elementalHost \<Rightarrow> bool" where
  "same_mark h h' \<longleftrightarrow> oUID h' = oUID h \<and> (marked h \<longrightarrow> marked h')"

fun keeps_mark :: "event \<Rightarrow> bool" where
  "keeps_mark (EvPatchElementalHost h h' r) \<longleftrightarrow> (marked h \<longrightarrow> marked h')"
| "keeps_mark _ \<longleftrightarrow> True"

lemma keeps_mark_reads: "\<not> is_write e \<Longrightarrow> keeps_mark e"
  by (cases e) auto

lemma host_merged_mark: "host_merged h h' cur g \<Longrightarrow> (marked h \<longrightarrow> marked h') \<Longrightarrow> same_mark cur g"
  by (auto simp: host_merged_def merges_def same_mark_def marked_def split: if_splits)

lemma same_mark_refl [simp]: "same_mark h h"
  by (simp add: same_mark_def)

lemma same_mark_trans: "same_mark a b \<Longrightarrow> same_mark b c \<Longrightarrow> same_mark a c"
  by (simp add: same_mark_def)

text \<open>A reference to a host that was not there yet, or not marked.\<close>

definition unmarked_ref ::
  "('s \<Rightarrow> objectKey \<Rightarrow> elementalHost option) \<Rightarrow> ('s \<Rightarrow> string set) \<Rightarrow> 's \<Rightarrow> objectReference \<Rightarrow> bool"
where
  "unmarked_ref host_at uids s ref \<longleftrightarrow> refUID ref \<notin> uids s \<or>
     (\<exists>h. host_at s (refKey ref) = Some h \<and> oUID h = refUID ref \<and> \<not> marked h)"

text \<open>A change that keeps marks and gives machines no references but to such hosts, and those in \<open>R\<close>.\<close>

definition keeps_marks ::
  "objectReference set \<Rightarrow> ('s \<Rightarrow> objectKey \<Rightarrow> elementalHost option) \<Rightarrow> ('s \<Rightarrow> objectKey \<Rightarrow> elementalMachine option) \<Rightarrow>
    ('s \<Rightarrow> string set) \<Rightarrow> 's \<Rightarrow> 's \<Rightarrow> bool"
where
  "keeps_marks R host_at machine_at uids s s' \<longleftrightarrow> keeps_hosts same_mark host_at uids s s' \<and>
     (\<forall>k m ref. machine_at s' k = Some m \<and> mHostRef m = Some ref \<longrightarrow>
        (\<exists>cur. machine_at s k = Some cur \<and> mHostRef cur = Some ref) \<or> unmarked_ref host_at uids s ref \<or> ref \<in> R)"

lemma unmarked_ref_before:
  assumes "keeps_hosts same_mark H U s s1" and "unmarked_ref H U s1 ref"
  shows "unmarked_ref H U s ref"
proof (cases "refUID ref \<in> U s")
  case True
  with assms obtain h where h: "H s1 (refKey ref) = Some h" "oUID h = refUID ref" "\<not> marked h"
    unfolding unmarked_ref_def keeps_hosts_def by blast
  with assms(1) True obtain cur where "H s (refKey ref) = Some cur" "same_mark cur h"
    unfolding keeps_hosts_def by metis
  with h show ?thesis unfolding unmarked_ref_def same_mark_def by auto
qed (simp add: unmarked_ref_def)

lemma keeps_marks_refl: "keeps_marks R H M U s s"
  unfolding keeps_marks_def by (auto intro: keeps_hosts_refl)

lemma keeps_marks_trans:
  assumes 1: "keeps_marks R H M U s s1" and 2: "keeps_marks R H M U s1 s2"
  shows "keeps_marks R H M U s s2"
proof -
  have "keeps_hosts same_mark H U s s2"
    by (rule keeps_hosts_trans [where same = same_mark and ?s1.0 = s1])
      (use 1 2 in \<open>auto simp: keeps_marks_def same_mark_def\<close>)
  moreover have "keeps_hosts same_mark H U s s1" using 1 by (simp add: keeps_marks_def)
  ultimately show ?thesis
    using 1 2 unmarked_ref_before unfolding keeps_marks_def by metis
qed

lemma keeps_marks_mono: "keeps_marks R H M U s s' \<Longrightarrow> R \<subseteq> R' \<Longrightarrow> keeps_marks R' H M U s s'"
  unfolding keeps_marks_def by blast

text \<open>The patches of machines that hand out no reference but one of \<open>R\<close>.\<close>

fun refers_within :: "objectReference set \<Rightarrow> event \<Rightarrow> bool" where
  "refers_within R (EvPatchElementalMachine m m' r) \<longleftrightarrow> mHostRef m' = mHostRef m \<or> mHostRef m' \<in> insert None (Some ` R)"
| "refers_within R _ \<longleftrightarrow> True"

lemma harmless_refers: "harmless e \<Longrightarrow> refers_within R e"
  by (cases e) auto

context object_store
begin

abbreviation "keeps_marks_of R \<equiv> keeps_marks R host_at machine_at uids"

lemma step_keeps_marks:
  assumes step: "step s e s'" and mark: "keeps_mark e" and refs: "refers_within R e"
  shows "keeps_marks_of R s s'"
proof -
  have hosts: "keeps_hosts same_mark host_at uids s s'"
    by (rule step_keeps_hosts [OF step]) (use mark host_merged_mark in \<open>auto simp: same_mark_def marked_def\<close>)
  have "(\<exists>cur. machine_at s k = Some cur \<and> mHostRef cur = Some ref) \<or> ref \<in> R"
    if m: "machine_at s' k = Some m" "mHostRef m = Some ref" for k m ref
  proof (cases e)
    case (EvPatchElementalMachine a b r)
    with patch_machine [OF _ m(1), of s a b r] step refs m(2) show ?thesis
      by (auto simp: merges_def split: if_splits)
  qed (use other_machines [OF step m(1)] m(2) in auto)
  with hosts show ?thesis unfolding keeps_marks_def by blast
qed

lemma traced_keeps_marks:
  assumes "\<And>s s'. others s s' \<Longrightarrow> keeps_marks_of {} s s'" and "traced others step s l s'"
    and "\<forall>e \<in> set l. keeps_mark e \<and> refers_within R e"
  shows "keeps_marks_of R s s'"
  by (rule traced_keeps [OF keeps_marks_refl keeps_marks_trans keeps_marks_mono [OF assms(1)] assms(2)])
    (use assms(3) step_keeps_marks in auto)

text \<open>A host that a run listed without a mark had none at its start.\<close>

lemma listed_unmarked:
  assumes others: "\<And>s s'. others s s' \<Longrightarrow> keeps_marks_of {} s s'" and run: "traced others step s l s'"
    and marks: "\<forall>e \<in> set l. keeps_mark e" and refs: "\<forall>e \<in> set l1. refers_within {} e" and l: "l = l1 @ EvListElementalHosts ns sel (Inr hs) # l2"
    and h: "h \<in> set hs" "\<not> marked h"
  shows "unmarked_ref host_at uids s (host_reference h)"
proof -
  from run [unfolded l traced_append traced_Cons] obtain t t1 t2 where 1: "traced others step s l1 t" "others\<^sup>*\<^sup>* t t1"
    and now: "step t1 (EvListElementalHosts ns sel (Inr hs)) t2" by blast
  have "keeps_marks_of {} s t"
    by (rule traced_keeps_marks [OF others 1(1)]) (use marks refs in \<open>auto simp: l\<close>)
  moreover have "keeps_marks_of {} t t1"
    by (rule traced_keeps_marks [OF others traced_end [OF 1(2)]]) auto
  ultimately have "keeps_hosts same_mark host_at uids s t1"
    using keeps_marks_trans keeps_marks_def by metis
  moreover have "unmarked_ref host_at uids t1 (host_reference h)"
    using lists_current [OF now h(1)] h(2) by (auto simp: unmarked_ref_def)
  ultimately show ?thesis by (rule unmarked_ref_before)
qed

end

section \<open>Nobody takes a mark away\<close>

lemma marked_simps:
  "marked (init_labels h) = marked h" "marked (AddFinalizer f h) = marked h" "marked (RemoveFinalizer f h) = marked h"
  "oLabels h \<noteq> None \<Longrightarrow> marked h \<Longrightarrow> marked (put_label k v h)"
  by (auto simp: marked_def host_simps put_label_def AddFinalizer_def RemoveFinalizer_def init_labels_def)

lemma host_same_marked: "host_same h h' \<Longrightarrow> marked h' = marked h"
  by (simp add: host_same_def marked_def)

lemma marked_SetSummary: "marked (host_SetSummary now h) = marked h"
  by (rule host_same_marked [OF host_same_steps(3)])

text \<open>Of a run of the host reconciler.\<close>

lemma wp_Host_marks: "wp (Host_Reconcile E now req) (\<lambda>_ l. \<forall>e \<in> set l. keeps_mark e)"
proof -
  have deleted: "marked h \<longrightarrow> marked (snd (host_reconcileDelete now (init_labels h)))" for h
    by (auto simp: host_reconcileDelete_def marked_simps host_same_marked [OF host_same_steps(1)] init_labels_host)
  have "wp (host_body E now h) (\<lambda>out l. (\<forall>e \<in> set l. keeps_mark e) \<and> (marked h \<longrightarrow> marked (host_SetSummary now (snd out))))" for h
    unfolding host_body_def host_reconcileNormal_def host_reconcileOSVersionManagement_def Let_def marked_SetSummary
    by (intro wp_intros) (use deleted [of h] in \<open>auto simp: marked_simps host_same_marked [OF host_same_installed]
      host_same_marked [OF host_same_bootstrapped] host_same_marked [OF host_same_propagate]\<close>)
  note run = hostR.wp_reconcile [where R = "\<lambda>_ before body after. (\<forall>e \<in> set body. keeps_mark e) \<and> (marked before \<longrightarrow> marked after)", OF this]
  show ?thesis by (rule wp_mono [OF run]) (auto simp: reconciles_once_def)
qed

text \<open>Of the reconcilers of clusters and registrations, which patch no host.\<close>

lemma wp_Cluster_marks: "wp (Cluster_Reconcile E now req) (\<lambda>_ l. \<forall>e \<in> set l. keeps_mark e)"
proof -
  have "wp (cluster_body E now c) (\<lambda>_ l. \<forall>e \<in> set l. keeps_mark e)" for c
    unfolding cluster_body_def GetOwnerCluster_def GetClusterByName_def Let_def by (intro wp_intros) auto
  note run = clusterR.wp_reconcile [where R = "\<lambda>_ _ l _. \<forall>e \<in> set l. keeps_mark e", OF this]
  show ?thesis by (rule wp_mono [OF run]) (auto simp: reconciles_once_def)
qed

lemma wp_Registration_marks: "wp (Registration_Reconcile E C R clock req) (\<lambda>_ l. \<forall>e \<in> set l. keeps_mark e)"
proof -
  have "wp (registration_body E C R clock g) (\<lambda>_ l. \<forall>e \<in> set l. keeps_mark e)" for g
    unfolding registration_body_def generateNewIdentity_def setNewToken_def Let_def by (intro wp_intros) auto
  note run = registrationR.wp_reconcile [where R = "\<lambda>_ _ l _. \<forall>e \<in> set l. keeps_mark e", OF this]
  show ?thesis by (rule wp_mono [OF run]) (auto simp: reconciles_once_def)
qed

text \<open>Of the API server: a request may set the label, but cannot take it away.\<close>

lemma reset_label_distinct:
  "LabelElementalHostNeedsReset \<notin> {LabelElementalHostInPlaceUpdate, LabelElementalHostInstalled, LabelElementalHostBootstrapped,
     LabelElementalHostReset}"
  "LabelElementalHostNeedsReset \<notin> {LabelElementalHostMachineName, LabelElementalHostElementalMachineName, ClusterNameLabel}"
  by simp_all

lemma applied_marked: "marked h \<Longrightarrow> marked (applyToElementalHost now p h)"
  using patch_applied_lemma [of p h now] reset_label_distinct(1)
  by (auto simp: marked_def patch_applied_def patched_label_def split: option.splits)

lemma wp_handlers_marks:
  "wp (GetElementalRegistration E (NewAuthenticator E C now) A rq rs) (\<lambda>_ l. \<forall>e \<in> set l. keeps_mark e)"
  "wp (PostElementalHost E (NewAuthenticator E C now) A rq rs) (\<lambda>_ l. \<forall>e \<in> set l. keeps_mark e)"
  "wp (DeleteElementalHost E (NewAuthenticator E C now) rq rs) (\<lambda>_ l. \<forall>e \<in> set l. keeps_mark e)"
  "wp (PatchElementalHost E (NewAuthenticator E C now) A clock rq rs) (\<lambda>_ l. \<forall>e \<in> set l. keeps_mark e)"
  "wp (GetElementalHostBootstrap E (NewAuthenticator E C now) A rq rs) (\<lambda>_ l. \<forall>e \<in> set l. keeps_mark e)"
  unfolding GetElementalRegistration_def PostElementalHost_def DeleteElementalHost_def PatchElementalHost_def
    GetElementalHostBootstrap_def fetchRegistration_def fetchHost_def NewAuthenticator_def authenticator.simps
    ValidateRegistrationRequest_def Let_def
  by (intro wp_intros; auto simp: applied_marked)+

lemma wp_api_serve_marks: "wp (api_serve E C A now clock meth path rq) (\<lambda>_ l. \<forall>e \<in> set l. keeps_mark e)"
  unfolding api_serve_def Let_def
  by (simp add: wp_ret wp_handlers_marks split: routed.split apiHandler.split)

lemma other_event_marks: "other_event W e \<Longrightarrow> keeps_mark e"
  by (induction rule: other_event.induct)
    (blast dest: runs_as_wp [OF _ wp_Host_marks] runs_as_wp [OF _ wp_Registration_marks]
      runs_as_wp [OF _ wp_Cluster_marks] runs_as_wp [OF _ wp_api_serve_marks])+

text \<open>Of the machine reconciler, which sets the mark when it releases a host.\<close>

lemma linked_host_marked: "linked_host m em h = Some h' \<Longrightarrow> marked h' = marked h"
  using reset_label_distinct(2)
  by (auto simp: linked_host_def marked_def put_label_def Let_def split: option.splits if_splits)

lemma wp_find_marks: "wp (findAvailableHost E em) (\<lambda>_ l. \<forall>e \<in> set l. keeps_mark e)"
  unfolding findAvailableHost_def lookUpAlreadyLinkedHost_def lookUpNewAvailableHost_def
  by (intro wp_intros wp_kListElementalHosts) simp_all

lemma wp_link_marks: "wp (linkElementalHostToElementalMachine E m em h) (\<lambda>_ l. \<forall>e \<in> set l. keeps_mark e)"
  unfolding linkElementalHostToElementalMachine_def by (intro wp_intros) (auto simp: linked_host_marked)

lemma wp_associate_marks: "wp (associateElementalHost E now rp em m) (\<lambda>_ l. \<forall>e \<in> set l. keeps_mark e)"
  unfolding associateElementalHost_def Let_def
  by (intro wp_intros wp_mono [OF wp_find_marks] wp_mono [OF wp_link_marks]) auto

lemma wp_normal_marks: "wp (machine_reconcileNormal E now rp c em m) (\<lambda>_ l. \<forall>e \<in> set l. keeps_mark e)"
  unfolding machine_reconcileNormal_def machine_setProviderID_def SetProviderID_def Let_def
  by (intro wp_intros wp_mono [OF wp_associate_marks]) auto

lemma wp_delete_marks: "wp (machine_reconcileDelete E em) (\<lambda>_ l. \<forall>e \<in> set l. keeps_mark e)"
  unfolding machine_reconcileDelete_def by (intro wp_intros) (auto simp: marked_simps init_labels_host)

lemma wp_Machine_marks: "wp (Machine_Reconcile E now rp req) (\<lambda>_ l. \<forall>e \<in> set l. keeps_mark e)"
proof -
  have "wp (machine_body E now rp em) (\<lambda>_ l. \<forall>e \<in> set l. keeps_mark e)" for em
    unfolding machine_body_def GetOwnerMachine_def GetClusterFromMetadata_def GetClusterByName_def Let_def
    by (intro wp_intros wp_mono [OF wp_normal_marks] wp_mono [OF wp_delete_marks]) auto
  note run = machineR.wp_reconcile [where R = "\<lambda>_ _ l _. \<forall>e \<in> set l. keeps_mark e", OF this]
  show ?thesis by (rule wp_mono [OF run]) (auto simp: reconciles_once_def)
qed

lemma candidate_unmarked: "candidate_ok em h \<Longrightarrow> \<not> marked h"
  by (simp add: candidate_ok_def marked_def)

text \<open>A run makes its machine refer to a host that it has listed without a mark, if to any other than before.\<close>

lemma machine_run_refers:
  assumes shape: "machine_reconciles_once req (\<lambda>_ before body after. machine_effect before after body) res l"
  obtains "\<forall>e \<in> set l. refers_within {} e"
  | h l1 ns sel hs l2 where "\<forall>e \<in> set l. refers_within {host_reference h} e" "l = l1 @ EvListElementalHosts ns sel (Inr hs) # l2"
    "\<forall>e \<in> set l1. refers_within {} e" "h \<in> set hs" "\<not> marked h"
proof (cases "\<forall>e \<in> set l. refers_within {} e")
  case False
  with shape obtain before body after r where l: "l = EvGetElementalMachine req (Inr before) #
      EvNewPatchHelper ''ElementalMachine'' (ObjectKeyFromObject before) None # body @ [EvPatchElementalMachine before after r]"
    and effect: "machine_effect before after body"
    unfolding reconciles_once_def by auto
  with False have "hands_out before after body"
    by (auto simp: machine_effect_def harmless_refers)
  then obtain l1 machine h h' r0 where body: "body = l1 @ [EvPatchElementalHost h h' r0]" and l1: "\<forall>e \<in> set l1. \<not> is_write e"
    and h: "listed before h l1" "candidate_ok before h"
    and ref: "mHostRef after = (if r0 = None then Some (host_reference h) else None)"
    unfolding hands_out_def by blast
  have reads: "refers_within R e" if "e \<in> set l1" for e R
    using l1 that by (auto intro: harmless_refers harmless_reads)
  from h(1) obtain sel hs where "EvListElementalHosts (oNamespace before) sel (Inr hs) \<in> set l1" and hs: "h \<in> set hs"
    unfolding listed_def by blast
  then obtain a b where ab: "l1 = a @ EvListElementalHosts (oNamespace before) sel (Inr hs) # b" by (meson split_list)
  show ?thesis
  proof (rule that(2))
    show "\<forall>e \<in> set l. refers_within {host_reference h} e" using ref reads by (auto simp: l body)
    show "l = (EvGetElementalMachine req (Inr before) #
        EvNewPatchHelper ''ElementalMachine'' (ObjectKeyFromObject before) None # a) @
        EvListElementalHosts (oNamespace before) sel (Inr hs) # (b @ [EvPatchElementalHost h h' r0, EvPatchElementalMachine before after r])"
      by (simp add: l body ab)
    show "\<forall>e \<in> set (EvGetElementalMachine req (Inr before) #
        EvNewPatchHelper ''ElementalMachine'' (ObjectKeyFromObject before) None # a). refers_within {} e"
      using reads by (auto simp: ab)
  qed (use hs candidate_unmarked [OF h(2)] in auto)
qed (rule that(1))

context object_store
begin

lemma machine_run_keeps_marks:
  assumes others: "\<And>s s'. others s s' \<Longrightarrow> keeps_marks_of {} s s'" and run: "traced others step s l s'"
    and marks: "\<forall>e \<in> set l. keeps_mark e"
    and shape: "machine_reconciles_once req (\<lambda>_ before body after. machine_effect before after body) res l"
  shows "keeps_marks_of {} s s'"
  using shape
proof (rule machine_run_refers)
  assume "\<forall>e \<in> set l. refers_within {} e"
  with marks show ?thesis by (intro traced_keeps_marks [OF others run]) auto
next
  fix h l1 ns sel hs l2
  assume l: "\<forall>e \<in> set l. refers_within {host_reference h} e" "l = l1 @ EvListElementalHosts ns sel (Inr hs) # l2"
    and l1: "\<forall>e \<in> set l1. refers_within {} e" and h: "h \<in> set hs" "\<not> marked h"
  have "keeps_marks_of {host_reference h} s s'"
    using marks l(1) by (intro traced_keeps_marks [OF others run]) auto
  moreover have "unmarked_ref host_at uids s (host_reference h)"
    by (rule listed_unmarked [OF others run marks l1 l(2) h])
  ultimately show ?thesis unfolding keeps_marks_def by blast
qed

end

section \<open>The system hands out no marked host\<close>

text \<open>Users that take no mark away.\<close>

definition users_keep_marks :: "('s, 'w) shared \<Rightarrow> bool" where
  "users_keep_marks W \<longleftrightarrow> (\<forall>s s'. sh_users W s s' \<longrightarrow> keeps_hosts same_mark (sh_host W) (sh_uids W) s s')"

abbreviation system_keeps_marks :: "('s, 'w) shared \<Rightarrow> 's \<Rightarrow> 's \<Rightarrow> bool" where
  "system_keeps_marks W \<equiv> keeps_marks {} (sh_host W) (sh_machine W) (sh_uids W)"

lemma interferes_keeps_marks:
  assumes laws: "store_laws W" and users: "users_keep_marks W" and "interferes W s s'"
  shows "system_keeps_marks W s s'"
  using assms(3)
proof cases
  case (other_step e)
  show ?thesis
    by (rule object_store.step_keeps_marks [OF laws [unfolded store_laws_def] other_step(2) other_event_marks [OF other_step(1)]
      harmless_refers [OF other_event_harmless [OF other_step(1)]]])
next
  case user_step
  with users show ?thesis unfolding keeps_marks_def keeps_owners_def users_keep_marks_def by blast
qed

lemma system_step_keeps_marks:
  assumes laws: "store_laws W" and E: "lists_honour_selectors (sh_env W)" and users: "users_keep_marks W" and step: "system_step W s s'"
  shows "system_keeps_marks W s s'"
  using step
proof cases
  case interference
  then show ?thesis by (rule interferes_keeps_marks [OF laws users])
next
  case (machine_reconciled now rp req r l)
  show ?thesis
    by (rule object_store.machine_run_keeps_marks [OF laws [unfolded store_laws_def] _ machine_reconciled(2)
      runs_as_wp [OF machine_reconciled(1) wp_Machine_marks] runs_as_wp [OF machine_reconciled(1) Machine_Reconcile_effect [OF E]]])
      (rule interferes_keeps_marks [OF laws users])
qed

lemma system_run_keeps_marks:
  assumes "store_laws W" and "lists_honour_selectors (sh_env W)" and "users_keep_marks W" and "(system_step W)\<^sup>*\<^sup>* s s'"
  shows "system_keeps_marks W s s'"
  using assms(4)
  by (induction rule: rtranclp_induct) (blast intro: keeps_marks_refl keeps_marks_trans system_step_keeps_marks [OF assms(1-3)])+


end
