(* ===== verification/Ownership_Witness.thy ===== *)
theory Ownership_Witness
  imports Reset_Marks Sample_World Sample_Codec
begin

text \<open>
  A small system on which the properties of theory \<open>Ownership_Invariant\<close> are shown to apply, one installed host and two machines
  that wait for one; and what happens to it when lists lag behind.
\<close>

definition other_key :: objectKey where
  "other_key = \<lparr>keyNamespace = ''ns'', keyName = ''m2''\<rparr>"

definition free_host :: elementalHost where
  "free_host = put_label LabelElementalHostInstalled ''true'' sample_host"

definition other_machine :: elementalMachine where
  "other_machine = sample_machine\<lparr>oName := ''m2'', oUID := ''u6''\<rparr>"

text \<open>What the runs read, and the store.\<close>

definition two_machines :: world where
  "two_machines = sample_world\<lparr>wMachines := [sample_machine, other_machine]\<rparr>"

definition start_store :: objects where
  "start_store = \<lparr>obHosts = Map.empty(host_key \<mapsto> free_host),
     obMachines = Map.empty(machine_key \<mapsto> sample_machine, other_key \<mapsto> other_machine), obUIDs = [''u1'']\<rparr>"

definition small_system :: "(objects, world) shared" where
  "small_system = \<lparr>sh_step = store_step, sh_host = stored_host, sh_machine = stored_machine, sh_uids = stored_uids,
     sh_env = sample_env, sh_codec = sample_codec,
     sh_api = \<lparr>ac_decode_create = (\<lambda>_. Inl (plain_err ''unused'')), ac_decode_patch = (\<lambda>_. Inl (plain_err ''unused'')),
       ac_encode_host = (\<lambda>_. Inr ''h''), ac_encode_registration = (\<lambda>_. Inr ''r''), ac_encode_bootstrap = (\<lambda>_. Inr ''b'')\<rparr>,
     sh_registrations = \<lparr>rrAPIUrl = None, rrDefaultCACert = []\<rparr>,
     sh_users = keeps_hosts same_mark stored_host stored_uids\<rparr>"

lemma small_simps [simp]:
  "sh_step small_system = store_step" "sh_host small_system = stored_host" "sh_machine small_system = stored_machine"
  "sh_uids small_system = stored_uids" "sh_env small_system = sample_env"
  by (simp_all add: small_system_def)

lemma small_laws: "store_laws small_system"
  by (simp add: store_laws_def stored.object_store_axioms)

definition first_run :: "event list" where
  "first_run = events_of (Machine_Reconcile sample_env 5 7 machine_key) two_machines"

definition second_run :: "event list" where
  "second_run = events_of (Machine_Reconcile sample_env 5 7 other_key) two_machines"

definition host_of :: "objects \<Rightarrow> objectKey \<Rightarrow> elementalHost option" where
  "host_of s k = (case stored_machine s k of None \<Rightarrow> None | Some m \<Rightarrow> (case mHostRef m of None \<Rightarrow> None
     | Some ref \<Rightarrow> (case stored_host s (refKey ref) of None \<Rightarrow> None | Some h \<Rightarrow> if refUID ref = oUID h then Some h else None)))"

lemma host_of_refers: "host_of s k = Some h \<Longrightarrow> refers small_system s k h"
  by (auto simp: host_of_def refers_def split: option.splits if_splits)

lemma run_reaches:
  assumes "store_run (events_of (Machine_Reconcile sample_env now rp req) w) s = Some s'"
  shows "(system_step small_system)\<^sup>*\<^sup>* s s'"
proof -
  have "runs_as (Machine_Reconcile (sh_env small_system) now rp req) (result_of (Machine_Reconcile sample_env now rp req) w)
      (events_of (Machine_Reconcile sample_env now rp req) w)" by (simp add: runs_as_events)
  from machine_reconciled [OF this] store_run_traced [OF assms] show ?thesis by auto
qed

lemma first_run_evaluated:
  "case store_run first_run start_store of None \<Rightarrow> False
   | Some s \<Rightarrow> (case host_of s machine_key of None \<Rightarrow> False
       | Some h \<Rightarrow> oUID h = ''u1'' \<and> oLabels h \<noteq> oLabels free_host \<and> stored_host s host_key = Some h)"
  by code_simp

lemma start_free: "\<forall>k m. sh_machine small_system start_store k = Some m \<longrightarrow> mHostRef m = None"
  by (auto simp: stored_machine_def start_store_def other_machine_def sample_machine_def split: option.splits if_splits)

lemma first_run_reaches:
  obtains s h where "(system_step small_system)\<^sup>*\<^sup>* start_store s" "refers small_system s machine_key h"
    "stored_host s host_key = Some h" "oUID h = ''u1''" "oLabels h \<noteq> oLabels free_host"
  using first_run_evaluated run_reaches [of 5 7 machine_key two_machines start_store]
  by (auto simp: first_run_def split: option.splits intro!: that [OF _ host_of_refers])



section \<open>A host that must be reset\<close>

text \<open>The host as a released one, the only one there is; the second machine is reconciled and is left waiting.\<close>

definition released_host :: elementalHost where
  "released_host = put_label LabelElementalHostNeedsReset ''true'' free_host"

definition released_world :: world where
  "released_world = two_machines\<lparr>wHosts := [released_host]\<rparr>"

definition released_store :: objects where
  "released_store = start_store\<lparr>obHosts := Map.empty(host_key \<mapsto> released_host)\<rparr>"

definition waiting_run :: "event list" where
  "waiting_run = events_of (Machine_Reconcile sample_env 5 7 other_key) released_world"

lemma waiting_run_evaluated:
  "case store_run waiting_run released_store of None \<Rightarrow> False
   | Some s \<Rightarrow> stored_host s host_key = Some released_host \<and>
       (case stored_machine s other_key of None \<Rightarrow> False | Some m \<Rightarrow> mConditions m \<noteq> mConditions other_machine)"
  by code_simp

lemma users_keep: "users_keep_marks small_system"
  by (simp add: users_keep_marks_def small_system_def)


section \<open>Lists that lag behind\<close>

text \<open>
  The store as a client with a cache sees it: a list may answer with hosts as they were. Everything else is as before. Then two
  machines that are reconciled one after the other get the same host.
\<close>

definition lagging_step :: "objects \<Rightarrow> event \<Rightarrow> objects \<Rightarrow> bool" where
  "lagging_step s e s' \<longleftrightarrow> ((\<exists>ns sel hs. e = EvListElementalHosts ns sel hs) \<or> store_answers e s) \<and> s' = store_apply e s"

definition lagging_system :: "(objects, world) shared" where
  "lagging_system = small_system\<lparr>sh_step := lagging_step\<rparr>"

fun lagging_run :: "event list \<Rightarrow> objects \<Rightarrow> objects option" where
  "lagging_run [] s = Some s"
| "lagging_run (e # l) s =
     (if (case e of EvListElementalHosts _ _ _ \<Rightarrow> True | _ \<Rightarrow> store_answers e s) then lagging_run l (store_apply e s) else None)"

lemma lagging_run_traced: "lagging_run l s = Some s' \<Longrightarrow> traced others lagging_step s l s'"
proof (induction l arbitrary: s)
  case (Cons e l)
  then have "lagging_step s e (store_apply e s)" by (cases e) (auto simp: lagging_step_def split: if_splits)
  moreover from Cons have "traced others lagging_step (store_apply e s) l s'" by (auto split: if_splits)
  ultimately show ?case by (auto simp: traced_Cons)
qed (simp add: traced_Nil)

lemma lagging_reaches:
  assumes "lagging_run (events_of (Machine_Reconcile sample_env now rp req) w) s = Some s'"
  shows "(system_step lagging_system)\<^sup>*\<^sup>* s s'"
proof -
  have "runs_as (Machine_Reconcile (sh_env lagging_system) now rp req) (result_of (Machine_Reconcile sample_env now rp req) w)
      (events_of (Machine_Reconcile sample_env now rp req) w)" by (simp add: runs_as_events lagging_system_def)
  from machine_reconciled [OF this] lagging_run_traced [OF assms] show ?thesis by (auto simp: lagging_system_def)
qed

lemma both_runs_evaluated:
  "case lagging_run first_run start_store of None \<Rightarrow> False
   | Some s \<Rightarrow> (case lagging_run second_run s of None \<Rightarrow> False
       | Some s' \<Rightarrow> host_of s' machine_key \<noteq> None \<and> host_of s' other_key = host_of s' machine_key)"
  by code_simp

text \<open>
  With lists that lag behind, machines do share hosts. One store, two machines, one free host, no call that fails: the first
  machine is given the host; then the second is reconciled with a list from before, as a client that reads from a cache may get it,
  and its patch of the host, which carries no precondition, overwrites the owner. Both machines refer to the same host.
\<close>

theorem Machines_share_stale_host:
  "\<exists>s h. (system_step lagging_system)\<^sup>*\<^sup>* start_store s \<and> refers lagging_system s machine_key h \<and>
     refers lagging_system s other_key h"
proof -
  from both_runs_evaluated obtain s s' h where "lagging_run first_run start_store = Some s" "lagging_run second_run s = Some s'"
    and h: "host_of s' machine_key = Some h" "host_of s' other_key = Some h"
    by (auto split: option.splits)
  then have "(system_step lagging_system)\<^sup>*\<^sup>* start_store s'"
    using lagging_reaches unfolding first_run_def second_run_def by (meson rtranclp_trans)
  moreover have "refers lagging_system s' k h" if "host_of s' k = Some h" for k
    using host_of_refers [OF that] by (simp add: refers_def lagging_system_def)
  ultimately show ?thesis using h by blast
qed

end
