(* ===== verification/Agent_Start.thy ===== *)
theory Agent_Start
  imports Agent_System Sample_Codec
begin

text \<open>
  How a command of the agent starts: \<^verbatim>\<open>internal/identity/manager.go\<close>, which loads the key of the host or
  makes one, and \<^verbatim>\<open>InitAgent\<close> of \<^verbatim>\<open>cmd/agent/root.go\<close>, on the machine of
  theory \<open>Machine_Host\<close>. The configuration that viper read, the loader of plugins and the answer of the
  generator of keys are parameters; a configuration that cannot be read ends the program.
\<close>

section \<open>The identity of a host\<close>

definition identity_file :: "string \<Rightarrow> string" where
  "identity_file workDir = workDir @ ''/'' @ PrivateKeyFile"

definition LoadSigningKeyOrCreateNew ::
  "'w machine \<Rightarrow> codec \<Rightarrow> goerr + string \<Rightarrow> string \<Rightarrow> ('w, hostEvent, goerr + string) prog"
where
  "LoadSigningKeyOrCreateNew M C generated workDir =
     (let path = identity_file workDir in do {
        st \<leftarrow> hStat M path;
        (case st of
           Inl e \<Rightarrow>
             if err_is e FsNotExist
             then ret (case NewED25519Identity generated of
                 Inl e \<Rightarrow> Inl (wrapf ''creating new Ed25519 identity'' e) | Inr key \<Rightarrow> Inr key)
             else ret (Inl (wrapf (''getting '' @ sq path @ '' file info'') e))
         | Inr _ \<Rightarrow> do {
             r \<leftarrow> hReadFile M path;
             (case r of
                Inl e \<Rightarrow> ret (Inl (wrapf (''reading '' @ sq path) e))
              | Inr key \<Rightarrow>
                  (case identity_Unmarshal C key of
                     Inl e \<Rightarrow> ret (Inl (wrapf ''unmarshalling private key'' e)) | Inr k \<Rightarrow> ret (Inr k)))
           })
      })"

section \<open>Loading a plugin\<close>

text \<open>
  The plugin package: the symbols of a shared object. A symbol that is not a function of the type expected makes the type
  assertion panic.
\<close>

datatype 'p symbol = Factory "goerr + 'p" | OtherSymbol

definition GetPluginSymbol :: string where "GetPluginSymbol = ''GetPlugin''"

definition plugin_panic :: goerr where
  "plugin_panic = new_err GoPanic ''interface conversion''"

definition loader_Load :: "(string \<Rightarrow> goerr + 'o) \<Rightarrow> ('o \<Rightarrow> string \<Rightarrow> goerr + 'p symbol) \<Rightarrow> string \<Rightarrow> goerr + 'p" where
  "loader_Load plugin_Open plugin_Lookup path = (case plugin_Open path of
     Inl e \<Rightarrow> Inl (wrapf (''opening plugin in path '' @ sq path) e)
   | Inr p \<Rightarrow>
       (case plugin_Lookup p GetPluginSymbol of
          Inl e \<Rightarrow> Inl (wrapf (''looking up symbol '' @ sq GetPluginSymbol) e)
        | Inr (Factory f) \<Rightarrow> (case f of Inl e \<Rightarrow> Inl (wrapf ''getting plugin'' e) | Inr pl \<Rightarrow> Inr pl)
        | Inr OtherSymbol \<Rightarrow> Inl plugin_panic))"

lemma loader_Load_other_panics:
  "plugin_Open path = Inr p \<Longrightarrow> plugin_Lookup p GetPluginSymbol = Inr OtherSymbol \<Longrightarrow>
     loader_Load plugin_Open plugin_Lookup path = Inl plugin_panic"
  by (simp add: loader_Load_def)

section \<open>InitAgent\<close>

text \<open>A plugin that was loaded: its initialization, for a work directory and the path of the configuration, yields the plugin.\<close>

type_synonym 'w loadedPlugin = "string \<Rightarrow> string \<Rightarrow> ('w, hostEvent, goerr option \<times> 'w plugin) prog"

definition elemental_so :: "'w machine \<Rightarrow> 'j pluginCodec \<Rightarrow> 'w loadedPlugin" where
  "elemental_so M D = (\<lambda>workDir configPath. do { (r, p) \<leftarrow> EP_Init M workDir configPath; ret (r, elemental_plugin M D p) })"

definition dummy_so :: "'w machine \<Rightarrow> 'j pluginCodec \<Rightarrow> 'w loadedPlugin" where
  "dummy_so M D = (\<lambda>workDir configPath. do { (r, p) \<leftarrow> DP_Init M workDir configPath; ret (r, dummy_plugin M D p) })"

text \<open>What a start needs from outside.\<close>

record 'w agentEnv =
  aeLoad :: "string \<Rightarrow> goerr + 'w loadedPlugin"
  aeTLS :: tlsHost
  aeGenerated :: "goerr + string"
  aeVersion :: string

text \<open>The context holds its client and its plugin; here they are returned beside it.\<close>

definition InitAgent ::
  "'w machine \<Rightarrow> codec \<Rightarrow> clientCodec \<Rightarrow> 'w agentEnv \<Rightarrow> agentConf \<Rightarrow> string \<Rightarrow>
    ('w, hostEvent, goerr + agentContext \<times> client \<times> 'w plugin) prog"
where
  "InitAgent M C K E conf cfgFile =
     (let workDir = agWorkDir (acAgent conf) in do {
        d \<leftarrow> CreateDirectory M workDir;
        (case d of Some e \<Rightarrow> ret (Inl (wrapf (''creating work directory '' @ sq workDir) e)) | None \<Rightarrow>
        (case aeLoad E (agOSPlugin (acAgent conf)) of
           Inl e \<Rightarrow> ret (Inl (wrapf (''loading plugin '' @ sq (agOSPlugin (acAgent conf))) e))
         | Inr osPlugin \<Rightarrow> do {
             (i, plugin) \<leftarrow> osPlugin workDir cfgFile;
             (case i of Some e \<Rightarrow> ret (Inl (wrapf ''initializing plugin'' e)) | None \<Rightarrow> do {
             k \<leftarrow> LoadSigningKeyOrCreateNew M C (aeGenerated E) workDir;
             (case k of Inl e \<Rightarrow> ret (Inl (wrapf ''initializing identity'' e)) | Inr identity \<Rightarrow>
             (case client_Init (aeTLS E) K identity conf (NewClient (aeVersion E)) of
                (Some e, c) \<Rightarrow> ret (Inl (wrapf ''initializing Elemental API client'' e))
              | (None, c) \<Rightarrow> do {
                  h \<leftarrow> pl_GetHostname plugin;
                  (case h of
                     Inl e \<Rightarrow> ret (Inl (wrapf ''getting current hostname'' e))
                   | Inr hostname \<Rightarrow> ret (Inr (\<lparr>cxIdentity = identity, cxConfig = conf, cxConfigPath = cfgFile,
                       cxHostname = hostname\<rparr>, c, plugin)))
                })) })
           }))
      })"

section \<open>Properties\<close>

text \<open>The identity is the key in the file; one is made only if the file does not exist, and no call changes anything.\<close>

definition loads_identity ::
  "codec \<Rightarrow> goerr + string \<Rightarrow> string \<Rightarrow> goerr + string \<Rightarrow> hostEvent list \<Rightarrow> bool"
where
  "loads_identity C generated workDir r l \<longleftrightarrow>
     (\<exists>st. hd l = HostStat (identity_file workDir) st \<and> l \<noteq> [] \<and>
        (case st of
           Inl e \<Rightarrow> tl l = [] \<and> (\<forall>k. r = Inr k \<longleftrightarrow> err_is e FsNotExist \<and> generated = Inr k)
         | Inr _ \<Rightarrow> \<exists>c. tl l = [HostReadFile (identity_file workDir) c] \<and>
             (\<forall>k. r = Inr k \<longleftrightarrow> (\<exists>pem. c = Inr pem \<and> identity_Unmarshal C pem = Inr k))))"

lemma wp_LoadSigningKeyOrCreateNew:
  "wp (LoadSigningKeyOrCreateNew M C generated workDir) (loads_identity C generated workDir)"
  unfolding LoadSigningKeyOrCreateNew_def Let_def
  by (intro wp_intros) (auto simp: loads_identity_def NewED25519Identity_def split: sum.splits)

lemma loads_identity_reads:
  assumes "loads_identity C g w r l"
  shows "filter changes l = []"
proof -
  from assms obtain st where st: "hd l = HostStat (identity_file w) st" "l \<noteq> []"
    and tl: "case st of Inl e \<Rightarrow> tl l = [] \<and> (\<forall>k. r = Inr k \<longleftrightarrow> err_is e FsNotExist \<and> g = Inr k)
      | Inr _ \<Rightarrow> \<exists>c. tl l = [HostReadFile (identity_file w) c] \<and>
          (\<forall>k. r = Inr k \<longleftrightarrow> (\<exists>pem. c = Inr pem \<and> identity_Unmarshal C pem = Inr k))"
    unfolding loads_identity_def by blast
  from tl have "filter changes (tl l) = []" by (auto split: sum.splits)
  with st show ?thesis by (cases l) simp_all
qed

text \<open>Files that were created, written and closed hold what was written.\<close>

definition stores_content :: "'w machine \<Rightarrow> bool" where
  "stores_content M \<longleftrightarrow> (\<forall>p c w w1 w2 w3. mh_Create M p w = (None, w1) \<longrightarrow> mh_Write M p c w1 = (None, w2) \<longrightarrow>
     mh_Close M p w2 = (None, w3) \<longrightarrow>
     (\<exists>d w4 w5. mh_Stat M p w3 = (Inr d, w4) \<and> mh_ReadFile M p w4 = (Inr c, w5)))"

lemma memory_stores_content: "stores_content memory_machine"
  unfolding stores_content_def memory_machine_def by auto

lemma run_WriteFile_open:
  assumes "stores_content M" and "run_state (WriteFile_open M p c) (w, l) = (None, (w', l'))"
  shows "\<exists>d w4 w5. mh_Stat M p w' = (Inr d, w4) \<and> mh_ReadFile M p w4 = (Inr c, w5)"
  using assms unfolding stores_content_def
  by (auto simp: WriteFile_open_def hCreate_def hWrite_def hClose_def prod_eq_iff split: option.splits)

lemma run_WriteFile:
  assumes "stores_content M" and "run_state (WriteFile M p c) (w, l) = (None, (w', l'))"
  shows "\<exists>d w4 w5. mh_Stat M p w' = (Inr d, w4) \<and> mh_ReadFile M p w4 = (Inr c, w5)"
proof -
  from assms(2) obtain v m where "run_state (WriteFile_open M p c) (v, m) = (None, (w', l'))"
    by (auto simp: WriteFile_def Let_def hStat_def hMkdirAll_def split: sum.splits if_splits option.splits)
  then show ?thesis by (rule run_WriteFile_open [OF assms(1)])
qed


text \<open>Only directories are made.\<close>

fun makes_directory :: "hostEvent \<Rightarrow> bool" where
  "makes_directory (HostMkdirAll _ _) = True" | "makes_directory _ = False"

definition only_makes :: "hostEvent list \<Rightarrow> bool" where
  "only_makes l \<longleftrightarrow> (\<forall>ev \<in> set l. changes ev \<longrightarrow> makes_directory ev)"

lemma only_makes_simps [simp]:
  "only_makes []" "only_makes (ev # l) \<longleftrightarrow> (changes ev \<longrightarrow> makes_directory ev) \<and> only_makes l"
  "only_makes (l @ l') \<longleftrightarrow> only_makes l \<and> only_makes l'"
  by (auto simp: only_makes_def)

lemma loads_identity_only_makes: "loads_identity C g w r l \<Longrightarrow> only_makes l"
  using loads_identity_reads by (auto simp: only_makes_def filter_empty_conv)

lemma wp_CreateDirectory: "wp (CreateDirectory M p) (\<lambda>r l. only_makes l)"
  unfolding CreateDirectory_def by (intro wp_intros) auto

text \<open>A plugin of the repository, initialized; it answers the name of the host.\<close>

definition shipped_plugin :: "'w machine \<Rightarrow> 'j pluginCodec \<Rightarrow> string \<Rightarrow> string \<Rightarrow> 'w plugin \<Rightarrow> bool" where
  "shipped_plugin M D workDir configPath pl \<longleftrightarrow>
     pl = elemental_plugin M D \<lparr>epWorkDir = workDir, epConfigPath = configPath\<rparr> \<or>
     pl = dummy_plugin M D \<lparr>dpWorkDir = workDir, dpConfigPath = configPath\<rparr>"

definition ships :: "'w machine \<Rightarrow> 'j pluginCodec \<Rightarrow> 'w agentEnv \<Rightarrow> bool" where
  "ships M D E \<longleftrightarrow> (\<forall>s P. aeLoad E s = Inr P \<longrightarrow> P = elemental_so M D \<or> P = dummy_so M D)"

lemma wp_elemental_so:
  "wp (elemental_so M D d c) (\<lambda>(r, pl) l. only_makes l \<and> pl = elemental_plugin M D \<lparr>epWorkDir = d, epConfigPath = c\<rparr>)"
  unfolding elemental_so_def EP_Init_def Let_def plugin_steps
  by (intro wp_intros wp_mono [OF wp_CreateDirectory]) auto

lemma wp_dummy_so:
  "wp (dummy_so M D d c) (\<lambda>(r, pl) l. only_makes l \<and> pl = dummy_plugin M D \<lparr>dpWorkDir = d, dpConfigPath = c\<rparr>)"
  unfolding dummy_so_def DP_Init_def Let_def plugin_steps
  by (intro wp_intros wp_mono [OF wp_CreateDirectory]) auto

lemma wp_shipped:
  assumes "ships M D E" and "aeLoad E s = Inr P"
  shows "wp (P d c) (\<lambda>(r, pl) l. only_makes l \<and> shipped_plugin M D d c pl)"
proof -
  from assms consider "P = elemental_so M D" | "P = dummy_so M D" unfolding ships_def by blast
  then show ?thesis
    by cases (auto simp: shipped_plugin_def intro!: wp_mono [OF wp_elemental_so] wp_mono [OF wp_dummy_so])
qed

lemma wp_shipped_GetHostname:
  assumes "shipped_plugin M D d c pl"
  shows "wp (pl_GetHostname pl) (\<lambda>r l. case r of Inl _ \<Rightarrow> \<exists>e. l = [HostHostname (Inl e)] | Inr n \<Rightarrow> l = [HostHostname (Inr n)])"
proof -
  have "pl_GetHostname pl = EP_GetHostname M \<or> pl_GetHostname pl = DP_GetHostname M"
    using assms by (auto simp: shipped_plugin_def elemental_plugin_def dummy_plugin_def)
  then show ?thesis
    unfolding EP_GetHostname_def DP_GetHostname_def manager_GetCurrentHostname_def
    by (elim disjE) (simp_all, (intro wp_intros; auto)+)
qed

definition agent_started ::
  "'w machine \<Rightarrow> 'j pluginCodec \<Rightarrow> codec \<Rightarrow> clientCodec \<Rightarrow> 'w agentEnv \<Rightarrow> agentConf \<Rightarrow> string \<Rightarrow>
    goerr + agentContext \<times> client \<times> 'w plugin \<Rightarrow> hostEvent list \<Rightarrow> bool"
where
  "agent_started M D C K E conf cfgFile r l \<longleftrightarrow> only_makes l \<and> (case r of Inl _ \<Rightarrow> True | Inr (X, c, pl) \<Rightarrow>
     cxConfig X = conf \<and> cxConfigPath X = cfgFile \<and> transport_ok K conf \<and> certificates_ok (aeTLS E) conf \<and>
     initialized (aeTLS E) (cxIdentity X) conf (NewClient (aeVersion E)) c \<and>
     shipped_plugin M D (agWorkDir (acAgent conf)) cfgFile pl \<and>
     (\<exists>l1 l2. loads_identity C (aeGenerated E) (agWorkDir (acAgent conf)) (Inr (cxIdentity X)) l2 \<and>
        l = l1 @ l2 @ [HostHostname (Inr (cxHostname X))]))"

lemma client_Init_started:
  "client_Init T K i conf c0 = (None, c) \<Longrightarrow> transport_ok K conf \<and> certificates_ok T conf \<and> initialized T i conf c0 c"
  by (auto simp: client_Init_def Let_def transport_ok_def certificates_ok_def initialized_def GetTLSClientConfig_def
      split: sum.splits if_splits option.splits)

lemma agent_failed: "only_makes l \<Longrightarrow> agent_started M D C K E conf cfgFile (Inl e) l"
  by (simp add: agent_started_def)

lemma agent_ok:
  assumes "only_makes l0" and "only_makes l1"
    and "loads_identity C (aeGenerated E) (agWorkDir (acAgent conf)) (Inr i) l2"
    and "client_Init (aeTLS E) K i conf (NewClient (aeVersion E)) = (None, c)"
    and "shipped_plugin M D (agWorkDir (acAgent conf)) cfgFile pl"
  shows "agent_started M D C K E conf cfgFile
    (Inr (\<lparr>cxIdentity = i, cxConfig = conf, cxConfigPath = cfgFile, cxHostname = h\<rparr>, c, pl))
    (l0 @ l1 @ l2 @ [HostHostname (Inr h)])"
proof -
  have "\<exists>l3 l4. loads_identity C (aeGenerated E) (agWorkDir (acAgent conf)) (Inr i) l4 \<and>
      l0 @ l1 @ l2 @ [HostHostname (Inr h)] = l3 @ l4 @ [HostHostname (Inr h)]"
    using assms(3) by (intro exI [of _ "l0 @ l1"] exI [of _ l2]) simp
  with assms client_Init_started [OF assms(4)] loads_identity_only_makes [OF assms(3)]
  show ?thesis by (simp add: agent_started_def)
qed

lemma wp_InitAgent:
  assumes "ships M D E"
  shows "wp (InitAgent M C K E conf cfgFile) (agent_started M D C K E conf cfgFile)"
proof -
  have name: "shipped_plugin M D (agWorkDir (acAgent conf)) cfgFile pl \<Longrightarrow>
      wp (pl_GetHostname pl) (\<lambda>r l. case r of Inl _ \<Rightarrow> \<exists>e. l = [HostHostname (Inl e)] | Inr n \<Rightarrow> l = [HostHostname (Inr n)])" for pl
    by (rule wp_shipped_GetHostname)
  show ?thesis
    unfolding InitAgent_def Let_def
    apply (intro wp_intros wp_mono [OF wp_CreateDirectory] wp_mono [OF wp_shipped [OF assms]]
        wp_mono [OF wp_LoadSigningKeyOrCreateNew] wp_mono [OF name])
    apply (auto simp: agent_failed agent_ok loads_identity_only_makes split: sum.splits)
    done
qed

text \<open>
  The start of the agent. With either plugin, a start changes nothing but directories it makes. It succeeds only with a
  client for the configuration over the transport it allows; the identity is the key of the host's file, and a new one
  exactly where that file does not exist; the name is the one the machine answered.
\<close>

theorem InitAgent_starts:
  assumes "ships M D E"
  shows "wp (InitAgent M C K E conf cfgFile) (agent_started M D C K E conf cfgFile)"
  using assms by (rule wp_InitAgent)

section \<open>Instances\<close>

definition start_env :: "(string \<Rightarrow> string option) agentEnv" where
  "start_env = \<lparr>aeLoad = (\<lambda>s. if s = ''elemental'' then Inr (elemental_so memory_machine sample_plugin_codec)
       else Inr (dummy_so memory_machine sample_plugin_codec)),
     aeTLS = \<lparr>th_Stat = (\<lambda>_. None), th_ReadFile = (\<lambda>_. Inr []), th_SystemCertPool = None, th_has_certs = (\<lambda>_. True)\<rparr>,
     aeGenerated = Inr ''key'', aeVersion = ''v1''\<rparr>"

lemma start_env_ships: "ships memory_machine sample_plugin_codec start_env"
  by (simp add: ships_def start_env_def)


end
