(* ===== verification/Agent_Process.thy ===== *)
theory Agent_Process
  imports Agent_Start
begin

text \<open>
  The process of the agent, from the command line to its exit status: the root command of \<^verbatim>\<open>cmd/agent\<close>, whose
  subcommands read the configuration, start the agent with \<open>InitAgent\<close> and then work through the context it returns: over the
  client it made, with the identity it loaded, and over the plugin it initialized. What cobra makes of the arguments and what viper
  reads from the configuration file are parameters.
\<close>

section \<open>The process\<close>

datatype subcommand = CmdHelp | CmdVersion | CmdRegister bool | CmdInstall | CmdReset | CmdRun

datatype exitStatus = ExitSuccess | ExitFailure goerr

definition configPathDefault :: string where "configPathDefault = ''/etc/elemental/agent/config.yaml''"

text \<open>\<^verbatim>\<open>log.Fatal\<close> ends the process.\<close>

definition log_Fatal :: "goerr \<Rightarrow> exitStatus option" where
  "log_Fatal e = Some (ExitFailure e)"

declare log_Fatal_def [simp]

text \<open>The command line: the value of \<^verbatim>\<open>--config\<close>, and the subcommand with its flag.\<close>

record commandLine =
  clConfig :: "string option"
  clCommand :: subcommand

definition cfgFile :: "commandLine \<Rightarrow> string" where
  "cfgFile args = (case clConfig args of None \<Rightarrow> configPathDefault | Some path \<Rightarrow> path)"

record 'w agentProgram =
  ap_net :: "'w net"
  ap_machine :: "'w machine"
  ap_NewRandom :: "'w \<Rightarrow> (goerr + string) \<times> 'w"
  ap_Sleep :: "int \<Rightarrow> 'w \<Rightarrow> unit \<times> 'w"
  ap_env :: "'w agentEnv"
  ap_codec :: codec
  ap_client :: clientCodec
  ap_agent :: agentCodec
  ap_ReadInConfig :: "string \<Rightarrow> goerr option"
  ap_Unmarshal :: "string \<Rightarrow> agentConf \<Rightarrow> goerr + agentConf"

text \<open>Programs of the machine, and of the agent over its client and plugin, as parts of the process.\<close>

definition on_machine :: "('w, hostEvent, 'a) prog \<Rightarrow> ('w, sysEvent, 'a) prog" where
  "on_machine p = State (run_on SysHost p)"

definition on_system :: "('w \<times> sysEvent list, call, 'a) prog \<Rightarrow> ('w, sysEvent, 'a) prog" where
  "on_system p = State (\<lambda>s. case run_state p (s, []) of (a, (s', _)) \<Rightarrow> (a, s'))"

definition process_system :: "'w agentProgram \<Rightarrow> 'w plugin \<Rightarrow> 'w system" where
  "process_system A pl = \<lparr>sy_net = ap_net A, sy_machine = ap_machine A, sy_plugin = pl, sy_NewRandom = ap_NewRandom A,
     sy_Sleep = ap_Sleep A\<rparr>"

definition initConfig :: "'w agentProgram \<Rightarrow> string \<Rightarrow> goerr + agentConf" where
  "initConfig A path = (case ap_ReadInConfig A path of
     Some e \<Rightarrow> Inl (wrapf ''reading config'' e)
   | None \<Rightarrow> (case ap_Unmarshal A path DefaultConfig of
       Inl e \<Rightarrow> Inl (wrapf ''unmashalling config'' e)
     | Inr conf \<Rightarrow> Inr conf))"

text \<open>A subcommand on an initialized context; no result means that it is still running when the fuel is used up.\<close>

definition exited :: "unit option \<Rightarrow> exitStatus option" where
  "exited r = map_option (\<lambda>_. ExitSuccess) r"

lemma exited_iff: "Some ExitSuccess = exited r \<longleftrightarrow> r = Some ()"
  by (cases r) (simp_all add: exited_def)

definition command_body ::
  "'w agentProgram \<Rightarrow> subcommand \<Rightarrow> nat \<Rightarrow> agentContext \<Rightarrow> client \<Rightarrow> 'w plugin \<Rightarrow> ('w, sysEvent, exitStatus option) prog"
where
  "command_body A cmd fuel X c pl =
     (let G = system_agent (process_system A pl) (ap_codec A) (ap_client A) c; Y = ap_agent A in
      case cmd of
        CmdRegister installFlag \<Rightarrow> do {
          r \<leftarrow> on_system (register_command G (ap_codec A) Y fuel installFlag X);
          ret (case r of None \<Rightarrow> None | Some (Some e, _) \<Rightarrow> log_Fatal e | Some (None, _) \<Rightarrow> Some ExitSuccess)
        }
      | CmdInstall \<Rightarrow> do { r \<leftarrow> on_system (install_command G Y fuel X); ret (exited r) }
      | CmdReset \<Rightarrow> do { r \<leftarrow> on_system (reset_command G Y fuel X); ret (exited r) }
      | CmdRun \<Rightarrow> do { r \<leftarrow> on_system (run_command G Y fuel X); ret (exited r) }
      | _ \<Rightarrow> ret (Some ExitSuccess))"

definition start_command ::
  "'w agentProgram \<Rightarrow> subcommand \<Rightarrow> nat \<Rightarrow> string \<Rightarrow> ('w, sysEvent, exitStatus option) prog"
where
  "start_command A cmd fuel path = (case initConfig A path of
     Inl e \<Rightarrow> ret (Some (ExitFailure e))
   | Inr conf \<Rightarrow> do {
       i \<leftarrow> on_machine (InitAgent (ap_machine A) (ap_codec A) (ap_client A) (ap_env A) conf path);
       (case i of
          Inl e \<Rightarrow> ret (log_Fatal e)
        | Inr (X, c, pl) \<Rightarrow> command_body A cmd fuel X c pl)
     })"

text \<open>\<^verbatim>\<open>version\<close> and the help text need no start; arguments that cobra refuses end the process.\<close>

definition Execute :: "'w agentProgram \<Rightarrow> nat \<Rightarrow> goerr + commandLine \<Rightarrow> ('w, sysEvent, exitStatus option) prog" where
  "Execute A fuel parsed = (case parsed of
     Inl e \<Rightarrow> ret (Some (ExitFailure e))
   | Inr args \<Rightarrow>
       (if clCommand args \<in> {CmdHelp, CmdVersion} then ret (Some ExitSuccess)
        else start_command A (clCommand args) fuel (cfgFile args)))"

section \<open>Parts of the process\<close>

lemma wp_on_machine:
  assumes "wp p Q"
  shows "wp (on_machine p) (\<lambda>r l. \<exists>h. l = map SysHost h \<and> Q r h)"
  unfolding wp_def
proof (intro allI)
  fix w :: 'a and l :: "sysEvent list"
  from assms obtain r w' h where "run_state p (w, []) = (r, (w', h))" "Q r h"
    unfolding wp_def by (metis append_Nil)
  then show "\<exists>a w' l'. run_state (on_machine p) (w, l) = (a, (w', l @ l')) \<and> (\<exists>h. l' = map SysHost h \<and> Q a h)"
    by (auto simp: on_machine_def run_on_def)
qed

lemma wp_on_system:
  assumes "linked I p" and "wp p Q"
  shows "wp (on_system p) (\<lambda>r l. \<exists>cs segs. l = concat segs \<and> list_all2 I cs segs \<and> Q r cs)"
  unfolding wp_def
proof (intro allI)
  fix w :: 'a and l :: "sysEvent list"
  from linked_wp [OF assms, of w l "[]"] obtain a w' segs cs
    where "run_state p ((w, l), []) = (a, ((w', l @ concat segs), cs))" "list_all2 I cs segs" "Q a cs" by auto
  then show "\<exists>a w' l'. run_state (on_system p) (w, l) = (a, (w', l @ l')) \<and>
      (\<exists>cs segs. l' = concat segs \<and> list_all2 I cs segs \<and> Q a cs)"
    by (auto simp: on_system_def)
qed

section \<open>What the subcommands do\<close>

text \<open>The calls after the work: the power is switched as the configuration asks.\<close>

definition posted :: "postAction \<Rightarrow> call list \<Rightarrow> bool" where
  "posted post l \<longleftrightarrow> (\<exists>e. l = (if postPowerOff post then [CallPowerOff e] else if postReboot post then [CallReboot e] else []))"

lemma wp_handlePost_posted: "wp (handlePost G post) (\<lambda>_ l. posted post l)"
  by (rule wp_handlePost) (auto simp: posted_def)

definition works_then_posts :: "(unit option \<Rightarrow> call list \<Rightarrow> bool) \<Rightarrow> postAction \<Rightarrow> unit option \<Rightarrow> call list \<Rightarrow> bool" where
  "works_then_posts work post r cs \<longleftrightarrow> (\<exists>cs1 cs2. cs = cs1 @ cs2 \<and> work r cs1 \<and>
     (case r of None \<Rightarrow> cs2 = [] | Some _ \<Rightarrow> posted post cs2))"

definition install_done :: "agentCodec \<Rightarrow> nat \<Rightarrow> agentContext \<Rightarrow> unit option \<Rightarrow> call list \<Rightarrow> bool" where
  "install_done Y fuel X = works_then_posts (install_outcome Y X fuel) (agPostInstall (acAgent (cxConfig X)))"

definition reset_done :: "agentCodec \<Rightarrow> nat \<Rightarrow> agentContext \<Rightarrow> unit option \<Rightarrow> call list \<Rightarrow> bool" where
  "reset_done Y fuel X = works_then_posts (reset_outcome Y X fuel) (agPostReset (acAgent (cxConfig X)))"

lemma works_unfinished: "work None cs \<Longrightarrow> works_then_posts work post None cs"
  by (simp add: works_then_posts_def)

lemma works_finished: "work (Some u) cs1 \<Longrightarrow> posted post cs2 \<Longrightarrow> works_then_posts work post (Some u) (cs1 @ cs2)"
  by (auto simp: works_then_posts_def)

lemma wp_install_command: "wp (install_command G Y fuel X) (install_done Y fuel X)"
  unfolding install_command_def
  by (intro wp_intros wp_mono [OF wp_Install] wp_mono [OF wp_handlePost_posted])
    (auto simp: install_done_def works_unfinished works_finished)

lemma wp_reset_command: "wp (reset_command G Y fuel X) (reset_done Y fuel X)"
  unfolding reset_command_def
  by (intro wp_intros wp_mono [OF wp_Reset] wp_mono [OF wp_handlePost_posted])
    (auto simp: reset_done_def works_unfinished works_finished)

text \<open>
  Registration, in its order: the host is registered, then what it needs to come back is persisted and reported, then it is
  installed if that was asked for. Each step starts only after the one before succeeded.
\<close>

definition finalize_done ::
  "codec \<Rightarrow> agentCodec \<Rightarrow> nat \<Rightarrow> bool \<Rightarrow> agentContext \<Rightarrow> (goerr option \<times> agentContext) option \<Rightarrow> call list \<Rightarrow> bool"
where
  "finalize_done C Y fuel installFlag X r cs \<longleftrightarrow> (\<exists>cs1 cs2 f. cs = cs1 @ cs2 \<and> finalize_outcome C Y fuel X f cs1 \<and>
     (case f of
        Some None \<Rightarrow>
          if installFlag then \<exists>i. install_done Y fuel X i cs2 \<and> r = map_option (\<lambda>_. (None, X)) i
          else cs2 = [] \<and> r = Some (None, X)
      | Some (Some e) \<Rightarrow> cs2 = [] \<and> r = Some (Some e, X)
      | None \<Rightarrow> cs2 = [] \<and> r = None))"

definition register_done ::
  "codec \<Rightarrow> agentCodec \<Rightarrow> nat \<Rightarrow> bool \<Rightarrow> agentContext \<Rightarrow> (goerr option \<times> agentContext) option \<Rightarrow> call list \<Rightarrow> bool"
where
  "register_done C Y fuel installFlag X r cs \<longleftrightarrow> (\<exists>cs1 cs2 r1. cs = cs1 @ cs2 \<and> register_outcome C fuel X r1 cs1 \<and>
     (case r1 of
        Some (None, X') \<Rightarrow> finalize_done C Y fuel installFlag X' r cs2
      | _ \<Rightarrow> cs2 = [] \<and> r = r1))"

lemma finalize_done_intros:
  "finalize_outcome C Y fuel X None cs \<Longrightarrow> finalize_done C Y fuel b X None cs"
  "finalize_outcome C Y fuel X (Some (Some e)) cs \<Longrightarrow> finalize_done C Y fuel b X (Some (Some e, X)) cs"
  "finalize_outcome C Y fuel X (Some None) cs \<Longrightarrow> finalize_done C Y fuel False X (Some (None, X)) cs"
  "finalize_outcome C Y fuel X (Some None) cs \<Longrightarrow> install_done Y fuel X i cs2 \<Longrightarrow>
     finalize_done C Y fuel True X (map_option (\<lambda>_. (None, X)) i) (cs @ cs2)"
  unfolding finalize_done_def by force+

lemma register_done_intros:
  "register_outcome C fuel X None cs \<Longrightarrow> register_done C Y fuel b X None cs"
  "register_outcome C fuel X (Some (Some e, X')) cs \<Longrightarrow> register_done C Y fuel b X (Some (Some e, X')) cs"
  "register_outcome C fuel X (Some (None, X')) cs \<Longrightarrow> finalize_done C Y fuel b X' r cs2 \<Longrightarrow>
     register_done C Y fuel b X r (cs @ cs2)"
  unfolding register_done_def by force+

lemma wp_register_command: "wp (register_command G C Y fuel b X) (register_done C Y fuel b X)"
proof -
  have installed: "install_done Y fuel X' i cs2 \<Longrightarrow> finalize_outcome C Y fuel X' (Some None) cs \<Longrightarrow>
      (i = None \<longrightarrow> finalize_done C Y fuel True X' None (cs @ cs2)) \<and>
      (\<forall>u. i = Some u \<longrightarrow> finalize_done C Y fuel True X' (Some (None, X')) (cs @ cs2))" for X' i cs2 cs
    using finalize_done_intros(4) [of C Y fuel X' cs i cs2] by auto
  show ?thesis
    unfolding register_command_def
    by (intro wp_intros wp_mono [OF wp_Register] wp_mono [OF FinalizeRegistration_persists] wp_mono [OF wp_install_command])
      (simp_all add: register_done_intros finalize_done_intros installed)
qed

section \<open>The whole process\<close>

definition command_outcome :: "'w agentProgram \<Rightarrow> subcommand \<Rightarrow> nat \<Rightarrow> agentContext \<Rightarrow> exitStatus option \<Rightarrow> call list \<Rightarrow> bool" where
  "command_outcome A cmd fuel X r cs \<longleftrightarrow> (case cmd of
     CmdRegister b \<Rightarrow> (\<exists>d. register_done (ap_codec A) (ap_agent A) fuel b X d cs \<and>
       r = (case d of None \<Rightarrow> None | Some (Some e, _) \<Rightarrow> Some (ExitFailure e) | Some (None, _) \<Rightarrow> Some ExitSuccess))
   | CmdInstall \<Rightarrow> (\<exists>d. install_done (ap_agent A) fuel X d cs \<and> r = exited d)
   | CmdReset \<Rightarrow> (\<exists>d. reset_done (ap_agent A) fuel X d cs \<and> r = exited d)
   | CmdRun \<Rightarrow> (\<exists>d. run_outcome fuel d cs \<and> r = exited d)
   | _ \<Rightarrow> cs = [] \<and> r = Some ExitSuccess)"

definition started_outcome ::
  "'w agentProgram \<Rightarrow> 'j pluginCodec \<Rightarrow> nat \<Rightarrow> subcommand \<Rightarrow> string \<Rightarrow> exitStatus option \<Rightarrow> sysEvent list \<Rightarrow> bool"
where
  "started_outcome A D fuel cmd path r l \<longleftrightarrow> (\<exists>conf X c pl h cs segs. initConfig A path = Inr conf \<and>
     l = map SysHost h @ concat segs \<and>
     agent_started (ap_machine A) D (ap_codec A) (ap_client A) (ap_env A) conf path (Inr (X, c, pl)) h \<and>
     list_all2 (pieces (process_system A pl) (ap_codec A) (ap_client A) c) cs segs \<and> command_outcome A cmd fuel X r cs)"

definition process_outcome ::
  "'w agentProgram \<Rightarrow> 'j pluginCodec \<Rightarrow> nat \<Rightarrow> commandLine \<Rightarrow> exitStatus option \<Rightarrow> sysEvent list \<Rightarrow> bool"
where
  "process_outcome A D fuel args r l \<longleftrightarrow>
     (if clCommand args \<in> {CmdHelp, CmdVersion} then r = Some ExitSuccess \<and> l = []
      else (\<exists>e h. r = Some (ExitFailure e) \<and> l = map SysHost h \<and> only_makes h) \<or>
        started_outcome A D fuel (clCommand args) (cfgFile args) r l)"

lemma wp_command_body:
  "wp (command_body A cmd fuel X c pl) (\<lambda>r l. \<exists>cs segs. l = concat segs \<and>
     list_all2 (pieces (process_system A pl) (ap_codec A) (ap_client A) c) cs segs \<and> command_outcome A cmd fuel X r cs)"
proof -
  have reset: "linked (pieces S C K c) (reset_command (system_agent S C K c) Y fuel X)" for S C K Y
    unfolding reset_command_def by (intro linked_intros system.linked_Reset system.linked_handlePost)
  have install: "linked (pieces S C K c) (install_command (system_agent S C K c) Y fuel X)" for S C K Y
    unfolding install_command_def by (intro linked_intros system.linked_Install system.linked_handlePost)
  note bodies = wp_mono [OF wp_on_system [OF system.linked_register wp_register_command]]
    wp_mono [OF wp_on_system [OF install wp_install_command]] wp_mono [OF wp_on_system [OF reset wp_reset_command]]
    wp_mono [OF wp_on_system [OF system.linked_run wp_run_command]]
  show ?thesis
    unfolding command_body_def log_Fatal_def Let_def
    by (cases cmd; simp only: subcommand.case)
      (intro wp_intros bodies; auto simp: command_outcome_def)+
qed

text \<open>
  C33. The process of the agent. Whatever the command line, the configuration file, the machine and the network: a process that
  cannot read its configuration or start ends with a failure, and has changed nothing on the machine but directories it
  made, and sent nothing. Otherwise every event after the start belongs to a call of the subcommand, made with the client for
  that configuration that signs with the key in the host's file, and with the plugin the configuration names; the calls are those of a
  registration, an installation, a reset or the main loop in their order, followed by the power action that is configured; and
  the process ends with success exactly when that work is done.
\<close>

theorem agent_process_runs:
  assumes "ships (ap_machine A) D (ap_env A)"
  shows "wp (Execute A fuel (Inr args)) (process_outcome A D fuel args)"
proof -
  have start: "wp (start_command A cmd fuel path) (\<lambda>r l. (\<exists>e h. r = Some (ExitFailure e) \<and> l = map SysHost h \<and> only_makes h) \<or>
      started_outcome A D fuel cmd path r l)" for cmd path
    unfolding start_command_def
    apply (intro wp_intros wp_mono [OF wp_on_machine [OF wp_InitAgent [OF assms]]] wp_mono [OF wp_command_body])
      apply (force simp: only_makes_def)
     apply (force simp: agent_started_def)
    apply (unfold started_outcome_def, blast)
    done
  then show ?thesis
    unfolding Execute_def process_outcome_def by (auto intro!: wp_ret)
qed

text \<open>A process on a machine with files, with the plugins of the repository; any network answers.\<close>

definition sample_program ::
  "(string \<Rightarrow> string option) net \<Rightarrow> clientCodec \<Rightarrow> agentCodec \<Rightarrow> (string \<Rightarrow> string option) agentProgram"
where
  "sample_program N K Y = \<lparr>ap_net = N, ap_machine = memory_machine, ap_NewRandom = (\<lambda>w. (Inr ''id'', w)),
     ap_Sleep = (\<lambda>_ w. ((), w)), ap_env = start_env, ap_codec = sample_codec, ap_client = K, ap_agent = Y,
     ap_ReadInConfig = (\<lambda>_. None), ap_Unmarshal = (\<lambda>_ conf. Inr conf)\<rparr>"

theorem agent_process_runs_witness:
  "\<forall>N K Y. wp (Execute (sample_program N K Y) 3 (Inr \<lparr>clConfig = None, clCommand = CmdRegister True\<rparr>))
     (process_outcome (sample_program N K Y) sample_plugin_codec 3 \<lparr>clConfig = None, clCommand = CmdRegister True\<rparr>)"
  by (intro allI agent_process_runs) (simp add: sample_program_def start_env_ships)

section \<open>An installation, from the command line to the report\<close>

lemma installs_then_reports_more:
  "installs_then_reports C K c D n es \<Longrightarrow> installs_then_reports C K c D n (es @ es')"
  unfolding installs_then_reports_def by (metis append_assoc)

text \<open>
  When the process of \<^verbatim>\<open>install\<close> with the Elemental plugin ends with success, the host was installed and then
  reported installed, by a request signed with the key of the host's file.
\<close>

lemma install_process_reports:
  assumes "started_outcome A D fuel CmdInstall path (Some ExitSuccess) l"
  shows "\<exists>conf X c pl h new. initConfig A path = Inr conf \<and> l = map SysHost h @ new \<and>
    agent_started (ap_machine A) D (ap_codec A) (ap_client A) (ap_env A) conf path (Inr (X, c, pl)) h \<and>
    (\<forall>p. pl = elemental_plugin (ap_machine A) D p \<longrightarrow>
       installs_then_reports (ap_codec A) (ap_client A) c D (cxHostname X) new)"
proof -
  from assms obtain conf X c pl h cs segs where conf: "initConfig A path = Inr conf" and l: "l = map SysHost h @ concat segs"
    and start: "agent_started (ap_machine A) D (ap_codec A) (ap_client A) (ap_env A) conf path (Inr (X, c, pl)) h"
    and segs: "list_all2 (pieces (process_system A pl) (ap_codec A) (ap_client A) c) cs segs"
    and cs: "command_outcome A CmdInstall fuel X (Some ExitSuccess) cs"
    unfolding started_outcome_def by blast
  from cs obtain cs1 cs2 u where "cs = cs1 @ cs2" "install_finished X cs1"
    by (auto simp: command_outcome_def exited_iff install_done_def works_then_posts_def install_outcome_def split: option.splits)
  with segs obtain s1 s2 where s: "segs = s1 @ s2" "list_all2 (pieces (process_system A pl) (ap_codec A) (ap_client A) c) cs1 s1"
    by (auto simp: list_all2_append1)
  have "installs_then_reports (ap_codec A) (ap_client A) c D (cxHostname X) (concat segs)"
    if pl: "pl = elemental_plugin (ap_machine A) D p" for p
  proof -
    have "process_system A pl = elemental_system (process_system A pl) D p"
      by (simp add: process_system_def elemental_system_def pl)
    with s(2) installed_pieces [OF \<open>install_finished X cs1\<close>] have
      "installs_then_reports (ap_codec A) (ap_client A) c D (cxHostname X) (concat s1)" by metis
    then show ?thesis by (simp add: s(1) installs_then_reports_more)
  qed
  with conf l start show ?thesis by blast
qed

end
