(* ===== verification/Go_Memory.thy ===== *)
theory Go_Memory
  imports Go_Prelude
begin

text \<open>
  The memory of a Go program, as far as deep copies need it: structs are values, pointers, slices and maps lead to cells. What a
  value of a given type shows (theory text below: its \<^emph>\<open>view\<close>) is a tree without addresses, and the addresses it is read from.
  A function copies a type deeply when the copy shows the same tree and is read from new cells only, each of them reached once.
\<close>

named_theorems copies_intros \<open>rules that show that a function copies a type deeply\<close>

section \<open>Values and cells\<close>

type_synonym addr = nat

text \<open>A \<^verbatim>\<open>time.Time\<close> is a scalar: it points to its location, which nobody ever changes.\<close>

datatype scalar = SString string | SInt int | SBool bool | STime int

text \<open>A slice is a section of an array: the array, where it starts and how long it is. \<open>GNil\<close> is every kind of nil.\<close>

datatype gval =
    GScalar scalar
  | GStruct "(string \<times> gval) list"
  | GNil
  | GPtr addr
  | GSlice addr nat nat
  | GMap addr
  | GIface string addr

datatype cell = CValue gval | CArray "gval list" | CEntries "(string \<times> gval) list"

text \<open>Addresses count the cells in the order of their allocation. The order of a map's entries is the one in which it is iterated.\<close>

type_synonym memory = "cell list"

definition cell_at :: "memory \<Rightarrow> addr \<Rightarrow> cell option" where
  "cell_at m a = (if a < length m then Some (m ! a) else None)"

fun field :: "string \<Rightarrow> gval \<Rightarrow> gval" where
  "field n (GStruct fs) = (case map_of fs n of Some v \<Rightarrow> v | None \<Rightarrow> GNil)"
| "field n _ = GNil"

fun set_field :: "string \<Rightarrow> gval \<Rightarrow> gval \<Rightarrow> gval" where
  "set_field n v (GStruct fs) = GStruct (map (\<lambda>(k, w). (k, if k = n then v else w)) fs)"
| "set_field n v w = w"

section \<open>Types and views\<close>

datatype scalarType = ScString | ScInt | ScBool | ScTime

fun scalar_type :: "scalar \<Rightarrow> scalarType" where
  "scalar_type (SString _) = ScString"
| "scalar_type (SInt _) = ScInt"
| "scalar_type (SBool _) = ScBool"
| "scalar_type (STime _) = ScTime"

datatype gtype =
    TyScalar scalarType
  | TyStruct "(string \<times> gtype) list"
  | TyPtr gtype
  | TySlice gtype
  | TyMap gtype
  | TyIface

fun zero_scalar :: "scalarType \<Rightarrow> scalar" where
  "zero_scalar ScString = SString []"
| "zero_scalar ScInt = SInt 0"
| "zero_scalar ScBool = SBool False"
| "zero_scalar ScTime = STime 0"

fun zero_value :: "gtype \<Rightarrow> gval" and zero_fields :: "(string \<times> gtype) list \<Rightarrow> (string \<times> gval) list" where
  "zero_value (TyScalar k) = GScalar (zero_scalar k)"
| "zero_value (TyStruct fs) = GStruct (zero_fields fs)"
| "zero_value _ = GNil"
| "zero_fields [] = []"
| "zero_fields ((n, T) # fs) = (n, zero_value T) # zero_fields fs"

datatype tree =
    TLeaf scalar
  | TStruct "(string \<times> tree) list"
  | TNil
  | TPtr tree
  | TSlice "tree list"
  | TMap "(string \<times> tree) list"

primrec view_all :: "(gval \<Rightarrow> (tree \<times> addr list) option) \<Rightarrow> gval list \<Rightarrow> (tree list \<times> addr list) option" where
  "view_all f [] = Some ([], [])"
| "view_all f (v # vs) = (case f v of None \<Rightarrow> None | Some (t, as) \<Rightarrow>
     (case view_all f vs of None \<Rightarrow> None | Some (ts, bs) \<Rightarrow> Some (t # ts, as @ bs)))"

text \<open>
  What a value of a type shows, and the addresses it is read from; none, if it is not of this type. The only values of an
  interface type that are looked into are nil: what decoding leaves in the \<^verbatim>\<open>Object\<close> of a raw extension.
\<close>

fun view :: "memory \<Rightarrow> gtype \<Rightarrow> gval \<Rightarrow> (tree \<times> addr list) option"
  and view_fields :: "memory \<Rightarrow> (string \<times> gtype) list \<Rightarrow> (string \<times> gval) list \<Rightarrow> ((string \<times> tree) list \<times> addr list) option"
where
  "view m (TyScalar k) v = (case v of GScalar s \<Rightarrow> if scalar_type s = k then Some (TLeaf s, []) else None | _ \<Rightarrow> None)"
| "view m (TyStruct fs) v = (case v of GStruct vs \<Rightarrow>
     (case view_fields m fs vs of None \<Rightarrow> None | Some (ts, as) \<Rightarrow> Some (TStruct ts, as)) | _ \<Rightarrow> None)"
| "view m (TyPtr T) v = (case v of GNil \<Rightarrow> Some (TNil, [])
     | GPtr a \<Rightarrow> (case cell_at m a of
         Some (CValue w) \<Rightarrow> (case view m T w of None \<Rightarrow> None | Some (t, as) \<Rightarrow> Some (TPtr t, a # as))
       | _ \<Rightarrow> None)
     | _ \<Rightarrow> None)"
| "view m (TySlice T) v = (case v of GNil \<Rightarrow> Some (TNil, [])
     | GSlice a off n \<Rightarrow> (case cell_at m a of
         Some (CArray vs) \<Rightarrow> if off + n \<le> length vs then
             (case view_all (\<lambda>w. view m T w) (take n (drop off vs)) of None \<Rightarrow> None | Some (ts, as) \<Rightarrow> Some (TSlice ts, a # as))
           else None
       | _ \<Rightarrow> None)
     | _ \<Rightarrow> None)"
| "view m (TyMap T) v = (case v of GNil \<Rightarrow> Some (TNil, [])
     | GMap a \<Rightarrow> (case cell_at m a of
         Some (CEntries es) \<Rightarrow> if distinct (map fst es) then
             (case view_all (\<lambda>w. view m T w) (map snd es) of None \<Rightarrow> None
              | Some (ts, as) \<Rightarrow> Some (TMap (zip (map fst es) ts), a # as))
           else None
       | _ \<Rightarrow> None)
     | _ \<Rightarrow> None)"
| "view m TyIface v = (if v = GNil then Some (TNil, []) else None)"
| "view_fields m [] vs = (if vs = [] then Some ([], []) else None)"
| "view_fields m ((n, T) # fs) vs = (case vs of [] \<Rightarrow> None | (k, v) # vs' \<Rightarrow>
     if k = n then
       (case view m T v of None \<Rightarrow> None | Some (t, as) \<Rightarrow>
         (case view_fields m fs vs' of None \<Rightarrow> None | Some (ts, bs) \<Rightarrow> Some ((n, t) # ts, as @ bs)))
     else None)"

text \<open>A type without pointers, slices, maps and interfaces: assignment copies its values.\<close>

fun flat :: "gtype \<Rightarrow> bool" and flat_fields :: "(string \<times> gtype) list \<Rightarrow> bool" where
  "flat (TyScalar k) \<longleftrightarrow> True"
| "flat (TyStruct fs) \<longleftrightarrow> flat_fields fs"
| "flat _ \<longleftrightarrow> False"
| "flat_fields [] \<longleftrightarrow> True"
| "flat_fields ((n, T) # fs) \<longleftrightarrow> flat T \<and> flat_fields fs"

section \<open>Programs on the memory\<close>

type_synonym 'a mem = "(memory, 'a) state"

abbreviation assign :: "gval \<Rightarrow> gval mem" where
  "assign \<equiv> State_Monad.return"

definition alloc :: "cell \<Rightarrow> addr mem" where
  "alloc c = State (\<lambda>m. (length m, m @ [c]))"

definition store :: "addr \<Rightarrow> cell \<Rightarrow> unit mem" where
  "store a c = State (\<lambda>m. ((), m[a := c]))"

text \<open>A pointer, an array and a map in memory. Types rule out that one finds anything else there.\<close>

definition load :: "addr \<Rightarrow> gval mem" where
  "load a = State (\<lambda>m. (case cell_at m a of Some (CValue v) \<Rightarrow> v | _ \<Rightarrow> GNil, m))"

definition load_array :: "addr \<Rightarrow> gval list mem" where
  "load_array a = State (\<lambda>m. (case cell_at m a of Some (CArray vs) \<Rightarrow> vs | _ \<Rightarrow> [], m))"

definition load_entries :: "addr \<Rightarrow> (string \<times> gval) list mem" where
  "load_entries a = State (\<lambda>m. (case cell_at m a of Some (CEntries es) \<Rightarrow> es | _ \<Rightarrow> [], m))"

definition store_element :: "addr \<Rightarrow> nat \<Rightarrow> gval \<Rightarrow> unit mem" where
  "store_element a i v = do { vs \<leftarrow> load_array a; store a (CArray (vs[i := v])) }"

definition store_entry :: "addr \<Rightarrow> string \<Rightarrow> gval \<Rightarrow> unit mem" where
  "store_entry a k v = do { es \<leftarrow> load_entries a; store a (CEntries (AList.update k v es)) }"

lemma run_state_memory [simp]:
  "run_state (alloc c) m = (length m, m @ [c])"
  "run_state (store a c) m = ((), m[a := c])"
  "run_state (load a) m = (case cell_at m a of Some (CValue v) \<Rightarrow> v | _ \<Rightarrow> GNil, m)"
  "run_state (load_array a) m = (case cell_at m a of Some (CArray vs) \<Rightarrow> vs | _ \<Rightarrow> [], m)"
  "run_state (load_entries a) m = (case cell_at m a of Some (CEntries es) \<Rightarrow> es | _ \<Rightarrow> [], m)"
  by (simp_all add: alloc_def store_def load_def load_array_def load_entries_def)

text \<open>
  The statements that generated copies are made of. A function that copies \<^verbatim>\<open>*in\<close> into \<^verbatim>\<open>*out\<close> is
  modelled by the value it leaves in \<^verbatim>\<open>*out\<close>, which nobody reads meanwhile; the cell that holds it is that of the caller.
  \<^item> \<open>unless_nil\<close>: \<^verbatim>\<open>if in.F != nil { ... }\<close>, after \<^verbatim>\<open>*out = *in\<close>.
  \<^item> \<open>new_copy\<close>: \<^verbatim>\<open>*out = new(T)\<close> and a copy from \<^verbatim>\<open>**in\<close> to \<^verbatim>\<open>**out\<close>.
  \<^item> \<open>make_slice\<close>, \<open>make_copy\<close>: \<^verbatim>\<open>*out = make([]T, len(*in))\<close> and a loop over the elements, or
    \<^verbatim>\<open>copy(*out, *in)\<close>.
  \<^item> \<open>make_map\<close>: \<^verbatim>\<open>*out = make(map[string]T, len(*in))\<close> and a loop over the entries.
  \<^item> \<open>value_copy\<close>: \<^verbatim>\<open>*val.DeepCopy()\<close>.
  \<^item> \<open>copy_fields\<close>: \<^verbatim>\<open>*out = *in\<close> and a copy of each field named.
\<close>

definition unless_nil :: "(gval \<Rightarrow> gval mem) \<Rightarrow> gval \<Rightarrow> gval mem" where
  "unless_nil f v = (if v = GNil then State_Monad.return v else f v)"

fun new_copy :: "gtype \<Rightarrow> (gval \<Rightarrow> gval mem) \<Rightarrow> gval \<Rightarrow> gval mem" where
  "new_copy T f (GPtr p) = do {
     out \<leftarrow> alloc (CValue (zero_value T));
     v \<leftarrow> load p;
     w \<leftarrow> f v;
     store out (CValue w);
     State_Monad.return (GPtr out)
   }"
| "new_copy T f v = State_Monad.return v"

primrec copy_elements :: "(gval \<Rightarrow> gval mem) \<Rightarrow> addr \<Rightarrow> nat \<Rightarrow> addr \<Rightarrow> nat list \<Rightarrow> unit mem" where
  "copy_elements f p off out [] = State_Monad.return ()"
| "copy_elements f p off out (i # is) = do {
     vs \<leftarrow> load_array p;
     w \<leftarrow> f (vs ! (off + i));
     store_element out i w;
     copy_elements f p off out is
   }"

fun make_slice :: "gtype \<Rightarrow> (gval \<Rightarrow> gval mem) \<Rightarrow> gval \<Rightarrow> gval mem" where
  "make_slice T f (GSlice p off n) = do {
     out \<leftarrow> alloc (CArray (replicate n (zero_value T)));
     copy_elements f p off out [0..<n];
     State_Monad.return (GSlice out 0 n)
   }"
| "make_slice T f v = State_Monad.return v"

fun make_copy :: "gtype \<Rightarrow> gval \<Rightarrow> gval mem" where
  "make_copy T (GSlice p off n) = do {
     out \<leftarrow> alloc (CArray (replicate n (zero_value T)));
     vs \<leftarrow> load_array p;
     store out (CArray (take n (drop off vs)));
     State_Monad.return (GSlice out 0 n)
   }"
| "make_copy T v = State_Monad.return v"

primrec copy_entries :: "(gval \<Rightarrow> gval mem) \<Rightarrow> addr \<Rightarrow> (string \<times> gval) list \<Rightarrow> unit mem" where
  "copy_entries f out [] = State_Monad.return ()"
| "copy_entries f out (e # es) = do {
     w \<leftarrow> f (snd e);
     store_entry out (fst e) w;
     copy_entries f out es
   }"

fun make_map :: "(gval \<Rightarrow> gval mem) \<Rightarrow> gval \<Rightarrow> gval mem" where
  "make_map f (GMap p) = do {
     out \<leftarrow> alloc (CEntries []);
     es \<leftarrow> load_entries p;
     copy_entries f out es;
     State_Monad.return (GMap out)
   }"
| "make_map f v = State_Monad.return v"

definition value_copy :: "gtype \<Rightarrow> (gval \<Rightarrow> gval mem) \<Rightarrow> gval \<Rightarrow> gval mem" where
  "value_copy T f v = do {
     out \<leftarrow> alloc (CValue (zero_value T));
     w \<leftarrow> f v;
     store out (CValue w);
     load out
   }"

text \<open>\<^verbatim>\<open>DeepCopyObject\<close>: the interface value that holds the copy, with its type; nil for nil.\<close>

definition copy_object :: "string \<Rightarrow> (gval \<Rightarrow> gval mem) \<Rightarrow> gval \<Rightarrow> gval mem" where
  "copy_object n f v = do {
     c \<leftarrow> f v;
     State_Monad.return (case c of GPtr a \<Rightarrow> GIface n a | _ \<Rightarrow> GNil)
   }"

fun copy_fields :: "(string \<times> (gval \<Rightarrow> gval mem)) list \<Rightarrow> gval \<Rightarrow> gval \<Rightarrow> gval mem" where
  "copy_fields [] src out = State_Monad.return out"
| "copy_fields ((n, f) # steps) src out = do {
     w \<leftarrow> f (field n src);
     copy_fields steps src (set_field n w out)
   }"

section \<open>What a view depends on\<close>

lemma cell_at_append [simp]: "a < length m \<Longrightarrow> cell_at (m @ l) a = cell_at m a"
  by (simp add: cell_at_def nth_append)

lemma cell_at_fresh [simp]: "cell_at (m @ c # l) (length m) = Some c"
  by (simp add: cell_at_def)

lemma cell_at_update: "cell_at (m[a := c]) b = (if b = a \<and> a < length m then Some c else cell_at m b)"
  by (simp add: cell_at_def)

lemma cell_at_Some: "cell_at m a = Some c \<Longrightarrow> a < length m"
  by (simp add: cell_at_def split: if_splits)

lemma view_all_Cons:
  "view_all f (v # vs) = Some (ts, as) \<longleftrightarrow>
     (\<exists>t bs us cs. f v = Some (t, bs) \<and> view_all f vs = Some (us, cs) \<and> ts = t # us \<and> as = bs @ cs)"
  by (auto split: option.splits)

lemma view_all_mono:
  "view_all f vs = Some (ts, as) \<Longrightarrow> (\<And>v t bs. v \<in> set vs \<Longrightarrow> f v = Some (t, bs) \<Longrightarrow> set bs \<subseteq> set as \<Longrightarrow> g v = Some (t, bs)) \<Longrightarrow>
     view_all g vs = Some (ts, as)"
proof (induction vs arbitrary: ts as)
  case (Cons v vs)
  from Cons.prems(1) obtain t bs us cs where v: "f v = Some (t, bs)" "view_all f vs = Some (us, cs)" "ts = t # us" "as = bs @ cs"
    unfolding view_all_Cons by blast
  then have "g v = Some (t, bs)" by (intro Cons.prems(2)) auto
  moreover have "view_all g vs = Some (us, cs)" by (rule Cons.IH [OF v(2)], rule Cons.prems(2)) (use v(4) in auto)
  ultimately show ?case using v by simp
qed simp

lemma view_all_length: "view_all f vs = Some (ts, as) \<Longrightarrow> length ts = length vs"
  by (induction vs arbitrary: ts as) (auto split: option.splits)

lemma view_all_in: "view_all f vs = Some (ts, as) \<Longrightarrow> a \<in> set as \<Longrightarrow> \<exists>v t bs. v \<in> set vs \<and> f v = Some (t, bs) \<and> a \<in> set bs"
  by (induction vs arbitrary: ts as) (fastforce simp del: view_all.simps(2) simp: view_all_Cons)+

lemma view_all_append:
  "view_all f (vs @ ws) = (case view_all f vs of None \<Rightarrow> None | Some (ts, as) \<Rightarrow>
     (case view_all f ws of None \<Rightarrow> None | Some (us, bs) \<Rightarrow> Some (ts @ us, as @ bs)))"
  by (induction vs) (auto split: option.splits)

lemma gtype_induct [case_names Scalar Struct Ptr Slice Map Iface Nil Cons]:
  assumes "\<And>k. P (TyScalar k)" and struct: "\<And>fs. Q fs \<Longrightarrow> P (TyStruct fs)" and "\<And>T. P T \<Longrightarrow> P (TyPtr T)" and "\<And>T. P T \<Longrightarrow> P (TySlice T)"
    and "\<And>T. P T \<Longrightarrow> P (TyMap T)" and "P TyIface" and fields: "Q []" "\<And>n T fs. P T \<Longrightarrow> Q fs \<Longrightarrow> Q ((n, T) # fs)"
  shows "P T" and "Q fs"
proof -
  have Q: "Q fs" if "\<forall>(n, T) \<in> set fs. P T" for fs
    using that by (induction fs) (auto intro: fields)
  show P: "P T" for T
  proof (induction T)
    case (TyStruct fs)
    have "P U" if "(n, U) \<in> set fs" for n U
      by (rule TyStruct [OF that]) (simp add: snds.simps)
    then show ?case by (intro struct Q) auto
  qed (use assms in blast)+
  show "Q fs" by (rule Q) (auto intro: P)
qed

lemma view_iff:
  "view m (TyScalar k) v = Some (t, as) \<longleftrightarrow> (\<exists>s. v = GScalar s \<and> scalar_type s = k \<and> t = TLeaf s \<and> as = [])"
  "view m (TyStruct fs) v = Some (t, as) \<longleftrightarrow> (\<exists>vs ts. v = GStruct vs \<and> view_fields m fs vs = Some (ts, as) \<and> t = TStruct ts)"
  "view m (TyPtr T) v = Some (t, as) \<longleftrightarrow> v = GNil \<and> t = TNil \<and> as = [] \<or>
     (\<exists>a w u bs. v = GPtr a \<and> cell_at m a = Some (CValue w) \<and> view m T w = Some (u, bs) \<and> t = TPtr u \<and> as = a # bs)"
  "view m (TySlice T) v = Some (t, as) \<longleftrightarrow> v = GNil \<and> t = TNil \<and> as = [] \<or>
     (\<exists>a off n vs ts bs. v = GSlice a off n \<and> cell_at m a = Some (CArray vs) \<and> off + n \<le> length vs \<and>
        view_all (view m T) (take n (drop off vs)) = Some (ts, bs) \<and> t = TSlice ts \<and> as = a # bs)"
  "view m (TyMap T) v = Some (t, as) \<longleftrightarrow> v = GNil \<and> t = TNil \<and> as = [] \<or>
     (\<exists>a es ts bs. v = GMap a \<and> cell_at m a = Some (CEntries es) \<and> distinct (map fst es) \<and>
        view_all (view m T) (map snd es) = Some (ts, bs) \<and> t = TMap (zip (map fst es) ts) \<and> as = a # bs)"
  "view m TyIface v = Some (t, as) \<longleftrightarrow> v = GNil \<and> t = TNil \<and> as = []"
  "view_fields m [] vs = Some (ts, as) \<longleftrightarrow> vs = [] \<and> ts = [] \<and> as = []"
  "view_fields m ((n, T) # fs) vs = Some (ts, as) \<longleftrightarrow> (\<exists>v ws t bs us cs. vs = (n, v) # ws \<and> view m T v = Some (t, bs) \<and>
     view_fields m fs ws = Some (us, cs) \<and> ts = (n, t) # us \<and> as = bs @ cs)"
  by (auto split: gval.splits option.splits cell.splits if_splits list.splits)

declare view.simps [simp del] view_fields.simps [simp del] view_all.simps(2) [simp del]

text \<open>A view does not change when only other cells do.\<close>

lemma view_frame:
  "view m T v = Some (t, as) \<Longrightarrow> \<forall>a \<in> set as. cell_at m' a = cell_at m a \<Longrightarrow> view m' T v = Some (t, as)"
  "view_fields m fs vs = Some (ts, as) \<Longrightarrow> \<forall>a \<in> set as. cell_at m' a = cell_at m a \<Longrightarrow> view_fields m' fs vs = Some (ts, as)"
proof (induction T and fs arbitrary: v t as and vs ts as rule: gtype_induct)
  case (Slice T)
  have "view_all (view m' T) vs = Some (ts, bs)" if "view_all (view m T) vs = Some (ts, bs)" "set bs \<subseteq> set as" for vs ts bs
    by (rule view_all_mono [OF that(1)]) (use Slice.IH Slice.prems(2) that(2) in blast)
  with Slice.prems show ?case unfolding view_iff by fastforce
next
  case (Map T)
  have "view_all (view m' T) vs = Some (ts, bs)" if "view_all (view m T) vs = Some (ts, bs)" "set bs \<subseteq> set as" for vs ts bs
    by (rule view_all_mono [OF that(1)]) (use Map.IH Map.prems(2) that(2) in blast)
  with Map.prems show ?case unfolding view_iff by fastforce
qed (fastforce simp: view_iff)+

lemma view_in_memory:
  "view m T v = Some (t, as) \<Longrightarrow> a \<in> set as \<Longrightarrow> a < length m"
  "view_fields m fs vs = Some (ts, as) \<Longrightarrow> a \<in> set as \<Longrightarrow> a < length m"
  by (induction T and fs arbitrary: v t as and vs ts as rule: gtype_induct)
    (fastforce simp: view_iff dest: cell_at_Some view_all_in)+

lemma flat_view:
  "view m T v = Some (t, as) \<Longrightarrow> flat T \<Longrightarrow> as = []"
  "view_fields m fs vs = Some (ts, as) \<Longrightarrow> flat_fields fs \<Longrightarrow> as = []"
  by (induction T and fs arbitrary: v t as and vs ts as rule: gtype_induct) (fastforce simp: view_iff)+

definition extends :: "memory \<Rightarrow> memory \<Rightarrow> bool" where
  "extends m m' \<longleftrightarrow> (\<exists>new. m' = m @ new)"

lemma extends_refl [simp]: "extends m m"
  by (simp add: extends_def)

lemma extends_trans: "extends m m1 \<Longrightarrow> extends m1 m2 \<Longrightarrow> extends m m2"
  by (auto simp: extends_def)

lemma extends_length: "extends m m' \<Longrightarrow> length m \<le> length m'"
  by (auto simp: extends_def)

lemma extends_cell: "extends m m' \<Longrightarrow> a < length m \<Longrightarrow> cell_at m' a = cell_at m a"
  by (auto simp: extends_def)

lemma extends_update: "extends m m' \<Longrightarrow> length m \<le> a \<Longrightarrow> extends m (m'[a := c])"
  by (auto simp: extends_def list_update_append)

lemma extends_view: "extends m m' \<Longrightarrow> view m T v = Some (t, as) \<Longrightarrow> view m' T v = Some (t, as)"
  using view_in_memory(1) by (blast intro: view_frame(1) extends_cell)

lemma extends_view_fields: "extends m m' \<Longrightarrow> view_fields m fs v = Some (t, as) \<Longrightarrow> view_fields m' fs v = Some (t, as)"
  using view_in_memory(2) by (blast intro: view_frame(2) extends_cell)

section \<open>Deep copies\<close>

text \<open>The value \<open>v'\<close> is read from cells allocated between \<open>m\<close> and \<open>m'\<close>, each of them once.\<close>

definition fresh_view :: "memory \<Rightarrow> memory \<Rightarrow> gtype \<Rightarrow> gval \<Rightarrow> tree \<Rightarrow> bool" where
  "fresh_view m m' T v' t \<longleftrightarrow> (\<exists>bs. view m' T v' = Some (t, bs) \<and> set bs \<subseteq> {length m..<length m'} \<and> distinct bs)"

definition copies :: "gtype \<Rightarrow> (gval \<Rightarrow> gval mem) \<Rightarrow> bool" where
  "copies T f \<longleftrightarrow> (\<forall>m v t as. view m T v = Some (t, as) \<longrightarrow>
     (\<exists>v' m'. run_state (f v) m = (v', m') \<and> extends m m' \<and> fresh_view m m' T v' t))"

lemma copiesD:
  assumes "copies T f" and "view m T v = Some (t, as)"
  obtains v' m' bs where "run_state (f v) m = (v', m')" "extends m m'" "view m' T v' = Some (t, bs)"
    "set bs \<subseteq> {length m..<length m'}" "distinct bs"
  using assms unfolding copies_def fresh_view_def by blast

lemma copies_flat [copies_intros]: "flat T \<Longrightarrow> copies T assign"
  unfolding copies_def fresh_view_def using flat_view(1) by fastforce

lemma copies_nil [copies_intros]: "copies TyIface (unless_nil f)"
  by (simp add: copies_def fresh_view_def unless_nil_def view_iff)

text \<open>Writing to a cell that was there before leaves a copy as it is.\<close>

lemma copy_kept:
  assumes "view m T v = Some (t, as)" and "b \<notin> set as"
  shows "view (m[b := c]) T v = Some (t, as)"
  by (rule view_frame(1) [OF assms(1)]) (use assms(2) in \<open>auto simp: cell_at_update\<close>)

lemma copies_ptr [copies_intros]:
  assumes "copies T f"
  shows "copies (TyPtr T) (unless_nil (new_copy T f))"
  unfolding copies_def
proof (intro allI impI)
  fix m v t as
  assume view: "view m (TyPtr T) v = Some (t, as)"
  show "\<exists>v' m'. run_state (unless_nil (new_copy T f) v) m = (v', m') \<and> extends m m' \<and> fresh_view m m' (TyPtr T) v' t"
  proof (cases "v = GNil")
    case True
    with view show ?thesis by (simp add: unless_nil_def fresh_view_def view_iff)
  next
    case False
    with view obtain a w u bs where v: "v = GPtr a" "cell_at m a = Some (CValue w)" "t = TPtr u" and w: "view m T w = Some (u, bs)"
      by (auto simp: view_iff)
    let ?m = "m @ [CValue (zero_value T)]"
    have "view ?m T w = Some (u, bs)" by (rule extends_view [OF _ w]) (simp add: extends_def)
    with assms obtain w' m1 cs where run: "run_state (f w) ?m = (w', m1)" "extends ?m m1" and w': "view m1 T w' = Some (u, cs)"
      and cs: "set cs \<subseteq> {length ?m..<length m1}" "distinct cs" by (rule copiesD)
    have m1: "extends m m1" "length m < length m1"
      using run(2) by (auto simp: extends_def)
    have "view (m1[length m := CValue w']) T w' = Some (u, cs)" by (rule copy_kept [OF w']) (use cs in auto)
    with m1 cs have "fresh_view m (m1[length m := CValue w']) (TyPtr T) (GPtr (length m)) t"
      by (auto simp: fresh_view_def view_iff v(3) cell_at_update)
    moreover have "cell_at ?m a = Some (CValue w)" using v(2) by (simp add: cell_at_Some)
    ultimately show ?thesis using run(1) m1(1) by (simp add: unless_nil_def v(1) extends_update)
  qed
qed

lemma unless_nil_twice [simp]: "unless_nil (unless_nil f) = unless_nil f"
  by (simp add: unless_nil_def fun_eq_iff)

lemma copies_value [copies_intros]:
  assumes "copies T f"
  shows "copies T (value_copy T f)"
  unfolding copies_def
proof (intro allI impI)
  fix m v t as
  assume v: "view m T v = Some (t, as)"
  let ?m = "m @ [CValue (zero_value T)]"
  have "view ?m T v = Some (t, as)" by (rule extends_view [OF _ v]) (simp add: extends_def)
  with assms obtain v' m1 cs where run: "run_state (f v) ?m = (v', m1)" "extends ?m m1" and v': "view m1 T v' = Some (t, cs)"
    and cs: "set cs \<subseteq> {length ?m..<length m1}" "distinct cs" by (rule copiesD)
  have m1: "extends m m1" "length m < length m1"
    using run(2) by (auto simp: extends_def)
  have "view (m1[length m := CValue v']) T v' = Some (t, cs)" by (rule copy_kept [OF v']) (use cs in auto)
  with cs have "fresh_view m (m1[length m := CValue v']) T v' t" unfolding fresh_view_def by auto
  with run(1) m1 show "\<exists>v' m'. run_state (value_copy T f v) m = (v', m') \<and> extends m m' \<and> fresh_view m m' T v' t"
    by (simp add: value_copy_def extends_update cell_at_update)
qed

text \<open>One more element, of an array or a map in the cell \<open>o\<close>, is copied.\<close>

lemma copy_one:
  assumes "copies T f" and "view m T x = Some (t, as)" and ws: "view_all (view m T) ws = Some (us, bs)"
    and bs: "set bs \<subseteq> {a<..<length m}" "distinct bs" and a: "a < length m"
  obtains w m1 cs where "run_state (f x) m = (w, m1)" "extends m m1"
    "\<And>c. view_all (view (m1[a := c]) T) (ws @ [w]) = Some (us @ [t], cs)" "set cs \<subseteq> {a<..<length m1}" "distinct cs"
proof -
  from assms(1,2) obtain w m1 ds where run: "run_state (f x) m = (w, m1)" "extends m m1" and w: "view m1 T w = Some (t, ds)"
    and ds: "set ds \<subseteq> {length m..<length m1}" "distinct ds" by (rule copiesD)
  have "view (m1[a := c]) T w = Some (t, ds)" for c by (rule copy_kept [OF w]) (use ds a in auto)
  moreover have "view_all (view (m1[a := c]) T) ws = Some (us, bs)" for c
  proof (rule view_all_mono [OF ws])
    fix v t es
    assume "view m T v = Some (t, es)" "set es \<subseteq> set bs"
    then show "view (m1[a := c]) T v = Some (t, es)" using bs by (intro copy_kept extends_view [OF run(2)]) auto
  qed
  ultimately have "view_all (view (m1[a := c]) T) (ws @ [w]) = Some (us @ [t], bs @ ds)" for c
    by (simp add: view_all_append view_all.simps(2))
  moreover have "set bs \<inter> set ds = {}" using bs(1) ds(1) by fastforce
  ultimately show ?thesis using run bs ds a extends_length [OF run(2)] by (intro that [of w m1 "bs @ ds"]) auto
qed

lemma view_all_nth: "view_all f vs = Some (ts, as) \<Longrightarrow> i < length vs \<Longrightarrow> \<exists>bs. f (vs ! i) = Some (ts ! i, bs)"
  by (induction vs arbitrary: i ts as) (auto simp: view_all_Cons less_Suc_eq_0_disj)

lemma copy_elements_run:
  assumes f: "copies T f" and src: "cell_at m p = Some (CArray src)" "off + n \<le> length src"
      "view_all (view m T) (take n (drop off src)) = Some (ts, as)"
    and "i \<le> n" and "extends m mk" and "length m < length mk" and "cell_at mk (length m) = Some (CArray ws)" and "length ws = n"
    and "view_all (view mk T) (take i ws) = Some (take i ts, bs)" and "set bs \<subseteq> {length m<..<length mk}" and "distinct bs"
  shows "\<exists>m' ws' cs. run_state (copy_elements f p off (length m) [i..<n]) mk = ((), m') \<and> extends m m' \<and> length m < length m' \<and>
      cell_at m' (length m) = Some (CArray ws') \<and> length ws' = n \<and> view_all (view m' T) ws' = Some (ts, cs) \<and>
      set cs \<subseteq> {length m<..<length m'} \<and> distinct cs"
  using assms(5-)
proof (induction "n - i" arbitrary: i mk ws bs)
  case 0
  then have "i = n" "length ts = n" using view_all_length [OF src(3)] src(2) by auto
  with 0 show ?case by (intro exI [of _ mk] exI [of _ ws] exI [of _ bs]) simp
next
  case (Suc k)
  then have i: "i < n" by simp
  have ts: "length ts = n" using view_all_length [OF src(3)] src(2) by simp
  from view_all_nth [OF src(3), of i] src(2) i obtain ds where "view m T (src ! (off + i)) = Some (ts ! i, ds)" by auto
  then have x: "view mk T (src ! (off + i)) = Some (ts ! i, ds)" by (rule extends_view [OF Suc.prems(2)])
  obtain w m1 cs where run: "run_state (f (src ! (off + i))) mk = (w, m1)" "extends mk m1"
    and view: "\<And>c. view_all (view (m1[length m := c]) T) (take i ws @ [w]) = Some (take i ts @ [ts ! i], cs)"
    and cs: "set cs \<subseteq> {length m<..<length m1}" "distinct cs"
    by (rule copy_one [OF f x Suc.prems(6-8,3)]) (rule that)
  let ?m = "m1[length m := CArray (ws[i := w])]"
  have m1: "extends m m1" "length m < length m1"
    using extends_trans [OF Suc.prems(2) run(2)] extends_length [OF run(2)] Suc.prems(3) by auto
  have p: "cell_at mk p = Some (CArray src)"
    using src(1) extends_cell [OF Suc.prems(2) cell_at_Some [OF src(1)]] by simp
  have out: "cell_at m1 (length m) = Some (CArray ws)" using Suc.prems(3,4) extends_cell [OF run(2)] by simp
  have step: "run_state (copy_elements f p off (length m) [i..<n]) mk = run_state (copy_elements f p off (length m) [Suc i..<n]) ?m"
    using run(1) p out i by (simp add: upt_conv_Cons store_element_def)
  have "take (Suc i) (ws[i := w]) = take i ws @ [w]" using i Suc.prems(5) by (simp add: take_Suc_conv_app_nth)
  moreover have "take (Suc i) ts = take i ts @ [ts ! i]" using i ts by (simp add: take_Suc_conv_app_nth)
  ultimately show ?case
    unfolding step using Suc.hyps(2) Suc.prems(5) i m1 view cs
    by (intro Suc.hyps(1) [of "Suc i" ?m "ws[i := w]" cs]) (auto simp: cell_at_update extends_update)
qed

lemma copies_slice [copies_intros]:
  assumes "copies T f"
  shows "copies (TySlice T) (unless_nil (make_slice T f))"
  unfolding copies_def
proof (intro allI impI)
  fix m v t as
  assume view: "view m (TySlice T) v = Some (t, as)"
  show "\<exists>v' m'. run_state (unless_nil (make_slice T f) v) m = (v', m') \<and> extends m m' \<and> fresh_view m m' (TySlice T) v' t"
  proof (cases "v = GNil")
    case True
    with view show ?thesis by (simp add: unless_nil_def fresh_view_def view_iff)
  next
    case False
    with view obtain p off n vs ts bs where v: "v = GSlice p off n" "t = TSlice ts"
      and src: "cell_at m p = Some (CArray vs)" "off + n \<le> length vs" "view_all (view m T) (take n (drop off vs)) = Some (ts, bs)"
      by (auto simp: view_iff)
    let ?m = "m @ [CArray (replicate n (zero_value T))]"
    obtain m' ws cs where run: "run_state (copy_elements f p off (length m) [0..<n]) ?m = ((), m')" "extends m m'" "length m < length m'"
      and ws: "cell_at m' (length m) = Some (CArray ws)" "length ws = n" "view_all (view m' T) ws = Some (ts, cs)"
      and cs: "set cs \<subseteq> {length m<..<length m'}" "distinct cs"
      using copy_elements_run [OF assms src, of 0 ?m "replicate n (zero_value T)" "[]"] by (auto simp: extends_def)
    from ws cs run(3) have "fresh_view m m' (TySlice T) (GSlice (length m) 0 n) t"
      by (auto simp: fresh_view_def view_iff v(2))
    with run show ?thesis by (simp add: unless_nil_def v(1))
  qed
qed

lemma flat_view_all:
  "view_all (view m T) vs = Some (ts, as) \<Longrightarrow> flat T \<Longrightarrow> as = []"
  by (induction vs arbitrary: ts as) (auto simp: view_all_Cons dest: flat_view(1))

lemma flat_view_kept: "view m T v = Some (t, as) \<Longrightarrow> flat T \<Longrightarrow> view m' T v = Some (t, [])"
  using flat_view(1) view_frame(1) [of m T v t as m'] by fastforce

lemma copies_flat_slice [copies_intros]:
  assumes "flat T"
  shows "copies (TySlice T) (unless_nil (make_copy T))"
  unfolding copies_def
proof (intro allI impI)
  fix m v t as
  assume view: "view m (TySlice T) v = Some (t, as)"
  show "\<exists>v' m'. run_state (unless_nil (make_copy T) v) m = (v', m') \<and> extends m m' \<and> fresh_view m m' (TySlice T) v' t"
  proof (cases "v = GNil")
    case True
    with view show ?thesis by (simp add: unless_nil_def fresh_view_def view_iff)
  next
    case False
    with view obtain p off n vs ts bs where v: "v = GSlice p off n" "t = TSlice ts"
      and src: "cell_at m p = Some (CArray vs)" "off + n \<le> length vs" "view_all (view m T) (take n (drop off vs)) = Some (ts, bs)"
      by (auto simp: view_iff)
    let ?m = "m @ [CArray (take n (drop off vs))]"
    have "view_all (view ?m T) (take n (drop off vs)) = Some (ts, bs)"
      by (rule view_all_mono [OF src(3)]) (use flat_view_kept [OF _ assms] flat_view(1) [OF _ assms] in fastforce)
    then have "fresh_view m ?m (TySlice T) (GSlice (length m) 0 n) t"
      using src(2) flat_view_all [OF src(3) assms] by (auto simp: fresh_view_def view_iff v(2))
    moreover have "cell_at (m @ [c]) p = Some (CArray vs)" for c using src(1) by (simp add: cell_at_Some)
    ultimately show ?thesis by (simp add: unless_nil_def v(1) extends_def)
  qed
qed

lemma update_new: "k \<notin> set (map fst es) \<Longrightarrow> AList.update k v es = es @ [(k, v)]"
  by (induction es) auto

lemma copy_entries_run:
  assumes f: "copies T f" and "view_all (view m T) (map snd es) = Some (ts, as)" and "set as \<subseteq> {..<a}"
    and "distinct (map fst ds @ map fst es)" and "a < length m" and "cell_at m a = Some (CEntries ds)"
    and "view_all (view m T) (map snd ds) = Some (us, bs)" and "set bs \<subseteq> {a<..<length m}" and "distinct bs"
  shows "\<exists>m' es' cs. run_state (copy_entries f a es) m = ((), m') \<and> (\<forall>m0. extends m0 m \<longrightarrow> length m0 \<le> a \<longrightarrow> extends m0 m') \<and>
      a < length m' \<and> cell_at m' a = Some (CEntries es') \<and> map fst es' = map fst ds @ map fst es \<and>
      view_all (view m' T) (map snd es') = Some (us @ ts, cs) \<and> set cs \<subseteq> {a<..<length m'} \<and> distinct cs"
  using assms(2-)
proof (induction es arbitrary: m ts as ds us bs)
  case Nil
  then show ?case by (intro exI [of _ m] exI [of _ ds] exI [of _ bs]) simp
next
  case (Cons e es)
  obtain k v where e: "e = (k, v)" by (cases e)
  with Cons.prems(1) obtain t cs us' ds' where v: "view m T v = Some (t, cs)"
    and es: "view_all (view m T) (map snd es) = Some (us', ds')" and ts: "ts = t # us'" and ds': "set ds' \<subseteq> {..<a}"
    using Cons.prems(2) by (auto simp: view_all_Cons)
  obtain w m1 cs where run: "run_state (f v) m = (w, m1)" "extends m m1"
    and view: "\<And>c. view_all (view (m1[a := c]) T) (map snd ds @ [w]) = Some (us @ [t], cs)"
    and cs: "set cs \<subseteq> {a<..<length m1}" "distinct cs"
    by (rule copy_one [OF f v Cons.prems(6-8,4)]) (rule that)
  let ?m = "m1[a := CEntries (ds @ [(k, w)])]"
  have m1: "a < length m1" "cell_at m1 a = Some (CEntries ds)"
    using Cons.prems(4,5) extends_cell [OF run(2) Cons.prems(4)] extends_length [OF run(2)] by auto
  have new: "AList.update k w ds = ds @ [(k, w)]" by (rule update_new) (use Cons.prems(3) e in auto)
  have step: "run_state (copy_entries f a (e # es)) m = run_state (copy_entries f a es) ?m"
    using run(1) m1(2) by (simp add: e store_entry_def new)
  have "view_all (view ?m T) (map snd es) = Some (us', ds')"
  proof (rule view_all_mono [OF es])
    fix v t bs
    assume "view m T v = Some (t, bs)" "set bs \<subseteq> set ds'"
    then show "view ?m T v = Some (t, bs)" using ds' by (intro copy_kept extends_view [OF run(2)]) auto
  qed
  then have "\<exists>m' es' bs. run_state (copy_entries f a es) ?m = ((), m') \<and> (\<forall>m0. extends m0 ?m \<longrightarrow> length m0 \<le> a \<longrightarrow> extends m0 m') \<and>
      a < length m' \<and> cell_at m' a = Some (CEntries es') \<and> map fst es' = map fst (ds @ [(k, w)]) @ map fst es \<and>
      view_all (view m' T) (map snd es') = Some ((us @ [t]) @ us', bs) \<and> set bs \<subseteq> {a<..<length m'} \<and> distinct bs"
    by (rule Cons.IH) (use Cons.prems(3) ds' m1 view cs e in \<open>auto simp: cell_at_update\<close>)
  moreover have "extends m0 ?m" if "extends m0 m" "length m0 \<le> a" for m0
    using extends_update [OF extends_trans [OF that(1) run(2)] that(2)] .
  ultimately show ?case unfolding step by (fastforce simp: e ts)
qed

lemma copies_map [copies_intros]:
  assumes "copies T f"
  shows "copies (TyMap T) (unless_nil (make_map f))"
  unfolding copies_def
proof (intro allI impI)
  fix m v t as
  assume view: "view m (TyMap T) v = Some (t, as)"
  show "\<exists>v' m'. run_state (unless_nil (make_map f) v) m = (v', m') \<and> extends m m' \<and> fresh_view m m' (TyMap T) v' t"
  proof (cases "v = GNil")
    case True
    with view show ?thesis by (simp add: unless_nil_def fresh_view_def view_iff)
  next
    case False
    with view obtain p es ts bs where v: "v = GMap p" "t = TMap (zip (map fst es) ts)" and es: "distinct (map fst es)"
      and src: "cell_at m p = Some (CEntries es)" "view_all (view m T) (map snd es) = Some (ts, bs)"
      by (auto simp: view_iff)
    let ?m = "m @ [CEntries []]"
    have m: "extends m ?m" by (simp add: extends_def)
    have old: "view_all (view ?m T) (map snd es) = Some (ts, bs)"
      by (rule view_all_mono [OF src(2)]) (rule extends_view [OF m])
    have bs: "set bs \<subseteq> {..<length m}" using view_all_in [OF src(2)] view_in_memory(1) by blast
    obtain m' es' cs where run: "run_state (copy_entries f (length m) es) ?m = ((), m')"
        "\<forall>m0. extends m0 ?m \<longrightarrow> length m0 \<le> length m \<longrightarrow> extends m0 m'" "length m < length m'"
      and es': "cell_at m' (length m) = Some (CEntries es')" "map fst es' = map fst es" "view_all (view m' T) (map snd es') = Some (ts, cs)"
      and cs: "set cs \<subseteq> {length m<..<length m'}" "distinct cs"
      using copy_entries_run [OF assms old bs, of "[]" "[]" "[]"] es by auto
    from es es' cs run(3) have "fresh_view m m' (TyMap T) (GMap (length m)) t"
      by (auto simp: fresh_view_def view_iff v(2))
    moreover have "cell_at ?m p = Some (CEntries es)" using src(1) by (simp add: cell_at_Some)
    ultimately show ?thesis using run m by (simp add: unless_nil_def v(1))
  qed
qed

text \<open>
  Structs. The copies of fields are in the order of the fields; a field without one is left to \<^verbatim>\<open>*out = *in\<close>, so it must be flat.
\<close>

fun steps_copy :: "(string \<times> gtype) list \<Rightarrow> (string \<times> (gval \<Rightarrow> gval mem)) list \<Rightarrow> bool" where
  "steps_copy [] steps \<longleftrightarrow> steps = []"
| "steps_copy ((n, T) # fs) [] \<longleftrightarrow> flat T \<and> steps_copy fs []"
| "steps_copy ((n, T) # fs) ((k, f) # steps) \<longleftrightarrow>
     (if k = n then copies T f \<and> steps_copy fs steps else flat T \<and> steps_copy fs ((k, f) # steps))"

lemma view_fields_names: "view_fields m fs vs = Some (ts, as) \<Longrightarrow> map fst vs = map fst fs"
  by (induction fs arbitrary: vs ts as) (auto simp: view_iff)

lemma field_here: "n \<notin> set (map fst ds) \<Longrightarrow> field n (GStruct (ds @ (n, v) # vs)) = v"
  by (induction ds) auto

lemma set_field_other: "n \<notin> set (map fst vs) \<Longrightarrow> map (\<lambda>(k, u). (k, if k = n then w else u)) vs = vs"
  by (induction vs) auto

lemma set_field_here:
  "n \<notin> set (map fst ds) \<Longrightarrow> n \<notin> set (map fst vs) \<Longrightarrow> set_field n w (GStruct (ds @ (n, v) # vs)) = GStruct (ds @ (n, w) # vs)"
  using set_field_other [of n ds w] set_field_other [of n vs w] by simp

lemma copy_fields_run:
  assumes "steps_copy fs steps" and "view_fields m fs vs = Some (ts, as)" and "distinct (map fst ds @ map fst fs)"
    and "map fst ds' = map fst ds"
  shows "\<exists>vs' m' bs. run_state (copy_fields steps (GStruct (ds @ vs)) (GStruct (ds' @ vs))) m = (GStruct (ds' @ vs'), m') \<and>
      extends m m' \<and> view_fields m' fs vs' = Some (ts, bs) \<and> set bs \<subseteq> {length m..<length m'} \<and> distinct bs"
  using assms
proof (induction fs steps arbitrary: m vs ts as ds ds' rule: steps_copy.induct)
  case (1 steps)
  then show ?case by (auto simp: view_iff)
next
  case (2 n T fs)
  from 2(3) obtain v ws t bs us cs where v: "vs = (n, v) # ws" "ts = (n, t) # us" "view m T v = Some (t, bs)"
    and ws: "view_fields m fs ws = Some (us, cs)" by (auto simp: view_iff)
  from 2(2) have "steps_copy fs []" "flat T" by auto
  from 2(1) [OF this(1) ws, of "ds @ [(n, v)]" "ds' @ [(n, v)]"] 2(4,5) flat_view(1) [OF v(3) this(2)] v
  show ?case by (auto simp: view_iff flat_view_kept [OF v(3) \<open>flat T\<close>])
next
  case (3 n T fs k f steps)
  from 3(4) obtain v ws t bs us cs where v: "vs = (n, v) # ws" "ts = (n, t) # us" "view m T v = Some (t, bs)"
    and ws: "view_fields m fs ws = Some (us, cs)" by (auto simp: view_iff)
  show ?case
  proof (cases "k = n")
    case True
    with 3(3) have f: "copies T f" "steps_copy fs steps" by auto
    from f(1) v(3) obtain w m1 ds1 where run: "run_state (f v) m = (w, m1)" "extends m m1" and w: "view m1 T w = Some (t, ds1)"
      and ds1: "set ds1 \<subseteq> {length m..<length m1}" "distinct ds1" by (rule copiesD)
    have names: "n \<notin> set (map fst ds)" "n \<notin> set (map fst ds')" "n \<notin> set (map fst ws)"
      using 3(5,6) view_fields_names [OF ws] by auto
    obtain vs' m' ds2 where rest: "run_state (copy_fields steps (GStruct ((ds @ [(n, v)]) @ ws)) (GStruct ((ds' @ [(n, w)]) @ ws))) m1 =
        (GStruct ((ds' @ [(n, w)]) @ vs'), m')" "extends m1 m'" "view_fields m' fs vs' = Some (us, ds2)"
      and ds2: "set ds2 \<subseteq> {length m1..<length m'}" "distinct ds2"
      using 3(1) [OF True f(2) extends_view_fields [OF run(2) ws], of "ds @ [(n, v)]" "ds' @ [(n, w)]"] 3(5,6) by auto
    have "run_state (copy_fields ((k, f) # steps) (GStruct (ds @ vs)) (GStruct (ds' @ vs))) m = (GStruct (ds' @ (n, w) # vs'), m')"
      using rest(1) run(1) by (simp only: copy_fields.simps v(1) True field_here [OF names(1)] set_field_here [OF names(2,3)]) simp
    moreover have "view_fields m' ((n, T) # fs) ((n, w) # vs') = Some (ts, ds1 @ ds2)"
      using extends_view [OF rest(2) w] rest(3) by (simp add: view_iff v(2))
    moreover have "set (ds1 @ ds2) \<subseteq> {length m..<length m'}" "distinct (ds1 @ ds2)"
      using ds1 ds2 extends_length [OF run(2)] extends_length [OF rest(2)] by (auto, force+)
    ultimately show ?thesis using extends_trans [OF run(2) rest(2)] by blast
  next
    case False
    with 3(3) have f: "flat T" "steps_copy fs ((k, f) # steps)" by auto
    from 3(2) [OF False f(2) ws, of "ds @ [(n, v)]" "ds' @ [(n, v)]"] 3(5,6) v
    show ?thesis by (auto simp: view_iff flat_view_kept [OF v(3) f(1)])
  qed
qed

lemma copies_struct [copies_intros]:
  assumes "steps_copy fs steps" and "distinct (map fst fs)"
  shows "copies (TyStruct fs) (\<lambda>src. copy_fields steps src src)"
  unfolding copies_def
proof (intro allI impI)
  fix m v t as
  assume "view m (TyStruct fs) v = Some (t, as)"
  then obtain vs ts where v: "v = GStruct vs" "view_fields m fs vs = Some (ts, as)" "t = TStruct ts" by (auto simp: view_iff)
  from copy_fields_run [OF assms(1) v(2), of "[]" "[]"] assms(2)
  show "\<exists>v' m'. run_state (copy_fields steps v v) m = (v', m') \<and> extends m m' \<and> fresh_view m m' (TyStruct fs) v' t"
    by (fastforce simp: fresh_view_def view_iff v(1,3))
qed

end
