(* ===== verification/Api_Memory.thy ===== *)
theory Api_Memory
  imports Go_Memory
begin

text \<open>
  The types of \<^verbatim>\<open>api/v1beta1\<close> as they lie in memory, and those of Kubernetes and Cluster API they are made of. Names of
  string types are \<open>tyString\<close>; an embedded struct is a field with the name of its type.
\<close>

abbreviation "tyString \<equiv> TyScalar ScString"
abbreviation "tyInt \<equiv> TyScalar ScInt"
abbreviation "tyBool \<equiv> TyScalar ScBool"
abbreviation "tyTime \<equiv> TyScalar ScTime"
abbreviation "tyByte \<equiv> TyScalar ScInt"

section \<open>Kubernetes and Cluster API\<close>

definition ty_TypeMeta :: gtype where
  "ty_TypeMeta = TyStruct [
     (''Kind'', tyString), (''APIVersion'', tyString)]"

definition ty_ListMeta :: gtype where
  "ty_ListMeta = TyStruct [
     (''SelfLink'', tyString), (''ResourceVersion'', tyString), (''Continue'', tyString), (''RemainingItemCount'', TyPtr tyInt)]"

definition ty_OwnerReference :: gtype where
  "ty_OwnerReference = TyStruct [
     (''APIVersion'', tyString), (''Kind'', tyString), (''Name'', tyString), (''UID'', tyString),
     (''Controller'', TyPtr tyBool), (''BlockOwnerDeletion'', TyPtr tyBool)]"

definition ty_FieldsV1 :: gtype where
  "ty_FieldsV1 = TyStruct [
     (''Raw'', TySlice tyByte)]"

definition ty_ManagedFieldsEntry :: gtype where
  "ty_ManagedFieldsEntry = TyStruct [
     (''Manager'', tyString), (''Operation'', tyString), (''APIVersion'', tyString), (''Time'', TyPtr tyTime),
     (''FieldsType'', tyString), (''FieldsV1'', TyPtr ty_FieldsV1), (''Subresource'', tyString)]"

definition ty_ObjectMeta :: gtype where
  "ty_ObjectMeta = TyStruct [
     (''Name'', tyString), (''GenerateName'', tyString), (''Namespace'', tyString), (''SelfLink'', tyString),
     (''UID'', tyString), (''ResourceVersion'', tyString), (''Generation'', tyInt), (''CreationTimestamp'', tyTime),
     (''DeletionTimestamp'', TyPtr tyTime), (''DeletionGracePeriodSeconds'', TyPtr tyInt), (''Labels'', TyMap tyString),
     (''Annotations'', TyMap tyString), (''OwnerReferences'', TySlice ty_OwnerReference), (''Finalizers'', TySlice tyString),
     (''ManagedFields'', TySlice ty_ManagedFieldsEntry)]"

definition ty_LabelSelectorRequirement :: gtype where
  "ty_LabelSelectorRequirement = TyStruct [
     (''Key'', tyString), (''Operator'', tyString), (''Values'', TySlice tyString)]"

definition ty_LabelSelector :: gtype where
  "ty_LabelSelector = TyStruct [
     (''MatchLabels'', TyMap tyString), (''MatchExpressions'', TySlice ty_LabelSelectorRequirement)]"

definition ty_ObjectReference :: gtype where
  "ty_ObjectReference = TyStruct [
     (''Kind'', tyString), (''Namespace'', tyString), (''Name'', tyString), (''UID'', tyString), (''APIVersion'', tyString),
     (''ResourceVersion'', tyString), (''FieldPath'', tyString)]"

definition ty_RawExtension :: gtype where
  "ty_RawExtension = TyStruct [
     (''Raw'', TySlice tyByte), (''Object'', TyIface)]"

definition ty_Condition :: gtype where
  "ty_Condition = TyStruct [
     (''Type'', tyString), (''Status'', tyString), (''Severity'', tyString), (''LastTransitionTime'', tyTime),
     (''Reason'', tyString), (''Message'', tyString)]"

definition ty_FailureDomainSpec :: gtype where
  "ty_FailureDomainSpec = TyStruct [
     (''ControlPlane'', tyBool), (''Attributes'', TyMap tyString)]"

definition ty_APIEndpoint :: gtype where
  "ty_APIEndpoint = TyStruct [
     (''Host'', tyString), (''Port'', tyInt)]"

section \<open>The provider\<close>

definition ty_PostAction :: gtype where
  "ty_PostAction = TyStruct [
     (''PowerOff'', tyBool), (''Reboot'', tyBool)]"

definition ty_Hostname :: gtype where
  "ty_Hostname = TyStruct [
     (''UseExisting'', tyBool), (''Prefix'', tyString)]"

definition ty_Agent :: gtype where
  "ty_Agent = TyStruct [
     (''WorkDir'', tyString), (''Hostname'', ty_Hostname), (''NoSMBIOS'', tyBool), (''Debug'', tyBool),
     (''OSPlugin'', tyString), (''Reconciliation'', tyInt), (''InsecureAllowHTTP'', tyBool),
     (''InsecureSkipTLSVerify'', tyBool), (''UseSystemCertPool'', tyBool), (''PostInstall'', ty_PostAction),
     (''PostReset'', ty_PostAction)]"

definition ty_Registration :: gtype where
  "ty_Registration = TyStruct [
     (''URI'', tyString), (''CACert'', tyString), (''TokenDuration'', tyInt), (''Token'', tyString)]"

definition ty_Elemental :: gtype where
  "ty_Elemental = TyStruct [
     (''Install'', TyMap ty_RawExtension), (''Reset'', TyMap ty_RawExtension), (''Registration'', ty_Registration),
     (''Agent'', ty_Agent)]"

definition ty_Config :: gtype where
  "ty_Config = TyStruct [
     (''Elemental'', ty_Elemental), (''CloudConfig'', TyMap ty_RawExtension)]"

definition ty_ElementalRegistrationSpec :: gtype where
  "ty_ElementalRegistrationSpec = TyStruct [
     (''HostLabels'', TyMap tyString), (''HostAnnotations'', TyMap tyString), (''Config'', ty_Config),
     (''PrivateKeyRef'', TyPtr ty_ObjectReference)]"

definition ty_ElementalRegistrationStatus :: gtype where
  "ty_ElementalRegistrationStatus = TyStruct [
     (''Conditions'', TySlice ty_Condition)]"

definition ty_ElementalRegistration :: gtype where
  "ty_ElementalRegistration = TyStruct [
     (''TypeMeta'', ty_TypeMeta), (''ObjectMeta'', ty_ObjectMeta), (''Spec'', ty_ElementalRegistrationSpec),
     (''Status'', ty_ElementalRegistrationStatus)]"

definition ty_ElementalRegistrationList :: gtype where
  "ty_ElementalRegistrationList = TyStruct [
     (''TypeMeta'', ty_TypeMeta), (''ListMeta'', ty_ListMeta), (''Items'', TySlice ty_ElementalRegistration)]"

definition ty_ElementalHostSpec :: gtype where
  "ty_ElementalHostSpec = TyStruct [
     (''BootstrapSecret'', TyPtr ty_ObjectReference), (''MachineRef'', TyPtr ty_ObjectReference), (''PubKey'', tyString),
     (''OSVersionManagement'', TyMap ty_RawExtension)]"

definition ty_ElementalHostStatus :: gtype where
  "ty_ElementalHostStatus = TyStruct [
     (''Phase'', tyString), (''Conditions'', TySlice ty_Condition)]"

definition ty_ElementalHost :: gtype where
  "ty_ElementalHost = TyStruct [
     (''TypeMeta'', ty_TypeMeta), (''ObjectMeta'', ty_ObjectMeta), (''Spec'', ty_ElementalHostSpec),
     (''Status'', ty_ElementalHostStatus)]"

definition ty_ElementalHostList :: gtype where
  "ty_ElementalHostList = TyStruct [
     (''TypeMeta'', ty_TypeMeta), (''ListMeta'', ty_ListMeta), (''Items'', TySlice ty_ElementalHost)]"

definition ty_ElementalMachineSpec :: gtype where
  "ty_ElementalMachineSpec = TyStruct [
     (''ProviderID'', TyPtr tyString), (''Selector'', TyPtr ty_LabelSelector), (''HostRef'', TyPtr ty_ObjectReference),
     (''OSVersionManagement'', TyMap ty_RawExtension)]"

definition ty_ElementalMachineStatus :: gtype where
  "ty_ElementalMachineStatus = TyStruct [
     (''Ready'', tyBool), (''Conditions'', TySlice ty_Condition), (''FailureDomains'', TyMap ty_FailureDomainSpec)]"

definition ty_ElementalMachine :: gtype where
  "ty_ElementalMachine = TyStruct [
     (''TypeMeta'', ty_TypeMeta), (''ObjectMeta'', ty_ObjectMeta), (''Spec'', ty_ElementalMachineSpec),
     (''Status'', ty_ElementalMachineStatus)]"

definition ty_ElementalMachineList :: gtype where
  "ty_ElementalMachineList = TyStruct [
     (''TypeMeta'', ty_TypeMeta), (''ListMeta'', ty_ListMeta), (''Items'', TySlice ty_ElementalMachine)]"

definition ty_InfraMachineTemplateResource :: gtype where
  "ty_InfraMachineTemplateResource = TyStruct [
     (''ObjectMeta'', ty_ObjectMeta), (''Spec'', ty_ElementalMachineSpec)]"

definition ty_ElementalMachineTemplateSpec :: gtype where
  "ty_ElementalMachineTemplateSpec = TyStruct [
     (''Template'', ty_InfraMachineTemplateResource)]"

definition ty_ElementalMachineTemplate :: gtype where
  "ty_ElementalMachineTemplate = TyStruct [
     (''TypeMeta'', ty_TypeMeta), (''ObjectMeta'', ty_ObjectMeta), (''Spec'', ty_ElementalMachineTemplateSpec)]"

definition ty_ElementalMachineTemplateList :: gtype where
  "ty_ElementalMachineTemplateList = TyStruct [
     (''TypeMeta'', ty_TypeMeta), (''ListMeta'', ty_ListMeta), (''Items'', TySlice ty_ElementalMachineTemplate)]"

definition ty_ElementalClusterSpec :: gtype where
  "ty_ElementalClusterSpec = TyStruct [
     (''ControlPlaneEndpoint'', ty_APIEndpoint)]"

definition ty_ElementalClusterStatus :: gtype where
  "ty_ElementalClusterStatus = TyStruct [
     (''Ready'', tyBool), (''Conditions'', TySlice ty_Condition), (''FailureDomains'', TyMap ty_FailureDomainSpec)]"

definition ty_ElementalCluster :: gtype where
  "ty_ElementalCluster = TyStruct [
     (''TypeMeta'', ty_TypeMeta), (''ObjectMeta'', ty_ObjectMeta), (''Spec'', ty_ElementalClusterSpec),
     (''Status'', ty_ElementalClusterStatus)]"

definition ty_ElementalClusterList :: gtype where
  "ty_ElementalClusterList = TyStruct [
     (''TypeMeta'', ty_TypeMeta), (''ListMeta'', ty_ListMeta), (''Items'', TySlice ty_ElementalCluster)]"

definition ty_ElementalClusterTemplateResource :: gtype where
  "ty_ElementalClusterTemplateResource = TyStruct [
     (''ObjectMeta'', ty_ObjectMeta), (''Spec'', ty_ElementalClusterSpec)]"

definition ty_ElementalClusterTemplateSpec :: gtype where
  "ty_ElementalClusterTemplateSpec = TyStruct [
     (''Template'', ty_ElementalClusterTemplateResource)]"

definition ty_ElementalClusterTemplate :: gtype where
  "ty_ElementalClusterTemplate = TyStruct [
     (''TypeMeta'', ty_TypeMeta), (''ObjectMeta'', ty_ObjectMeta), (''Spec'', ty_ElementalClusterTemplateSpec)]"

definition ty_ElementalClusterTemplateList :: gtype where
  "ty_ElementalClusterTemplateList = TyStruct [
     (''TypeMeta'', ty_TypeMeta), (''ListMeta'', ty_ListMeta), (''Items'', TySlice ty_ElementalClusterTemplate)]"

lemma flat_types:
  "flat ty_TypeMeta" "flat ty_ObjectReference" "flat ty_APIEndpoint" "flat ty_PostAction" "flat ty_Hostname" "flat ty_Agent" "flat ty_Registration" "flat ty_ElementalClusterSpec" "flat ty_Condition"
  by (simp_all add: ty_TypeMeta_def ty_ObjectReference_def ty_APIEndpoint_def ty_PostAction_def ty_Hostname_def ty_Agent_def ty_Registration_def ty_ElementalClusterSpec_def ty_Condition_def)

end
