(* ===== verification/Deep_Copy.thy ===== *)
theory Deep_Copy
  imports Api_Memory
begin

text \<open>
  The generated deep copies of \<^verbatim>\<open>api/v1beta1\<close>. The caches and clients of Kubernetes hand out deep copies of objects; the
  rest of this development has records for objects, where a change of one never shows in another. That this is right is
  shown here: a copy shows what the original shows, and shares no memory with it. Were a field added to a type without
  generating the copies anew, and were it a pointer, a slice or a map, the proofs would fail. The copy of the interface value that
  a raw extension may hold is a parameter, \<open>copyObject\<close>.
\<close>

section \<open>Kubernetes and Cluster API\<close>

text \<open>A time is copied by assignment.\<close>

definition Time_DeepCopyInto :: "gval \<Rightarrow> gval mem" where
  "Time_DeepCopyInto = assign"

definition Time_DeepCopy :: "gval \<Rightarrow> gval mem" where
  "Time_DeepCopy = unless_nil (new_copy tyTime Time_DeepCopyInto)"

definition ListMeta_DeepCopyInto :: "gval \<Rightarrow> gval mem" where
  "ListMeta_DeepCopyInto = (\<lambda>src. copy_fields [
     (''RemainingItemCount'', unless_nil (new_copy tyInt assign))] src src)"

definition OwnerReference_DeepCopyInto :: "gval \<Rightarrow> gval mem" where
  "OwnerReference_DeepCopyInto = (\<lambda>src. copy_fields [
     (''Controller'', unless_nil (new_copy tyBool assign)), (''BlockOwnerDeletion'', unless_nil (new_copy tyBool assign))] src src)"

definition FieldsV1_DeepCopyInto :: "gval \<Rightarrow> gval mem" where
  "FieldsV1_DeepCopyInto = (\<lambda>src. copy_fields [
     (''Raw'', unless_nil (make_copy tyByte))] src src)"

definition ManagedFieldsEntry_DeepCopyInto :: "gval \<Rightarrow> gval mem" where
  "ManagedFieldsEntry_DeepCopyInto = (\<lambda>src. copy_fields [
     (''Time'', unless_nil Time_DeepCopy), (''FieldsV1'', unless_nil (new_copy ty_FieldsV1 FieldsV1_DeepCopyInto))] src src)"

definition ObjectMeta_DeepCopyInto :: "gval \<Rightarrow> gval mem" where
  "ObjectMeta_DeepCopyInto = (\<lambda>src. copy_fields [
     (''CreationTimestamp'', Time_DeepCopyInto), (''DeletionTimestamp'', unless_nil Time_DeepCopy),
     (''DeletionGracePeriodSeconds'', unless_nil (new_copy tyInt assign)), (''Labels'', unless_nil (make_map assign)),
     (''Annotations'', unless_nil (make_map assign)),
     (''OwnerReferences'', unless_nil (make_slice ty_OwnerReference OwnerReference_DeepCopyInto)),
     (''Finalizers'', unless_nil (make_copy tyString)),
     (''ManagedFields'', unless_nil (make_slice ty_ManagedFieldsEntry ManagedFieldsEntry_DeepCopyInto))] src src)"

definition LabelSelectorRequirement_DeepCopyInto :: "gval \<Rightarrow> gval mem" where
  "LabelSelectorRequirement_DeepCopyInto = (\<lambda>src. copy_fields [
     (''Values'', unless_nil (make_copy tyString))] src src)"

definition LabelSelector_DeepCopyInto :: "gval \<Rightarrow> gval mem" where
  "LabelSelector_DeepCopyInto = (\<lambda>src. copy_fields [
     (''MatchLabels'', unless_nil (make_map assign)),
     (''MatchExpressions'', unless_nil (make_slice ty_LabelSelectorRequirement LabelSelectorRequirement_DeepCopyInto))] src src)"

definition RawExtension_DeepCopyInto :: "(gval \<Rightarrow> gval mem) \<Rightarrow> gval \<Rightarrow> gval mem" where
  "RawExtension_DeepCopyInto copyObject = (\<lambda>src. copy_fields [
     (''Raw'', unless_nil (make_copy tyByte)), (''Object'', unless_nil copyObject)] src src)"

definition Condition_DeepCopyInto :: "gval \<Rightarrow> gval mem" where
  "Condition_DeepCopyInto = (\<lambda>src. copy_fields [
     (''LastTransitionTime'', Time_DeepCopyInto)] src src)"

definition FailureDomainSpec_DeepCopyInto :: "gval \<Rightarrow> gval mem" where
  "FailureDomainSpec_DeepCopyInto = (\<lambda>src. copy_fields [
     (''Attributes'', unless_nil (make_map assign))] src src)"

section \<open>The provider\<close>

definition PostAction_DeepCopyInto :: "gval \<Rightarrow> gval mem" where
  "PostAction_DeepCopyInto = assign"

definition PostAction_DeepCopy :: "gval \<Rightarrow> gval mem" where
  "PostAction_DeepCopy =
     unless_nil (new_copy ty_PostAction PostAction_DeepCopyInto)"

definition Hostname_DeepCopyInto :: "gval \<Rightarrow> gval mem" where
  "Hostname_DeepCopyInto = assign"

definition Hostname_DeepCopy :: "gval \<Rightarrow> gval mem" where
  "Hostname_DeepCopy =
     unless_nil (new_copy ty_Hostname Hostname_DeepCopyInto)"

definition Agent_DeepCopyInto :: "gval \<Rightarrow> gval mem" where
  "Agent_DeepCopyInto = (\<lambda>src. copy_fields [
     (''Hostname'', assign), (''PostInstall'', assign), (''PostReset'', assign)] src src)"

definition Agent_DeepCopy :: "gval \<Rightarrow> gval mem" where
  "Agent_DeepCopy =
     unless_nil (new_copy ty_Agent Agent_DeepCopyInto)"

definition Registration_DeepCopyInto :: "gval \<Rightarrow> gval mem" where
  "Registration_DeepCopyInto = assign"

definition Registration_DeepCopy :: "gval \<Rightarrow> gval mem" where
  "Registration_DeepCopy =
     unless_nil (new_copy ty_Registration Registration_DeepCopyInto)"

definition Elemental_DeepCopyInto :: "(gval \<Rightarrow> gval mem) \<Rightarrow> gval \<Rightarrow> gval mem" where
  "Elemental_DeepCopyInto copyObject = (\<lambda>src. copy_fields [
     (''Install'', unless_nil (make_map (value_copy ty_RawExtension (RawExtension_DeepCopyInto copyObject)))),
     (''Reset'', unless_nil (make_map (value_copy ty_RawExtension (RawExtension_DeepCopyInto copyObject)))),
     (''Registration'', assign), (''Agent'', assign)] src src)"

definition Elemental_DeepCopy :: "(gval \<Rightarrow> gval mem) \<Rightarrow> gval \<Rightarrow> gval mem" where
  "Elemental_DeepCopy copyObject =
     unless_nil (new_copy ty_Elemental (Elemental_DeepCopyInto copyObject))"

definition Config_DeepCopyInto :: "(gval \<Rightarrow> gval mem) \<Rightarrow> gval \<Rightarrow> gval mem" where
  "Config_DeepCopyInto copyObject = (\<lambda>src. copy_fields [
     (''Elemental'', Elemental_DeepCopyInto copyObject),
     (''CloudConfig'', unless_nil (make_map (value_copy ty_RawExtension (RawExtension_DeepCopyInto copyObject))))] src src)"

definition Config_DeepCopy :: "(gval \<Rightarrow> gval mem) \<Rightarrow> gval \<Rightarrow> gval mem" where
  "Config_DeepCopy copyObject =
     unless_nil (new_copy ty_Config (Config_DeepCopyInto copyObject))"

definition ElementalRegistrationSpec_DeepCopyInto :: "(gval \<Rightarrow> gval mem) \<Rightarrow> gval \<Rightarrow> gval mem" where
  "ElementalRegistrationSpec_DeepCopyInto copyObject = (\<lambda>src. copy_fields [
     (''HostLabels'', unless_nil (make_map assign)), (''HostAnnotations'', unless_nil (make_map assign)),
     (''Config'', Config_DeepCopyInto copyObject), (''PrivateKeyRef'', unless_nil (new_copy ty_ObjectReference assign))] src src)"

definition ElementalRegistrationSpec_DeepCopy :: "(gval \<Rightarrow> gval mem) \<Rightarrow> gval \<Rightarrow> gval mem" where
  "ElementalRegistrationSpec_DeepCopy copyObject =
     unless_nil (new_copy ty_ElementalRegistrationSpec (ElementalRegistrationSpec_DeepCopyInto copyObject))"

definition ElementalRegistrationStatus_DeepCopyInto :: "gval \<Rightarrow> gval mem" where
  "ElementalRegistrationStatus_DeepCopyInto = (\<lambda>src. copy_fields [
     (''Conditions'', unless_nil (make_slice ty_Condition Condition_DeepCopyInto))] src src)"

definition ElementalRegistrationStatus_DeepCopy :: "gval \<Rightarrow> gval mem" where
  "ElementalRegistrationStatus_DeepCopy =
     unless_nil (new_copy ty_ElementalRegistrationStatus ElementalRegistrationStatus_DeepCopyInto)"

definition ElementalRegistration_DeepCopyInto :: "(gval \<Rightarrow> gval mem) \<Rightarrow> gval \<Rightarrow> gval mem" where
  "ElementalRegistration_DeepCopyInto copyObject = (\<lambda>src. copy_fields [
     (''TypeMeta'', assign), (''ObjectMeta'', ObjectMeta_DeepCopyInto),
     (''Spec'', ElementalRegistrationSpec_DeepCopyInto copyObject), (''Status'', ElementalRegistrationStatus_DeepCopyInto)] src src)"

definition ElementalRegistration_DeepCopy :: "(gval \<Rightarrow> gval mem) \<Rightarrow> gval \<Rightarrow> gval mem" where
  "ElementalRegistration_DeepCopy copyObject =
     unless_nil (new_copy ty_ElementalRegistration (ElementalRegistration_DeepCopyInto copyObject))"

definition ElementalRegistration_DeepCopyObject :: "(gval \<Rightarrow> gval mem) \<Rightarrow> gval \<Rightarrow> gval mem" where
  "ElementalRegistration_DeepCopyObject copyObject =
     copy_object ''ElementalRegistration'' (ElementalRegistration_DeepCopy copyObject)"

definition ElementalRegistrationList_DeepCopyInto :: "(gval \<Rightarrow> gval mem) \<Rightarrow> gval \<Rightarrow> gval mem" where
  "ElementalRegistrationList_DeepCopyInto copyObject = (\<lambda>src. copy_fields [
     (''TypeMeta'', assign), (''ListMeta'', ListMeta_DeepCopyInto),
     (''Items'', unless_nil (make_slice ty_ElementalRegistration (ElementalRegistration_DeepCopyInto copyObject)))] src src)"

definition ElementalRegistrationList_DeepCopy :: "(gval \<Rightarrow> gval mem) \<Rightarrow> gval \<Rightarrow> gval mem" where
  "ElementalRegistrationList_DeepCopy copyObject =
     unless_nil (new_copy ty_ElementalRegistrationList (ElementalRegistrationList_DeepCopyInto copyObject))"

definition ElementalRegistrationList_DeepCopyObject :: "(gval \<Rightarrow> gval mem) \<Rightarrow> gval \<Rightarrow> gval mem" where
  "ElementalRegistrationList_DeepCopyObject copyObject =
     copy_object ''ElementalRegistrationList'' (ElementalRegistrationList_DeepCopy copyObject)"

definition ElementalHostSpec_DeepCopyInto :: "(gval \<Rightarrow> gval mem) \<Rightarrow> gval \<Rightarrow> gval mem" where
  "ElementalHostSpec_DeepCopyInto copyObject = (\<lambda>src. copy_fields [
     (''BootstrapSecret'', unless_nil (new_copy ty_ObjectReference assign)),
     (''MachineRef'', unless_nil (new_copy ty_ObjectReference assign)),
     (''OSVersionManagement'', unless_nil (make_map (value_copy ty_RawExtension (RawExtension_DeepCopyInto copyObject))))] src src)"

definition ElementalHostSpec_DeepCopy :: "(gval \<Rightarrow> gval mem) \<Rightarrow> gval \<Rightarrow> gval mem" where
  "ElementalHostSpec_DeepCopy copyObject =
     unless_nil (new_copy ty_ElementalHostSpec (ElementalHostSpec_DeepCopyInto copyObject))"

definition ElementalHostStatus_DeepCopyInto :: "gval \<Rightarrow> gval mem" where
  "ElementalHostStatus_DeepCopyInto = (\<lambda>src. copy_fields [
     (''Conditions'', unless_nil (make_slice ty_Condition Condition_DeepCopyInto))] src src)"

definition ElementalHostStatus_DeepCopy :: "gval \<Rightarrow> gval mem" where
  "ElementalHostStatus_DeepCopy =
     unless_nil (new_copy ty_ElementalHostStatus ElementalHostStatus_DeepCopyInto)"

definition ElementalHost_DeepCopyInto :: "(gval \<Rightarrow> gval mem) \<Rightarrow> gval \<Rightarrow> gval mem" where
  "ElementalHost_DeepCopyInto copyObject = (\<lambda>src. copy_fields [
     (''TypeMeta'', assign), (''ObjectMeta'', ObjectMeta_DeepCopyInto), (''Spec'', ElementalHostSpec_DeepCopyInto copyObject),
     (''Status'', ElementalHostStatus_DeepCopyInto)] src src)"

definition ElementalHost_DeepCopy :: "(gval \<Rightarrow> gval mem) \<Rightarrow> gval \<Rightarrow> gval mem" where
  "ElementalHost_DeepCopy copyObject =
     unless_nil (new_copy ty_ElementalHost (ElementalHost_DeepCopyInto copyObject))"

definition ElementalHost_DeepCopyObject :: "(gval \<Rightarrow> gval mem) \<Rightarrow> gval \<Rightarrow> gval mem" where
  "ElementalHost_DeepCopyObject copyObject =
     copy_object ''ElementalHost'' (ElementalHost_DeepCopy copyObject)"

definition ElementalHostList_DeepCopyInto :: "(gval \<Rightarrow> gval mem) \<Rightarrow> gval \<Rightarrow> gval mem" where
  "ElementalHostList_DeepCopyInto copyObject = (\<lambda>src. copy_fields [
     (''TypeMeta'', assign), (''ListMeta'', ListMeta_DeepCopyInto),
     (''Items'', unless_nil (make_slice ty_ElementalHost (ElementalHost_DeepCopyInto copyObject)))] src src)"

definition ElementalHostList_DeepCopy :: "(gval \<Rightarrow> gval mem) \<Rightarrow> gval \<Rightarrow> gval mem" where
  "ElementalHostList_DeepCopy copyObject =
     unless_nil (new_copy ty_ElementalHostList (ElementalHostList_DeepCopyInto copyObject))"

definition ElementalHostList_DeepCopyObject :: "(gval \<Rightarrow> gval mem) \<Rightarrow> gval \<Rightarrow> gval mem" where
  "ElementalHostList_DeepCopyObject copyObject =
     copy_object ''ElementalHostList'' (ElementalHostList_DeepCopy copyObject)"

definition ElementalMachineSpec_DeepCopyInto :: "(gval \<Rightarrow> gval mem) \<Rightarrow> gval \<Rightarrow> gval mem" where
  "ElementalMachineSpec_DeepCopyInto copyObject = (\<lambda>src. copy_fields [
     (''ProviderID'', unless_nil (new_copy tyString assign)),
     (''Selector'', unless_nil (new_copy ty_LabelSelector LabelSelector_DeepCopyInto)),
     (''HostRef'', unless_nil (new_copy ty_ObjectReference assign)),
     (''OSVersionManagement'', unless_nil (make_map (value_copy ty_RawExtension (RawExtension_DeepCopyInto copyObject))))] src src)"

definition ElementalMachineSpec_DeepCopy :: "(gval \<Rightarrow> gval mem) \<Rightarrow> gval \<Rightarrow> gval mem" where
  "ElementalMachineSpec_DeepCopy copyObject =
     unless_nil (new_copy ty_ElementalMachineSpec (ElementalMachineSpec_DeepCopyInto copyObject))"

definition ElementalMachineStatus_DeepCopyInto :: "gval \<Rightarrow> gval mem" where
  "ElementalMachineStatus_DeepCopyInto = (\<lambda>src. copy_fields [
     (''Conditions'', unless_nil (make_slice ty_Condition Condition_DeepCopyInto)),
     (''FailureDomains'', unless_nil (make_map (value_copy ty_FailureDomainSpec FailureDomainSpec_DeepCopyInto)))] src src)"

definition ElementalMachineStatus_DeepCopy :: "gval \<Rightarrow> gval mem" where
  "ElementalMachineStatus_DeepCopy =
     unless_nil (new_copy ty_ElementalMachineStatus ElementalMachineStatus_DeepCopyInto)"

definition ElementalMachine_DeepCopyInto :: "(gval \<Rightarrow> gval mem) \<Rightarrow> gval \<Rightarrow> gval mem" where
  "ElementalMachine_DeepCopyInto copyObject = (\<lambda>src. copy_fields [
     (''TypeMeta'', assign), (''ObjectMeta'', ObjectMeta_DeepCopyInto),
     (''Spec'', ElementalMachineSpec_DeepCopyInto copyObject), (''Status'', ElementalMachineStatus_DeepCopyInto)] src src)"

definition ElementalMachine_DeepCopy :: "(gval \<Rightarrow> gval mem) \<Rightarrow> gval \<Rightarrow> gval mem" where
  "ElementalMachine_DeepCopy copyObject =
     unless_nil (new_copy ty_ElementalMachine (ElementalMachine_DeepCopyInto copyObject))"

definition ElementalMachine_DeepCopyObject :: "(gval \<Rightarrow> gval mem) \<Rightarrow> gval \<Rightarrow> gval mem" where
  "ElementalMachine_DeepCopyObject copyObject =
     copy_object ''ElementalMachine'' (ElementalMachine_DeepCopy copyObject)"

definition ElementalMachineList_DeepCopyInto :: "(gval \<Rightarrow> gval mem) \<Rightarrow> gval \<Rightarrow> gval mem" where
  "ElementalMachineList_DeepCopyInto copyObject = (\<lambda>src. copy_fields [
     (''TypeMeta'', assign), (''ListMeta'', ListMeta_DeepCopyInto),
     (''Items'', unless_nil (make_slice ty_ElementalMachine (ElementalMachine_DeepCopyInto copyObject)))] src src)"

definition ElementalMachineList_DeepCopy :: "(gval \<Rightarrow> gval mem) \<Rightarrow> gval \<Rightarrow> gval mem" where
  "ElementalMachineList_DeepCopy copyObject =
     unless_nil (new_copy ty_ElementalMachineList (ElementalMachineList_DeepCopyInto copyObject))"

definition ElementalMachineList_DeepCopyObject :: "(gval \<Rightarrow> gval mem) \<Rightarrow> gval \<Rightarrow> gval mem" where
  "ElementalMachineList_DeepCopyObject copyObject =
     copy_object ''ElementalMachineList'' (ElementalMachineList_DeepCopy copyObject)"

definition InfraMachineTemplateResource_DeepCopyInto :: "(gval \<Rightarrow> gval mem) \<Rightarrow> gval \<Rightarrow> gval mem" where
  "InfraMachineTemplateResource_DeepCopyInto copyObject = (\<lambda>src. copy_fields [
     (''ObjectMeta'', ObjectMeta_DeepCopyInto), (''Spec'', ElementalMachineSpec_DeepCopyInto copyObject)] src src)"

definition InfraMachineTemplateResource_DeepCopy :: "(gval \<Rightarrow> gval mem) \<Rightarrow> gval \<Rightarrow> gval mem" where
  "InfraMachineTemplateResource_DeepCopy copyObject =
     unless_nil (new_copy ty_InfraMachineTemplateResource (InfraMachineTemplateResource_DeepCopyInto copyObject))"

definition ElementalMachineTemplateSpec_DeepCopyInto :: "(gval \<Rightarrow> gval mem) \<Rightarrow> gval \<Rightarrow> gval mem" where
  "ElementalMachineTemplateSpec_DeepCopyInto copyObject = (\<lambda>src. copy_fields [
     (''Template'', InfraMachineTemplateResource_DeepCopyInto copyObject)] src src)"

definition ElementalMachineTemplateSpec_DeepCopy :: "(gval \<Rightarrow> gval mem) \<Rightarrow> gval \<Rightarrow> gval mem" where
  "ElementalMachineTemplateSpec_DeepCopy copyObject =
     unless_nil (new_copy ty_ElementalMachineTemplateSpec (ElementalMachineTemplateSpec_DeepCopyInto copyObject))"

definition ElementalMachineTemplate_DeepCopyInto :: "(gval \<Rightarrow> gval mem) \<Rightarrow> gval \<Rightarrow> gval mem" where
  "ElementalMachineTemplate_DeepCopyInto copyObject = (\<lambda>src. copy_fields [
     (''TypeMeta'', assign), (''ObjectMeta'', ObjectMeta_DeepCopyInto),
     (''Spec'', ElementalMachineTemplateSpec_DeepCopyInto copyObject)] src src)"

definition ElementalMachineTemplate_DeepCopy :: "(gval \<Rightarrow> gval mem) \<Rightarrow> gval \<Rightarrow> gval mem" where
  "ElementalMachineTemplate_DeepCopy copyObject =
     unless_nil (new_copy ty_ElementalMachineTemplate (ElementalMachineTemplate_DeepCopyInto copyObject))"

definition ElementalMachineTemplate_DeepCopyObject :: "(gval \<Rightarrow> gval mem) \<Rightarrow> gval \<Rightarrow> gval mem" where
  "ElementalMachineTemplate_DeepCopyObject copyObject =
     copy_object ''ElementalMachineTemplate'' (ElementalMachineTemplate_DeepCopy copyObject)"

definition ElementalMachineTemplateList_DeepCopyInto :: "(gval \<Rightarrow> gval mem) \<Rightarrow> gval \<Rightarrow> gval mem" where
  "ElementalMachineTemplateList_DeepCopyInto copyObject = (\<lambda>src. copy_fields [
     (''TypeMeta'', assign), (''ListMeta'', ListMeta_DeepCopyInto),
     (''Items'', unless_nil (make_slice ty_ElementalMachineTemplate (ElementalMachineTemplate_DeepCopyInto copyObject)))] src src)"

definition ElementalMachineTemplateList_DeepCopy :: "(gval \<Rightarrow> gval mem) \<Rightarrow> gval \<Rightarrow> gval mem" where
  "ElementalMachineTemplateList_DeepCopy copyObject =
     unless_nil (new_copy ty_ElementalMachineTemplateList (ElementalMachineTemplateList_DeepCopyInto copyObject))"

definition ElementalMachineTemplateList_DeepCopyObject :: "(gval \<Rightarrow> gval mem) \<Rightarrow> gval \<Rightarrow> gval mem" where
  "ElementalMachineTemplateList_DeepCopyObject copyObject =
     copy_object ''ElementalMachineTemplateList'' (ElementalMachineTemplateList_DeepCopy copyObject)"

definition ElementalClusterSpec_DeepCopyInto :: "gval \<Rightarrow> gval mem" where
  "ElementalClusterSpec_DeepCopyInto = (\<lambda>src. copy_fields [
     (''ControlPlaneEndpoint'', assign)] src src)"

definition ElementalClusterSpec_DeepCopy :: "gval \<Rightarrow> gval mem" where
  "ElementalClusterSpec_DeepCopy =
     unless_nil (new_copy ty_ElementalClusterSpec ElementalClusterSpec_DeepCopyInto)"

definition ElementalClusterStatus_DeepCopyInto :: "gval \<Rightarrow> gval mem" where
  "ElementalClusterStatus_DeepCopyInto = (\<lambda>src. copy_fields [
     (''Conditions'', unless_nil (make_slice ty_Condition Condition_DeepCopyInto)),
     (''FailureDomains'', unless_nil (make_map (value_copy ty_FailureDomainSpec FailureDomainSpec_DeepCopyInto)))] src src)"

definition ElementalClusterStatus_DeepCopy :: "gval \<Rightarrow> gval mem" where
  "ElementalClusterStatus_DeepCopy =
     unless_nil (new_copy ty_ElementalClusterStatus ElementalClusterStatus_DeepCopyInto)"

definition ElementalCluster_DeepCopyInto :: "gval \<Rightarrow> gval mem" where
  "ElementalCluster_DeepCopyInto = (\<lambda>src. copy_fields [
     (''TypeMeta'', assign), (''ObjectMeta'', ObjectMeta_DeepCopyInto), (''Spec'', assign),
     (''Status'', ElementalClusterStatus_DeepCopyInto)] src src)"

definition ElementalCluster_DeepCopy :: "gval \<Rightarrow> gval mem" where
  "ElementalCluster_DeepCopy =
     unless_nil (new_copy ty_ElementalCluster ElementalCluster_DeepCopyInto)"

definition ElementalCluster_DeepCopyObject :: "gval \<Rightarrow> gval mem" where
  "ElementalCluster_DeepCopyObject =
     copy_object ''ElementalCluster'' ElementalCluster_DeepCopy"

definition ElementalClusterList_DeepCopyInto :: "gval \<Rightarrow> gval mem" where
  "ElementalClusterList_DeepCopyInto = (\<lambda>src. copy_fields [
     (''TypeMeta'', assign), (''ListMeta'', ListMeta_DeepCopyInto),
     (''Items'', unless_nil (make_slice ty_ElementalCluster ElementalCluster_DeepCopyInto))] src src)"

definition ElementalClusterList_DeepCopy :: "gval \<Rightarrow> gval mem" where
  "ElementalClusterList_DeepCopy =
     unless_nil (new_copy ty_ElementalClusterList ElementalClusterList_DeepCopyInto)"

definition ElementalClusterList_DeepCopyObject :: "gval \<Rightarrow> gval mem" where
  "ElementalClusterList_DeepCopyObject =
     copy_object ''ElementalClusterList'' ElementalClusterList_DeepCopy"

definition ElementalClusterTemplateResource_DeepCopyInto :: "gval \<Rightarrow> gval mem" where
  "ElementalClusterTemplateResource_DeepCopyInto = (\<lambda>src. copy_fields [
     (''ObjectMeta'', ObjectMeta_DeepCopyInto), (''Spec'', assign)] src src)"

definition ElementalClusterTemplateResource_DeepCopy :: "gval \<Rightarrow> gval mem" where
  "ElementalClusterTemplateResource_DeepCopy =
     unless_nil (new_copy ty_ElementalClusterTemplateResource ElementalClusterTemplateResource_DeepCopyInto)"

definition ElementalClusterTemplateSpec_DeepCopyInto :: "gval \<Rightarrow> gval mem" where
  "ElementalClusterTemplateSpec_DeepCopyInto = (\<lambda>src. copy_fields [
     (''Template'', ElementalClusterTemplateResource_DeepCopyInto)] src src)"

definition ElementalClusterTemplateSpec_DeepCopy :: "gval \<Rightarrow> gval mem" where
  "ElementalClusterTemplateSpec_DeepCopy =
     unless_nil (new_copy ty_ElementalClusterTemplateSpec ElementalClusterTemplateSpec_DeepCopyInto)"

definition ElementalClusterTemplate_DeepCopyInto :: "gval \<Rightarrow> gval mem" where
  "ElementalClusterTemplate_DeepCopyInto = (\<lambda>src. copy_fields [
     (''TypeMeta'', assign), (''ObjectMeta'', ObjectMeta_DeepCopyInto), (''Spec'', ElementalClusterTemplateSpec_DeepCopyInto)] src src)"

definition ElementalClusterTemplate_DeepCopy :: "gval \<Rightarrow> gval mem" where
  "ElementalClusterTemplate_DeepCopy =
     unless_nil (new_copy ty_ElementalClusterTemplate ElementalClusterTemplate_DeepCopyInto)"

definition ElementalClusterTemplate_DeepCopyObject :: "gval \<Rightarrow> gval mem" where
  "ElementalClusterTemplate_DeepCopyObject =
     copy_object ''ElementalClusterTemplate'' ElementalClusterTemplate_DeepCopy"

definition ElementalClusterTemplateList_DeepCopyInto :: "gval \<Rightarrow> gval mem" where
  "ElementalClusterTemplateList_DeepCopyInto = (\<lambda>src. copy_fields [
     (''TypeMeta'', assign), (''ListMeta'', ListMeta_DeepCopyInto),
     (''Items'', unless_nil (make_slice ty_ElementalClusterTemplate ElementalClusterTemplate_DeepCopyInto))] src src)"

definition ElementalClusterTemplateList_DeepCopy :: "gval \<Rightarrow> gval mem" where
  "ElementalClusterTemplateList_DeepCopy =
     unless_nil (new_copy ty_ElementalClusterTemplateList ElementalClusterTemplateList_DeepCopyInto)"

definition ElementalClusterTemplateList_DeepCopyObject :: "gval \<Rightarrow> gval mem" where
  "ElementalClusterTemplateList_DeepCopyObject =
     copy_object ''ElementalClusterTemplateList'' ElementalClusterTemplateList_DeepCopy"

text \<open>Each type of the package with its \<^verbatim>\<open>DeepCopy\<close>; the root objects and lists with their \<^verbatim>\<open>DeepCopyObject\<close>.\<close>

definition deep_copies :: "(gval \<Rightarrow> gval mem) \<Rightarrow> (string \<times> gtype \<times> (gval \<Rightarrow> gval mem)) list" where
  "deep_copies copyObject = [
     (''PostAction'', ty_PostAction, PostAction_DeepCopy), (''Hostname'', ty_Hostname, Hostname_DeepCopy),
     (''Agent'', ty_Agent, Agent_DeepCopy), (''Registration'', ty_Registration, Registration_DeepCopy),
     (''Elemental'', ty_Elemental, Elemental_DeepCopy copyObject), (''Config'', ty_Config, Config_DeepCopy copyObject),
     (''ElementalRegistrationSpec'', ty_ElementalRegistrationSpec, ElementalRegistrationSpec_DeepCopy copyObject),
     (''ElementalRegistrationStatus'', ty_ElementalRegistrationStatus, ElementalRegistrationStatus_DeepCopy),
     (''ElementalRegistration'', ty_ElementalRegistration, ElementalRegistration_DeepCopy copyObject),
     (''ElementalRegistrationList'', ty_ElementalRegistrationList, ElementalRegistrationList_DeepCopy copyObject),
     (''ElementalHostSpec'', ty_ElementalHostSpec, ElementalHostSpec_DeepCopy copyObject),
     (''ElementalHostStatus'', ty_ElementalHostStatus, ElementalHostStatus_DeepCopy),
     (''ElementalHost'', ty_ElementalHost, ElementalHost_DeepCopy copyObject),
     (''ElementalHostList'', ty_ElementalHostList, ElementalHostList_DeepCopy copyObject),
     (''ElementalMachineSpec'', ty_ElementalMachineSpec, ElementalMachineSpec_DeepCopy copyObject),
     (''ElementalMachineStatus'', ty_ElementalMachineStatus, ElementalMachineStatus_DeepCopy),
     (''ElementalMachine'', ty_ElementalMachine, ElementalMachine_DeepCopy copyObject),
     (''ElementalMachineList'', ty_ElementalMachineList, ElementalMachineList_DeepCopy copyObject),
     (''InfraMachineTemplateResource'', ty_InfraMachineTemplateResource, InfraMachineTemplateResource_DeepCopy copyObject),
     (''ElementalMachineTemplateSpec'', ty_ElementalMachineTemplateSpec, ElementalMachineTemplateSpec_DeepCopy copyObject),
     (''ElementalMachineTemplate'', ty_ElementalMachineTemplate, ElementalMachineTemplate_DeepCopy copyObject),
     (''ElementalMachineTemplateList'', ty_ElementalMachineTemplateList, ElementalMachineTemplateList_DeepCopy copyObject),
     (''ElementalClusterSpec'', ty_ElementalClusterSpec, ElementalClusterSpec_DeepCopy),
     (''ElementalClusterStatus'', ty_ElementalClusterStatus, ElementalClusterStatus_DeepCopy),
     (''ElementalCluster'', ty_ElementalCluster, ElementalCluster_DeepCopy),
     (''ElementalClusterList'', ty_ElementalClusterList, ElementalClusterList_DeepCopy),
     (''ElementalClusterTemplateResource'', ty_ElementalClusterTemplateResource, ElementalClusterTemplateResource_DeepCopy),
     (''ElementalClusterTemplateSpec'', ty_ElementalClusterTemplateSpec, ElementalClusterTemplateSpec_DeepCopy),
     (''ElementalClusterTemplate'', ty_ElementalClusterTemplate, ElementalClusterTemplate_DeepCopy),
     (''ElementalClusterTemplateList'', ty_ElementalClusterTemplateList, ElementalClusterTemplateList_DeepCopy)]"

definition object_copies :: "(gval \<Rightarrow> gval mem) \<Rightarrow> (string \<times> gtype \<times> (gval \<Rightarrow> gval mem)) list" where
  "object_copies copyObject = [
     (''ElementalRegistration'', ty_ElementalRegistration, ElementalRegistration_DeepCopyObject copyObject),
     (''ElementalRegistrationList'', ty_ElementalRegistrationList, ElementalRegistrationList_DeepCopyObject copyObject),
     (''ElementalHost'', ty_ElementalHost, ElementalHost_DeepCopyObject copyObject),
     (''ElementalHostList'', ty_ElementalHostList, ElementalHostList_DeepCopyObject copyObject),
     (''ElementalMachine'', ty_ElementalMachine, ElementalMachine_DeepCopyObject copyObject),
     (''ElementalMachineList'', ty_ElementalMachineList, ElementalMachineList_DeepCopyObject copyObject),
     (''ElementalMachineTemplate'', ty_ElementalMachineTemplate, ElementalMachineTemplate_DeepCopyObject copyObject),
     (''ElementalMachineTemplateList'', ty_ElementalMachineTemplateList, ElementalMachineTemplateList_DeepCopyObject copyObject),
     (''ElementalCluster'', ty_ElementalCluster, ElementalCluster_DeepCopyObject),
     (''ElementalClusterList'', ty_ElementalClusterList, ElementalClusterList_DeepCopyObject),
     (''ElementalClusterTemplate'', ty_ElementalClusterTemplate, ElementalClusterTemplate_DeepCopyObject),
     (''ElementalClusterTemplateList'', ty_ElementalClusterTemplateList, ElementalClusterTemplateList_DeepCopyObject)]"

section \<open>They are deep copies\<close>

lemma copies_Time [copies_intros]: "copies tyTime Time_DeepCopyInto" "copies (TyPtr tyTime) (unless_nil Time_DeepCopy)"
  by (simp_all add: Time_DeepCopy_def Time_DeepCopyInto_def copies_intros)

lemma copies_ListMeta [copies_intros]: "copies ty_ListMeta ListMeta_DeepCopyInto"
  unfolding ty_ListMeta_def ListMeta_DeepCopyInto_def
  by (rule copies_struct) (simp_all add: copies_intros flat_types)

lemma copies_OwnerReference [copies_intros]: "copies ty_OwnerReference OwnerReference_DeepCopyInto"
  unfolding ty_OwnerReference_def OwnerReference_DeepCopyInto_def
  by (rule copies_struct) (simp_all add: copies_intros flat_types)

lemma copies_FieldsV1 [copies_intros]: "copies ty_FieldsV1 FieldsV1_DeepCopyInto"
  unfolding ty_FieldsV1_def FieldsV1_DeepCopyInto_def
  by (rule copies_struct) (simp_all add: copies_intros flat_types)

lemma copies_ManagedFieldsEntry [copies_intros]: "copies ty_ManagedFieldsEntry ManagedFieldsEntry_DeepCopyInto"
  unfolding ty_ManagedFieldsEntry_def ManagedFieldsEntry_DeepCopyInto_def
  by (rule copies_struct) (simp_all add: copies_intros flat_types)

lemma copies_ObjectMeta [copies_intros]: "copies ty_ObjectMeta ObjectMeta_DeepCopyInto"
  unfolding ty_ObjectMeta_def ObjectMeta_DeepCopyInto_def
  by (rule copies_struct) (simp_all add: copies_intros flat_types)

lemma copies_LabelSelectorRequirement [copies_intros]: "copies ty_LabelSelectorRequirement LabelSelectorRequirement_DeepCopyInto"
  unfolding ty_LabelSelectorRequirement_def LabelSelectorRequirement_DeepCopyInto_def
  by (rule copies_struct) (simp_all add: copies_intros flat_types)

lemma copies_LabelSelector [copies_intros]: "copies ty_LabelSelector LabelSelector_DeepCopyInto"
  unfolding ty_LabelSelector_def LabelSelector_DeepCopyInto_def
  by (rule copies_struct) (simp_all add: copies_intros flat_types)

lemma copies_RawExtension [copies_intros]: "copies ty_RawExtension (RawExtension_DeepCopyInto copyObject)"
  unfolding ty_RawExtension_def RawExtension_DeepCopyInto_def
  by (rule copies_struct) (simp_all add: copies_intros flat_types)

lemma copies_Condition [copies_intros]: "copies ty_Condition Condition_DeepCopyInto"
  unfolding ty_Condition_def Condition_DeepCopyInto_def
  by (rule copies_struct) (simp_all add: copies_intros flat_types)

lemma copies_FailureDomainSpec [copies_intros]: "copies ty_FailureDomainSpec FailureDomainSpec_DeepCopyInto"
  unfolding ty_FailureDomainSpec_def FailureDomainSpec_DeepCopyInto_def
  by (rule copies_struct) (simp_all add: copies_intros flat_types)

lemma copies_PostAction [copies_intros]: "copies ty_PostAction PostAction_DeepCopyInto"
  by (simp add: PostAction_DeepCopyInto_def copies_flat flat_types)

lemma copies_Hostname [copies_intros]: "copies ty_Hostname Hostname_DeepCopyInto"
  by (simp add: Hostname_DeepCopyInto_def copies_flat flat_types)

lemma copies_Agent [copies_intros]: "copies ty_Agent Agent_DeepCopyInto"
  unfolding ty_Agent_def Agent_DeepCopyInto_def
  by (rule copies_struct) (simp_all add: copies_intros flat_types)

lemma copies_Registration [copies_intros]: "copies ty_Registration Registration_DeepCopyInto"
  by (simp add: Registration_DeepCopyInto_def copies_flat flat_types)

lemma copies_Elemental [copies_intros]: "copies ty_Elemental (Elemental_DeepCopyInto copyObject)"
  unfolding ty_Elemental_def Elemental_DeepCopyInto_def
  by (rule copies_struct) (simp_all add: copies_intros flat_types)

lemma copies_Config [copies_intros]: "copies ty_Config (Config_DeepCopyInto copyObject)"
  unfolding ty_Config_def Config_DeepCopyInto_def
  by (rule copies_struct) (simp_all add: copies_intros flat_types)

lemma copies_ElementalRegistrationSpec [copies_intros]: "copies ty_ElementalRegistrationSpec (ElementalRegistrationSpec_DeepCopyInto copyObject)"
  unfolding ty_ElementalRegistrationSpec_def ElementalRegistrationSpec_DeepCopyInto_def
  by (rule copies_struct) (simp_all add: copies_intros flat_types)

lemma copies_ElementalRegistrationStatus [copies_intros]: "copies ty_ElementalRegistrationStatus ElementalRegistrationStatus_DeepCopyInto"
  unfolding ty_ElementalRegistrationStatus_def ElementalRegistrationStatus_DeepCopyInto_def
  by (rule copies_struct) (simp_all add: copies_intros flat_types)

lemma copies_ElementalRegistration [copies_intros]: "copies ty_ElementalRegistration (ElementalRegistration_DeepCopyInto copyObject)"
  unfolding ty_ElementalRegistration_def ElementalRegistration_DeepCopyInto_def
  by (rule copies_struct) (simp_all add: copies_intros flat_types)

lemma copies_ElementalRegistrationList [copies_intros]: "copies ty_ElementalRegistrationList (ElementalRegistrationList_DeepCopyInto copyObject)"
  unfolding ty_ElementalRegistrationList_def ElementalRegistrationList_DeepCopyInto_def
  by (rule copies_struct) (simp_all add: copies_intros flat_types)

lemma copies_ElementalHostSpec [copies_intros]: "copies ty_ElementalHostSpec (ElementalHostSpec_DeepCopyInto copyObject)"
  unfolding ty_ElementalHostSpec_def ElementalHostSpec_DeepCopyInto_def
  by (rule copies_struct) (simp_all add: copies_intros flat_types)

lemma copies_ElementalHostStatus [copies_intros]: "copies ty_ElementalHostStatus ElementalHostStatus_DeepCopyInto"
  unfolding ty_ElementalHostStatus_def ElementalHostStatus_DeepCopyInto_def
  by (rule copies_struct) (simp_all add: copies_intros flat_types)

lemma copies_ElementalHost [copies_intros]: "copies ty_ElementalHost (ElementalHost_DeepCopyInto copyObject)"
  unfolding ty_ElementalHost_def ElementalHost_DeepCopyInto_def
  by (rule copies_struct) (simp_all add: copies_intros flat_types)

lemma copies_ElementalHostList [copies_intros]: "copies ty_ElementalHostList (ElementalHostList_DeepCopyInto copyObject)"
  unfolding ty_ElementalHostList_def ElementalHostList_DeepCopyInto_def
  by (rule copies_struct) (simp_all add: copies_intros flat_types)

lemma copies_ElementalMachineSpec [copies_intros]: "copies ty_ElementalMachineSpec (ElementalMachineSpec_DeepCopyInto copyObject)"
  unfolding ty_ElementalMachineSpec_def ElementalMachineSpec_DeepCopyInto_def
  by (rule copies_struct) (simp_all add: copies_intros flat_types)

lemma copies_ElementalMachineStatus [copies_intros]: "copies ty_ElementalMachineStatus ElementalMachineStatus_DeepCopyInto"
  unfolding ty_ElementalMachineStatus_def ElementalMachineStatus_DeepCopyInto_def
  by (rule copies_struct) (simp_all add: copies_intros flat_types)

lemma copies_ElementalMachine [copies_intros]: "copies ty_ElementalMachine (ElementalMachine_DeepCopyInto copyObject)"
  unfolding ty_ElementalMachine_def ElementalMachine_DeepCopyInto_def
  by (rule copies_struct) (simp_all add: copies_intros flat_types)

lemma copies_ElementalMachineList [copies_intros]: "copies ty_ElementalMachineList (ElementalMachineList_DeepCopyInto copyObject)"
  unfolding ty_ElementalMachineList_def ElementalMachineList_DeepCopyInto_def
  by (rule copies_struct) (simp_all add: copies_intros flat_types)

lemma copies_InfraMachineTemplateResource [copies_intros]: "copies ty_InfraMachineTemplateResource (InfraMachineTemplateResource_DeepCopyInto copyObject)"
  unfolding ty_InfraMachineTemplateResource_def InfraMachineTemplateResource_DeepCopyInto_def
  by (rule copies_struct) (simp_all add: copies_intros flat_types)

lemma copies_ElementalMachineTemplateSpec [copies_intros]: "copies ty_ElementalMachineTemplateSpec (ElementalMachineTemplateSpec_DeepCopyInto copyObject)"
  unfolding ty_ElementalMachineTemplateSpec_def ElementalMachineTemplateSpec_DeepCopyInto_def
  by (rule copies_struct) (simp_all add: copies_intros flat_types)

lemma copies_ElementalMachineTemplate [copies_intros]: "copies ty_ElementalMachineTemplate (ElementalMachineTemplate_DeepCopyInto copyObject)"
  unfolding ty_ElementalMachineTemplate_def ElementalMachineTemplate_DeepCopyInto_def
  by (rule copies_struct) (simp_all add: copies_intros flat_types)

lemma copies_ElementalMachineTemplateList [copies_intros]: "copies ty_ElementalMachineTemplateList (ElementalMachineTemplateList_DeepCopyInto copyObject)"
  unfolding ty_ElementalMachineTemplateList_def ElementalMachineTemplateList_DeepCopyInto_def
  by (rule copies_struct) (simp_all add: copies_intros flat_types)

lemma copies_ElementalClusterSpec [copies_intros]: "copies ty_ElementalClusterSpec ElementalClusterSpec_DeepCopyInto"
  unfolding ty_ElementalClusterSpec_def ElementalClusterSpec_DeepCopyInto_def
  by (rule copies_struct) (simp_all add: copies_intros flat_types)

lemma copies_ElementalClusterStatus [copies_intros]: "copies ty_ElementalClusterStatus ElementalClusterStatus_DeepCopyInto"
  unfolding ty_ElementalClusterStatus_def ElementalClusterStatus_DeepCopyInto_def
  by (rule copies_struct) (simp_all add: copies_intros flat_types)

lemma copies_ElementalCluster [copies_intros]: "copies ty_ElementalCluster ElementalCluster_DeepCopyInto"
  unfolding ty_ElementalCluster_def ElementalCluster_DeepCopyInto_def
  by (rule copies_struct) (simp_all add: copies_intros flat_types)

lemma copies_ElementalClusterList [copies_intros]: "copies ty_ElementalClusterList ElementalClusterList_DeepCopyInto"
  unfolding ty_ElementalClusterList_def ElementalClusterList_DeepCopyInto_def
  by (rule copies_struct) (simp_all add: copies_intros flat_types)

lemma copies_ElementalClusterTemplateResource [copies_intros]: "copies ty_ElementalClusterTemplateResource ElementalClusterTemplateResource_DeepCopyInto"
  unfolding ty_ElementalClusterTemplateResource_def ElementalClusterTemplateResource_DeepCopyInto_def
  by (rule copies_struct) (simp_all add: copies_intros flat_types)

lemma copies_ElementalClusterTemplateSpec [copies_intros]: "copies ty_ElementalClusterTemplateSpec ElementalClusterTemplateSpec_DeepCopyInto"
  unfolding ty_ElementalClusterTemplateSpec_def ElementalClusterTemplateSpec_DeepCopyInto_def
  by (rule copies_struct) (simp_all add: copies_intros flat_types)

lemma copies_ElementalClusterTemplate [copies_intros]: "copies ty_ElementalClusterTemplate ElementalClusterTemplate_DeepCopyInto"
  unfolding ty_ElementalClusterTemplate_def ElementalClusterTemplate_DeepCopyInto_def
  by (rule copies_struct) (simp_all add: copies_intros flat_types)

lemma copies_ElementalClusterTemplateList [copies_intros]: "copies ty_ElementalClusterTemplateList ElementalClusterTemplateList_DeepCopyInto"
  unfolding ty_ElementalClusterTemplateList_def ElementalClusterTemplateList_DeepCopyInto_def
  by (rule copies_struct) (simp_all add: copies_intros flat_types)

lemma all_deep_copies: "list_all (\<lambda>(n, T, f). copies (TyPtr T) f) (deep_copies copyObject)"
  by (simp add: deep_copies_def copies_intros
      PostAction_DeepCopy_def Hostname_DeepCopy_def Agent_DeepCopy_def
      Registration_DeepCopy_def Elemental_DeepCopy_def Config_DeepCopy_def
      ElementalRegistrationSpec_DeepCopy_def ElementalRegistrationStatus_DeepCopy_def ElementalRegistration_DeepCopy_def
      ElementalRegistrationList_DeepCopy_def ElementalHostSpec_DeepCopy_def ElementalHostStatus_DeepCopy_def
      ElementalHost_DeepCopy_def ElementalHostList_DeepCopy_def ElementalMachineSpec_DeepCopy_def
      ElementalMachineStatus_DeepCopy_def ElementalMachine_DeepCopy_def ElementalMachineList_DeepCopy_def
      InfraMachineTemplateResource_DeepCopy_def ElementalMachineTemplateSpec_DeepCopy_def ElementalMachineTemplate_DeepCopy_def
      ElementalMachineTemplateList_DeepCopy_def ElementalClusterSpec_DeepCopy_def ElementalClusterStatus_DeepCopy_def
      ElementalCluster_DeepCopy_def ElementalClusterList_DeepCopy_def ElementalClusterTemplateResource_DeepCopy_def
      ElementalClusterTemplateSpec_DeepCopy_def ElementalClusterTemplate_DeepCopy_def ElementalClusterTemplateList_DeepCopy_def)

lemma deep_copy_run:
  assumes "copies T f" and v: "view m T v = Some (t, as)"
  shows "\<exists>v' m' bs. run_state (f v) m = (v', m') \<and> extends m m' \<and> view m' T v' = Some (t, bs) \<and> distinct bs \<and>
    set as \<inter> set bs = {}"
proof -
  from assms obtain v' m' bs where "run_state (f v) m = (v', m')" "extends m m'" "view m' T v' = Some (t, bs)"
    "set bs \<subseteq> {length m..<length m'}" "distinct bs" by (rule copiesD)
  with view_in_memory(1) [OF v] show ?thesis by fastforce
qed

text \<open>
  C16. Deep copies are faithful and share nothing. For every type of the package and every pointer to a well-typed value: its
  \<^verbatim>\<open>DeepCopy\<close> returns a pointer to a value that shows the same (every label, condition, reference and raw
  extension), read from cells of its own, each reached only once; the original shows what it showed before; and whatever is
  then written to a cell of the one, the other stays as it is. So an object that a reconciler was handed and changes is its own.
\<close>

theorem DeepCopy_independent:
  assumes "(n, T, f) \<in> set (deep_copies copyObject)" and "view m (TyPtr T) p = Some (t, as)"
  shows "\<exists>p' m' bs. run_state (f p) m = (p', m') \<and> view m' (TyPtr T) p = Some (t, as) \<and> view m' (TyPtr T) p' = Some (t, bs) \<and>
    distinct bs \<and> set as \<inter> set bs = {} \<and>
    (\<forall>a c. (a \<in> set bs \<longrightarrow> view (m'[a := c]) (TyPtr T) p = Some (t, as)) \<and>
       (a \<in> set as \<longrightarrow> view (m'[a := c]) (TyPtr T) p' = Some (t, bs)))"
proof -
  have "copies (TyPtr T) f" using all_deep_copies [of copyObject] assms(1) by (auto simp: list_all_iff)
  from deep_copy_run [OF this assms(2)] obtain p' m' bs where run: "run_state (f p) m = (p', m')" "extends m m'"
    and p': "view m' (TyPtr T) p' = Some (t, bs)" and bs: "distinct bs" "set as \<inter> set bs = {}" by blast
  have p: "view m' (TyPtr T) p = Some (t, as)" by (rule extends_view [OF run(2) assms(2)])
  have "view (m'[a := c]) (TyPtr T) p = Some (t, as)" if "a \<in> set bs" for a c
    by (rule copy_kept [OF p]) (use bs(2) that in blast)
  moreover have "view (m'[a := c]) (TyPtr T) p' = Some (t, bs)" if "a \<in> set as" for a c
    by (rule copy_kept [OF p']) (use bs(2) that in blast)
  ultimately show ?thesis using run(1) p p' bs by blast
qed

text \<open>
  A root object as a \<^verbatim>\<open>runtime.Object\<close>: nil for a nil pointer, and not an interface value that holds a nil pointer; else
  such a copy, with its type.
\<close>

lemma all_object_copies:
  "list_all (\<lambda>(n, T, f). \<exists>g. f = copy_object n g \<and> copies (TyPtr T) g) (object_copies copyObject)"
  by (simp add: object_copies_def
      ElementalRegistration_DeepCopyObject_def ElementalRegistrationList_DeepCopyObject_def ElementalHost_DeepCopyObject_def
      ElementalHostList_DeepCopyObject_def ElementalMachine_DeepCopyObject_def ElementalMachineList_DeepCopyObject_def
      ElementalMachineTemplate_DeepCopyObject_def ElementalMachineTemplateList_DeepCopyObject_def ElementalCluster_DeepCopyObject_def
      ElementalClusterList_DeepCopyObject_def ElementalClusterTemplate_DeepCopyObject_def ElementalClusterTemplateList_DeepCopyObject_def)
    (intro conjI exI; (rule refl)?; simp add: copies_intros
      PostAction_DeepCopy_def Hostname_DeepCopy_def Agent_DeepCopy_def
      Registration_DeepCopy_def Elemental_DeepCopy_def Config_DeepCopy_def
      ElementalRegistrationSpec_DeepCopy_def ElementalRegistrationStatus_DeepCopy_def ElementalRegistration_DeepCopy_def
      ElementalRegistrationList_DeepCopy_def ElementalHostSpec_DeepCopy_def ElementalHostStatus_DeepCopy_def
      ElementalHost_DeepCopy_def ElementalHostList_DeepCopy_def ElementalMachineSpec_DeepCopy_def
      ElementalMachineStatus_DeepCopy_def ElementalMachine_DeepCopy_def ElementalMachineList_DeepCopy_def
      InfraMachineTemplateResource_DeepCopy_def ElementalMachineTemplateSpec_DeepCopy_def ElementalMachineTemplate_DeepCopy_def
      ElementalMachineTemplateList_DeepCopy_def ElementalClusterSpec_DeepCopy_def ElementalClusterStatus_DeepCopy_def
      ElementalCluster_DeepCopy_def ElementalClusterList_DeepCopy_def ElementalClusterTemplateResource_DeepCopy_def
      ElementalClusterTemplateSpec_DeepCopy_def ElementalClusterTemplate_DeepCopy_def ElementalClusterTemplateList_DeepCopy_def)

lemma DeepCopyObject_copies:
  assumes "(n, T, f) \<in> set (object_copies copyObject)" and "view m (TyPtr T) p = Some (t, as)"
  shows "\<exists>r m'. run_state (f p) m = (r, m') \<and> (r = GNil \<longleftrightarrow> p = GNil) \<and> view m' (TyPtr T) p = Some (t, as) \<and>
    (p \<noteq> GNil \<longrightarrow>
      (\<exists>a bs. r = GIface n a \<and> view m' (TyPtr T) (GPtr a) = Some (t, bs) \<and> distinct bs \<and> set as \<inter> set bs = {}))"
proof -
  obtain g where f: "f = copy_object n g" "copies (TyPtr T) g"
    using all_object_copies [of copyObject] assms(1) by (auto simp: list_all_iff)
  from deep_copy_run [OF f(2) assms(2)] obtain p' m' bs
    where run: "run_state (g p) m = (p', m')" "extends m m'" and p': "view m' (TyPtr T) p' = Some (t, bs)" "distinct bs" "set as \<inter> set bs = {}" by blast
  have "p = GNil \<longleftrightarrow> p' = GNil" using assms(2) p'(1) by (auto simp: view_iff)
  with p' run extends_view [OF run(2) assms(2)] show ?thesis by (auto simp: f(1) copy_object_def view_iff)
qed

section \<open>A host in memory\<close>

text \<open>A host with one label: cell 1 holds the host, cell 0 its labels.\<close>

definition labelled_host :: gval where
  "labelled_host = (let h = zero_value ty_ElementalHost in
     set_field ''ObjectMeta'' (set_field ''Labels'' (GMap 0) (field ''ObjectMeta'' h)) h)"

definition host_memory :: memory where
  "host_memory = [CEntries [(''k'', GScalar (SString ''v''))], CValue labelled_host]"

lemma host_view: "map_option snd (view host_memory (TyPtr ty_ElementalHost) (GPtr 1)) = Some [1, 0]"
  by code_simp

theorem DeepCopy_independent_witness:
  "\<exists>p' m' t bs. run_state (ElementalHost_DeepCopy assign (GPtr 1)) host_memory = (p', m') \<and>
     view m' (TyPtr ty_ElementalHost) (GPtr 1) = Some (t, [1, 0]) \<and> view m' (TyPtr ty_ElementalHost) p' = Some (t, bs) \<and>
     0 \<notin> set bs \<and> 1 \<notin> set bs"
proof -
  obtain t where "view host_memory (TyPtr ty_ElementalHost) (GPtr 1) = Some (t, [1, 0])" using host_view by auto
  from DeepCopy_independent [OF _ this, of "''ElementalHost''" "ElementalHost_DeepCopy assign" assign] show ?thesis
    by (auto simp: deep_copies_def)
qed

end
